(* ===== verification/Prelude.thy ===== *)
theory Prelude
  imports Main "HOL-Library.State_Monad" "HOL-Library.Word"
begin

text \<open>
  Shared vocabulary of the development: Go's strings, maps, pointers, errors and panics as
  HOL values, the generic lemmas on lists and association lists that the components share,
  and the frame rules for computations of the state monad (which part of the state a
  computation leaves alone).
\<close>

named_theorems frame_intros "introduction rules for frame conditions of state computations"
named_theorems returns_intros "introduction rules for computations that never panic"

subsection \<open>Values of Go\<close>

text \<open>
  A \<open>map[string]string\<close> is an association list whose keys are distinct. Reading a key that is
  absent, or any key of a nil map, yields the zero value, here the empty string. A pointer
  is an option, \<open>None\<close> being nil, and so a slice of pointers is a list of options.
\<close>

type_synonym go_map = "(string \<times> string) list"
type_synonym 'a ptr = "'a option"

definition go_get :: "go_map \<Rightarrow> string \<Rightarrow> string" where
  "go_get m k = (case map_of m k of None \<Rightarrow> '''' | Some v \<Rightarrow> v)"

definition go_has :: "go_map \<Rightarrow> string \<Rightarrow> bool" where
  "go_has m k = (map_of m k \<noteq> None)"

fun go_put :: "string \<Rightarrow> string \<Rightarrow> go_map \<Rightarrow> go_map" where
  "go_put k v [] = [(k, v)]"
| "go_put k v ((k', v') # m) = (if k = k' then (k, v) # m else (k', v') # go_put k v m)"

lemma go_get_Nil [simp]: "go_get [] k = ''''"
  by (simp add: go_get_def)

lemma go_get_Cons [simp]: "go_get ((k', v) # m) k = (if k = k' then v else go_get m k)"
  by (simp add: go_get_def)

lemma go_has_Nil [simp]: "\<not> go_has [] k"
  by (simp add: go_has_def)

lemma go_has_Cons [simp]: "go_has ((k', v) # m) k = (k = k' \<or> go_has m k)"
  by (simp add: go_has_def)

lemma map_of_go_put: "map_of (go_put k v m) = (map_of m)(k \<mapsto> v)"
  by (induction m) (auto simp: fun_eq_iff)

lemma go_get_go_put: "go_get (go_put k v m) k' = (if k' = k then v else go_get m k')"
  by (simp add: go_get_def map_of_go_put)

lemma keys_go_put: "set (map fst (go_put k v m)) = insert k (set (map fst m))"
  by (induction k v m rule: go_put.induct) (simp_all add: insert_commute)

lemma distinct_go_put:
  "distinct (map fst m) \<Longrightarrow> distinct (map fst (go_put k v m))"
  by (induction k v m rule: go_put.induct) (simp_all add: keys_go_put [simplified])

text \<open>A list put together from parts that are each present or absent.\<close>

definition optional_parts :: "(bool \<times> 'a list) list \<Rightarrow> 'a list" where
  "optional_parts parts = concat (map (\<lambda>(b, xs). if b then xs else []) parts)"

lemma optional_parts_simps:
  "optional_parts [] = []"
  "optional_parts ((b, xs) # parts) = (if b then xs else []) @ optional_parts parts"
  by (simp_all add: optional_parts_def)

lemma in_optional_parts [simp]:
  "x \<notin> set (optional_parts [])"
  "x \<in> set (optional_parts ((b, xs) # parts)) \<longleftrightarrow>
     b \<and> x \<in> set xs \<or> x \<in> set (optional_parts parts)"
  by (auto simp: optional_parts_simps)

lemma set_optional_parts: "set (optional_parts parts) \<subseteq> set (concat (map snd parts))"
  by (induction parts) (auto simp: optional_parts_simps)

lemma distinct_optional_parts:
  "distinct (concat (map snd parts)) \<Longrightarrow> distinct (optional_parts parts)"
proof (induction parts)
  case (Cons p parts)
  then show ?case
    using set_optional_parts [of parts] by (cases p) (auto simp: optional_parts_simps)
qed (simp add: optional_parts_simps)

subsection \<open>Errors and panics\<close>

text \<open>
  An error value: \<open>Errorf f args\<close> is \<open>fmt.Errorf\<close> with its format and its arguments left
  unrendered, \<open>Wrapf f e\<close> is a format whose last argument is the error \<open>e\<close>, and \<open>ApiError\<close>
  is a status error of the Kubernetes API with its reason.
\<close>

datatype api_reason = NotFound | AlreadyExists | OtherReason string

datatype go_error =
    Errorf string "string list"
  | Wrapf string go_error
  | ApiError api_reason string

fun error_reason :: "go_error \<Rightarrow> api_reason option" where
  "error_reason (Errorf f args) = None"
| "error_reason (Wrapf f e) = error_reason e"
| "error_reason (ApiError r m) = Some r"

definition IsNotFound :: "go_error \<Rightarrow> bool" where
  "IsNotFound e = (error_reason e = Some NotFound)"

definition IsAlreadyExists :: "go_error \<Rightarrow> bool" where
  "IsAlreadyExists e = (error_reason e = Some AlreadyExists)"

lemma IsNotFound_simps [simp]:
  "\<not> IsNotFound (Errorf f args)"
  "IsNotFound (Wrapf f e) = IsNotFound e"
  "IsNotFound (ApiError r m) = (r = NotFound)"
  by (simp_all add: IsNotFound_def)

lemma IsAlreadyExists_simps [simp]:
  "\<not> IsAlreadyExists (Errorf f args)"
  "IsAlreadyExists (Wrapf f e) = IsAlreadyExists e"
  "IsAlreadyExists (ApiError r m) = (r = AlreadyExists)"
  by (simp_all add: IsAlreadyExists_def)

text \<open>A computation that may panic: it returns a value or aborts the goroutine.\<close>

datatype 'a go = Val 'a | Panic string

fun go_bind :: "'a go \<Rightarrow> ('a \<Rightarrow> 'b go) \<Rightarrow> 'b go" where
  "go_bind (Val x) f = f x"
| "go_bind (Panic m) f = Panic m"

lemma go_bind_Val_iff: "go_bind m f = Val y \<longleftrightarrow> (\<exists>x. m = Val x \<and> f x = Val y)"
  by (cases m) auto

text \<open>
  The two partial operations of the language that the source uses on data of the cluster:
  following a pointer, and the slice \<open>s[:n]\<close> of a string. Both panic where Go panics.
\<close>

definition nil_deref :: string where
  "nil_deref = ''invalid memory address or nil pointer dereference''"

fun deref :: "'a ptr \<Rightarrow> 'a go" where
  "deref None = Panic nil_deref"
| "deref (Some x) = Val x"

definition slice_to :: "nat \<Rightarrow> string \<Rightarrow> string go" where
  "slice_to n s = (if n \<le> length s then Val (take n s) else Panic ''slice bounds out of range'')"

text \<open>
  Sequencing of computations that may panic: a panic skips the rest. A computation \<open>returns\<close>
  when no state makes it panic.
\<close>

definition go_then ::
  "('s, 'a go) state \<Rightarrow> ('a \<Rightarrow> ('s, 'b go) state) \<Rightarrow> ('s, 'b go) state" where
  "go_then m f = State_Monad.bind m
     (\<lambda>r. case r of Panic p \<Rightarrow> State_Monad.return (Panic p) | Val x \<Rightarrow> f x)"

lemma run_go_then:
  "run_state (go_then m f) s =
     (case run_state m s of (Panic p, t) \<Rightarrow> (Panic p, t) | (Val x, t) \<Rightarrow> run_state (f x) t)"
  by (auto simp: go_then_def split: prod.splits go.splits)

definition returns :: "('s, 'a go) state \<Rightarrow> bool" where
  "returns m = (\<forall>s. \<exists>x. fst (run_state m s) = Val x)"

lemma returnsE:
  assumes "returns m" and "run_state m s = (r, t)"
  obtains x where "r = Val x"
  using assms by (metis returns_def fst_conv)

lemma returns_return [returns_intros]: "returns (State_Monad.return (Val x))"
  by (simp add: returns_def)

lemma returns_bind [returns_intros]: "(\<And>x. returns (f x)) \<Longrightarrow> returns (State_Monad.bind m f)"
  by (simp add: returns_def split: prod.splits)

lemma returns_go_then [returns_intros]:
  assumes "returns m" and "\<And>x. returns (f x)"
  shows "returns (go_then m f)"
  unfolding returns_def
proof
  fix s
  obtain x t where "run_state m s = (Val x, t)"
    using assms(1) unfolding returns_def by (metis prod.collapse)
  with assms(2) show "\<exists>y. fst (run_state (go_then m f) s) = Val y"
    by (simp add: run_go_then returns_def)
qed

lemma returns_case [returns_intros]:
  "(b \<Longrightarrow> returns m) \<Longrightarrow> (\<not> b \<Longrightarrow> returns n) \<Longrightarrow> returns (if b then m else n)"
  "(\<And>e. returns (f e)) \<Longrightarrow> (\<And>x. returns (g x)) \<Longrightarrow>
     returns (case r of Inl e \<Rightarrow> f e | Inr x \<Rightarrow> g x)"
  "returns m \<Longrightarrow> (\<And>x. returns (h x)) \<Longrightarrow> returns (case opt of None \<Rightarrow> m | Some x \<Rightarrow> h x)"
  "(\<And>x y. returns (k x y)) \<Longrightarrow> returns (case p of (x, y) \<Rightarrow> k x y)"
  "returns (lf t) \<Longrightarrow> returns (Let t lf)"
  by (auto split: sum.splits option.splits prod.splits)

subsection \<open>Decimal rendering of a natural number (the verb \<open>%d\<close>)\<close>

fun dec_digits :: "nat \<Rightarrow> string" where
  "dec_digits n =
     (if n < 10 then [char_of (48 + n)] else dec_digits (n div 10) @ [char_of (48 + n mod 10)])"

declare dec_digits.simps [simp del]

definition dec_string :: "int \<Rightarrow> string" where
  "dec_string i = (if i < 0 then ''-'' @ dec_digits (nat (- i)) else dec_digits (nat i))"

subsection \<open>Integers of 64 bits\<close>

text \<open>The value that an \<open>int64\<close> computation leaves: the integer reduced to 64 bits, signed.\<close>

definition wrap64 :: "int \<Rightarrow> int" where
  "wrap64 x = (x + 2 ^ 63) mod 2 ^ 64 - 2 ^ 63"

lemma wrap64_word: "wrap64 x = sint (word_of_int x :: 64 word)"
  by (simp add: wrap64_def sint_sbintrunc' signed_take_bit_eq_take_bit_shift take_bit_eq_mod)

lemma wrap64_id: "- (2 ^ 63) \<le> x \<Longrightarrow> x < 2 ^ 63 \<Longrightarrow> wrap64 x = x"
  by (simp add: wrap64_def)

lemma wrap64_range: "- (2 ^ 63) \<le> wrap64 x" "wrap64 x < 2 ^ 63"
  by (simp_all add: wrap64_def)

lemma wrap64_period: "wrap64 (2 ^ 64 + x) = wrap64 x"
  using mod_add_self1 [of "2 ^ 64" "x + 2 ^ 63"] by (simp add: wrap64_def add.assoc)

text \<open>
  \<open>strconv.Atoi\<close> on a 64-bit platform: an optional sign, then decimal digits only, at least
  one; a value outside \<open>int64\<close> is an error.
\<close>

definition digit_value :: "char \<Rightarrow> int option" where
  "digit_value c =
     (let n = of_char c :: int in if 48 \<le> n \<and> n \<le> 57 then Some (n - 48) else None)"

fun parse_digits :: "int \<Rightarrow> string \<Rightarrow> int option" where
  "parse_digits acc [] = Some acc"
| "parse_digits acc (c # cs) =
     (case digit_value c of None \<Rightarrow> None | Some d \<Rightarrow> parse_digits (acc * 10 + d) cs)"

definition split_sign :: "string \<Rightarrow> bool \<times> string" where
  "split_sign s =
     (case s of [] \<Rightarrow> (False, [])
      | c # cs \<Rightarrow> if c = CHR ''-'' then (True, cs) else if c = CHR ''+'' then (False, cs) else (False, s))"

definition Atoi :: "string \<Rightarrow> go_error + int" where
  "Atoi s =
     (let (neg, ds) = split_sign s
      in if ds = [] then Inl (Errorf ''strconv.Atoi: parsing %q: invalid syntax'' [s])
         else case parse_digits 0 ds of
           None \<Rightarrow> Inl (Errorf ''strconv.Atoi: parsing %q: invalid syntax'' [s])
         | Some n \<Rightarrow>
             (let v = (if neg then - n else n)
              in if v < - (2 ^ 63) \<or> 2 ^ 63 \<le> v
                 then Inl (Errorf ''strconv.Atoi: parsing %q: value out of range'' [s])
                 else Inr v))"

text \<open>Reading back a rendered number.\<close>

lemma digit_value_char:
  "d < 10 \<Longrightarrow> digit_value (char_of (48 + d)) = Some (int d)"
  by (simp add: digit_value_def of_char_of take_bit_eq_mod Let_def
      flip: of_nat_of_char [where ?'a = int])

lemma parse_digits_append:
  "parse_digits acc (xs @ ys) =
     (case parse_digits acc xs of None \<Rightarrow> None | Some acc' \<Rightarrow> parse_digits acc' ys)"
  by (induction acc xs rule: parse_digits.induct) (auto split: option.splits)

lemma dec_digits_nonempty: "dec_digits n \<noteq> []"
  by (subst dec_digits.simps) simp

lemma parse_dec_digits: "parse_digits 0 (dec_digits n) = Some (int n)"
proof (induction n rule: dec_digits.induct)
  case (1 n)
  show ?case
  proof (cases "n < 10")
    case True
    then show ?thesis by (subst dec_digits.simps) (simp add: digit_value_char)
  next
    case False
    with 1 have "parse_digits 0 (dec_digits (n div 10)) = Some (int (n div 10))" by simp
    moreover have "digit_value (char_of (48 + n mod 10)) = Some (int (n mod 10))"
      by (simp add: digit_value_char)
    moreover have "int (n div 10) * 10 + int (n mod 10) = int n" by presburger
    ultimately show ?thesis
      using False by (subst dec_digits.simps) (simp add: parse_digits_append)
  qed
qed

lemma dec_digits_hd_digit: "\<exists>(d::nat) cs. dec_digits n = char_of (48 + d) # cs \<and> d < 10"
proof (induction n rule: dec_digits.induct)
  case (1 n)
  show ?case
  proof (cases "n < 10")
    case True
    then have "dec_digits n = [char_of (48 + n)]" by (subst dec_digits.simps) simp
    with True show ?thesis by blast
  next
    case False
    with 1 obtain d :: nat and cs
      where d: "dec_digits (n div 10) = char_of (48 + d) # cs" "d < 10" by blast
    with False have "dec_digits n = char_of (48 + d) # cs @ [char_of (48 + n mod 10)]"
      by (subst dec_digits.simps) simp
    with d(2) show ?thesis by blast
  qed
qed

lemma split_sign_digits: "split_sign (dec_digits n) = (False, dec_digits n)"
proof -
  obtain d :: nat and cs where d: "dec_digits n = char_of (48 + d) # cs" "d < 10"
    using dec_digits_hd_digit by blast
  have "char_of (48 + d) \<noteq> CHR ''-''" "char_of (48 + d) \<noteq> CHR ''+''"
    using digit_value_char [OF d(2)] by (auto simp: digit_value_def)
  then show ?thesis by (simp add: split_sign_def d(1))
qed

lemma Atoi_dec_string:
  assumes "- (2 ^ 63) \<le> i" and "i < 2 ^ 63"
  shows "Atoi (dec_string i) = Inr i"
proof (cases "i < 0")
  case True
  then have "split_sign (dec_string i) = (True, dec_digits (nat (- i)))"
    by (simp add: dec_string_def split_sign_def)
  with assms True show ?thesis
    by (simp add: Atoi_def dec_digits_nonempty parse_dec_digits Let_def)
next
  case False
  with assms show ?thesis
    by (simp add: Atoi_def dec_string_def split_sign_digits dec_digits_nonempty parse_dec_digits Let_def)
qed

subsection \<open>Frame rules for the state monad\<close>

text \<open>Case distinctions respect any relation that their branches respect.\<close>

lemma frame_case [frame_intros]:
  "(b \<Longrightarrow> state_io_rel R m) \<Longrightarrow> (\<not> b \<Longrightarrow> state_io_rel R n) \<Longrightarrow>
     state_io_rel R (if b then m else n)"
  "(\<And>e. state_io_rel R (f e)) \<Longrightarrow> (\<And>x. state_io_rel R (g x)) \<Longrightarrow>
     state_io_rel R (case r of Inl e \<Rightarrow> f e | Inr x \<Rightarrow> g x)"
  "state_io_rel R m \<Longrightarrow> (\<And>x. state_io_rel R (h x)) \<Longrightarrow>
     state_io_rel R (case opt of None \<Rightarrow> m | Some x \<Rightarrow> h x)"
  "(\<And>x y. state_io_rel R (k x y)) \<Longrightarrow> state_io_rel R (case p of (x, y) \<Rightarrow> k x y)"
  "(\<And>x. state_io_rel R (vf x)) \<Longrightarrow> (\<And>e. state_io_rel R (pf e)) \<Longrightarrow>
     state_io_rel R (case go of Val x \<Rightarrow> vf x | Panic e \<Rightarrow> pf e)"
  "state_io_rel R (lf t) \<Longrightarrow> state_io_rel R (Let t lf)"
  by (auto split: sum.splits option.splits prod.splits go.splits)

text \<open>
  A frame condition is a preorder \<open>R\<close> on states that a computation respects: from any state
  it ends in one related by \<open>R\<close>. The rules below compose frame conditions along the
  structure of a computation; each component interprets the locale on its own preorder.
\<close>

locale frame_condition =
  fixes R :: "'s \<Rightarrow> 's \<Rightarrow> bool"
  assumes R_refl: "R s s"
    and R_trans: "R s t \<Longrightarrow> R t u \<Longrightarrow> R s u"
begin

lemma frame_return: "state_io_rel R (State_Monad.return x)"
  by (simp add: state_io_rel_def R_refl)

lemma frame_get: "state_io_rel R State_Monad.get"
  by (simp add: state_io_rel_def R_refl)

lemma frame_bind:
  assumes "state_io_rel R m" and "\<And>x. state_io_rel R (f x)"
  shows "state_io_rel R (State_Monad.bind m f)"
  using assms by (auto simp: state_io_rel_def split: prod.splits) (metis R_trans snd_conv)

lemma frame_go_then:
  assumes "state_io_rel R m" and "\<And>x. state_io_rel R (f x)"
  shows "state_io_rel R (go_then m f)"
  unfolding go_then_def using assms by (intro frame_bind) (auto split: go.splits simp: frame_return)

lemma frame_update: "(\<And>s. R s (f s)) \<Longrightarrow> state_io_rel R (State_Monad.update f)"
  by (simp add: state_io_rel_def State_Monad.update_def)

lemma frame_State: "(\<And>s. R s (snd (f s))) \<Longrightarrow> state_io_rel R (State f)"
  by (simp add: state_io_rel_def)

lemmas frame_rules = frame_return frame_get frame_bind frame_go_then

end

lemma run_state_update [simp]: "run_state (State_Monad.update f) s = ((), f s)"
  by (simp add: State_Monad.update_def)

end
