(* ===== verification/OperatorConfig.thy ===== *)
theory OperatorConfig
  imports Prelude
begin

text \<open>
  The package \<open>config\<close> (config/config.go): the operator's constants and the process-wide
  FedRAMP switch, together with the function \<open>strconv.ParseBool\<close> of the standard library
  that reads it. The switch is a package variable; the model passes its value explicitly.
\<close>

definition OperatorName :: string where [simp]:
  "OperatorName = ''configure-alertmanager-operator''"

definition OperatorNamespace :: string where [simp]:
  "OperatorNamespace = ''openshift-monitoring''"

definition EnableOLMSkipRange :: string where [simp]:
  "EnableOLMSkipRange = ''true''"

text \<open>\<open>strconv.ParseBool\<close>: the six spellings of each truth value, anything else is an error.\<close>

definition ParseBool :: "string \<Rightarrow> go_error + bool" where
  "ParseBool str =
     (if str \<in> {''1'', ''t'', ''T'', ''true'', ''TRUE'', ''True''} then Inr True
      else if str \<in> {''0'', ''f'', ''F'', ''false'', ''FALSE'', ''False''} then Inr False
      else Inl (Errorf ''strconv.ParseBool: parsing %q: invalid syntax'' [str]))"

text \<open>
  \<open>SetIsFedramp\<close> takes the result of \<open>os.LookupEnv("FEDRAMP")\<close> and the current value of the
  variable, and returns the new value together with the error.
\<close>

definition SetIsFedramp :: "string option \<Rightarrow> bool \<Rightarrow> bool \<times> go_error option" where
  "SetIsFedramp env isFedramp =
     (let fedramp = (case env of None \<Rightarrow> ''false'' | Some v \<Rightarrow> v)
      in case ParseBool fedramp of
           Inl err \<Rightarrow> (isFedramp, Some (Wrapf ''invalid value for FedRAMP environment variable. %w'' err))
         | Inr fedrampBool \<Rightarrow> (fedrampBool, None))"

lemma ParseBool_cases:
  "ParseBool s = Inr True \<longleftrightarrow> s \<in> {''1'', ''t'', ''T'', ''true'', ''TRUE'', ''True''}"
  "ParseBool s = Inr False \<longleftrightarrow> s \<in> {''0'', ''f'', ''F'', ''false'', ''FALSE'', ''False''}"
  by (auto simp: ParseBool_def)

lemma SetIsFedramp_unset [simp]: "SetIsFedramp None b = (False, None)"
  by (simp add: SetIsFedramp_def ParseBool_def)

lemma SetIsFedramp_ok_iff:
  "snd (SetIsFedramp env b) = None \<longleftrightarrow>
     env = None \<or> (\<exists>v t. env = Some v \<and> ParseBool v = Inr t)"
  by (cases env) (auto simp: SetIsFedramp_def Let_def split: sum.splits option.splits,
      auto simp: ParseBool_def)

end
