(* ===== verification/AlertmanagerTypes.thy ===== *)
theory AlertmanagerTypes
  imports OperatorConfig
begin

text \<open>
  The types library (pkg/types/alertmanagerconfig.go): the Alertmanager configuration the
  operator builds, the namespace lists it reads, and the hook \<open>UnmarshalYAML\<close> that completes
  and checks a configuration after decoding. A field omitted in a Go literal is its zero
  value; the constants \<open>zero_\<dots>\<close> name the zero value of each structure.
\<close>

subsection \<open>Namespace expressions\<close>

definition PDRegexLP :: string where [simp]: "PDRegexLP = ''^redhat-.*''"
definition PDRegexKube :: string where [simp]: "PDRegexKube = ''^kube-.*''"
definition PDRegexOS :: string where [simp]: "PDRegexOS = ''^openshift-.*''"

subsection \<open>The configuration tree\<close>

record NotifierConfig =
  VSendResolved :: bool

record GlobalConfig =
  ResolveTimeout :: string
  PagerdutyURL :: string

text \<open>
  A route is recursive, hence a datatype with the fields of the Go structure as selectors,
  in their order; \<open>Routes\<close> is a slice of pointers.
\<close>

datatype Route = Route
  (Receiver: string)
  (GroupByStr: "string list")
  (Match: go_map)
  (MatchRE: go_map)
  (Continue: bool)
  (Routes: "Route ptr list")
  (GroupWait: string)
  (GroupInterval: string)
  (RepeatInterval: string)

text \<open>The literal of a route in which only the receiver and the two matchers are given.\<close>

abbreviation leaf_route :: "string \<Rightarrow> go_map \<Rightarrow> go_map \<Rightarrow> Route" where
  "leaf_route rcv mre m \<equiv> Route rcv [] m mre False [] '''' '''' ''''"

record TLSConfig =
  CAFile :: string
  KeyFile :: string
  ServerName :: string
  InsecureSkipVerify :: bool

record HttpConfig =
  ProxyURL :: string
  http_TLSConfig :: TLSConfig

record WebhookConfig =
  wh_NotifierConfig :: NotifierConfig
  wh_URL :: string
  wh_HttpConfig :: HttpConfig

record PagerdutyConfig =
  pd_NotifierConfig :: NotifierConfig
  RoutingKey :: string
  pd_URL :: string
  pd_Client :: string
  ClientURL :: string
  Description :: string
  Details :: go_map
  Severity :: string
  Class :: string
  pd_Component :: string
  pd_Group :: string
  pd_HttpConfig :: HttpConfig

record Receiver =
  rcv_Name :: string
  PagerdutyConfigs :: "PagerdutyConfig ptr list"
  WebhookConfigs :: "WebhookConfig ptr list"

record InhibitRule =
  TargetMatch :: go_map
  TargetMatchRE :: go_map
  SourceMatch :: go_map
  SourceMatchRE :: go_map
  Equal :: "string list"

record Config =
  Global :: "GlobalConfig ptr"
  cfg_Route :: "Route ptr"
  Receivers :: "Receiver ptr list"
  Templates :: "string list"
  InhibitRules :: "InhibitRule ptr list"

definition zero_TLSConfig :: TLSConfig where [simp]:
  "zero_TLSConfig =
     \<lparr>CAFile = '''', KeyFile = '''', ServerName = '''', InsecureSkipVerify = False\<rparr>"

definition zero_HttpConfig :: HttpConfig where [simp]:
  "zero_HttpConfig = \<lparr>ProxyURL = '''', http_TLSConfig = zero_TLSConfig\<rparr>"

definition zero_GlobalConfig :: GlobalConfig where [simp]:
  "zero_GlobalConfig = \<lparr>ResolveTimeout = '''', PagerdutyURL = ''''\<rparr>"

definition zero_Receiver :: Receiver where [simp]:
  "zero_Receiver = \<lparr>rcv_Name = '''', PagerdutyConfigs = [], WebhookConfigs = []\<rparr>"

subsection \<open>Namespace lists read from the configMaps\<close>

record Namespace =
  ns_Name :: string

record ManagementClusterConfig =
  AdditionalNamespaces :: "Namespace list"

record NamespaceList =
  Namespaces :: "Namespace list"
  ManagementCluster :: "ManagementClusterConfig ptr"

record NamespaceConfig =
  Resources :: NamespaceList

subsection \<open>UnmarshalYAML\<close>

text \<open>
  The hook runs the decoder on the plain structure, which is a parameter (\<open>unmarshal\<close>: it
  returns the configuration as filled in, and the error), gives an absent global section its
  zero value, and walks the receivers: a repeated name is an error, and a PagerDuty
  configuration without a URL makes sure that the global PagerDuty URL is set. Dereferencing
  a nil element of either slice panics.
\<close>


definition defaultPagerdutyURL :: string where
  "defaultPagerdutyURL = ''https://events.pagerduty.com/v2/enqueue''"

fun default_pagerduty_url :: "PagerdutyConfig ptr list \<Rightarrow> GlobalConfig \<Rightarrow> GlobalConfig go" where
  "default_pagerduty_url [] g = Val g"
| "default_pagerduty_url (None # pdcs) g = Panic nil_deref"
| "default_pagerduty_url (Some pdc # pdcs) g =
     default_pagerduty_url pdcs
       (if pd_URL pdc = ''''
        then if PagerdutyURL g = '''' then g\<lparr>PagerdutyURL := defaultPagerdutyURL\<rparr> else g
        else g)"

fun check_receivers ::
  "string set \<Rightarrow> Receiver ptr list \<Rightarrow> GlobalConfig \<Rightarrow> (GlobalConfig \<times> go_error option) go" where
  "check_receivers names [] g = Val (g, None)"
| "check_receivers names (None # rcvs) g = Panic nil_deref"
| "check_receivers names (Some rcv # rcvs) g =
     (if rcv_Name rcv \<in> names
      then Val (g, Some (Errorf ''notification config name %q is not unique'' [rcv_Name rcv]))
      else go_bind (default_pagerduty_url (PagerdutyConfigs rcv) g)
             (check_receivers (insert (rcv_Name rcv) names) rcvs))"

definition UnmarshalYAML ::
  "(Config \<Rightarrow> Config \<times> go_error option) \<Rightarrow> Config \<Rightarrow> (Config \<times> go_error option) go" where
  "UnmarshalYAML unmarshal c0 =
     (case unmarshal c0 of
        (c, Some err) \<Rightarrow> Val (c, Some err)
      | (c, None) \<Rightarrow>
          (let g = (case Global c of None \<Rightarrow> zero_GlobalConfig | Some g \<Rightarrow> g)
           in go_bind (check_receivers {} (Receivers c) g)
                (\<lambda>(g', e). Val (c\<lparr>Global := Some g'\<rparr>, e))))"

text \<open>The names a configuration declares, nil elements left out.\<close>

definition receiver_names :: "Receiver ptr list \<Rightarrow> string list" where
  "receiver_names rcvs = map rcv_Name (List.map_filter id rcvs)"

lemma receiver_names_simps [simp]:
  "receiver_names [] = []"
  "receiver_names (Some r # rs) = rcv_Name r # receiver_names rs"
  "receiver_names (None # rs) = receiver_names rs"
  "receiver_names (rs @ rs') = receiver_names rs @ receiver_names rs'"
  by (simp_all add: receiver_names_def List.map_filter_def)

text \<open>A receiver list without nil elements, in the list or in its PagerDuty slices.\<close>

definition no_nil_receivers :: "Receiver ptr list \<Rightarrow> bool" where
  "no_nil_receivers rcvs =
     list_all (\<lambda>r. case r of None \<Rightarrow> False | Some rcv \<Rightarrow> None \<notin> set (PagerdutyConfigs rcv)) rcvs"

lemma no_nil_receivers_simps [simp]:
  "no_nil_receivers []"
  "no_nil_receivers (Some r # rs) = (None \<notin> set (PagerdutyConfigs r) \<and> no_nil_receivers rs)"
  "\<not> no_nil_receivers (None # rs)"
  "no_nil_receivers (rs @ rs') = (no_nil_receivers rs \<and> no_nil_receivers rs')"
  by (simp_all add: no_nil_receivers_def)

lemma default_pagerduty_url_returns:
  "None \<notin> set pdcs \<Longrightarrow> \<exists>g'. default_pagerduty_url pdcs g = Val g'"
  by (induction pdcs g rule: default_pagerduty_url.induct) auto

text \<open>
  Exactly which global section the loops leave: the default is filled in when it is needed and
  no URL is set.
\<close>

definition with_default_url :: "bool \<Rightarrow> GlobalConfig \<Rightarrow> GlobalConfig" where
  "with_default_url needed g =
     (if PagerdutyURL g = '''' \<and> needed then g\<lparr>PagerdutyURL := defaultPagerdutyURL\<rparr> else g)"

lemma with_default_url_twice:
  "with_default_url b (with_default_url b' g) = with_default_url (b' \<or> b) g"
  by (simp add: with_default_url_def defaultPagerdutyURL_def)

lemma default_pagerduty_url_step:
  "default_pagerduty_url (Some pdc # pdcs) g =
     default_pagerduty_url pdcs (with_default_url (pd_URL pdc = '''') g)"
  by (simp add: with_default_url_def)

definition lacks_url :: "PagerdutyConfig ptr list \<Rightarrow> bool" where
  "lacks_url pdcs = (\<exists>pdc. Some pdc \<in> set pdcs \<and> pd_URL pdc = '''')"

lemma default_pagerduty_url_exact:
  "default_pagerduty_url pdcs g = Val g' \<Longrightarrow> g' = with_default_url (lacks_url pdcs) g"
proof (induction pdcs arbitrary: g)
  case Nil
  then show ?case by (simp add: lacks_url_def with_default_url_def)
next
  case (Cons p pdcs)
  then obtain pdc where p: "p = Some pdc" by (cases p) auto
  have "lacks_url (p # pdcs) = (pd_URL pdc = '''' \<or> lacks_url pdcs)" by (auto simp: lacks_url_def p)
  with Cons.IH [OF Cons.prems [unfolded p default_pagerduty_url_step]] show ?case
    by (simp only: with_default_url_twice)
qed

text \<open>
  On a list without nil elements the walk returns, and its verdict is exactly whether the
  names are distinct and new.
\<close>

lemma check_receivers_verdict:
  assumes "no_nil_receivers rcvs"
  shows "\<exists>g' e. check_receivers names rcvs g = Val (g', e) \<and>
    (e = None \<longleftrightarrow> distinct (receiver_names rcvs) \<and> set (receiver_names rcvs) \<inter> names = {})"
  using assms
proof (induction names rcvs g rule: check_receivers.induct)
  case (3 names rcv rcvs g)
  obtain g1 where g1: "default_pagerduty_url (PagerdutyConfigs rcv) g = Val g1"
    using "3.prems" default_pagerduty_url_returns by fastforce
  show ?case
  proof (cases "rcv_Name rcv \<in> names")
    case False
    with "3.IH" [OF False, of g1] "3.prems" show ?thesis
      by (fastforce simp: g1)
  qed simp
qed simp_all

text \<open>
  Without an error the global section is completed exactly when it has no PagerDuty URL and some
  PagerDuty configuration needs one; an error names a receiver that occurs twice.
\<close>

lemma check_receivers_exact:
  "check_receivers names rcvs g = Val (g', None) \<Longrightarrow>
     g' = with_default_url (\<exists>rcv. Some rcv \<in> set rcvs \<and> lacks_url (PagerdutyConfigs rcv)) g"
proof (induction names rcvs g rule: check_receivers.induct)
  case (1 names g)
  then show ?case by (simp add: with_default_url_def)
next
  case (3 names r rcvs g)
  then obtain g1 where g1: "default_pagerduty_url (PagerdutyConfigs r) g = Val g1"
    and rest: "check_receivers (insert (rcv_Name r) names) rcvs g1 = Val (g', None)"
    and new: "rcv_Name r \<notin> names"
    by (auto simp: go_bind_Val_iff split: if_splits)
  have "(\<exists>rcv. Some rcv \<in> set (Some r # rcvs) \<and> lacks_url (PagerdutyConfigs rcv)) =
      (lacks_url (PagerdutyConfigs r) \<or> (\<exists>rcv. Some rcv \<in> set rcvs \<and> lacks_url (PagerdutyConfigs rcv)))"
    by auto
  with "3.IH" [OF new rest] default_pagerduty_url_exact [OF g1] show ?case
    by (simp only: with_default_url_twice)
qed simp_all

lemma check_receivers_repeated:
  "check_receivers names rcvs g = Val (g', Some err) \<Longrightarrow>
     \<exists>n. err = Errorf ''notification config name %q is not unique'' [n] \<and>
       (n \<in> names \<and> n \<in> set (receiver_names rcvs) \<or> 1 < count_list (receiver_names rcvs) n)"
proof (induction names rcvs g rule: check_receivers.induct)
  case (3 names r rcvs g)
  show ?case
  proof (cases "rcv_Name r \<in> names")
    case True
    with "3.prems" show ?thesis by auto
  next
    case False
    with "3.prems" obtain g1 where
      "check_receivers (insert (rcv_Name r) names) rcvs g1 = Val (g', Some err)"
      by (auto simp: go_bind_Val_iff)
    from "3.IH" [OF False this] obtain n where
      n: "err = Errorf ''notification config name %q is not unique'' [n]"
      "n \<in> insert (rcv_Name r) names \<and> n \<in> set (receiver_names rcvs) \<or>
         1 < count_list (receiver_names rcvs) n" by blast
    have "0 < count_list (receiver_names rcvs) n" if "n \<in> set (receiver_names rcvs)"
      using that count_list_0_iff [of "receiver_names rcvs" n] by blast
    with n(2) have "n \<in> names \<and> n \<in> set (receiver_names (Some r # rcvs)) \<or>
        1 < count_list (receiver_names (Some r # rcvs)) n" by auto
    with n(1) show ?thesis by blast
  qed
qed simp_all

end
