(* ===== verification/AlertRouting.thy ===== *)
theory AlertRouting
  imports AlertmanagerTypes
begin

text \<open>
  What the operator relies on in Alertmanager, the program that reads the configuration.
  Alertmanager is not part of the repository, so its routing is an interface: the locale
  \<open>alertmanager_routing\<close> fixes a regular-expression matcher and the function \<open>notify\<close> from a
  route and an alert to the receivers that are notified, and assumes the documented traversal
  of the routing tree. The lemmas of the locale hold for every Alertmanager that routes as
  documented. The recursive function at the end of the theory is one such function.
\<close>

subsection \<open>Alerts and matchers\<close>

text \<open>
  An alert is its label set; a label that is absent has the empty value. The equality
  matchers compare a label with a string, the others match its value against an anchored
  regular expression.
\<close>

type_synonym alert = go_map
type_synonym re_matcher = "string \<Rightarrow> string \<Rightarrow> bool"

definition route_matches :: "re_matcher \<Rightarrow> Route \<Rightarrow> alert \<Rightarrow> bool" where
  "route_matches re r a =
     (list_all (\<lambda>(k, v). go_get a k = v) (Match r) \<and>
      list_all (\<lambda>(k, p). re p (go_get a k)) (MatchRE r))"

lemma route_matches_Route [simp]:
  "route_matches re (Route rcv gb m mre c rs gw gi ri) a =
     (list_all (\<lambda>(k, v). go_get a k = v) m \<and> list_all (\<lambda>(k, p). re p (go_get a k)) mre)"
  by (simp add: route_matches_def)

text \<open>
  The walk over the children of a node: a child that matches stops the walk unless its
  \<open>Continue\<close> is set. Nil children do not occur in a decoded configuration; the walk skips them.
\<close>

fun walk :: "(Route \<Rightarrow> string list) \<Rightarrow> Route ptr list \<Rightarrow> string list" where
  "walk n [] = []"
| "walk n (None # rs) = walk n rs"
| "walk n (Some r # rs) =
     (if n r \<noteq> [] \<and> \<not> Continue r then n r else n r @ walk n rs)"

text \<open>The leaf of a rule table: no children, and the walk stops at it.\<close>

definition leaf :: "Route \<Rightarrow> bool" where
  "leaf r = (Routes r = [] \<and> \<not> Continue r)"

lemma leaf_leaf_route [simp]: "leaf (leaf_route rcv mre m)"
  by (simp add: leaf_def)

text \<open>The receiver of the first rule of a table that matches, or a default.\<close>

fun first_match :: "re_matcher \<Rightarrow> alert \<Rightarrow> Route list \<Rightarrow> string \<Rightarrow> string" where
  "first_match re a [] d = d"
| "first_match re a (r # rs) d =
     (if route_matches re r a then Receiver r else first_match re a rs d)"

lemma first_match_append:
  "first_match re a (rs @ rs') d =
     (if list_ex (\<lambda>r. route_matches re r a) rs then first_match re a rs d
      else first_match re a rs' d)"
  by (induction rs) auto

lemma first_match_in:
  "first_match re a rs d \<in> insert d (Receiver ` set rs)"
  by (induction rs) auto

lemma first_match_const:
  assumes "list_all (\<lambda>r. Receiver r = x) rs"
  shows "first_match re a rs d = (if list_ex (\<lambda>r. route_matches re r a) rs then x else d)"
  using assms by (induction rs) auto

text \<open>
  The receiver of a table is settled by one rule \<open>r\<close> when every rule before it either does
  not match or has the same receiver.
\<close>

lemma first_match_settled:
  assumes "list_all (\<lambda>x. route_matches re x a \<longrightarrow> Receiver x = Receiver r) pre"
    and "route_matches re r a"
  shows "first_match re a (pre @ r # post) d = Receiver r"
  using assms by (induction pre) auto

text \<open>
  Two tables with the same matchers, rule by rule, agree on which alerts reach a receiver
  that both tables use in the same places.
\<close>

definition same_matchers :: "string \<Rightarrow> Route \<Rightarrow> Route \<Rightarrow> bool" where
  "same_matchers x r r' =
     (Match r = Match r' \<and> MatchRE r = MatchRE r' \<and> (Receiver r = x) = (Receiver r' = x))"

lemma first_match_parallel:
  assumes "list_all2 (same_matchers x) rs rs'"
  shows "(first_match re a rs d = x) = (first_match re a rs' d = x)"
  using assms
proof (induction rs rs' rule: list_all2_induct)
  case (Cons r rs r' rs')
  then have "route_matches re r a = route_matches re r' a"
    by (simp add: same_matchers_def route_matches_def)
  with Cons show ?case by (auto simp: same_matchers_def)
qed simp

lemma first_match_remove1:
  "\<not> route_matches re r a \<Longrightarrow> first_match re a (remove1 r rs) d = first_match re a rs d"
  by (induction rs) auto

lemma first_match_claimed:
  "list_ex (\<lambda>r. route_matches re r a) rs \<Longrightarrow> first_match re a (rs @ xs) d = first_match re a (rs @ ys) d'"
  by (induction rs) auto

text \<open>A rule is shadowed when every alert it matches is matched by a rule before it.\<close>

lemma first_match_shadowed:
  assumes "route_matches re r a \<Longrightarrow> list_ex (\<lambda>x. route_matches re x a) pre"
  shows "first_match re a (pre @ r # post) d = first_match re a (pre @ post) d"
  using assms by (auto simp: first_match_append)

subsection \<open>The interface\<close>

text \<open>
  Documented behaviour: a node whose matchers do not match the alert notifies nobody; a
  matching node hands the alert to its children, walked in order, and is responsible itself
  exactly when none of them takes it.
\<close>

locale alertmanager_routing =
  fixes re :: re_matcher
    and notify :: "alert \<Rightarrow> Route \<Rightarrow> string list"
  assumes notify_no_match: "\<not> route_matches re r a \<Longrightarrow> notify a r = []"
    and notify_match: "route_matches re r a \<Longrightarrow>
      notify a r = (if walk (notify a) (Routes r) = [] then [Receiver r]
                    else walk (notify a) (Routes r))"
begin

lemma notify_nonempty: "(notify a r \<noteq> []) = route_matches re r a"
  by (cases "route_matches re r a") (auto simp: notify_no_match notify_match)

lemma notify_leaf:
  "leaf r \<Longrightarrow> notify a r = (if route_matches re r a then [Receiver r] else [])"
  by (auto simp: leaf_def notify_no_match notify_match)

lemma walk_leaves:
  assumes "list_all leaf rs"
  shows "walk (notify a) (map Some rs) =
    (if list_ex (\<lambda>r. route_matches re r a) rs then [first_match re a rs d] else [])"
  using assms by (induction rs) (auto simp: notify_leaf leaf_def)

text \<open>A node over a table of leaves delivers to exactly one receiver, the first match.\<close>

lemma notify_table:
  assumes "Routes r = map Some rs" and "list_all leaf rs" and "route_matches re r a"
  shows "notify a r = [first_match re a rs (Receiver r)]"
proof (cases "list_ex (\<lambda>x. route_matches re x a) rs")
  case False
  then have "first_match re a rs (Receiver r) = Receiver r"
    using first_match_append [of re a rs "[]" "Receiver r"] by simp
  with False assms walk_leaves [of rs a "Receiver r"] show ?thesis by (simp add: notify_match)
next
  case True
  with assms walk_leaves [of rs a "Receiver r"] show ?thesis by (simp add: notify_match)
qed

text \<open>Walking past children that do not match, or that let the walk continue.\<close>

lemma walk_Some:
  "walk (notify a) (Some r # rs) =
     (if route_matches re r a \<and> \<not> Continue r then notify a r
      else notify a r @ walk (notify a) rs)"
  by (auto simp: notify_nonempty)

lemma walk_append:
  "walk (notify a) (rs @ rs') =
     (if (\<exists>r. Some r \<in> set rs \<and> route_matches re r a \<and> \<not> Continue r) then walk (notify a) rs
      else walk (notify a) rs @ walk (notify a) rs')"
proof (induction rs)
  case (Cons x rs)
  then show ?case by (cases x) (auto simp: notify_nonempty)
qed simp

end

subsection \<open>A reference implementation of the interface\<close>

text \<open>The size of a forest bounds the size of its trees, so the traversal terminates.\<close>

function am_notify :: "re_matcher \<Rightarrow> alert \<Rightarrow> Route \<Rightarrow> string list"
  and am_walk :: "re_matcher \<Rightarrow> alert \<Rightarrow> Route ptr list \<Rightarrow> string list" where
  "am_notify re a r =
     (if route_matches re r a
      then (let xs = am_walk re a (Routes r) in if xs = [] then [Receiver r] else xs)
      else [])"
| "am_walk re a [] = []"
| "am_walk re a (None # rs) = am_walk re a rs"
| "am_walk re a (Some r # rs) =
     (let xs = am_notify re a r
      in if xs \<noteq> [] \<and> \<not> Continue r then xs else xs @ am_walk re a rs)"
  by pat_completeness auto
termination
proof (relation "measure (case_sum (\<lambda>(re, a, r). size r)
    (\<lambda>(re, a, rs). size_list (size_option size) rs))", goal_cases)
  case (2 re a r)
  then show ?case by (cases r) simp
qed auto

declare am_notify.simps [simp del]

lemma am_walk_eq: "am_walk re a rs = walk (am_notify re a) rs"
proof (induction rs)
  case (Cons x rs)
  then show ?case by (cases x) (auto simp: Let_def)
qed simp

interpretation am_ref: alertmanager_routing re "am_notify re" for re
  by unfold_locales (simp_all add: am_notify.simps am_walk_eq Let_def)

end
