(* ===== verification/Subroutes.thy ===== *)
theory Subroutes
  imports AlertRouting
begin

text \<open>
  The routing rules of controllers/secret_controller.go: the constants of the controller, the
  rule table of \<open>createSubroutes\<close> and the single routes of the other integrations. The table is
  transcribed rule by rule; the order of the rules is their priority. The FedRAMP switch, a
  package variable of the source, is the argument \<open>fed\<close>.
\<close>

subsection \<open>Constants\<close>

definition secretKeyGoalertLow :: string where [simp]: "secretKeyGoalertLow = ''GOALERT_URL_LOW''"
definition secretKeyGoalertHigh :: string where [simp]:
  "secretKeyGoalertHigh = ''GOALERT_URL_HIGH''"
definition secretKeyGoalertHeartbeat :: string where [simp]:
  "secretKeyGoalertHeartbeat = ''GOALERT_HEARTBEAT''"
definition secretKeyPD :: string where [simp]: "secretKeyPD = ''PAGERDUTY_KEY''"
definition secretKeyCADPD :: string where [simp]: "secretKeyCADPD = ''CAD_PAGERDUTY_KEY''"
definition secretKeyDMS :: string where [simp]: "secretKeyDMS = ''SNITCH_URL''"
definition cmKeyManagedNamespaces :: string where [simp]:
  "cmKeyManagedNamespaces = ''managed_namespaces.yaml''"
definition cmKeyOCPNamespaces :: string where [simp]:
  "cmKeyOCPNamespaces = ''managed_namespaces.yaml''"
definition secretNameGoalert :: string where [simp]: "secretNameGoalert = ''goalert-secret''"
definition secretNamePD :: string where [simp]: "secretNamePD = ''pd-secret''"
definition secretNameCADPD :: string where [simp]: "secretNameCADPD = ''cad-pd-secret''"
definition secretNameDMS :: string where [simp]: "secretNameDMS = ''dms-secret''"
definition secretNameAlertmanager :: string where [simp]:
  "secretNameAlertmanager = ''alertmanager-main''"
definition cmNameManagedNamespaces :: string where [simp]:
  "cmNameManagedNamespaces = ''managed-namespaces''"
definition cmNameOCPNamespaces :: string where [simp]: "cmNameOCPNamespaces = ''ocp-namespaces''"
definition clusterVersionName :: string where [simp]: "clusterVersionName = ''version''"
definition receiverGoAlertHigh :: string where [simp]: "receiverGoAlertHigh = ''goalert-high''"
definition receiverGoAlertLow :: string where [simp]: "receiverGoAlertLow = ''goalert''"
definition receiverGoAlertHeartbeat :: string where [simp]:
  "receiverGoAlertHeartbeat = ''goalert-heartbeat''"
definition receiverNull :: string where [simp]: "receiverNull = ''null''"
definition receiverMakeItWarning :: string where [simp]:
  "receiverMakeItWarning = ''make-it-warning''"
definition receiverMakeItError :: string where [simp]: "receiverMakeItError = ''make-it-error''"
definition receiverMakeItCritical :: string where [simp]:
  "receiverMakeItCritical = ''make-it-critical''"
definition receiverPagerduty :: string where [simp]: "receiverPagerduty = ''pagerduty''"
definition receiverCADPagerduty :: string where [simp]: "receiverCADPagerduty = ''cad-pagerduty''"
definition receiverWatchdog :: string where [simp]: "receiverWatchdog = ''watchdog''"
definition defaultReceiver :: string where [simp]: "defaultReceiver = receiverNull"
definition routeCADLabel :: string where [simp]: "routeCADLabel = ''route_to_cad''"
definition routeCADLabelValue :: string where [simp]: "routeCADLabelValue = ''true''"
definition pagerdutyURL :: string where [simp]:
  "pagerdutyURL = ''https://events.pagerduty.com/v2/enqueue''"
definition receiverOCMAgent :: string where [simp]: "receiverOCMAgent = ''ocmagent''"
definition managedNotificationLabel :: string where [simp]:
  "managedNotificationLabel = ''send_managed_notification''"
definition ocmAgentService :: string where [simp]: "ocmAgentService = ''ocm-agent''"
definition ocmAgentNamespace :: string where [simp]:
  "ocmAgentNamespace = ''openshift-ocm-agent-operator''"
definition ocmAgentWebhookPath :: string where [simp]:
  "ocmAgentWebhookPath = ''/alertmanager-receiver''"
definition cmNameOcmAgent :: string where [simp]: "cmNameOcmAgent = ''ocm-agent''"
definition cmKeyOCMAgent :: string where [simp]: "cmKeyOCMAgent = ''serviceURL''"
definition clusterTypeLabelKey :: string where [simp]:
  "clusterTypeLabelKey = ''ext-hypershift.openshift.io/cluster-type''"
definition clusterTypeManagement :: string where [simp]:
  "clusterTypeManagement = ''management-cluster''"

definition defaultNamespaces :: "string list" where
  "defaultNamespaces = [PDRegexOS, PDRegexLP, PDRegexKube]"

subsection \<open>The rule table\<close>

text \<open>
  The type \<open>receiverType\<close> is an integer type with two named values; any other value is
  \<open>OtherReceiverType\<close>. The five receivers that the switch of \<open>createSubroutes\<close> chooses are the
  local variables of the function, here a record.
\<close>

datatype receiverType = GoAlert | Pagerduty | OtherReceiverType int

record route_receivers =
  receiverCommon :: string
  receiverCritical :: string
  receiverError :: string
  receiverWarning :: string
  receiverDefault :: string

fun subroute_receivers :: "receiverType \<Rightarrow> route_receivers option" where
  "subroute_receivers GoAlert = Some
     \<lparr>receiverCommon = receiverGoAlertLow, receiverCritical = receiverGoAlertHigh,
      receiverError = receiverGoAlertHigh, receiverWarning = receiverGoAlertLow,
      receiverDefault = receiverNull\<rparr>"
| "subroute_receivers Pagerduty = Some
     \<lparr>receiverCommon = receiverPagerduty, receiverCritical = receiverMakeItCritical,
      receiverError = receiverMakeItError, receiverWarning = receiverMakeItWarning,
      receiverDefault = defaultReceiver\<rparr>"
| "subroute_receivers (OtherReceiverType n) = None"

text \<open>
  The table, in four consecutive parts: general rules, cluster-logging rules, Loki rules, and
  the rules for individual services.
\<close>

definition platform_subroutes :: "route_receivers \<Rightarrow> Route list" where
  "platform_subroutes rr = [
    leaf_route receiverNull [] [(''alertname'', ''Watchdog''), (''severity'', ''none'')],
    leaf_route (receiverCritical rr) [(''name'', ''^.+-master-.*[0-9]+$'')]
      [(''alertname'', ''MachineWithoutValidNode''), (''namespace'', ''openshift-machine-api'')],
    leaf_route (receiverCritical rr) [(''name'', ''^.+-master-.*[0-9]+$'')]
      [(''alertname'', ''MachineWithNoRunningPhase''), (''namespace'', ''openshift-machine-api'')],
    leaf_route (receiverCritical rr) []
      [(''alertname'', ''etcdDatabaseQuotaLowSpace''), (''severity'', ''warning'')],
    leaf_route receiverNull [] [(''alertname'', ''CannotRetrieveUpdates'')],
    leaf_route receiverNull [] [(managedNotificationLabel, ''true'')],
    leaf_route receiverNull [] [(''alertname'', ''KubeQuotaExceeded'')],
    leaf_route receiverNull [] [(''alertname'', ''KubeQuotaFullyUsed'')],
    leaf_route receiverNull [] [(''alertname'', ''CPUThrottlingHigh'')],
    leaf_route receiverNull [] [(''alertname'', ''NodeFilesystemSpaceFillingUp'')],
    leaf_route receiverNull [] [(''alertname'', ''NodeFilesystemFilesFillingUp'')],
    leaf_route receiverNull [] [(''alertname'', ''NodeFilesystemAlmostOutOfSpace'')],
    leaf_route receiverNull [] [(''alertname'', ''NodeFilesystemAlmostOutOfFiles'')],
    leaf_route receiverNull [] [(''alertname'', ''NodeFileDescriptorLimit'')],
    leaf_route receiverNull [] [(''namespace'', ''openshift-customer-monitoring'')],
    leaf_route receiverNull [] [(''namespace'', ''openshift-operators'')],
    leaf_route receiverNull [] [(''namespace'', ''openshift-storage'')],
    leaf_route receiverNull [] [(''namespace'', ''openshift-compliance'')],
    leaf_route receiverNull [] [(''exported_namespace'', ''openshift-storage'')],
    leaf_route receiverNull [] [(''exported_namespace'', ''openshift-operators'')],
    leaf_route receiverNull [] [(''namespace'', ''openshift-operators-redhat'')],
    leaf_route receiverNull [] [(''alertname'', ''CustomResourceDetected'')],
    leaf_route receiverNull [] [(''alertname'', ''ImagePruningDisabled'')],
    leaf_route receiverNull [] [(''severity'', ''info'')],
    leaf_route receiverNull [] [(''namespace'', ''openshift-user-workload-monitoring'')],
    leaf_route receiverNull []
      [(''alertname'', ''KubePersistentVolumeFillingUp''), (''namespace'', ''openshift-logging'')],
    leaf_route receiverNull [] [(''alertname'', ''PodDisruptionBudgetLimit'')],
    leaf_route receiverNull [(''namespace'', PDRegexLP)] [(''alertname'', ''TargetDown'')],
    leaf_route receiverNull [] [(''alertname'', ''KubeJobFailed'')]]"

definition logging_subroutes :: "route_receivers \<Rightarrow> Route list" where
  "logging_subroutes rr = [
    leaf_route (receiverCommon rr) [(''alertname'', ''^.*SRE$'')]
      [(''namespace'', ''openshift-logging'')],
    leaf_route receiverNull []
      [(''alertname'', ''FluentDHighErrorRate''), (''namespace'', ''openshift-logging'')],
    leaf_route receiverNull []
      [(''alertname'', ''FluentDVeryHighErrorRate''), (''namespace'', ''openshift-logging'')],
    leaf_route receiverNull []
      [(''alertname'', ''FluentdNodeDown''), (''namespace'', ''openshift-logging'')],
    leaf_route receiverNull []
      [(''alertname'', ''FluentdNodeDown''), (''prometheus'', ''openshift-monitoring/k8s'')],
    leaf_route receiverNull []
      [(''alertname'', ''FluentdQueueLengthIncreasing''), (''namespace'', ''openshift-logging'')],
    leaf_route receiverNull []
      [(''alertname'', ''AggregatedLoggingSystemCPUHigh''), (''namespace'', ''openshift-logging'')],
    leaf_route receiverNull []
      [(''alertname'', ''ElasticsearchClusterNotHealthy''), (''namespace'', ''openshift-logging'')],
    leaf_route receiverNull []
      [(''alertname'', ''ElasticsearchDiskSpaceRunningLow''), (''namespace'', ''openshift-logging'')],
    leaf_route receiverNull []
      [(''alertname'', ''ElasticsearchHighFileDescriptorUsage''), (''namespace'', ''openshift-logging'')],
    leaf_route receiverNull []
      [(''alertname'', ''ElasticsearchJVMHeapUseHigh''), (''namespace'', ''openshift-logging'')],
    leaf_route receiverNull []
      [(''alertname'', ''ElasticsearchNodeDiskWatermarkReached''), (''namespace'', ''openshift-logging'')],
    leaf_route receiverNull []
      [(''alertname'', ''ElasticsearchOperatorCSVNotSuccessful''), (''namespace'', ''openshift-logging'')],
    leaf_route receiverNull []
      [(''alertname'', ''ElasticsearchProcessCPUHigh''), (''namespace'', ''openshift-logging'')],
    leaf_route receiverNull []
      [(''alertname'', ''ElasticsearchWriteRequestsRejectionJumps''), (''namespace'', ''openshift-logging'')]]"

definition loki_subroutes :: "route_receivers \<Rightarrow> Route list" where
  "loki_subroutes rr = [
    leaf_route receiverNull []
      [(''alertname'', ''ClusterLogForwarderRuntimeConfigurationMissingUnmatched''), (''namespace'', ''openshift-logging'')],
    leaf_route receiverNull []
      [(''alertname'', ''ClusterLogForwarderOutputErrorRate''), (''namespace'', ''openshift-logging'')],
    leaf_route receiverNull []
      [(''alertname'', ''CollectorNodeDown''), (''namespace'', ''openshift-logging'')],
    leaf_route receiverNull []
      [(''alertname'', ''CollectorHighErrorRate''), (''namespace'', ''openshift-logging'')],
    leaf_route receiverNull []
      [(''alertname'', ''CollectorVeryHighErrorRate''), (''namespace'', ''openshift-logging'')],
    leaf_route receiverNull []
      [(''alertname'', ''LokiRequestErrors''), (''namespace'', ''openshift-logging'')],
    leaf_route receiverNull []
      [(''alertname'', ''LokiStackWriteRequestErrors''), (''namespace'', ''openshift-logging'')],
    leaf_route receiverNull []
      [(''alertname'', ''LokiStackReadRequestErrors''), (''namespace'', ''openshift-logging'')],
    leaf_route receiverNull []
      [(''alertname'', ''LokiRequestPanics''), (''namespace'', ''openshift-logging'')],
    leaf_route receiverNull []
      [(''alertname'', ''LokiRequestLatency''), (''namespace'', ''openshift-logging'')],
    leaf_route receiverNull []
      [(''alertname'', ''LokiTenantRateLimit''), (''namespace'', ''openshift-logging'')],
    leaf_route receiverNull []
      [(''alertname'', ''LokiStorageSlowWrite''), (''namespace'', ''openshift-logging'')],
    leaf_route receiverNull []
      [(''alertname'', ''LokiStorageSlowRead''), (''namespace'', ''openshift-logging'')],
    leaf_route receiverNull []
      [(''alertname'', ''LokiWritePathHighLoad''), (''namespace'', ''openshift-logging'')],
    leaf_route receiverNull []
      [(''alertname'', ''LokiReadPathHighLoad''), (''namespace'', ''openshift-logging'')]]"

definition service_subroutes :: "route_receivers \<Rightarrow> Route list" where
  "service_subroutes rr = [
    leaf_route receiverNull []
      [(''alertname'', ''HAProxyReloadFail''), (''severity'', ''critical'')],
    leaf_route receiverNull [] [(''alertname'', ''PrometheusRuleFailures'')],
    leaf_route receiverNull []
      [(''alertname'', ''ClusterOperatorDegraded''), (''name'', ''authentication''), (''reason'', ''IdentityProviderConfig_Error'')],
    leaf_route receiverNull []
      [(''alertname'', ''ClusterOperatorDegraded''), (''name'', ''authentication''), (''reason'', ''OAuthServerConfigObservation_Error'')],
    leaf_route receiverNull []
      [(''alertname'', ''ClusterOperatorDown''), (''name'', ''authentication''), (''reason'', ''IdentityProviderConfig_Error'')],
    leaf_route receiverNull []
      [(''alertname'', ''ClusterOperatorDown''), (''name'', ''authentication''), (''reason'', ''OAuthServerConfigObservation_Error'')],
    leaf_route receiverNull []
      [(''alertname'', ''FluentdQueueLengthBurst''), (''namespace'', ''openshift-logging''), (''severity'', ''warning'')],
    leaf_route receiverNull []
      [(''alertname'', ''ClusterAutoscalerUnschedulablePods''), (''namespace'', ''openshift-machine-api'')],
    leaf_route receiverNull [] [(''severity'', ''alert'')],
    leaf_route receiverNull []
      [(''alertname'', ''MultipleDefaultStorageClasses''), (''namespace'', ''openshift-cluster-storage-operator'')],
    leaf_route receiverNull [(''mountpoint'', ''/var/lib/ibmc-s3fs.*'')]
      [(''alertname'', ''NodeFilesystemAlmostOutOfSpace''), (''severity'', ''critical'')],
    leaf_route (receiverWarning rr) []
      [(''alertname'', ''KubeAPILatencyHigh''), (''severity'', ''critical'')],
    leaf_route (receiverWarning rr) []
      [(''alertname'', ''etcdGRPCRequestsSlow''), (''namespace'', ''openshift-etcd'')],
    leaf_route receiverNull []
      [(''alertname'', ''etcdMembersDown''), (''namespace'', ''openshift-etcd'')],
    leaf_route (receiverWarning rr) []
      [(''alertname'', ''ExtremelyHighIndividualControlPlaneCPU''), (''namespace'', ''openshift-kube-apiserver'')],
    leaf_route (receiverWarning rr) []
      [(''severity'', ''critical''), (''namespace'', ''openshift-deployment-validation-operator'')],
    leaf_route (receiverError rr) []
      [(''alertname'', ''NodeClockNotSynchronising''), (''prometheus'', ''openshift-monitoring/k8s'')],
    leaf_route (receiverCommon rr) []
      [(''job'', ''fluentd''), (''prometheus'', ''openshift-monitoring/k8s'')],
    leaf_route (receiverCommon rr) []
      [(''cluster'', ''elasticsearch''), (''prometheus'', ''openshift-monitoring/k8s'')],
    leaf_route receiverNull []
      [(''alertname'', ''KubeAPIErrorBudgetBurn''), (''prometheus'', ''openshift-monitoring/k8s'')],
    leaf_route receiverNull [] [(''alertname'', ''HAProxyDown'')],
    leaf_route receiverNull [] [(''alertname'', ''CertificateIsAboutToExpire'')],
    leaf_route receiverNull [] [(''alertname'', ''ClusterOperatorDown''), (''name'', ''insights'')]]"

text \<open>The rule that is added outside FedRAMP only, and the rules added for each namespace.\<close>

definition monitoring_subroutes :: "bool \<Rightarrow> Route list" where
  "monitoring_subroutes fed =
     (if \<not> fed
      then [leaf_route receiverNull [] [(''alertname'', ''ClusterOperatorDown''), (''name'', ''monitoring'')]]
      else [])"

definition namespace_subroutes :: "receiverType \<Rightarrow> route_receivers \<Rightarrow> string \<Rightarrow> Route list" where
  "namespace_subroutes receiver rr namespace =
     (if receiver = Pagerduty then
        [leaf_route (receiverCommon rr) [(''exported_namespace'', namespace)]
           [(''prometheus'', ''openshift-monitoring/k8s'')],
         leaf_route (receiverCommon rr) [(''namespace'', namespace)]
           [(''exported_namespace'', ''''), (''prometheus'', ''openshift-monitoring/k8s'')]]
      else []) @
     (if receiver = GoAlert then
        [leaf_route (receiverCritical rr) [(''namespace'', namespace)]
           [(''exported_namespace'', ''''), (''prometheus'', ''openshift-monitoring/k8s''),
            (''severity'', ''critical'')],
         leaf_route (receiverError rr) [(''namespace'', namespace)]
           [(''exported_namespace'', ''''), (''prometheus'', ''openshift-monitoring/k8s''),
            (''severity'', ''error'')],
         leaf_route (receiverWarning rr) [(''namespace'', namespace)]
           [(''exported_namespace'', ''''), (''prometheus'', ''openshift-monitoring/k8s''),
            (''severity'', ''warning'')]]
      else [])"

definition fixed_subroutes :: "bool \<Rightarrow> route_receivers \<Rightarrow> Route list" where
  "fixed_subroutes fed rr =
     platform_subroutes rr @ logging_subroutes rr @ loki_subroutes rr @ service_subroutes rr @
     monitoring_subroutes fed"

fun append_namespaces ::
  "receiverType \<Rightarrow> route_receivers \<Rightarrow> string list \<Rightarrow> Route list \<Rightarrow> Route list" where
  "append_namespaces receiver rr [] subroute = subroute"
| "append_namespaces receiver rr (namespace # nss) subroute =
     append_namespaces receiver rr nss (subroute @ namespace_subroutes receiver rr namespace)"

definition createSubroutes :: "bool \<Rightarrow> string list \<Rightarrow> receiverType \<Rightarrow> Route ptr" where
  "createSubroutes fed namespaceList receiver =
     (case subroute_receivers receiver of
        None \<Rightarrow> None
      | Some rr \<Rightarrow>
          Some (Route (receiverDefault rr) [''alertname'', ''severity''] [] [] True
            (map Some (append_namespaces receiver rr namespaceList (fixed_subroutes fed rr)))
            '''' '''' ''''))"

subsection \<open>The routes of the other integrations\<close>

definition createOCMAgentRoute :: Route where
  "createOCMAgentRoute =
     Route receiverOCMAgent [] [(managedNotificationLabel, ''true'')] [] False [] '''' '''' ''10m''"

definition createHeartbeatRoute :: Route where
  "createHeartbeatRoute =
     Route receiverGoAlertHeartbeat [] [(''alertname'', ''Watchdog'')] [] True [] '''' '''' ''5m''"

definition createWatchdogRoute :: Route where
  "createWatchdogRoute =
     Route receiverWatchdog [] [(''alertname'', ''Watchdog'')] [] True [] '''' '''' ''5m''"

definition createCADPagerdutyRoute :: Route where
  "createCADPagerdutyRoute =
     leaf_route receiverCADPagerduty [] [(routeCADLabel, routeCADLabelValue)]"

end
