(* ===== verification/SubrouteRouting.thy ===== *)
theory SubrouteRouting
  imports Subroutes
begin

text \<open>
  What the rule table of \<open>createSubroutes\<close> does with an alert: the node hands every alert to
  exactly one receiver, the one of the first matching rule, and then lets the parent continue.
  The facts below settle that receiver for the classes of alerts the comments of the table
  speak of, for every Alertmanager that satisfies the interface \<open>alertmanager_routing\<close>.
\<close>

subsection \<open>The shape of the table\<close>

lemmas table_defs =
  platform_subroutes_def logging_subroutes_def loki_subroutes_def service_subroutes_def
  monitoring_subroutes_def

lemma append_namespaces_concat:
  "append_namespaces receiver rr nss sub =
     sub @ concat (map (namespace_subroutes receiver rr) nss)"
  by (induction nss arbitrary: sub) simp_all

lemma fixed_subroutes_leaves: "list_all leaf (fixed_subroutes fed rr)"
  by (simp add: fixed_subroutes_def table_defs)

lemma namespace_subroutes_leaves: "list_all leaf (namespace_subroutes receiver rr ns)"
  by (simp add: namespace_subroutes_def)

lemma table_leaves:
  "list_all leaf (append_namespaces receiver rr nss (fixed_subroutes fed rr))"
  by (simp add: append_namespaces_concat fixed_subroutes_leaves)
    (induction nss, simp_all add: namespace_subroutes_leaves)

lemma createSubroutes_None_iff:
  "createSubroutes fed nss receiver = None \<longleftrightarrow> (\<exists>n. receiver = OtherReceiverType n)"
  by (cases receiver) (simp_all add: createSubroutes_def)

text \<open>The receivers that occur in the table.\<close>

definition tier_receivers :: "route_receivers \<Rightarrow> string set" where
  "tier_receivers rr = {receiverNull, receiverCommon rr, receiverCritical rr,
     receiverError rr, receiverWarning rr}"

lemma fixed_subroutes_receivers:
  "r \<in> set (fixed_subroutes fed rr) \<Longrightarrow> Receiver r \<in> tier_receivers rr"
proof -
  have "list_all (\<lambda>r. Receiver r \<in> tier_receivers rr) (fixed_subroutes fed rr)"
    by (simp add: fixed_subroutes_def table_defs tier_receivers_def)
  then show "r \<in> set (fixed_subroutes fed rr) \<Longrightarrow> Receiver r \<in> tier_receivers rr"
    by (simp add: list_all_iff)
qed

lemma namespace_subroutes_receivers:
  "r \<in> set (namespace_subroutes receiver rr ns) \<Longrightarrow> Receiver r \<in> tier_receivers rr"
  by (auto simp: namespace_subroutes_def tier_receivers_def split: if_splits)

lemma table_receivers:
  "r \<in> set (append_namespaces receiver rr nss (fixed_subroutes fed rr)) \<Longrightarrow>
     Receiver r \<in> tier_receivers rr"
  by (auto simp: append_namespaces_concat
      dest: fixed_subroutes_receivers namespace_subroutes_receivers)

subsection \<open>Delivery by the table\<close>

definition table_delivery ::
  "re_matcher \<Rightarrow> bool \<Rightarrow> string list \<Rightarrow> receiverType \<Rightarrow> route_receivers \<Rightarrow> alert \<Rightarrow> string" where
  "table_delivery re fed nss receiver rr a =
     first_match re a (append_namespaces receiver rr nss (fixed_subroutes fed rr))
       (receiverDefault rr)"

lemma createSubroutes_Some:
  assumes "createSubroutes fed nss receiver = Some r"
  obtains rr where "subroute_receivers receiver = Some rr"
    "Routes r = map Some (append_namespaces receiver rr nss (fixed_subroutes fed rr))"
    "Receiver r = receiverDefault rr" "Match r = []" "MatchRE r = []" "Continue r"
  using assms by (auto simp: createSubroutes_def split: option.splits)

context alertmanager_routing
begin

lemma notify_subroutes:
  assumes "createSubroutes fed nss receiver = Some r" and "subroute_receivers receiver = Some rr"
  shows "notify a r = [table_delivery re fed nss receiver rr a]"
proof -
  from assms have r: "Routes r = map Some (append_namespaces receiver rr nss (fixed_subroutes fed rr))"
    "Receiver r = receiverDefault rr" "route_matches re r a"
    by (auto elim!: createSubroutes_Some simp: route_matches_def)
  show ?thesis
    using notify_table [OF r(1) table_leaves r(3)] r(2) by (simp add: table_delivery_def)
qed

end

lemma table_delivery_in:
  assumes "subroute_receivers receiver = Some rr"
  shows "table_delivery re fed nss receiver rr a \<in> tier_receivers rr"
proof -
  have "receiverDefault rr \<in> tier_receivers rr"
    using assms by (cases receiver) (auto simp: tier_receivers_def)
  then show ?thesis
    using first_match_in [of re a "append_namespaces receiver rr nss (fixed_subroutes fed rr)"
        "receiverDefault rr"]
    by (auto simp: table_delivery_def dest: table_receivers)
qed

lemma table_delivery_split:
  "table_delivery re fed nss receiver rr a =
     (if list_ex (\<lambda>r. route_matches re r a) (fixed_subroutes fed rr)
      then first_match re a (fixed_subroutes fed rr) (receiverDefault rr)
      else first_match re a (concat (map (namespace_subroutes receiver rr) nss))
             (receiverDefault rr))"
  by (simp add: table_delivery_def append_namespaces_concat first_match_append)

subsection \<open>Informational alerts and managed notifications\<close>

text \<open>
  The alerts that the first rules of the table send to the critical receiver, before the rules
  about severity and managed notifications: the two alerts about a machine of the control plane,
  and the warning that the quota of etcd is running out.
\<close>

definition control_plane_machine_alert :: "re_matcher \<Rightarrow> alert \<Rightarrow> bool" where
  "control_plane_machine_alert re a =
     (go_get a ''alertname'' \<in> {''MachineWithoutValidNode'', ''MachineWithNoRunningPhase''} \<and>
      go_get a ''namespace'' = ''openshift-machine-api'' \<and>
      re ''^.+-master-.*[0-9]+$'' (go_get a ''name''))"

definition etcd_quota_alert :: "alert \<Rightarrow> bool" where
  "etcd_quota_alert a =
     (go_get a ''alertname'' = ''etcdDatabaseQuotaLowSpace'' \<and> go_get a ''severity'' = ''warning'')"

text \<open>
  A rule \<open>r\<close> of the first part of the table settles an alert that it matches, when every rule
  before it either does not match or has the same receiver.
\<close>

lemma table_settled:
  assumes "r \<in> set (platform_subroutes rr)"
    and "list_all (\<lambda>x. route_matches re x a \<longrightarrow> Receiver x = Receiver r)
      (takeWhile (\<lambda>x. x \<noteq> r) (platform_subroutes rr))"
    and "route_matches re r a"
  shows "table_delivery re fed nss receiver rr a = Receiver r"
proof -
  let ?pre = "takeWhile (\<lambda>x. x \<noteq> r) (platform_subroutes rr)"
  let ?post = "tl (dropWhile (\<lambda>x. x \<noteq> r) (platform_subroutes rr))"
  have "dropWhile (\<lambda>x. x \<noteq> r) (platform_subroutes rr) = r # ?post"
    using assms(1) hd_dropWhile [of "\<lambda>x. x \<noteq> r" "platform_subroutes rr"]
    by (cases "dropWhile (\<lambda>x. x \<noteq> r) (platform_subroutes rr)") auto
  then have split: "platform_subroutes rr = ?pre @ r # ?post"
    by (metis takeWhile_dropWhile_id)
  have "first_match re a (?pre @ r # ?post @ xs) d = Receiver r" for xs d
    using assms(2,3) by (rule first_match_settled)
  then show ?thesis
    unfolding table_delivery_def append_namespaces_concat fixed_subroutes_def
    by (subst split) simp
qed

lemma machine_rules_settle:
  assumes "control_plane_machine_alert re a"
  shows "table_delivery re fed nss receiver rr a = receiverCritical rr"
proof -
  let ?r = "\<lambda>n. leaf_route (receiverCritical rr) [(''name'', ''^.+-master-.*[0-9]+$'')]
    [(''alertname'', n), (''namespace'', ''openshift-machine-api'')]"
  from assms consider "go_get a ''alertname'' = ''MachineWithoutValidNode''"
    | "go_get a ''alertname'' = ''MachineWithNoRunningPhase''"
    by (auto simp: control_plane_machine_alert_def)
  then show ?thesis
  proof cases
    case 1
    then show ?thesis
      using table_settled [of "?r ''MachineWithoutValidNode''" rr re a] assms
      by (simp add: platform_subroutes_def control_plane_machine_alert_def)
  next
    case 2
    then show ?thesis
      using table_settled [of "?r ''MachineWithNoRunningPhase''" rr re a] assms
      by (simp add: platform_subroutes_def control_plane_machine_alert_def)
  qed
qed

lemma etcd_quota_rule_settles:
  assumes "etcd_quota_alert a"
  shows "table_delivery re fed nss receiver rr a = receiverCritical rr"
  using table_settled [of "leaf_route (receiverCritical rr) []
      [(''alertname'', ''etcdDatabaseQuotaLowSpace''), (''severity'', ''warning'')]" rr re a] assms
  by (simp add: platform_subroutes_def etcd_quota_alert_def)

text \<open>What the table does with an informational alert, and with a managed notification.\<close>

lemma info_delivery:
  assumes "go_get a ''severity'' = ''info''"
  shows "table_delivery re fed nss receiver rr a =
    (if control_plane_machine_alert re a then receiverCritical rr else receiverNull)"
proof (cases "control_plane_machine_alert re a")
  case False
  then show ?thesis
    using table_settled [of "leaf_route receiverNull [] [(''severity'', ''info'')]" rr re a] assms
    by (auto simp: platform_subroutes_def control_plane_machine_alert_def)
qed (simp add: machine_rules_settle)

lemma managed_notification_delivery:
  assumes "go_get a managedNotificationLabel = ''true''"
  shows "table_delivery re fed nss receiver rr a =
    (if control_plane_machine_alert re a \<or> etcd_quota_alert a then receiverCritical rr
     else receiverNull)"
proof (cases "control_plane_machine_alert re a \<or> etcd_quota_alert a")
  case False
  then show ?thesis
    using table_settled [of "leaf_route receiverNull [] [(managedNotificationLabel, ''true'')]" rr re a]
      assms
    by (auto simp: platform_subroutes_def control_plane_machine_alert_def etcd_quota_alert_def)
qed (auto simp: machine_rules_settle etcd_quota_rule_settles)

lemma watchdog_rule_settles:
  assumes "go_get a ''alertname'' = ''Watchdog''" and "go_get a ''severity'' = ''none''"
  shows "table_delivery re fed nss receiver rr a = receiverNull"
  using table_settled [of "leaf_route receiverNull []
      [(''alertname'', ''Watchdog''), (''severity'', ''none'')]" rr re a] assms
  by (simp add: platform_subroutes_def)

subsection \<open>Alerts that no fixed rule claims\<close>

text \<open>
  An alert about a monitored namespace: it comes from the platform's Prometheus, carries no
  exported namespace, and its namespace matches one of the expressions.
\<close>

definition platform_alert :: "alert \<Rightarrow> bool" where
  "platform_alert a =
     (go_get a ''prometheus'' = ''openshift-monitoring/k8s'' \<and>
      go_get a ''exported_namespace'' = '''')"

definition in_namespaces :: "re_matcher \<Rightarrow> string list \<Rightarrow> alert \<Rightarrow> bool" where
  "in_namespaces re nss a = list_ex (\<lambda>ns. re ns (go_get a ''namespace'')) nss"

definition severity_receiver :: "route_receivers \<Rightarrow> string \<Rightarrow> string" where
  "severity_receiver rr sev =
     (if sev = ''critical'' then receiverCritical rr
      else if sev = ''error'' then receiverError rr
      else if sev = ''warning'' then receiverWarning rr
      else receiverDefault rr)"

lemma pagerduty_namespace_rules:
  assumes "platform_alert a" and "in_namespaces re nss a"
  shows "first_match re a (concat (map (namespace_subroutes Pagerduty rr) nss)) d =
    receiverCommon rr"
proof -
  have "list_all (\<lambda>r. Receiver r = receiverCommon rr)
      (concat (map (namespace_subroutes Pagerduty rr) nss))"
    by (induction nss) (simp_all add: namespace_subroutes_def)
  moreover have "list_ex (\<lambda>r. route_matches re r a)
      (concat (map (namespace_subroutes Pagerduty rr) nss))"
    using assms
    by (induction nss) (auto simp: namespace_subroutes_def platform_alert_def in_namespaces_def)
  ultimately show ?thesis by (simp add: first_match_const)
qed

lemma goalert_namespace_rules:
  assumes "platform_alert a"
  shows "first_match re a (concat (map (namespace_subroutes GoAlert rr) nss)) (receiverDefault rr) =
    (if in_namespaces re nss a then severity_receiver rr (go_get a ''severity'')
     else receiverDefault rr)"
  using assms
  by (induction nss)
    (auto simp: namespace_subroutes_def platform_alert_def in_namespaces_def severity_receiver_def)

lemma namespace_rules_foreign:
  assumes "go_get a ''prometheus'' \<noteq> ''openshift-monitoring/k8s''"
  shows "\<not> list_ex (\<lambda>r. route_matches re r a) (concat (map (namespace_subroutes receiver rr) nss))"
  using assms by (induction nss) (simp_all add: namespace_subroutes_def)

subsection \<open>The two tiers side by side\<close>

lemma fixed_subroutes_parallel:
  assumes "receiverNull \<notin> {receiverCommon r1, receiverCritical r1, receiverError r1, receiverWarning r1}"
    and "receiverNull \<notin> {receiverCommon r2, receiverCritical r2, receiverError r2, receiverWarning r2}"
  shows "list_all2 (same_matchers receiverNull) (fixed_subroutes fed r1) (fixed_subroutes fed r2)"
  using assms by (simp add: fixed_subroutes_def table_defs same_matchers_def) auto

lemma fixed_subroutes_matchers:
  "list_ex (\<lambda>r. route_matches re r a) (fixed_subroutes fed r1) =
   list_ex (\<lambda>r. route_matches re r a) (fixed_subroutes fed r2)"
  by (simp add: fixed_subroutes_def table_defs)

lemma fixed_table_agrees:
  assumes "subroute_receivers GoAlert = Some r1" and "subroute_receivers Pagerduty = Some r2"
    and "list_ex (\<lambda>r. route_matches re r a) (fixed_subroutes fed r1)"
  shows "(table_delivery re fed nss GoAlert r1 a = receiverNull) =
    (table_delivery re fed nss Pagerduty r2 a = receiverNull)"
proof -
  have "list_all2 (same_matchers receiverNull) (fixed_subroutes fed r1) (fixed_subroutes fed r2)"
    using assms(1,2) by (intro fixed_subroutes_parallel) auto
  then have "(first_match re a (fixed_subroutes fed r1) d = receiverNull) =
      (first_match re a (fixed_subroutes fed r2) d = receiverNull)" for d
    by (rule first_match_parallel)
  moreover have "list_ex (\<lambda>r. route_matches re r a) (fixed_subroutes fed r2)"
    using assms(3) by (rule fixed_subroutes_matchers [THEN iffD1])
  moreover have "receiverDefault r1 = receiverDefault r2" using assms(1,2) by auto
  ultimately show ?thesis using assms(3) by (simp add: table_delivery_split)
qed

subsection \<open>FedRAMP\<close>

lemma table_delivery_fedramp:
  assumes "go_get a ''alertname'' \<noteq> ''ClusterOperatorDown'' \<or> go_get a ''name'' \<noteq> ''monitoring''"
  shows "table_delivery re True nss receiver rr a = table_delivery re False nss receiver rr a"
proof -
  have "\<not> list_ex (\<lambda>r. route_matches re r a) (monitoring_subroutes False)"
    "monitoring_subroutes True = []"
    using assms by (auto simp: monitoring_subroutes_def)
  then show ?thesis
    by (simp add: table_delivery_def append_namespaces_concat fixed_subroutes_def first_match_append)
qed

subsection \<open>A shadowed rule\<close>

text \<open>
  The rule for the mount points of the IBM cloud storage plugin comes after a rule that takes
  every alert of that name.
\<close>

definition ibm_mountpoint_rule :: Route where
  "ibm_mountpoint_rule =
     leaf_route receiverNull [(''mountpoint'', ''/var/lib/ibmc-s3fs.*'')]
       [(''alertname'', ''NodeFilesystemAlmostOutOfSpace''), (''severity'', ''critical'')]"

lemma ibm_mountpoint_rule_in: "ibm_mountpoint_rule \<in> set (service_subroutes rr)"
  by (simp add: ibm_mountpoint_rule_def service_subroutes_def)

lemma ibm_mountpoint_rule_late: "ibm_mountpoint_rule \<notin> set (platform_subroutes rr)"
  by (simp add: ibm_mountpoint_rule_def platform_subroutes_def)

lemma ibm_mountpoint_rule_shadowed:
  "route_matches re ibm_mountpoint_rule a \<Longrightarrow>
     list_ex (\<lambda>r. route_matches re r a) (platform_subroutes rr)"
  by (simp add: ibm_mountpoint_rule_def platform_subroutes_def)

end
