(* ===== verification/ReceiverBuilders.thy ===== *)
theory ReceiverBuilders
  imports Subroutes
begin

text \<open>
  The functions of controllers/secret_controller.go that build receivers from the keys and
  URLs found on the cluster: PagerDuty, CAD PagerDuty, GoAlert, the two heartbeats and the
  OCM Agent. Each returns a slice of pointers, empty when its key or URL is empty.
\<close>

subsection \<open>HTTP settings and PagerDuty configurations\<close>

definition createHttpConfig :: "string \<Rightarrow> HttpConfig" where
  "createHttpConfig clusterProxy =
     (if clusterProxy = '''' then zero_HttpConfig
      else \<lparr>ProxyURL = clusterProxy, http_TLSConfig = zero_TLSConfig\<rparr>)"

definition pagerduty_link_template :: string where
  "pagerduty_link_template = ''{{ if .CommonAnnotations.runbook_url }}{{ .CommonAnnotations.runbook_url }}{{ else if .CommonAnnotations.link }}{{ .CommonAnnotations.link }}{{ else if .CommonLabels.link }}{{ .CommonLabels.link }}{{ else }}https://github.com/openshift/ops-sop/tree/master/v4/alerts/{{ .CommonLabels.alertname }}.md{{ end }}''"

definition pagerduty_details :: "bool \<Rightarrow> string \<Rightarrow> string \<Rightarrow> go_map" where
  \<open>pagerduty_details fed clusterID clusterRegion =
     (let detailsMap =
        [(''alert_name'', ''{{ .CommonLabels.alertname }}''),
         (''link'', pagerduty_link_template),
         (''ocm_link'', ''https://console.redhat.com/openshift/details/'' @ clusterID),
         (''num_firing'', ''{{ .Alerts.Firing | len }}''),
         (''num_resolved'', ''{{ .Alerts.Resolved | len }}''),
         (''resolved'', ''{{ template "pagerduty.default.instances" .Alerts.Resolved }}''),
         (''cluster_id'', clusterID),
         (''region'', clusterRegion)]
      in if fed
         then go_put ''firing'' '''' (go_put ''region'' '''' (go_put ''cluster_id'' ''''
                (go_put ''resolved'' '''' (go_put ''ocm_link'' '''' detailsMap))))
         else detailsMap)\<close>

definition createPagerdutyConfig :: "bool \<Rightarrow> string \<Rightarrow> string \<Rightarrow> string \<Rightarrow> string \<Rightarrow> PagerdutyConfig" where
  \<open>createPagerdutyConfig fed pagerdutyRoutingKey clusterID clusterRegion clusterProxy =
     (let clientURL = (if fed then ''ROSA'' else ''{{ template "pagerduty.default.clientURL" . }}'')
      in \<lparr>pd_NotifierConfig = \<lparr>VSendResolved = True\<rparr>,
          RoutingKey = pagerdutyRoutingKey,
          pd_URL = '''',
          pd_Client = '''',
          ClientURL = clientURL,
          Description = ''{{ .CommonLabels.alertname }} {{ .CommonLabels.severity | toUpper }} ({{ len .Alerts }})'',
          Details = pagerduty_details fed clusterID clusterRegion,
          Severity = ''{{ if .CommonLabels.severity }}{{ .CommonLabels.severity | toLower }}{{ else }}critical{{ end }}'',
          Class = '''',
          pd_Component = '''',
          pd_Group = '''',
          pd_HttpConfig = createHttpConfig clusterProxy\<rparr>)\<close>

subsection \<open>PagerDuty receivers\<close>

abbreviation pagerduty_receiver :: "string \<Rightarrow> PagerdutyConfig \<Rightarrow> Receiver" where
  "pagerduty_receiver name pdc \<equiv>
     \<lparr>rcv_Name = name, PagerdutyConfigs = [Some pdc], WebhookConfigs = []\<rparr>"

abbreviation webhook_receiver :: "string \<Rightarrow> WebhookConfig \<Rightarrow> Receiver" where
  "webhook_receiver name wh \<equiv>
     \<lparr>rcv_Name = name, PagerdutyConfigs = [], WebhookConfigs = [Some wh]\<rparr>"

definition createCADPagerdutyReceivers ::
  "bool \<Rightarrow> string \<Rightarrow> string \<Rightarrow> string \<Rightarrow> string \<Rightarrow> Receiver ptr list" where
  "createCADPagerdutyReceivers fed pagerdutyRoutingKey clusterID clusterRegion clusterProxy =
     (if pagerdutyRoutingKey = '''' then []
      else [Some (pagerduty_receiver receiverCADPagerduty
              (createPagerdutyConfig fed pagerdutyRoutingKey clusterID clusterRegion clusterProxy))])"

definition createPagerdutyReceivers ::
  "bool \<Rightarrow> string \<Rightarrow> string \<Rightarrow> string \<Rightarrow> string \<Rightarrow> Receiver ptr list" where
  "createPagerdutyReceivers fed pagerdutyRoutingKey clusterID clusterRegion clusterProxy =
     (if pagerdutyRoutingKey = '''' then []
      else
        (let cfg = createPagerdutyConfig fed pagerdutyRoutingKey clusterID clusterRegion clusterProxy;
             receivers = [Some (pagerduty_receiver receiverPagerduty cfg)];
             pdconfig = cfg\<lparr>Severity := ''warning''\<rparr>;
             receivers = receivers @ [Some (pagerduty_receiver receiverMakeItWarning pdconfig)];
             highpdconfig = cfg\<lparr>Severity := ''error''\<rparr>;
             receivers = receivers @ [Some (pagerduty_receiver receiverMakeItError highpdconfig)];
             criticalpdconfig = cfg\<lparr>Severity := ''critical''\<rparr>;
             receivers = receivers @ [Some (pagerduty_receiver receiverMakeItCritical criticalpdconfig)]
         in receivers))"

subsection \<open>Webhook receivers\<close>

definition createOCMAgentReceiver :: "string \<Rightarrow> Receiver ptr list" where
  "createOCMAgentReceiver ocmAgentURL =
     (if ocmAgentURL = '''' then []
      else [Some (webhook_receiver receiverOCMAgent
              \<lparr>wh_NotifierConfig = \<lparr>VSendResolved = True\<rparr>, wh_URL = ocmAgentURL,
               wh_HttpConfig = zero_HttpConfig\<rparr>)])"

definition createGoalertConfig :: "string \<Rightarrow> string \<Rightarrow> WebhookConfig" where
  "createGoalertConfig goalertURL clusterProxy =
     \<lparr>wh_NotifierConfig = \<lparr>VSendResolved = True\<rparr>, wh_URL = goalertURL,
      wh_HttpConfig = createHttpConfig clusterProxy\<rparr>"

definition createGoalertReceiver :: "string \<Rightarrow> string \<Rightarrow> string \<Rightarrow> Receiver ptr list" where
  "createGoalertReceiver goalertURL goalertReceiverName clusterProxy =
     (if goalertURL = '''' then []
      else [Some (webhook_receiver goalertReceiverName (createGoalertConfig goalertURL clusterProxy))])"

definition createHeartbeatReceivers :: "string \<Rightarrow> string \<Rightarrow> Receiver ptr list" where
  "createHeartbeatReceivers heartbeatURL clusterProxy =
     (if heartbeatURL = '''' then []
      else [Some (webhook_receiver receiverGoAlertHeartbeat
              \<lparr>wh_NotifierConfig = \<lparr>VSendResolved = True\<rparr>, wh_URL = heartbeatURL,
               wh_HttpConfig = createHttpConfig clusterProxy\<rparr>)])"

definition createWatchdogReceivers :: "string \<Rightarrow> string \<Rightarrow> Receiver ptr list" where
  "createWatchdogReceivers watchdogURL clusterProxy =
     (if watchdogURL = '''' then []
      else [Some (webhook_receiver receiverWatchdog
              \<lparr>wh_NotifierConfig = \<lparr>VSendResolved = True\<rparr>, wh_URL = watchdogURL,
               wh_HttpConfig = createHttpConfig clusterProxy\<rparr>)])"

lemmas receiver_builders =
  createCADPagerdutyReceivers_def createPagerdutyReceivers_def createOCMAgentReceiver_def
  createGoalertReceiver_def createHeartbeatReceivers_def createWatchdogReceivers_def

subsection \<open>Facts about the builders\<close>

lemma createHttpConfig_proxy [simp]: "ProxyURL (createHttpConfig p) = p"
  by (simp add: createHttpConfig_def)

text \<open>In FedRAMP the PagerDuty configuration carries nothing that identifies the cluster.\<close>

lemma pagerduty_details_fedramp:
  "pagerduty_details True c1 r1 = pagerduty_details True c2 r2"
  by (simp add: pagerduty_details_def Let_def)

lemma createPagerdutyConfig_fedramp:
  "createPagerdutyConfig True key c1 r1 proxy = createPagerdutyConfig True key c2 r2 proxy"
  by (simp add: createPagerdutyConfig_def pagerduty_details_fedramp [of c1 r1 c2 r2])

lemma createPagerdutyReceivers_fedramp:
  "createPagerdutyReceivers True key c1 r1 proxy = createPagerdutyReceivers True key c2 r2 proxy"
  "createCADPagerdutyReceivers True key c1 r1 proxy = createCADPagerdutyReceivers True key c2 r2 proxy"
  by (simp_all add: createPagerdutyReceivers_def createCADPagerdutyReceivers_def
      createPagerdutyConfig_fedramp [of key c1 r1 proxy c2 r2])

lemma pagerduty_details_distinct: "distinct (map fst (pagerduty_details fed c r))"
  by (simp add: pagerduty_details_def Let_def)

text \<open>The names the builders declare.\<close>

lemma builder_names:
  "receiver_names (createCADPagerdutyReceivers fed key c r p) =
     (if key = '''' then [] else [receiverCADPagerduty])"
  "receiver_names (createPagerdutyReceivers fed key c r p) =
     (if key = '''' then []
      else [receiverPagerduty, receiverMakeItWarning, receiverMakeItError, receiverMakeItCritical])"
  "receiver_names (createOCMAgentReceiver u) = (if u = '''' then [] else [receiverOCMAgent])"
  "receiver_names (createGoalertReceiver u n p) = (if u = '''' then [] else [n])"
  "receiver_names (createHeartbeatReceivers u p) =
     (if u = '''' then [] else [receiverGoAlertHeartbeat])"
  "receiver_names (createWatchdogReceivers u p) = (if u = '''' then [] else [receiverWatchdog])"
  by (simp_all add: receiver_builders Let_def)

lemma builder_no_nil:
  "no_nil_receivers (createCADPagerdutyReceivers fed key c r p)"
  "no_nil_receivers (createPagerdutyReceivers fed key c r p)"
  "no_nil_receivers (createOCMAgentReceiver u)"
  "no_nil_receivers (createGoalertReceiver u n p)"
  "no_nil_receivers (createHeartbeatReceivers u p)"
  "no_nil_receivers (createWatchdogReceivers u p)"
  by (simp_all add: receiver_builders Let_def)

text \<open>
  A receiver that a loader can take: it is no nil pointer, holds none, every PagerDuty
  configuration has a routing key and every webhook a URL.
\<close>

definition receiver_wf :: "Receiver ptr \<Rightarrow> bool" where
  "receiver_wf r =
     (case r of
        None \<Rightarrow> False
      | Some rcv \<Rightarrow>
          list_all (\<lambda>c. case c of None \<Rightarrow> False | Some pdc \<Rightarrow> RoutingKey pdc \<noteq> '''') (PagerdutyConfigs rcv) \<and>
          list_all (\<lambda>c. case c of None \<Rightarrow> False | Some wh \<Rightarrow> wh_URL wh \<noteq> '''') (WebhookConfigs rcv))"

lemma builders_wf:
  "list_all receiver_wf (createCADPagerdutyReceivers fed key c r p)"
  "list_all receiver_wf (createPagerdutyReceivers fed key c r p)"
  "list_all receiver_wf (createOCMAgentReceiver u)"
  "list_all receiver_wf (createGoalertReceiver u n p)"
  "list_all receiver_wf (createHeartbeatReceivers u p)"
  "list_all receiver_wf (createWatchdogReceivers u p)"
  by (simp_all add: receiver_builders receiver_wf_def createPagerdutyConfig_def
      createGoalertConfig_def Let_def)

end
