(* ===== verification/ConfigBuilder.thy ===== *)
theory ConfigBuilder
  imports SubrouteRouting ReceiverBuilders
begin

text \<open>
  The function \<open>createAlertManagerConfig\<close> of controllers/secret_controller.go: from the keys,
  URLs and namespaces found on the cluster to the whole Alertmanager configuration. Its
  parameters are the record \<open>am_params\<close>, under their names in the source. Then the
  well-formedness of the configuration, and the receivers it delivers an alert to.
\<close>

subsection \<open>The configuration\<close>

record am_params =
  pagerdutyRoutingKey :: string
  cadPagerdutyRoutingKey :: string
  goalertURLlow :: string
  goalertURLhigh :: string
  goalertURLheartbeat :: string
  watchdogURL :: string
  ocmAgentURL :: string
  clusterID :: string
  clusterRegion :: string
  clusterProxy :: string
  namespaceList :: "string list"

text \<open>The routes and the receivers, appended in step as the function goes through its inputs.\<close>

definition config_entries :: "bool \<Rightarrow> am_params \<Rightarrow> Route ptr list \<times> Receiver ptr list" where
  "config_entries fed p =
     (let (routes, receivers) = ([], []);
          (routes, receivers) =
            (if watchdogURL p \<noteq> ''''
             then (routes @ [Some createWatchdogRoute],
                   receivers @ createWatchdogReceivers (watchdogURL p) (clusterProxy p))
             else (routes, receivers));
          (routes, receivers) =
            (if ocmAgentURL p \<noteq> ''''
             then (routes @ [Some createOCMAgentRoute],
                   receivers @ createOCMAgentReceiver (ocmAgentURL p))
             else (routes, receivers));
          (routes, receivers) =
            (if cadPagerdutyRoutingKey p \<noteq> ''''
             then (routes @ [Some createCADPagerdutyRoute],
                   receivers @ createCADPagerdutyReceivers fed (cadPagerdutyRoutingKey p)
                     (clusterID p) (clusterRegion p) (clusterProxy p))
             else (routes, receivers));
          (routes, receivers) =
            (if pagerdutyRoutingKey p \<noteq> ''''
             then (routes @ [createSubroutes fed (namespaceList p) Pagerduty],
                   receivers @ createPagerdutyReceivers fed (pagerdutyRoutingKey p)
                     (clusterID p) (clusterRegion p) (clusterProxy p))
             else (routes, receivers));
          (routes, receivers) =
            (if goalertURLlow p \<noteq> '''' \<and> goalertURLhigh p \<noteq> ''''
             then (routes @ [createSubroutes fed (namespaceList p) GoAlert],
                   (receivers @ createGoalertReceiver (goalertURLlow p) receiverGoAlertLow (clusterProxy p))
                     @ createGoalertReceiver (goalertURLhigh p) receiverGoAlertHigh (clusterProxy p))
             else (routes, receivers));
          (routes, receivers) =
            (if goalertURLheartbeat p \<noteq> ''''
             then (routes @ [Some createHeartbeatRoute],
                   receivers @ createHeartbeatReceivers (goalertURLheartbeat p) (clusterProxy p))
             else (routes, receivers))
      in (routes, receivers @ [Some (zero_Receiver\<lparr>rcv_Name := receiverNull\<rparr>)]))"

abbreviation inhibit_rule :: "string list \<Rightarrow> go_map \<Rightarrow> go_map \<Rightarrow> InhibitRule" where
  "inhibit_rule eq src tgt \<equiv>
     \<lparr>TargetMatch = [], TargetMatchRE = tgt, SourceMatch = src, SourceMatchRE = [], Equal = eq\<rparr>"

definition inhibit_rules :: "InhibitRule list" where
  "inhibit_rules = [
    inhibit_rule [''namespace'', ''alertname'']
      [(''severity'', ''critical'')] [(''severity'', ''warning|info'')],
    inhibit_rule [''namespace'', ''alertname'']
      [(''severity'', ''warning'')] [(''severity'', ''info'')],
    inhibit_rule [''namespace'', ''name'']
      [(''alertname'', ''ClusterOperatorDegraded''), (''severity'', ''critical'')]
      [(''alertname'', ''ClusterOperatorDown'')],
    inhibit_rule [''node'', ''instance'']
      [(''alertname'', ''KubeNodeNotReady'')] [(''alertname'', ''KubeNodeUnreachable'')],
    inhibit_rule []
      [(''alertname'', ''KubeNodeUnreachable'')] [(''alertname'', ''SDNPodNotReady|TargetDown'')],
    inhibit_rule [''instance'']
      [(''alertname'', ''KubeNodeNotReady'')]
      [(''alertname'', ''KubeDaemonSetRolloutStuck|KubeDaemonSetMisScheduled|KubeDeploymentReplicasMismatch|KubeStatefulSetReplicasMismatch|KubePodNotReady'')],
    inhibit_rule [''namespace'']
      [(''alertname'', ''KubeDeploymentReplicasMismatch'')]
      [(''alertname'', ''KubePodNotReady|KubePodCrashLooping'')],
    inhibit_rule [''dummylabel'']
      [(''alertname'', ''ElasticsearchOperatorCSVNotSuccessful'')]
      [(''alertname'', ''ElasticsearchClusterNotHealthy'')],
    inhibit_rule [''severity'']
      [(''alertname'', ''KubeAPIErrorBudgetBurn'')] [(''alertname'', ''api-ErrorBudgetBurn'')]]"

definition root_route :: "Route ptr list \<Rightarrow> Route" where
  "root_route routes =
     Route defaultReceiver [''job''] [] [] False routes ''30s'' ''5m'' ''12h''"

definition createAlertManagerConfig :: "bool \<Rightarrow> am_params \<Rightarrow> Config" where
  "createAlertManagerConfig fed p =
     (let (routes, receivers) = config_entries fed p
      in \<lparr>Global = Some \<lparr>ResolveTimeout = ''5m'', PagerdutyURL = pagerdutyURL\<rparr>,
          cfg_Route = Some (root_route routes),
          Receivers = receivers,
          Templates = [],
          InhibitRules = map Some inhibit_rules\<rparr>)"

subsection \<open>Routes and receivers as lists of optional parts\<close>

definition has_goalert :: "am_params \<Rightarrow> bool" where
  "has_goalert p = (goalertURLlow p \<noteq> '''' \<and> goalertURLhigh p \<noteq> '''')"

lemma config_entries_routes:
  "fst (config_entries fed p) =
     optional_parts
       [(watchdogURL p \<noteq> '''', [Some createWatchdogRoute]),
        (ocmAgentURL p \<noteq> '''', [Some createOCMAgentRoute]),
        (cadPagerdutyRoutingKey p \<noteq> '''', [Some createCADPagerdutyRoute]),
        (pagerdutyRoutingKey p \<noteq> '''', [createSubroutes fed (namespaceList p) Pagerduty]),
        (has_goalert p, [createSubroutes fed (namespaceList p) GoAlert]),
        (goalertURLheartbeat p \<noteq> '''', [Some createHeartbeatRoute])]"
  by (simp add: config_entries_def has_goalert_def optional_parts_simps)

lemma config_entries_names:
  "receiver_names (snd (config_entries fed p)) =
     optional_parts
       [(watchdogURL p \<noteq> '''', [receiverWatchdog]),
        (ocmAgentURL p \<noteq> '''', [receiverOCMAgent]),
        (cadPagerdutyRoutingKey p \<noteq> '''', [receiverCADPagerduty]),
        (pagerdutyRoutingKey p \<noteq> '''',
         [receiverPagerduty, receiverMakeItWarning, receiverMakeItError, receiverMakeItCritical]),
        (has_goalert p, [receiverGoAlertLow, receiverGoAlertHigh]),
        (goalertURLheartbeat p \<noteq> '''', [receiverGoAlertHeartbeat]),
        (True, [receiverNull])]"
  by (simp add: config_entries_def builder_names has_goalert_def optional_parts_simps)

lemma config_entries_no_nil: "no_nil_receivers (snd (config_entries fed p))"
  by (simp add: config_entries_def builder_no_nil)

lemma config_entries_receivers_wf: "list_all receiver_wf (snd (config_entries fed p))"
  by (simp add: config_entries_def builders_wf receiver_wf_def)

lemma createAlertManagerConfig_simps [simp]:
  "Receivers (createAlertManagerConfig fed p) = snd (config_entries fed p)"
  "cfg_Route (createAlertManagerConfig fed p) = Some (root_route (fst (config_entries fed p)))"
  "Global (createAlertManagerConfig fed p) =
     Some \<lparr>ResolveTimeout = ''5m'', PagerdutyURL = pagerdutyURL\<rparr>"
  "InhibitRules (createAlertManagerConfig fed p) = map Some inhibit_rules"
  by (simp_all add: createAlertManagerConfig_def split: prod.splits)

end
