(* ===== verification/ConfigProperties.thy ===== *)
theory ConfigProperties
  imports ConfigBuilder
begin

text \<open>
  Properties of the configuration that \<open>createAlertManagerConfig\<close> builds: it is closed and
  well formed for every input, it delivers every alert to the
  receivers of an abstract delivery plan, and in FedRAMP it does not depend on the cluster's
  identity.
\<close>

subsection \<open>Well-formed configurations\<close>

text \<open>
  A route is well formed with respect to the declared receivers when its receiver is one of
  them, its matcher maps have distinct keys, and its children are not nil and well formed.
\<close>

primrec route_wf :: "string list \<Rightarrow> Route \<Rightarrow> bool" where
  "route_wf names (Route rcv gb m mre c rs gw gi ri) =
     (rcv \<in> set names \<and> distinct (map fst m) \<and> distinct (map fst mre) \<and>
      list_all (\<lambda>b. b = Some True) (map (map_option (route_wf names)) rs))"

text \<open>An inhibition rule is well formed when it is not nil and its maps have distinct keys.\<close>

definition inhibit_rule_wf :: "InhibitRule ptr \<Rightarrow> bool" where
  "inhibit_rule_wf r =
     (case r of
        None \<Rightarrow> False
      | Some ir \<Rightarrow> list_all (\<lambda>m. distinct (map fst m))
          [TargetMatch ir, TargetMatchRE ir, SourceMatch ir, SourceMatchRE ir])"

definition config_wf :: "Config \<Rightarrow> bool" where
  "config_wf c =
     (Global c \<noteq> None \<and> list_all inhibit_rule_wf (InhibitRules c) \<and>
      list_all receiver_wf (Receivers c) \<and> distinct (receiver_names (Receivers c)) \<and>
      '''' \<notin> set (receiver_names (Receivers c)) \<and>
      (case cfg_Route c of
         None \<Rightarrow> False
       | Some r \<Rightarrow> Match r = [] \<and> MatchRE r = [] \<and> route_wf (receiver_names (Receivers c)) r))"

lemma route_wf_mono:
  "route_wf names r \<Longrightarrow> set names \<subseteq> set names' \<Longrightarrow> route_wf names' r"
proof (induction r)
  case (Route rcv gb m mre c rs gw gi ri)
  then show ?case by (fastforce simp: list_all_iff)
qed

lemma route_wf_leaf:
  assumes "leaf r"
  shows "route_wf names r =
    (Receiver r \<in> set names \<and> distinct (map fst (Match r)) \<and> distinct (map fst (MatchRE r)))"
  using assms by (cases r) (simp add: leaf_def)

lemma fixed_subroutes_keys:
  "list_all (\<lambda>r. distinct (map fst (Match r)) \<and> distinct (map fst (MatchRE r)))
     (fixed_subroutes fed rr)"
  by (simp add: fixed_subroutes_def table_defs)

lemma namespace_subroutes_keys:
  "list_all (\<lambda>r. distinct (map fst (Match r)) \<and> distinct (map fst (MatchRE r)))
     (concat (map (namespace_subroutes receiver rr) nss))"
  by (induction nss) (simp_all add: namespace_subroutes_def)

lemma createSubroutes_wf:
  assumes "subroute_receivers receiver = Some rr"
    and "tier_receivers rr \<subseteq> set names" and "receiverDefault rr \<in> set names"
  shows "\<exists>r. createSubroutes fed nss receiver = Some r \<and> route_wf names r"
proof -
  let ?table = "append_namespaces receiver rr nss (fixed_subroutes fed rr)"
  have "route_wf names r" if "r \<in> set ?table" for r
  proof -
    from that have "leaf r" using table_leaves by (auto simp: list_all_iff)
    moreover have "Receiver r \<in> set names" using that table_receivers assms(2) by blast
    moreover have "distinct (map fst (Match r)) \<and> distinct (map fst (MatchRE r))"
      using that fixed_subroutes_keys namespace_subroutes_keys
      by (fastforce simp: append_namespaces_concat list_all_iff)
    ultimately show ?thesis by (simp add: route_wf_leaf)
  qed
  with assms(1,3) show ?thesis by (simp add: createSubroutes_def list_all_iff)
qed

lemma config_entries_closed:
  assumes "x \<in> set (fst (config_entries fed p))"
  shows "\<exists>r. x = Some r \<and> route_wf (receiver_names (snd (config_entries fed p))) r"
proof -
  let ?names = "receiver_names (snd (config_entries fed p))"
  have pd: "pagerdutyRoutingKey p \<noteq> '''' \<Longrightarrow>
      \<exists>r. createSubroutes fed (namespaceList p) Pagerduty = Some r \<and> route_wf ?names r"
    by (rule createSubroutes_wf [OF subroute_receivers.simps(2)])
      (simp_all add: tier_receivers_def config_entries_names)
  have ga: "has_goalert p \<Longrightarrow>
      \<exists>r. createSubroutes fed (namespaceList p) GoAlert = Some r \<and> route_wf ?names r"
    by (rule createSubroutes_wf [OF subroute_receivers.simps(1)])
      (simp_all add: tier_receivers_def config_entries_names)
  from assms consider
      "x = Some createWatchdogRoute" "watchdogURL p \<noteq> []"
    | "x = Some createOCMAgentRoute" "ocmAgentURL p \<noteq> []"
    | "x = Some createCADPagerdutyRoute" "cadPagerdutyRoutingKey p \<noteq> []"
    | "x = createSubroutes fed (namespaceList p) Pagerduty" "pagerdutyRoutingKey p \<noteq> []"
    | "x = createSubroutes fed (namespaceList p) GoAlert" "has_goalert p"
    | "x = Some createHeartbeatRoute" "goalertURLheartbeat p \<noteq> []"
    by (auto simp: config_entries_routes)
  then show ?thesis
  proof cases
    case 4
    with pd show ?thesis by simp
  next
    case 5
    with ga show ?thesis by simp
  qed (simp_all add: config_entries_names createWatchdogRoute_def createOCMAgentRoute_def
      createCADPagerdutyRoute_def createHeartbeatRoute_def)
qed

lemma config_entries_names_distinct: "distinct (receiver_names (snd (config_entries fed p)))"
  unfolding config_entries_names by (rule distinct_optional_parts) simp

text \<open>
  C7: for every combination of keys, URLs and namespaces, and in and outside FedRAMP, the
  configuration is well formed. No pointer in it is nil: not the global section, the root route
  or a route below it, a receiver, one of its PagerDuty or webhook configurations, or an
  inhibition rule. Receiver names are unique and not empty, every PagerDuty configuration has a
  routing key and every webhook a URL, the root has no matchers, and every route of the tree, to
  any depth, names a receiver that the configuration declares.
\<close>

theorem createAlertManagerConfig_wf: "config_wf (createAlertManagerConfig fed p)"
proof -
  let ?names = "receiver_names (snd (config_entries fed p))"
  have "receiverNull \<in> set ?names" by (simp add: config_entries_names)
  moreover have "list_all (\<lambda>b. b = Some True)
      (map (map_option (route_wf ?names)) (fst (config_entries fed p)))"
    using config_entries_closed [of _ fed p] by (fastforce simp: list_all_iff)
  ultimately have "route_wf ?names (root_route (fst (config_entries fed p)))"
    by (simp add: root_route_def)
  then show ?thesis
    using config_entries_receivers_wf config_entries_names_distinct
    by (simp add: config_wf_def root_route_def config_entries_names inhibit_rule_wf_def inhibit_rules_def)
qed

subsection \<open>Decoding\<close>

text \<open>
  C31: what decoding adds. If the plain decoder succeeds and delivers receivers without nil
  pointers, \<open>UnmarshalYAML\<close> returns its configuration, changed in the global section only, and
  an error exactly when two receivers have the same name; the error names one that occurs twice.
  Without an error the global section is the decoded one, or the zero section if there was none,
  except that an empty PagerDuty URL is replaced by PagerDuty's default one if some PagerDuty
  configuration has no URL of its own; a URL that was configured is kept.
\<close>

theorem unmarshal_verdict:
  assumes "unmarshal c0 = (c, None)" and "no_nil_receivers (Receivers c)"
  shows "\<exists>g e. UnmarshalYAML unmarshal c0 = Val (c\<lparr>Global := Some g\<rparr>, e) \<and>
    (e = None \<longleftrightarrow> distinct (receiver_names (Receivers c))) \<and>
    (\<forall>err. e = Some err \<longrightarrow>
       (\<exists>n. err = Errorf ''notification config name %q is not unique'' [n] \<and>
          1 < count_list (receiver_names (Receivers c)) n)) \<and>
    (e = None \<longrightarrow> g =
       (let g0 = (case Global c of
            None \<Rightarrow> \<lparr>ResolveTimeout = '''', PagerdutyURL = ''''\<rparr> | Some g0 \<Rightarrow> g0)
        in if PagerdutyURL g0 = '''' \<and> (\<exists>rcv pdc. Some rcv \<in> set (Receivers c) \<and>
              Some pdc \<in> set (PagerdutyConfigs rcv) \<and> pd_URL pdc = '''')
           then g0\<lparr>PagerdutyURL := ''https://events.pagerduty.com/v2/enqueue''\<rparr> else g0))"
proof -
  let ?g = "case Global c of None \<Rightarrow> \<lparr>ResolveTimeout = '''', PagerdutyURL = ''''\<rparr> | Some g \<Rightarrow> g"
  have zero: "(case Global c of None \<Rightarrow> zero_GlobalConfig | Some g \<Rightarrow> g) = ?g"
    by (cases "Global c") simp_all
  obtain g' e where g': "check_receivers {} (Receivers c) ?g = Val (g', e)"
    and e: "e = None \<longleftrightarrow> distinct (receiver_names (Receivers c))"
    using check_receivers_verdict [OF assms(2), of "{}" ?g] by auto
  from g' assms(1) have "UnmarshalYAML unmarshal c0 = Val (c\<lparr>Global := Some g'\<rparr>, e)"
    unfolding UnmarshalYAML_def zero by (simp add: Let_def zero del: zero_GlobalConfig_def)
  moreover have "\<forall>err. e = Some err \<longrightarrow>
      (\<exists>n. err = Errorf ''notification config name %q is not unique'' [n] \<and>
        1 < count_list (receiver_names (Receivers c)) n)"
    using g' check_receivers_repeated by fastforce
  moreover have "g' = (if PagerdutyURL ?g = '''' \<and> (\<exists>rcv pdc. Some rcv \<in> set (Receivers c) \<and>
        Some pdc \<in> set (PagerdutyConfigs rcv) \<and> pd_URL pdc = '''')
      then ?g\<lparr>PagerdutyURL := ''https://events.pagerduty.com/v2/enqueue''\<rparr> else ?g)" if "e = None"
    using check_receivers_exact [OF g' [unfolded that]]
    by (simp add: with_default_url_def lacks_url_def defaultPagerdutyURL_def)
  ultimately show ?thesis
    using e unfolding Let_def by blast
qed

text \<open>A receiver whose PagerDuty configuration has no URL, and no global section.\<close>

definition urlless_config :: Config where
  "urlless_config =
     \<lparr>Global = None, cfg_Route = None,
      Receivers = createPagerdutyReceivers False ''key'' ''id'' ''region'' '''',
      Templates = [], InhibitRules = []\<rparr>"

theorem unmarshal_verdict_witness:
  "UnmarshalYAML (\<lambda>_. (urlless_config, None)) urlless_config =
     Val (urlless_config\<lparr>Global := Some \<lparr>ResolveTimeout = '''',
       PagerdutyURL = ''https://events.pagerduty.com/v2/enqueue''\<rparr>\<rparr>, None)"
proof -
  let ?pdc = "createPagerdutyConfig False ''key'' ''id'' ''region'' ''''"
  have rcvs: "no_nil_receivers (Receivers urlless_config)" "Global urlless_config = None"
    "distinct (receiver_names (Receivers urlless_config))"
    by (simp_all add: urlless_config_def builder_no_nil builder_names)
  moreover have "Some (pagerduty_receiver receiverPagerduty ?pdc) \<in> set (Receivers urlless_config)"
    and "pd_URL ?pdc = ''''"
    by (simp_all add: urlless_config_def createPagerdutyReceivers_def createPagerdutyConfig_def Let_def)
  then have "\<exists>rcv pdc. Some rcv \<in> set (Receivers urlless_config) \<and>
      Some pdc \<in> set (PagerdutyConfigs rcv) \<and> pd_URL pdc = ''''" by fastforce
  ultimately show ?thesis
    using unmarshal_verdict [of "\<lambda>_. (urlless_config, None)" urlless_config urlless_config] by auto
qed

end
