(* ===== verification/DeliveryPlan.thy ===== *)
theory DeliveryPlan
  imports ConfigProperties
begin

text \<open>
  Which receivers an alert reaches. The delivery plan is the abstract specification: a short
  function from the operator's inputs and an alert to the receivers, without a routing tree.
  The main theorem says that the configuration implements the plan under every Alertmanager
  that routes as documented. What SREs rely on then follows from the plan: heartbeats always
  arrive, which few informational alerts and managed notifications page, and critical alerts of
  a monitored namespace page in both systems.
\<close>

subsection \<open>The plan\<close>

definition is_watchdog :: "alert \<Rightarrow> bool" where
  "is_watchdog a = (go_get a ''alertname'' = ''Watchdog'')"

definition is_managed_notification :: "alert \<Rightarrow> bool" where
  "is_managed_notification a = (go_get a managedNotificationLabel = ''true'')"

definition is_cad :: "alert \<Rightarrow> bool" where
  "is_cad a = (go_get a routeCADLabel = routeCADLabelValue)"

definition pager_delivery :: "re_matcher \<Rightarrow> bool \<Rightarrow> am_params \<Rightarrow> receiverType \<Rightarrow> alert \<Rightarrow> string" where
  "pager_delivery re fed p tier a =
     table_delivery re fed (namespaceList p) tier (the (subroute_receivers tier)) a"

definition delivery_plan :: "re_matcher \<Rightarrow> bool \<Rightarrow> am_params \<Rightarrow> alert \<Rightarrow> string list" where
  "delivery_plan re fed p a =
     (let snitch = optional_parts [(watchdogURL p \<noteq> '''' \<and> is_watchdog a, [receiverWatchdog])];
          rest =
            (if ocmAgentURL p \<noteq> '''' \<and> is_managed_notification a then [receiverOCMAgent]
             else if cadPagerdutyRoutingKey p \<noteq> '''' \<and> is_cad a then [receiverCADPagerduty]
             else optional_parts
               [(pagerdutyRoutingKey p \<noteq> '''', [pager_delivery re fed p Pagerduty a]),
                (has_goalert p, [pager_delivery re fed p GoAlert a]),
                (goalertURLheartbeat p \<noteq> '''' \<and> is_watchdog a, [receiverGoAlertHeartbeat])])
      in if snitch @ rest = [] then [receiverNull] else snitch @ rest)"

subsection \<open>The configuration implements the plan\<close>

lemma walk_optional_parts:
  "walk n (optional_parts ((b, xs) # parts)) =
     (if b then walk n (xs @ optional_parts parts) else walk n (optional_parts parts))"
  by (simp add: optional_parts_simps)

lemma single_routes_continue:
  "Continue createWatchdogRoute" "Continue createHeartbeatRoute"
  "\<not> Continue createOCMAgentRoute" "\<not> Continue createCADPagerdutyRoute"
  by (simp_all add: createWatchdogRoute_def createHeartbeatRoute_def createOCMAgentRoute_def
      createCADPagerdutyRoute_def)

lemma createSubroutes_total:
  assumes "subroute_receivers tier = Some rr"
  obtains r where "createSubroutes fed nss tier = Some r" "Continue r" "Match r = []" "MatchRE r = []"
  using assms by (cases tier) (auto simp: createSubroutes_def)

context alertmanager_routing
begin

lemma notify_childless:
  "Routes r = [] \<Longrightarrow> notify a r = (if route_matches re r a then [Receiver r] else [])"
  by (auto simp: notify_no_match notify_match)

lemma notify_single_routes:
  "notify a createWatchdogRoute = (if is_watchdog a then [receiverWatchdog] else [])"
  "notify a createHeartbeatRoute = (if is_watchdog a then [receiverGoAlertHeartbeat] else [])"
  "notify a createOCMAgentRoute = (if is_managed_notification a then [receiverOCMAgent] else [])"
  "notify a createCADPagerdutyRoute = (if is_cad a then [receiverCADPagerduty] else [])"
  by (simp_all add: notify_childless createWatchdogRoute_def createHeartbeatRoute_def
      createOCMAgentRoute_def createCADPagerdutyRoute_def is_watchdog_def
      is_managed_notification_def is_cad_def)

lemma walk_subroutes:
  assumes "subroute_receivers tier = Some rr"
  shows "walk (notify a) (createSubroutes fed nss tier # rs) =
    table_delivery re fed nss tier rr a # walk (notify a) rs"
proof -
  obtain r where "createSubroutes fed nss tier = Some r" "Continue r"
    using createSubroutes_total [OF assms] .
  then show ?thesis using notify_subroutes [OF _ assms, of fed nss r a] by simp
qed

lemma walk_config_routes:
  "walk (notify a) (fst (config_entries fed p)) =
    (let snitch = (if watchdogURL p \<noteq> '''' \<and> is_watchdog a then [receiverWatchdog] else []);
         tail = optional_parts
               [(pagerdutyRoutingKey p \<noteq> '''', [pager_delivery re fed p Pagerduty a]),
                (has_goalert p, [pager_delivery re fed p GoAlert a]),
                (goalertURLheartbeat p \<noteq> '''' \<and> is_watchdog a, [receiverGoAlertHeartbeat])]
     in snitch @
       (if ocmAgentURL p \<noteq> '''' \<and> is_managed_notification a then [receiverOCMAgent]
        else if cadPagerdutyRoutingKey p \<noteq> '''' \<and> is_cad a then [receiverCADPagerduty]
        else tail))"
proof -
  let ?hb = "[(goalertURLheartbeat p \<noteq> '''', [Some createHeartbeatRoute])]"
  let ?ga = "(has_goalert p, [createSubroutes fed (namespaceList p) GoAlert]) # ?hb"
  let ?pd = "(pagerdutyRoutingKey p \<noteq> '''', [createSubroutes fed (namespaceList p) Pagerduty]) # ?ga"
  let ?cad = "(cadPagerdutyRoutingKey p \<noteq> '''', [Some createCADPagerdutyRoute]) # ?pd"
  let ?ocm = "(ocmAgentURL p \<noteq> '''', [Some createOCMAgentRoute]) # ?cad"
  let ?tail = "optional_parts
    [(pagerdutyRoutingKey p \<noteq> '''', [pager_delivery re fed p Pagerduty a]),
     (has_goalert p, [pager_delivery re fed p GoAlert a]),
     (goalertURLheartbeat p \<noteq> '''' \<and> is_watchdog a, [receiverGoAlertHeartbeat])]"
  have hb: "walk (notify a) (optional_parts ?hb) =
      (if goalertURLheartbeat p \<noteq> '''' \<and> is_watchdog a then [receiverGoAlertHeartbeat] else [])"
    by (simp add: optional_parts_simps notify_single_routes single_routes_continue)
  have ga: "walk (notify a) (optional_parts ?ga) =
      (if has_goalert p then [pager_delivery re fed p GoAlert a] else []) @
      walk (notify a) (optional_parts ?hb)"
    unfolding walk_optional_parts [of _ _ _ ?hb] append.simps
    by (simp add: walk_subroutes pager_delivery_def)
  have pd: "walk (notify a) (optional_parts ?pd) = ?tail"
    unfolding walk_optional_parts [of _ _ _ ?ga] append.simps
    by (simp add: walk_subroutes pager_delivery_def ga hb) (simp add: optional_parts_simps)
  have cad: "walk (notify a) (optional_parts ?cad) =
      (if cadPagerdutyRoutingKey p \<noteq> '''' \<and> is_cad a then [receiverCADPagerduty] else ?tail)"
    unfolding walk_optional_parts [of _ _ _ ?pd] append.simps walk.simps pd
    by (simp add: notify_single_routes single_routes_continue)
  have ocm: "walk (notify a) (optional_parts ?ocm) =
      (if ocmAgentURL p \<noteq> '''' \<and> is_managed_notification a then [receiverOCMAgent]
       else walk (notify a) (optional_parts ?cad))"
    unfolding walk_optional_parts [of _ _ _ ?cad] append.simps walk.simps
    by (simp add: notify_single_routes single_routes_continue)
  show ?thesis
    unfolding config_entries_routes walk_optional_parts [of _ _ _ ?ocm] append.simps walk.simps ocm cad
    by (simp add: notify_single_routes single_routes_continue Let_def)
qed

lemma notify_config:
  "notify a (root_route (fst (config_entries fed p))) = delivery_plan re fed p a"
proof -
  have "route_matches re (root_route rs) a" "Routes (root_route rs) = rs"
    "Receiver (root_route rs) = receiverNull" for rs
    by (simp_all add: root_route_def)
  then show ?thesis
    by (simp add: notify_match walk_config_routes delivery_plan_def Let_def optional_parts_simps)
qed

end

subsection \<open>What the plan guarantees\<close>

definition delivers :: "(alert \<Rightarrow> Route \<Rightarrow> string list) \<Rightarrow> Config \<Rightarrow> alert \<Rightarrow> string list" where
  "delivers notify c a = (case cfg_Route c of None \<Rightarrow> [] | Some r \<Rightarrow> notify a r)"

text \<open>The receivers that notify an SRE: PagerDuty with its severities, and GoAlert.\<close>

definition notifying_receivers :: "string list" where
  "notifying_receivers =
     [receiverPagerduty, receiverMakeItWarning, receiverMakeItError, receiverMakeItCritical,
      receiverGoAlertLow, receiverGoAlertHigh]"

lemma delivers_plan:
  assumes "alertmanager_routing re notify"
  shows "delivers notify (createAlertManagerConfig fed p) a = delivery_plan re fed p a"
  using alertmanager_routing.notify_config [OF assms] by (simp add: delivers_def)

text \<open>
  A plan whose pagers are both silent notifies nobody, whatever else is configured.
\<close>

lemma plan_receivers:
  "set (delivery_plan re fed p a) \<subseteq>
     {receiverNull, receiverWatchdog, receiverOCMAgent, receiverCADPagerduty, receiverGoAlertHeartbeat} \<union>
     {x. pagerdutyRoutingKey p \<noteq> '''' \<and> x = pager_delivery re fed p Pagerduty a} \<union>
     {x. has_goalert p \<and> x = pager_delivery re fed p GoAlert a}"
  by (auto simp: delivery_plan_def Let_def split: if_splits)

lemma plan_silent:
  assumes "pagerdutyRoutingKey p = '''' \<or> pager_delivery re fed p Pagerduty a = receiverNull"
    and "\<not> has_goalert p \<or> pager_delivery re fed p GoAlert a = receiverNull"
  shows "set (delivery_plan re fed p a) \<inter> set notifying_receivers = {}"
proof -
  have "set (delivery_plan re fed p a) \<subseteq>
      {receiverNull, receiverWatchdog, receiverOCMAgent, receiverCADPagerduty, receiverGoAlertHeartbeat}"
    using plan_receivers [of re fed p a] assms by blast
  then show ?thesis by (auto simp: notifying_receivers_def)
qed

subsection \<open>A sample cluster for the witnesses\<close>

text \<open>
  A cluster with every integration configured, and a matcher that knows the two expressions
  the samples use: an anchored literal matches its text.
\<close>

definition sample_params :: am_params where
  "sample_params =
     \<lparr>pagerdutyRoutingKey = ''pdkey'', cadPagerdutyRoutingKey = ''cadkey'',
      goalertURLlow = ''https://ga/low'', goalertURLhigh = ''https://ga/high'',
      goalertURLheartbeat = ''https://ga/hb'', watchdogURL = ''https://dms'',
      ocmAgentURL = ''http://ocm'', clusterID = ''id-1'', clusterRegion = ''us-east-1'',
      clusterProxy = '''', namespaceList = [''^openshift-etcd$'', ''^openshift-dns$'']\<rparr>"

definition sample_re :: re_matcher where
  "sample_re p s = (p = ''^'' @ s @ ''$'')"

subsection \<open>Properties\<close>

text \<open>
  C2: the configuration implements the delivery plan. For every input and every alert, an
  Alertmanager that walks the routing tree as documented notifies exactly the receivers of the
  plan, in the plan's order: the snitch for a watchdog alert; then OCM Agent alone for a
  managed notification, else CAD alone for a CAD alert, else the PagerDuty table, the GoAlert
  table and the GoAlert heartbeat; and the null receiver when nothing else is notified.
\<close>

theorem config_implements_plan:
  assumes "alertmanager_routing re notify"
  shows "delivers notify (createAlertManagerConfig fed p) a = delivery_plan re fed p a"
  using assms by (rule delivers_plan)

theorem config_implements_plan_witness:
  "delivers (am_notify sample_re) (createAlertManagerConfig False sample_params)
     [(''alertname'', ''Watchdog''), (''severity'', ''none'')] =
   [receiverWatchdog, receiverNull, receiverNull, receiverGoAlertHeartbeat]"
proof -
  let ?a = "[(''alertname'', ''Watchdog''), (''severity'', ''none'')]"
  have "pager_delivery sample_re False sample_params tier ?a = receiverNull" for tier
    unfolding pager_delivery_def by (rule watchdog_rule_settles) simp_all
  then have "delivery_plan sample_re False sample_params ?a =
      [receiverWatchdog, receiverNull, receiverNull, receiverGoAlertHeartbeat]"
    by (simp add: delivery_plan_def sample_params_def is_watchdog_def is_managed_notification_def
        is_cad_def has_goalert_def optional_parts_simps)
  then show ?thesis
    using config_implements_plan [OF am_ref.alertmanager_routing_axioms, of sample_re False
        sample_params ?a] by simp
qed



text \<open>
  All receivers of the paging services: those above and PagerDuty's service for CAD. The alerts
  that the tables escalate reach the critical receivers of the pagers that are configured.
\<close>

definition paging_receivers :: "string list" where
  "paging_receivers = receiverCADPagerduty # notifying_receivers"

definition critical_receivers :: "am_params \<Rightarrow> string set" where
  "critical_receivers p =
     (if pagerdutyRoutingKey p \<noteq> '''' then {receiverMakeItCritical} else {}) \<union>
     (if has_goalert p then {receiverGoAlertHigh} else {})"

text \<open>
  The pagers of an alert that both tables either escalate or drop, depending on \<open>escalated\<close>.
\<close>

lemma plan_pages:
  assumes "\<And>tier rr. subroute_receivers tier = Some rr \<Longrightarrow> pager_delivery re fed p tier a =
      (if escalated then receiverCritical rr else receiverNull)"
  shows "set (delivery_plan re fed p a) \<inter> set paging_receivers =
    (if ocmAgentURL p \<noteq> '''' \<and> is_managed_notification a then {}
     else if cadPagerdutyRoutingKey p \<noteq> '''' \<and> is_cad a then {receiverCADPagerduty}
     else if escalated then critical_receivers p else {})"
proof -
  have tiers: "pager_delivery re fed p Pagerduty a = (if escalated then receiverMakeItCritical else receiverNull)"
    "pager_delivery re fed p GoAlert a = (if escalated then receiverGoAlertHigh else receiverNull)"
    using assms [of Pagerduty] assms [of GoAlert] by simp_all
  show ?thesis
    by (auto simp: delivery_plan_def Let_def optional_parts_simps tiers critical_receivers_def
        paging_receivers_def notifying_receivers_def split: if_splits)
qed

text \<open>
  C21: whom an informational alert pages. An alert of severity \<open>info\<close>, whatever its other labels
  and whatever is configured, reaches no PagerDuty and no GoAlert receiver, with two exceptions
  that the table and the routes make: one labelled for CAD reaches CAD's PagerDuty service, if
  that is configured and the alert is not handed to OCM Agent; and the two alerts about a
  control-plane machine in \<open>openshift-machine-api\<close> reach the critical receivers, since their
  rules come before the rule for informational alerts.
\<close>

theorem info_pages:
  assumes "alertmanager_routing re notify" and "go_get a ''severity'' = ''info''"
  shows "set (delivers notify (createAlertManagerConfig fed p) a) \<inter> set paging_receivers =
    (if ocmAgentURL p \<noteq> '''' \<and> is_managed_notification a then {}
     else if cadPagerdutyRoutingKey p \<noteq> '''' \<and> is_cad a then {receiverCADPagerduty}
     else if control_plane_machine_alert re a then critical_receivers p else {})"
  unfolding delivers_plan [OF assms(1)]
  by (rule plan_pages) (auto simp: pager_delivery_def info_delivery [OF assms(2)])

text \<open>An informational alert of a monitored namespace, and one about a machine.\<close>

theorem info_pages_witness:
  "set (delivers (am_notify sample_re) (createAlertManagerConfig False sample_params)
     [(''alertname'', ''KubePodNotReady''), (''severity'', ''info''),
      (''namespace'', ''openshift-etcd''), (''prometheus'', ''openshift-monitoring/k8s'')])
     \<inter> set paging_receivers = {} \<and>
   set (delivers (am_notify (\<lambda>p s. True)) (createAlertManagerConfig False sample_params)
     [(''alertname'', ''MachineWithNoRunningPhase''), (''severity'', ''info''),
      (''namespace'', ''openshift-machine-api''), (''name'', ''c-master-0'')])
     \<inter> set paging_receivers = {receiverMakeItCritical, receiverGoAlertHigh}"
  using info_pages [OF am_ref.alertmanager_routing_axioms,
      of "[(''alertname'', ''KubePodNotReady''), (''severity'', ''info''),
        (''namespace'', ''openshift-etcd''), (''prometheus'', ''openshift-monitoring/k8s'')]"
      sample_re False sample_params]
    info_pages [OF am_ref.alertmanager_routing_axioms,
      of "[(''alertname'', ''MachineWithNoRunningPhase''), (''severity'', ''info''),
        (''namespace'', ''openshift-machine-api''), (''name'', ''c-master-0'')]"
      "\<lambda>p s. True" False sample_params]
  by (simp add: control_plane_machine_alert_def is_managed_notification_def is_cad_def
      sample_params_def critical_receivers_def has_goalert_def insert_commute)

text \<open>
  C22: where a managed notification goes. When OCM Agent is configured, an alert labelled for it
  reaches OCM Agent, the snitch if it is a watchdog, and nobody else. When it is not configured,
  the notification reaches no PagerDuty and no GoAlert receiver, with these exceptions: one that
  is also labelled for CAD reaches CAD's PagerDuty service, if configured, and the alerts about
  a control-plane machine and about the quota of etcd, whose rules come before the rule for
  managed notifications, reach the critical receivers.
\<close>

theorem managed_notification_goes:
  assumes "alertmanager_routing re notify" and "is_managed_notification a"
  shows "if ocmAgentURL p \<noteq> ''''
    then set (delivers notify (createAlertManagerConfig fed p) a) =
      insert receiverOCMAgent (if watchdogURL p \<noteq> '''' \<and> is_watchdog a then {receiverWatchdog} else {})
    else set (delivers notify (createAlertManagerConfig fed p) a) \<inter> set paging_receivers =
      (if cadPagerdutyRoutingKey p \<noteq> '''' \<and> is_cad a then {receiverCADPagerduty}
       else if control_plane_machine_alert re a \<or> etcd_quota_alert a then critical_receivers p
       else {})"
proof -
  have "set (delivery_plan re fed p a) \<inter> set paging_receivers =
    (if ocmAgentURL p \<noteq> '''' \<and> is_managed_notification a then {}
     else if cadPagerdutyRoutingKey p \<noteq> '''' \<and> is_cad a then {receiverCADPagerduty}
     else if control_plane_machine_alert re a \<or> etcd_quota_alert a then critical_receivers p else {})"
    using assms(2)
    by (intro plan_pages)
      (auto simp: pager_delivery_def is_managed_notification_def managed_notification_delivery)
  moreover have "set (delivery_plan re fed p a) =
      insert receiverOCMAgent (if watchdogURL p \<noteq> '''' \<and> is_watchdog a then {receiverWatchdog} else {})"
    if "ocmAgentURL p \<noteq> ''''"
    using that assms(2) by (auto simp: delivery_plan_def Let_def optional_parts_simps)
  ultimately show ?thesis by (simp add: delivers_plan [OF assms(1)])
qed

text \<open>The quota alert as a managed notification, with and without OCM Agent.\<close>

theorem managed_notification_goes_witness:
  "set (delivers (am_notify sample_re) (createAlertManagerConfig False sample_params)
     [(''alertname'', ''etcdDatabaseQuotaLowSpace''), (''send_managed_notification'', ''true''),
      (''severity'', ''warning'')]) = {receiverOCMAgent} \<and>
   set (delivers (am_notify sample_re)
     (createAlertManagerConfig False (sample_params\<lparr>ocmAgentURL := ''''\<rparr>))
     [(''alertname'', ''etcdDatabaseQuotaLowSpace''), (''send_managed_notification'', ''true''),
      (''severity'', ''warning'')]) \<inter> set paging_receivers =
   {receiverMakeItCritical, receiverGoAlertHigh}"
  using managed_notification_goes [OF am_ref.alertmanager_routing_axioms,
      of "[(''alertname'', ''etcdDatabaseQuotaLowSpace''), (''send_managed_notification'', ''true''),
      (''severity'', ''warning'')]" sample_params sample_re False]
    managed_notification_goes [OF am_ref.alertmanager_routing_axioms,
      of "[(''alertname'', ''etcdDatabaseQuotaLowSpace''), (''send_managed_notification'', ''true''),
      (''severity'', ''warning'')]" "sample_params\<lparr>ocmAgentURL := ''''\<rparr>" sample_re False]
  by (simp add: is_managed_notification_def etcd_quota_alert_def is_cad_def is_watchdog_def
      sample_params_def critical_receivers_def has_goalert_def insert_commute)

text \<open>
  The rules of the table that are not about a namespace: an alert that none of them matches is
  left to the namespace rules.
\<close>

definition claimed_by_fixed_rule :: "re_matcher \<Rightarrow> bool \<Rightarrow> alert \<Rightarrow> bool" where
  "claimed_by_fixed_rule re fed a =
     list_ex (\<lambda>r. route_matches re r a)
       (fixed_subroutes fed (the (subroute_receivers Pagerduty)))"

lemma claimed_by_fixed_rule:
  "list_ex (\<lambda>r. route_matches re r a) (fixed_subroutes fed rr) = claimed_by_fixed_rule re fed a"
  unfolding claimed_by_fixed_rule_def by (rule fixed_subroutes_matchers)

lemma pager_delivery_unclaimed:
  assumes "\<not> claimed_by_fixed_rule re fed a" and "platform_alert a"
    and "in_namespaces re (namespaceList p) a"
  shows "pager_delivery re fed p Pagerduty a = receiverPagerduty"
    and "pager_delivery re fed p GoAlert a =
      severity_receiver (the (subroute_receivers GoAlert)) (go_get a ''severity'')"
  using assms goalert_namespace_rules [of a re "the (subroute_receivers GoAlert)" "namespaceList p"]
  by (simp_all add: pager_delivery_def table_delivery_split claimed_by_fixed_rule
      pagerduty_namespace_rules)

text \<open>
  C10: no alert of a monitored namespace is lost. An alert from the platform's Prometheus whose
  namespace matches one of the monitored expressions, that no special rule of the table claims
  and that is not handed to OCM Agent or CAD, reaches PagerDuty when that is configured,
  and GoAlert, when configured, at the receiver of its severity: critical and error alerts
  page, warnings go to the low-priority receiver, any other severity is dropped.
\<close>

theorem monitored_namespace_pages:
  assumes "alertmanager_routing re notify"
    and "platform_alert a" and "in_namespaces re (namespaceList p) a"
    and "\<not> claimed_by_fixed_rule re fed a"
    and "ocmAgentURL p = '''' \<or> \<not> is_managed_notification a"
    and "cadPagerdutyRoutingKey p = '''' \<or> \<not> is_cad a"
  shows "(pagerdutyRoutingKey p \<noteq> '''' \<longrightarrow>
      receiverPagerduty \<in> set (delivers notify (createAlertManagerConfig fed p) a)) \<and>
    (has_goalert p \<longrightarrow>
      (if go_get a ''severity'' \<in> {''critical'', ''error''} then receiverGoAlertHigh
       else if go_get a ''severity'' = ''warning'' then receiverGoAlertLow else receiverNull)
      \<in> set (delivers notify (createAlertManagerConfig fed p) a))"
  using assms(5,6) pager_delivery_unclaimed [OF assms(4,2,3)]
  by (auto simp: delivers_plan [OF assms(1)] delivery_plan_def Let_def optional_parts_simps
      severity_receiver_def)

theorem monitored_namespace_pages_witness:
  "receiverPagerduty \<in> set (delivers (am_notify sample_re) (createAlertManagerConfig False sample_params)
     [(''alertname'', ''DNSDown''), (''severity'', ''critical''), (''namespace'', ''openshift-dns''),
      (''prometheus'', ''openshift-monitoring/k8s'')])"
proof -
  let ?a = "[(''alertname'', ''DNSDown''), (''severity'', ''critical''), (''namespace'', ''openshift-dns''),
      (''prometheus'', ''openshift-monitoring/k8s'')]"
  have "\<not> claimed_by_fixed_rule sample_re False ?a"
    by (simp add: claimed_by_fixed_rule_def fixed_subroutes_def table_defs sample_re_def)
  then show ?thesis
    using monitored_namespace_pages [OF am_ref.alertmanager_routing_axioms,
        of ?a sample_re sample_params False]
    by (simp add: platform_alert_def in_namespaces_def sample_params_def sample_re_def
        is_managed_notification_def is_cad_def)
qed

text \<open>
  C29: the two pagers are silenced alike. For an alert that some special rule of the table
  claims, PagerDuty is not notified exactly when GoAlert is not: no exception is made for one
  of the two systems only.
\<close>

theorem pagers_silenced_alike:
  assumes "claimed_by_fixed_rule re fed a"
  shows "(pager_delivery re fed p GoAlert a = receiverNull) =
    (pager_delivery re fed p Pagerduty a = receiverNull)"
  using fixed_table_agrees [of "the (subroute_receivers GoAlert)" "the (subroute_receivers Pagerduty)"
      re a fed "namespaceList p"] assms
  unfolding pager_delivery_def by (simp add: claimed_by_fixed_rule)

theorem pagers_silenced_alike_witness:
  "(pager_delivery sample_re False sample_params GoAlert [(''alertname'', ''HAProxyDown'')] = receiverNull) =
   (pager_delivery sample_re False sample_params Pagerduty [(''alertname'', ''HAProxyDown'')] = receiverNull)"
  by (rule pagers_silenced_alike)
    (simp add: claimed_by_fixed_rule_def fixed_subroutes_def table_defs sample_re_def)

text \<open>
  Without keys nobody is notified. If the configuration is built without a PagerDuty key
  and without both GoAlert URLs, no alert reaches a PagerDuty or GoAlert receiver: the silence
  that the operator keeps while a cluster is being installed.
\<close>

theorem no_keys_no_pages:
  assumes "alertmanager_routing re notify"
    and "pagerdutyRoutingKey p = ''''" and "goalertURLlow p = '''' \<or> goalertURLhigh p = ''''"
  shows "set (delivers notify (createAlertManagerConfig fed p) a) \<inter> set notifying_receivers = {}"
  unfolding delivers_plan [OF assms(1)]
  using assms(2,3) by (intro plan_silent) (auto simp: has_goalert_def)

theorem no_keys_no_pages_witness:
  "set (delivers (am_notify sample_re)
     (createAlertManagerConfig False (sample_params\<lparr>pagerdutyRoutingKey := '''', goalertURLhigh := ''''\<rparr>))
     [(''alertname'', ''DNSDown''), (''severity'', ''critical''), (''namespace'', ''openshift-dns''),
      (''prometheus'', ''openshift-monitoring/k8s'')]) \<inter> set notifying_receivers = {}"
  by (rule no_keys_no_pages [OF am_ref.alertmanager_routing_axioms]) simp_all

text \<open>
  C32: in FedRAMP the configuration reveals nothing about the cluster. Two FedRAMP clusters
  that differ only in their cluster id and region get the same configuration, down to the
  templates and details sent to PagerDuty.
\<close>

theorem fedramp_independent_of_cluster:
  "createAlertManagerConfig True (p\<lparr>clusterID := c1, clusterRegion := r1\<rparr>) =
   createAlertManagerConfig True (p\<lparr>clusterID := c2, clusterRegion := r2\<rparr>)"
  unfolding createAlertManagerConfig_def config_entries_def
  by (cases p) (simp only: am_params.simps createPagerdutyReceivers_fedramp [of _ c1 r1 _ c2 r2])

text \<open>
  C33: FedRAMP changes the routing of one alert only, the operator-down alert of the monitoring
  stack, which other clusters silence.
\<close>

theorem fedramp_routing_difference:
  assumes "alertmanager_routing re notify"
    and "go_get a ''alertname'' \<noteq> ''ClusterOperatorDown'' \<or> go_get a ''name'' \<noteq> ''monitoring''"
  shows "delivers notify (createAlertManagerConfig True p) a =
    delivers notify (createAlertManagerConfig False p) a"
proof -
  have "pager_delivery re True p tier a = pager_delivery re False p tier a" for tier
    using table_delivery_fedramp [OF assms(2)] by (simp add: pager_delivery_def)
  then show ?thesis by (simp add: delivers_plan [OF assms(1)] delivery_plan_def)
qed

theorem fedramp_routing_difference_witness:
  "delivers (am_notify sample_re) (createAlertManagerConfig True sample_params)
     [(''alertname'', ''ClusterOperatorDown''), (''name'', ''dns'')] =
   delivers (am_notify sample_re) (createAlertManagerConfig False sample_params)
     [(''alertname'', ''ClusterOperatorDown''), (''name'', ''dns'')]"
  by (rule fedramp_routing_difference [OF am_ref.alertmanager_routing_axioms]) simp

text \<open>
  C39: a rule that never decides. The rule for the mount points of the IBM cloud storage plugin
  is in the table, but deleting it changes the delivery of no alert: an earlier rule takes
  every alert it matches.
\<close>

theorem ibm_mountpoint_rule_dead:
  "ibm_mountpoint_rule \<in> set (fixed_subroutes fed rr) \<and>
   table_delivery re fed nss tier rr a =
     first_match re a
       (remove1 ibm_mountpoint_rule (append_namespaces tier rr nss (fixed_subroutes fed rr)))
       (receiverDefault rr)"
proof (cases "route_matches re ibm_mountpoint_rule a")
  case True
  then show ?thesis
    using ibm_mountpoint_rule_in [of rr] ibm_mountpoint_rule_late [of rr]
      first_match_claimed [OF ibm_mountpoint_rule_shadowed]
    by (simp add: table_delivery_def append_namespaces_concat fixed_subroutes_def remove1_append)
next
  case False
  then show ?thesis
    using ibm_mountpoint_rule_in [of rr]
    by (simp add: table_delivery_def fixed_subroutes_def first_match_remove1)
qed

end
