(* ===== verification/Inhibition.thy ===== *)
theory Inhibition
  imports DeliveryPlan
begin

text \<open>
  The inhibition rules of the configuration: which firing alert keeps Alertmanager from
  notifying about which other. Alertmanager's use of the rules is an interface, as its routing
  is; the rules of \<open>createAlertManagerConfig\<close> are shown to be equivalent to a table of cause and
  consequence, from which follows what they can and cannot silence.
\<close>

subsection \<open>Inhibition in Alertmanager\<close>

text \<open>
  One side of a rule matches an alert by its equality matchers and its regular expressions. A
  rule inhibits an alert on its target side by one on its source side if both agree on the
  labels listed; an absent label counts as empty. Two alerts that both match both sides do not
  inhibit each other.
\<close>

definition side_matches :: "re_matcher \<Rightarrow> go_map \<Rightarrow> go_map \<Rightarrow> alert \<Rightarrow> bool" where
  "side_matches re eqs exprs a =
     (list_all (\<lambda>(k, v). go_get a k = v) eqs \<and> list_all (\<lambda>(k, e). re e (go_get a k)) exprs)"

definition rule_inhibits :: "re_matcher \<Rightarrow> InhibitRule \<Rightarrow> alert \<Rightarrow> alert \<Rightarrow> bool" where
  "rule_inhibits re r s t =
     (let source = side_matches re (SourceMatch r) (SourceMatchRE r);
          target = side_matches re (TargetMatch r) (TargetMatchRE r)
      in source s \<and> target t \<and> list_all (\<lambda>l. go_get s l = go_get t l) (Equal r) \<and>
         \<not> (source t \<and> target s))"

text \<open>Literals joined by bars: an anchored expression that matches just one of them.\<close>

fun alternatives :: "string list \<Rightarrow> string" where
  "alternatives [] = ''''"
| "alternatives [n] = n"
| "alternatives (n # ns) = n @ ''|'' @ alternatives ns"

definition plain_literal :: "string \<Rightarrow> bool" where
  "plain_literal n = (n \<noteq> [] \<and> list_all (\<lambda>c. c \<notin> set ''|.*+?()[]{}^$'' \<and> c \<noteq> CHR 0x5C) n)"

locale alertmanager_inhibition =
  fixes re :: re_matcher
    and mutes :: "InhibitRule ptr list \<Rightarrow> alert list \<Rightarrow> alert \<Rightarrow> bool"
  assumes re_alternatives:
      "names \<noteq> [] \<Longrightarrow> list_all plain_literal names \<Longrightarrow> re (alternatives names) v = (v \<in> set names)"
    and mutes_iff: "mutes (map Some rules) firing a =
      (\<exists>s \<in> set firing. \<exists>r \<in> set rules. rule_inhibits re r s a)"

text \<open>
  A reference implementation: the expression is split at its bars, other expressions are taken
  literally.
\<close>

fun split_bars :: "string \<Rightarrow> string list" where
  "split_bars [] = [[]]"
| "split_bars (c # cs) =
     (if c = CHR ''|'' then [] # split_bars cs
      else case split_bars cs of [] \<Rightarrow> [[c]] | n # ns \<Rightarrow> (c # n) # ns)"

definition bars_re :: re_matcher where
  "bars_re e v = (v \<in> set (split_bars e))"

definition am_mutes :: "re_matcher \<Rightarrow> InhibitRule ptr list \<Rightarrow> alert list \<Rightarrow> alert \<Rightarrow> bool" where
  "am_mutes re rules firing a =
     list_ex (\<lambda>s. list_ex (\<lambda>r. case r of None \<Rightarrow> False | Some r \<Rightarrow> rule_inhibits re r s a) rules) firing"

lemma split_bars_literal:
  "CHR ''|'' \<notin> set n \<Longrightarrow> split_bars n = [n]"
  "CHR ''|'' \<notin> set n \<Longrightarrow> split_bars (n @ CHR ''|'' # cs) = n # split_bars cs"
  by (induction n) auto

lemma plain_literal_bar: "plain_literal n \<Longrightarrow> CHR ''|'' \<notin> set n"
  by (auto simp: plain_literal_def list_all_iff)

lemma split_bars_alternatives:
  "names \<noteq> [] \<Longrightarrow> list_all plain_literal names \<Longrightarrow> split_bars (alternatives names) = names"
proof (induction names rule: alternatives.induct)
  case (2 n)
  then show ?case by (simp add: plain_literal_bar split_bars_literal(1))
next
  case (3 n m ns)
  then show ?case by (simp add: plain_literal_bar split_bars_literal(2))
qed simp

interpretation am_ref_inhibition: alertmanager_inhibition bars_re "am_mutes bars_re"
  by unfold_locales
    (simp_all add: bars_re_def split_bars_alternatives am_mutes_def list_ex_iff)

subsection \<open>The table of causes and consequences\<close>

text \<open>
  Who inhibits whom, by name: an alert of higher severity of the same alert in the same
  namespace, or an alert that explains the other.
\<close>

definition agree_on :: "string list \<Rightarrow> alert \<Rightarrow> alert \<Rightarrow> bool" where
  "agree_on ls s t = list_all (\<lambda>l. go_get s l = go_get t l) ls"

definition outranks :: "string \<Rightarrow> string \<Rightarrow> bool" where
  "outranks v w = (v = ''critical'' \<and> w \<in> {''warning'', ''info''} \<or> v = ''warning'' \<and> w = ''info'')"

definition explains :: "alert \<Rightarrow> alert \<Rightarrow> bool" where
  "explains s t =
     (let n = go_get s ''alertname''; m = go_get t ''alertname'' in
      n = ''ClusterOperatorDegraded'' \<and> go_get s ''severity'' = ''critical'' \<and>
        m = ''ClusterOperatorDown'' \<and> agree_on [''namespace'', ''name''] s t \<or>
      n = ''KubeNodeNotReady'' \<and> m = ''KubeNodeUnreachable'' \<and> agree_on [''node'', ''instance''] s t \<or>
      n = ''KubeNodeUnreachable'' \<and> m \<in> {''SDNPodNotReady'', ''TargetDown''} \<or>
      n = ''KubeNodeNotReady'' \<and>
        m \<in> {''KubeDaemonSetRolloutStuck'', ''KubeDaemonSetMisScheduled'', ''KubeDeploymentReplicasMismatch'',
             ''KubeStatefulSetReplicasMismatch'', ''KubePodNotReady''} \<and> agree_on [''instance''] s t \<or>
      n = ''KubeDeploymentReplicasMismatch'' \<and> m \<in> {''KubePodNotReady'', ''KubePodCrashLooping''} \<and>
        agree_on [''namespace''] s t \<or>
      n = ''ElasticsearchOperatorCSVNotSuccessful'' \<and> m = ''ElasticsearchClusterNotHealthy'' \<and>
        agree_on [''dummylabel''] s t \<or>
      n = ''KubeAPIErrorBudgetBurn'' \<and> m = ''api-ErrorBudgetBurn'' \<and> agree_on [''severity''] s t)"

definition inhibits :: "alert \<Rightarrow> alert \<Rightarrow> bool" where
  "inhibits s t =
     (agree_on [''namespace'', ''alertname''] s t \<and> outranks (go_get s ''severity'') (go_get t ''severity'')
      \<or> explains s t)"

lemma InhibitRules_created [simp]: "InhibitRules (createAlertManagerConfig fed p) = map Some inhibit_rules"
  by (simp add: createAlertManagerConfig_def split: prod.splits)

text \<open>The rules, with their expressions as alternatives of literals.\<close>

lemma inhibit_rules_alternatives:
  "inhibit_rules = [
     inhibit_rule [''namespace'', ''alertname'']
       [(''severity'', ''critical'')] [(''severity'', alternatives [''warning'', ''info''])],
     inhibit_rule [''namespace'', ''alertname'']
       [(''severity'', ''warning'')] [(''severity'', alternatives [''info''])],
     inhibit_rule [''namespace'', ''name'']
       [(''alertname'', ''ClusterOperatorDegraded''), (''severity'', ''critical'')]
       [(''alertname'', alternatives [''ClusterOperatorDown''])],
     inhibit_rule [''node'', ''instance'']
       [(''alertname'', ''KubeNodeNotReady'')] [(''alertname'', alternatives [''KubeNodeUnreachable''])],
     inhibit_rule []
       [(''alertname'', ''KubeNodeUnreachable'')]
       [(''alertname'', alternatives [''SDNPodNotReady'', ''TargetDown''])],
     inhibit_rule [''instance'']
       [(''alertname'', ''KubeNodeNotReady'')]
       [(''alertname'', alternatives [''KubeDaemonSetRolloutStuck'', ''KubeDaemonSetMisScheduled'',
          ''KubeDeploymentReplicasMismatch'', ''KubeStatefulSetReplicasMismatch'', ''KubePodNotReady''])],
     inhibit_rule [''namespace'']
       [(''alertname'', ''KubeDeploymentReplicasMismatch'')]
       [(''alertname'', alternatives [''KubePodNotReady'', ''KubePodCrashLooping''])],
     inhibit_rule [''dummylabel'']
       [(''alertname'', ''ElasticsearchOperatorCSVNotSuccessful'')]
       [(''alertname'', alternatives [''ElasticsearchClusterNotHealthy''])],
     inhibit_rule [''severity'']
       [(''alertname'', ''KubeAPIErrorBudgetBurn'')] [(''alertname'', alternatives [''api-ErrorBudgetBurn''])]]"
  by (simp add: inhibit_rules_def)

lemma plain_literals:
  "list_all plain_literal [''warning'', ''info'']"
  "list_all plain_literal [''ClusterOperatorDown'', ''KubeNodeUnreachable'', ''SDNPodNotReady'',
     ''TargetDown'', ''KubeDaemonSetRolloutStuck'', ''KubeDaemonSetMisScheduled'',
     ''KubeDeploymentReplicasMismatch'', ''KubeStatefulSetReplicasMismatch'', ''KubePodNotReady'',
     ''KubePodCrashLooping'', ''ElasticsearchClusterNotHealthy'', ''api-ErrorBudgetBurn'']"
  by code_simp+

context alertmanager_inhibition
begin

text \<open>No rule has an alert that matches both of its sides.\<close>

lemma rule_inhibits_alternatives:
  assumes "names \<noteq> []" and "list_all plain_literal names"
    and "list_ex (\<lambda>(k, v). k = label \<and> v \<notin> set names) source"
  shows "rule_inhibits re (inhibit_rule eq source [(label, alternatives names)]) s t =
    (list_all (\<lambda>(k, v). go_get s k = v) source \<and> go_get t label \<in> set names \<and> agree_on eq s t)"
  using assms
  by (auto simp: rule_inhibits_def side_matches_def agree_on_def Let_def re_alternatives
      list_all_iff list_ex_iff)

lemma rules_inhibit: "(\<exists>r \<in> set inhibit_rules. rule_inhibits re r s t) = inhibits s t"
  unfolding inhibit_rules_alternatives
  using plain_literals
  by (simp add: rule_inhibits_alternatives inhibits_def explains_def Let_def agree_on_def outranks_def del: alternatives.simps)
    satx

lemma mutes_created:
  "mutes (InhibitRules (createAlertManagerConfig fed p)) firing t = (\<exists>s \<in> set firing. inhibits s t)"
  by (simp add: mutes_iff rules_inhibit)

end

subsection \<open>Inhibition descends\<close>

text \<open>
  A rank that every inhibition raises: how far an alert is from its causes, and within one
  alert its severity.
\<close>

definition name_rank :: "string \<Rightarrow> nat" where
  "name_rank n =
     (if n \<in> {''KubeNodeNotReady'', ''ClusterOperatorDegraded'', ''ElasticsearchOperatorCSVNotSuccessful'',
              ''KubeAPIErrorBudgetBurn''} then 0
      else if n \<in> {''KubeNodeUnreachable'', ''KubeDeploymentReplicasMismatch''} then 1
      else 2)"

definition severity_rank :: "string \<Rightarrow> nat" where
  "severity_rank v = (if v = ''critical'' then 0 else if v = ''warning'' then 1 else 2)"

definition alert_rank :: "alert \<Rightarrow> nat" where
  "alert_rank a = 3 * name_rank (go_get a ''alertname'') + severity_rank (go_get a ''severity'')"

lemma outranks_rank: "outranks v w \<Longrightarrow> severity_rank v < severity_rank w"
  by (auto simp: outranks_def severity_rank_def)

lemma explains_rank: "explains s t \<Longrightarrow> name_rank (go_get s ''alertname'') < name_rank (go_get t ''alertname'')"
  unfolding explains_def Let_def by (elim disjE conjE; simp add: name_rank_def) auto

lemma inhibits_rank: "inhibits s t \<Longrightarrow> alert_rank s < alert_rank t"
proof -
  have low: "severity_rank v \<le> 2" for v by (simp add: severity_rank_def)
  assume "inhibits s t"
  then consider (severity) "go_get s ''alertname'' = go_get t ''alertname''"
      "outranks (go_get s ''severity'') (go_get t ''severity'')"
    | (cause) "explains s t"
    by (auto simp: inhibits_def agree_on_def)
  then show ?thesis
  proof cases
    case severity
    then show ?thesis using outranks_rank by (simp add: alert_rank_def)
  next
    case cause
    from explains_rank [OF this] low [of "go_get s ''severity''"] show ?thesis
      by (simp add: alert_rank_def)
  qed
qed

lemma inhibited_has_root:
  assumes "t \<in> A" and "\<exists>s \<in> A. inhibits s t"
  shows "\<exists>s \<in> A. \<not> (\<exists>u \<in> A. inhibits u s) \<and> inhibits\<^sup>+\<^sup>+ s t"
  using assms
proof (induction "alert_rank t" arbitrary: t rule: less_induct)
  case less
  then obtain s where s: "s \<in> A" "inhibits s t" by blast
  show ?case
  proof (cases "\<exists>u \<in> A. inhibits u s")
    case False
    with s show ?thesis by blast
  next
    case True
    from less.hyps [OF inhibits_rank [OF s(2)] s(1) True] s(2) show ?thesis
      by (meson tranclp.trancl_into_trancl)
  qed
qed

subsection \<open>Properties\<close>

text \<open>
  C18: the inhibition rules implement the table. For every set of firing alerts, Alertmanager
  mutes an alert under the rules of the configuration exactly if one of the firing alerts
  inhibits it by the table: it is the same alert of a higher severity, or it explains it.
\<close>

theorem inhibition_table:
  assumes "alertmanager_inhibition re mutes"
  shows "mutes (InhibitRules (createAlertManagerConfig fed p)) firing t =
    (\<exists>s \<in> set firing. inhibits s t)"
  using assms by (rule alertmanager_inhibition.mutes_created)

theorem inhibition_table_witness:
  "am_mutes bars_re (InhibitRules (createAlertManagerConfig False sample_params))
     [[(''alertname'', ''KubeNodeUnreachable''), (''node'', ''a'')]]
     [(''alertname'', ''TargetDown''), (''namespace'', ''openshift-dns'')]"
  unfolding inhibition_table [OF am_ref_inhibition.alertmanager_inhibition_axioms]
  by (simp add: inhibits_def explains_def)

text \<open>
  C17: inhibition never silences everything. Whatever alerts fire, one that is muted has among
  them a cause that is not muted, at the start of a chain of inhibitions that leads to it: no
  two alerts, and no cycle of alerts, can mute each other.
\<close>

theorem muted_alert_has_cause:
  assumes "alertmanager_inhibition re mutes" and "t \<in> set firing"
    and "mutes (InhibitRules (createAlertManagerConfig fed p)) firing t"
  shows "\<exists>s \<in> set firing. \<not> mutes (InhibitRules (createAlertManagerConfig fed p)) firing s \<and>
    inhibits\<^sup>+\<^sup>+ s t"
  using assms(3) inhibited_has_root [OF assms(2)]
  unfolding alertmanager_inhibition.mutes_created [OF assms(1)] by blast

theorem muted_alert_has_cause_witness:
  "\<exists>s \<in> {[(''alertname'', ''KubeNodeNotReady'')], [(''alertname'', ''KubeNodeUnreachable'')],
      [(''alertname'', ''TargetDown'')]}.
     inhibits\<^sup>+\<^sup>+ s [(''alertname'', ''TargetDown'')] \<and>
     \<not> am_mutes bars_re (InhibitRules (createAlertManagerConfig False sample_params))
       [[(''alertname'', ''KubeNodeNotReady'')], [(''alertname'', ''KubeNodeUnreachable'')],
        [(''alertname'', ''TargetDown'')]] s"
proof -
  let ?A = "[[(''alertname'', ''KubeNodeNotReady'')], [(''alertname'', ''KubeNodeUnreachable'')],
      [(''alertname'', ''TargetDown'')]]"
  let ?t = "[(''alertname'', ''TargetDown'')]"
  have "am_mutes bars_re (InhibitRules (createAlertManagerConfig False sample_params)) ?A ?t"
    unfolding am_ref_inhibition.mutes_created by (simp add: inhibits_def explains_def)
  from muted_alert_has_cause [OF am_ref_inhibition.alertmanager_inhibition_axioms _ this]
  show ?thesis by auto
qed

text \<open>
  C28: what cannot be muted. An alert whose severity is neither \<open>warning\<close> nor \<open>info\<close> is muted
  only if it is one of the twelve consequences the table names; in particular the watchdog
  alert, whose absence is an alarm, never is.
\<close>

definition consequences :: "string list" where
  "consequences =
     [''ClusterOperatorDown'', ''KubeNodeUnreachable'', ''SDNPodNotReady'', ''TargetDown'',
      ''KubeDaemonSetRolloutStuck'', ''KubeDaemonSetMisScheduled'', ''KubeDeploymentReplicasMismatch'',
      ''KubeStatefulSetReplicasMismatch'', ''KubePodNotReady'', ''KubePodCrashLooping'',
      ''ElasticsearchClusterNotHealthy'', ''api-ErrorBudgetBurn'']"

theorem only_consequences_muted:
  assumes "alertmanager_inhibition re mutes"
    and "mutes (InhibitRules (createAlertManagerConfig fed p)) firing t"
  shows "go_get t ''severity'' \<in> {''warning'', ''info''} \<or> go_get t ''alertname'' \<in> set consequences"
proof -
  obtain s where "inhibits s t"
    using assms(2) unfolding alertmanager_inhibition.mutes_created [OF assms(1)] by blast
  then show ?thesis
    unfolding inhibits_def explains_def Let_def outranks_def
    by (elim disjE conjE) (auto simp: consequences_def)
qed

theorem only_consequences_muted_witness:
  "go_get [(''alertname'', ''TargetDown''), (''severity'', ''critical'')] ''severity'' \<in> {''warning'', ''info''} \<or>
   go_get [(''alertname'', ''TargetDown''), (''severity'', ''critical'')] ''alertname'' \<in> set consequences"
proof -
  let ?t = "[(''alertname'', ''TargetDown''), (''severity'', ''critical'')]"
  have "am_mutes bars_re (InhibitRules (createAlertManagerConfig False sample_params))
      [[(''alertname'', ''KubeNodeUnreachable'')]] ?t"
    unfolding am_ref_inhibition.mutes_created by (simp add: inhibits_def explains_def)
  then show ?thesis
    by (rule only_consequences_muted [OF am_ref_inhibition.alertmanager_inhibition_axioms])
qed

subsection \<open>Inhibition and routing together\<close>

text \<open>An alert is notified to the receivers of its routes unless another one mutes it.\<close>

definition notified ::
  "(alert \<Rightarrow> Route \<Rightarrow> string list) \<Rightarrow> (InhibitRule ptr list \<Rightarrow> alert list \<Rightarrow> alert \<Rightarrow> bool) \<Rightarrow>
     Config \<Rightarrow> alert list \<Rightarrow> alert \<Rightarrow> string list" where
  "notified notify mutes c firing a = (if mutes (InhibitRules c) firing a then [] else delivers notify c a)"

text \<open>The alert of the API server's error budget that the table silences.\<close>

definition silenced_budget_alert :: "alert \<Rightarrow> bool" where
  "silenced_budget_alert s =
     (go_get s ''alertname'' = ''KubeAPIErrorBudgetBurn'' \<and>
      go_get s ''prometheus'' = ''openshift-monitoring/k8s'' \<and>
      go_get s ''namespace'' = ''openshift-kube-apiserver'' \<and>
      go_get s ''job'' \<noteq> ''fluentd'' \<and> go_get s ''cluster'' \<noteq> ''elasticsearch'')"

lemma silenced_budget_delivery:
  "silenced_budget_alert s \<Longrightarrow> table_delivery re fed nss receiver rr s = receiverNull"
  by (simp add: silenced_budget_alert_def table_delivery_split fixed_subroutes_def table_defs)

text \<open>
  C19: a page that is lost. The table silences \<open>KubeAPIErrorBudgetBurn\<close> of the platform, but the
  inhibition rules still let it mute \<open>api-ErrorBudgetBurn\<close>. An alert of the latter kind that pages
  on its own is not notified to any pager when an alert of the former kind, of the same
  severity, fires with it: neither of the two reaches anybody.
\<close>

theorem budget_burn_page_lost:
  assumes "alertmanager_routing re notify" and "alertmanager_inhibition re mutes"
    and "silenced_budget_alert s" and "go_get t ''alertname'' = ''api-ErrorBudgetBurn''"
    and "go_get s ''severity'' = go_get t ''severity''"
    and "platform_alert t" and "in_namespaces re (namespaceList p) t"
    and "\<not> claimed_by_fixed_rule re fed t" and "\<not> is_managed_notification t" and "\<not> is_cad t"
    and "pagerdutyRoutingKey p \<noteq> ''''"
  shows "receiverPagerduty \<in> set (notified notify mutes (createAlertManagerConfig fed p) [t] t) \<and>
    (\<forall>a \<in> {s, t}. set (notified notify mutes (createAlertManagerConfig fed p) [s, t] a) \<inter>
       set notifying_receivers = {})"
proof -
  note mutes = alertmanager_inhibition.mutes_created [OF assms(2)]
  have "\<not> inhibits t t" using inhibits_rank [of t t] by blast
  moreover have "receiverPagerduty \<in> set (delivery_plan re fed p t)"
    using assms(9-11) pager_delivery_unclaimed(1) [OF assms(8,6,7)]
    by (simp add: delivery_plan_def Let_def optional_parts_simps)
  moreover have "inhibits s t"
    using assms(3-5) by (simp add: inhibits_def explains_def silenced_budget_alert_def agree_on_def)
  moreover have "set (delivery_plan re fed p s) \<inter> set notifying_receivers = {}"
    by (rule plan_silent) (simp_all add: pager_delivery_def silenced_budget_delivery [OF assms(3)])
  ultimately show ?thesis
    by (auto simp: notified_def mutes delivers_plan [OF assms(1)] simp del: InhibitRules_created)
qed

theorem budget_burn_page_lost_witness:
  "\<exists>s t. set (notified (am_notify bars_re) (am_mutes bars_re) (createAlertManagerConfig False
       (sample_params\<lparr>namespaceList := [''openshift-kube-apiserver'']\<rparr>)) [s, t] t) \<inter>
     set notifying_receivers = {} \<and>
   receiverPagerduty \<in> set (notified (am_notify bars_re) (am_mutes bars_re) (createAlertManagerConfig False
       (sample_params\<lparr>namespaceList := [''openshift-kube-apiserver'']\<rparr>)) [t] t)"
proof -
  let ?labels = "[(''prometheus'', ''openshift-monitoring/k8s''), (''namespace'', ''openshift-kube-apiserver''),
      (''severity'', ''critical'')]"
  let ?s = "(''alertname'', ''KubeAPIErrorBudgetBurn'') # ?labels"
  let ?t = "(''alertname'', ''api-ErrorBudgetBurn'') # ?labels"
  let ?p = "sample_params\<lparr>namespaceList := [''openshift-kube-apiserver'']\<rparr>"
  have "silenced_budget_alert ?s" "go_get ?t ''alertname'' = ''api-ErrorBudgetBurn''"
    "go_get ?s ''severity'' = go_get ?t ''severity''" "platform_alert ?t"
    by (simp_all add: silenced_budget_alert_def platform_alert_def)
  moreover have "in_namespaces bars_re (namespaceList ?p) ?t" "\<not> claimed_by_fixed_rule bars_re False ?t"
    "\<not> is_managed_notification ?t" "\<not> is_cad ?t" "pagerdutyRoutingKey ?p \<noteq> ''''"
    by code_simp+
  ultimately show ?thesis
    using budget_burn_page_lost [OF am_ref.alertmanager_routing_axioms
        am_ref_inhibition.alertmanager_inhibition_axioms, of ?s ?t ?p False] by blast
qed

end
