(* ===== verification/OperatorState.thy ===== *)
theory OperatorState
  imports AlertmanagerTypes
begin

text \<open>
  The world the operator runs in, and its own state. The Kubernetes API, the clock, the process
  environment, the file system and Prometheus are outside the repository: the record \<open>platform\<close>
  has one function for each call the source makes, over an arbitrary type \<open>'w\<close> of worlds that
  every call may change. A failed read leaves the object it was to fill in untouched, so a read
  returns either an error or the object. The record \<open>lib\<close> holds the pure library functions.
  The state of the process is the record \<open>sys\<close>; its field \<open>issued\<close> is the history of the
  requests sent, which lets properties speak of what the operator did and did not send.
\<close>

subsection \<open>The API objects, with the fields the source reads or writes\<close>

record Secret =
  sec_Namespace :: string
  sec_Name :: string
  sec_Data :: go_map

record ConfigMap =
  cm_Namespace :: string
  cm_Name :: string
  cm_Data :: go_map

datatype condition_type =
  OperatorProgressing | OperatorDegraded | OperatorAvailable | OtherCondition string

datatype condition_status = ConditionTrue | ConditionFalse | ConditionUnknown

record OperatorCondition =
  cond_Type :: condition_type
  cond_Status :: condition_status

record ClusterOperator =
  co_Conditions :: "OperatorCondition list"

record ClusterVersion =
  cv_ClusterID :: string
  cv_Annotations :: go_map

record Proxy =
  HTTPSProxy :: string

datatype PlatformType =
    AWSPlatformType | GCPPlatformType | AzurePlatformType | BareMetalPlatformType
  | LibvirtPlatformType | OpenStackPlatformType | NonePlatformType | VSpherePlatformType
  | OvirtPlatformType | IBMCloudPlatformType | KubevirtPlatformType | EquinixMetalPlatformType
  | PowerVSPlatformType | AlibabaCloudPlatformType | NutanixPlatformType | ExternalPlatformType
  | OtherPlatformType string

text \<open>The AWS and GCP sections of the platform status are pointers; only their region is read.\<close>

record PlatformStatus =
  ps_Type :: PlatformType
  ps_AWS :: "string ptr"
  ps_GCP :: "string ptr"

record Infrastructure =
  InfrastructureName :: string
  infra_PlatformStatus :: "PlatformStatus ptr"

text \<open>
  An event. Its message is a format and the error that is its \<open>%v\<close> argument; its times are
  readings of the clock.
\<close>

record Event =
  ev_Name :: string
  ev_Namespace :: string
  obj_Kind :: string
  obj_Namespace :: string
  obj_Name :: string
  ev_Reason :: string
  ev_Message :: "string \<times> go_error"
  ev_Type :: string
  ev_EventTime :: int
  ev_FirstTimestamp :: int
  ev_LastTimestamp :: int
  ev_Count :: nat

subsection \<open>Prometheus\<close>

text \<open>The value of a query; the samples of a vector are whole seconds (\<open>int64\<close> of a sample).\<close>

datatype prom_value = Vector "int list" | OtherValue string

subsection \<open>Library functions and the platform\<close>

record lib =
  yamlMarshal :: "Config \<Rightarrow> go_error + string"
  amLoad :: "string \<Rightarrow> go_error option"
  yamlUnmarshalNS :: "string \<Rightarrow> go_error + NamespaceConfig"
  parseRequestURI :: "string \<Rightarrow> go_error option"

record 'w platform =
  listSecrets :: "string \<Rightarrow> 'w \<Rightarrow> (go_error + Secret list) \<times> 'w"
  listConfigMaps :: "string \<Rightarrow> 'w \<Rightarrow> (go_error + ConfigMap list) \<times> 'w"
  listClusterOperators :: "'w \<Rightarrow> (go_error + ClusterOperator list) \<times> 'w"
  getSecret :: "string \<Rightarrow> string \<Rightarrow> 'w \<Rightarrow> (go_error + Secret) \<times> 'w"
  getConfigMap :: "string \<Rightarrow> string \<Rightarrow> 'w \<Rightarrow> (go_error + ConfigMap) \<times> 'w"
  getClusterVersion :: "string \<Rightarrow> 'w \<Rightarrow> (go_error + ClusterVersion) \<times> 'w"
  getProxy :: "string \<Rightarrow> 'w \<Rightarrow> (go_error + Proxy) \<times> 'w"
  getInfrastructure :: "string \<Rightarrow> 'w \<Rightarrow> (go_error + Infrastructure) \<times> 'w"
  createEvent :: "Event \<Rightarrow> 'w \<Rightarrow> go_error option \<times> 'w"
  createSecret :: "Secret \<Rightarrow> 'w \<Rightarrow> go_error option \<times> 'w"
  updateSecret :: "Secret \<Rightarrow> 'w \<Rightarrow> go_error option \<times> 'w"
  timeNow :: "'w \<Rightarrow> int \<times> 'w"
  lookupEnv :: "string \<Rightarrow> 'w \<Rightarrow> string option \<times> 'w"
  readFile :: "string \<Rightarrow> 'w \<Rightarrow> (go_error + string) \<times> 'w"
  promClient :: "string \<Rightarrow> 'w \<Rightarrow> go_error option \<times> 'w"
  promQuery :: "string \<Rightarrow> string \<Rightarrow> int \<Rightarrow> 'w \<Rightarrow> (go_error + prom_value \<times> string list) \<times> 'w"

subsection \<open>The state of the process\<close>

text \<open>
  What a reconcile returns, the readiness engine, and the gauges. The engine's handle of the
  Prometheus API is nil or the client made for a bearer token, and is known by that token; it
  is the first argument of a query. The zero time of Go is 0:
  times are nanoseconds since the first instant of year 1, durations are nanoseconds. A gauge
  has no value until it is first set; the operator uses one label value only, its own name.
\<close>

record Result =
  Requeue :: bool
  RequeueAfter :: int

definition zero_Result :: Result where [simp]:
  "zero_Result = \<lparr>Requeue = False, RequeueAfter = 0\<rparr>"

record Impl =
  impl_result :: Result
  impl_ready :: bool
  clusterCreationTime :: int
  promAPI :: "string ptr"

definition zero_Impl :: Impl where [simp]:
  "zero_Impl =
     \<lparr>impl_result = zero_Result, impl_ready = False, clusterCreationTime = 0, promAPI = None\<rparr>"

record gauges =
  metricGASecretExists :: "nat option"
  metricPDSecretExists :: "nat option"
  metricDMSSecretExists :: "nat option"
  metricAMSecretExists :: "nat option"
  metricAMSecretContainsGA :: "nat option"
  metricAMSecretContainsPD :: "nat option"
  metricAMSecretContainsDMS :: "nat option"
  metricManNSConfigMapExists :: "nat option"
  metricOcpNSConfigMapExists :: "nat option"
  metricAlertmanagerConfigValidationFailed :: "nat option"

definition unset_gauges :: gauges where
  "unset_gauges =
     \<lparr>metricGASecretExists = None, metricPDSecretExists = None, metricDMSSecretExists = None,
      metricAMSecretExists = None, metricAMSecretContainsGA = None, metricAMSecretContainsPD = None,
      metricAMSecretContainsDMS = None, metricManNSConfigMapExists = None,
      metricOcpNSConfigMapExists = None, metricAlertmanagerConfigValidationFailed = None\<rparr>"

datatype request =
    ListSecrets string | ListConfigMaps string | ListClusterOperators
  | GetSecret string string | GetConfigMap string string | GetClusterVersion string
  | GetProxy string | GetInfrastructure string
  | CreateEvent Event | CreateSecret Secret | UpdateSecret Secret
  | PromQuery string

record 'w sys =
  world :: 'w
  issued :: "request list"
  gauge :: gauges
  impl :: Impl
  isFedramp :: bool

type_synonym ('w, 'a) op = "('w sys, 'a) state"

subsection \<open>Calls as state computations\<close>

text \<open>A request to the API (or to Prometheus), which is recorded, and any other effect.\<close>

definition api :: "request \<Rightarrow> ('w \<Rightarrow> 'a \<times> 'w) \<Rightarrow> ('w, 'a) op" where
  "api rq f = State (\<lambda>s. case f (world s) of (x, w) \<Rightarrow>
     (x, s\<lparr>world := w, issued := issued s @ [rq]\<rparr>))"

definition io :: "('w \<Rightarrow> 'a \<times> 'w) \<Rightarrow> ('w, 'a) op" where
  "io f = State (\<lambda>s. case f (world s) of (x, w) \<Rightarrow> (x, s\<lparr>world := w\<rparr>))"

lemma run_api [simp]:
  "run_state (api rq f) s =
     (fst (f (world s)), s\<lparr>world := snd (f (world s)), issued := issued s @ [rq]\<rparr>)"
  by (simp add: api_def split: prod.splits)

lemma run_io [simp]:
  "run_state (io f) s = (fst (f (world s)), s\<lparr>world := snd (f (world s))\<rparr>)"
  by (simp add: io_def split: prod.splits)

definition modify_impl :: "(Impl \<Rightarrow> Impl) \<Rightarrow> ('w, unit) op" where
  "modify_impl f = State_Monad.update (\<lambda>s. s\<lparr>impl := f (impl s)\<rparr>)"

definition modify_gauge :: "(gauges \<Rightarrow> gauges) \<Rightarrow> ('w, unit) op" where
  "modify_gauge f = State_Monad.update (\<lambda>s. s\<lparr>gauge := f (gauge s)\<rparr>)"

lemma run_modify [simp]:
  "run_state (modify_impl f) s = ((), s\<lparr>impl := f (impl s)\<rparr>)"
  "run_state (modify_gauge g) s = ((), s\<lparr>gauge := g (gauge s)\<rparr>)"
  by (simp_all add: modify_impl_def modify_gauge_def)

subsection \<open>Frame conditions\<close>

text \<open>
  Three frame conditions on computations: the requests they send satisfy a predicate, they do
  not touch the gauges, they do not touch the readiness engine. All keep the FedRAMP switch.
\<close>

fun is_read :: "request \<Rightarrow> bool" where
  "is_read (CreateEvent e) = False"
| "is_read (CreateSecret x) = False"
| "is_read (UpdateSecret x) = False"
| "is_read rq = True"

definition sends :: "(request \<Rightarrow> bool) \<Rightarrow> 'w sys \<Rightarrow> 'w sys \<Rightarrow> bool" where
  "sends q s t = (isFedramp t = isFedramp s \<and> (\<exists>rqs. issued t = issued s @ rqs \<and> list_all q rqs))"

definition keeps_gauge :: "'w sys \<Rightarrow> 'w sys \<Rightarrow> bool" where
  "keeps_gauge s t = (gauge t = gauge s)"

definition keeps_impl :: "'w sys \<Rightarrow> 'w sys \<Rightarrow> bool" where
  "keeps_impl s t = (impl t = impl s)"

interpretation sending: frame_condition "sends q :: 'w sys \<Rightarrow> 'w sys \<Rightarrow> bool" for q
proof unfold_locales
  fix s t u :: "'w sys"
  show "sends q s s" by (simp add: sends_def)
  assume "sends q s t" and "sends q t u"
  then show "sends q s u" by (fastforce simp: sends_def)
qed

interpretation gauge_frame: frame_condition "keeps_gauge :: 'w sys \<Rightarrow> 'w sys \<Rightarrow> bool"
  by unfold_locales (simp_all add: keeps_gauge_def)

interpretation impl_frame: frame_condition "keeps_impl :: 'w sys \<Rightarrow> 'w sys \<Rightarrow> bool"
  by unfold_locales (simp_all add: keeps_impl_def)

lemma sends_mono:
  "state_io_rel (sends q) m \<Longrightarrow> (\<And>rq. q rq \<Longrightarrow> q' rq) \<Longrightarrow> state_io_rel (sends q') m"
  by (fastforce simp: state_io_rel_def sends_def list_all_iff)

lemma sends_api: "q rq \<Longrightarrow> state_io_rel (sends q) (api rq f)"
  by (auto simp: state_io_rel_def sends_def)

lemma sends_io: "state_io_rel (sends q) (io f)"
  by (auto simp: state_io_rel_def sends_def)

lemma sends_modify:
  "state_io_rel (sends q) (modify_impl f)"
  "state_io_rel (sends q) (modify_gauge g)"
  by (auto simp: state_io_rel_def sends_def)

lemma keeps_gauge_calls:
  "state_io_rel keeps_gauge (api rq f)"
  "state_io_rel keeps_gauge (io h)"
  "state_io_rel keeps_gauge (modify_impl k)"
  by (auto simp: state_io_rel_def keeps_gauge_def)

lemma keeps_impl_calls:
  "state_io_rel keeps_impl (api rq f)"
  "state_io_rel keeps_impl (io h)"
  "state_io_rel keeps_impl (modify_gauge g)"
  by (auto simp: state_io_rel_def keeps_impl_def)

lemma frame_prom_value [frame_intros]:
  "(\<And>v. state_io_rel R (f v)) \<Longrightarrow> (\<And>t. state_io_rel R (g t)) \<Longrightarrow>
     state_io_rel R (case x of Vector v \<Rightarrow> f v | OtherValue t \<Rightarrow> g t)"
  by (cases x) auto

lemmas [frame_intros] =
  sending.frame_rules sends_api sends_io sends_modify
  gauge_frame.frame_rules keeps_gauge_calls
  impl_frame.frame_rules keeps_impl_calls

lemma sends_issued:
  assumes "state_io_rel (sends q) m" and "run_state m s = (x, t)"
  obtains rqs where "issued t = issued s @ rqs" "list_all q rqs" "isFedramp t = isFedramp s"
  using assms by (auto dest!: state_io_relD simp: sends_def)

end
