(* ===== verification/Readiness.thy ===== *)
theory Readiness
  imports OperatorState
begin

text \<open>
  The readiness engine (pkg/readiness/cluster_ready.go): whether the cluster is far enough in
  its installation for alerts to page. A positive answer is cached for the life of the process.
  Otherwise the engine asks the ClusterOperators, then falls back to the age of the cluster,
  which it learns from Prometheus once, and tells the controller when to ask again.
\<close>

subsection \<open>Configuration and clock\<close>

definition maxClusterAgeKey :: string where [simp]:
  "maxClusterAgeKey = ''MAX_CLUSTER_AGE_MINUTES''"

definition maxClusterAgeDefault :: int where [simp]: "maxClusterAgeDefault = 90"

definition getEnvInt :: "string \<Rightarrow> int \<Rightarrow> string option \<Rightarrow> go_error + int" where
  "getEnvInt key dflt env =
     (let strVal = (case env of None \<Rightarrow> '''' | Some v \<Rightarrow> v)
      in if strVal = '''' then Inr dflt
         else case Atoi strVal of
           Inl err \<Rightarrow> Inl (Wrapf
             (''invalid value for env var: '' @ key @ ''='' @ strVal @ '' (expected int): %v'') err)
         | Inr intVal \<Rightarrow> Inr intVal)"

definition second :: int where [simp]: "second = 1000000000"
definition minute :: int where [simp]: "minute = 60 * second"

text \<open>
  \<open>time.Unix\<close>: seconds since 1970 as an instant; Go counts the seconds since year 1 in an
  \<open>int64\<close>.
\<close>

definition time_Unix :: "int \<Rightarrow> int" where
  "time_Unix sec = wrap64 (sec + 62135596800) * second"

text \<open>The maximal age as a negative duration: both operations are on \<open>int64\<close>.\<close>

definition max_age_duration :: "int \<Rightarrow> int" where
  "max_age_duration maxAgeMinutes = wrap64 (wrap64 (- maxAgeMinutes) * minute)"

definition older_than :: "int \<Rightarrow> int \<Rightarrow> int \<Rightarrow> bool" where
  "older_than creation now maxAgeMinutes = (creation < now + max_age_duration maxAgeMinutes)"

definition clusterTooOld :: "'w platform \<Rightarrow> int \<Rightarrow> ('w, bool) op" where
  "clusterTooOld P maxAgeMinutes = do {
     now \<leftarrow> io (timeNow P);
     s \<leftarrow> State_Monad.get;
     State_Monad.return (older_than (clusterCreationTime (impl s)) now maxAgeMinutes)
   }"

subsection \<open>The ClusterOperators\<close>

text \<open>
  The inner loop breaks at the first condition that is bad, the outer at the first operator
  with such a condition.
\<close>

definition bad_condition :: "OperatorCondition \<Rightarrow> bool" where
  "bad_condition cond =
     ((cond_Type cond = OperatorProgressing \<and> cond_Status cond = ConditionTrue) \<or>
      (cond_Type cond = OperatorDegraded \<and> cond_Status cond = ConditionTrue) \<or>
      (cond_Type cond = OperatorAvailable \<and> cond_Status cond = ConditionFalse))"

fun conditions_ready :: "OperatorCondition list \<Rightarrow> bool" where
  "conditions_ready [] = True"
| "conditions_ready (cond # conds) = (if bad_condition cond then False else conditions_ready conds)"

fun operators_ready :: "ClusterOperator list \<Rightarrow> bool" where
  "operators_ready [] = True"
| "operators_ready (co # cos) =
     (if \<not> conditions_ready (co_Conditions co) then False else operators_ready cos)"

definition operators_say_ready :: "go_error + ClusterOperator list \<Rightarrow> bool" where
  "operators_say_ready coList =
     (case coList of Inl err \<Rightarrow> False | Inr items \<Rightarrow> items \<noteq> [] \<and> operators_ready items)"

subsection \<open>The creation time of the cluster\<close>

definition tokenFile :: string where
  "tokenFile = ''/var/run/secrets/kubernetes.io/serviceaccount/token''"

definition setPromAPI :: "'w platform \<Rightarrow> ('w, go_error option) op" where
  "setPromAPI P = do {
     rawToken \<leftarrow> io (readFile P tokenFile);
     case rawToken of
       Inl err \<Rightarrow> State_Monad.return (Some (Wrapf ''couldn't read token file: %w'' err))
     | Inr token \<Rightarrow> do {
         e \<leftarrow> io (promClient P token);
         case e of
           Some err \<Rightarrow> State_Monad.return (Some (Wrapf ''couldn't configure prometheus client: %w'' err))
         | None \<Rightarrow> do {
             modify_impl (\<lambda>i. i\<lparr>promAPI := Some token\<rparr>);
             State_Monad.return None
           }
       }
   }"

fun earliest_time :: "int list \<Rightarrow> int \<Rightarrow> int" where
  "earliest_time [] earliest = earliest"
| "earliest_time (v # vs) earliest =
     (let thisTime = time_Unix v
      in earliest_time vs (if earliest = 0 \<or> thisTime < earliest then thisTime else earliest))"

definition clusterVersionQuery :: string where
  \<open>clusterVersionQuery = ''cluster_version{type="initial"}''\<close>

text \<open>The query is a call of a method on the handle: on a nil handle it panics.\<close>

definition setClusterCreationTime :: "'w platform \<Rightarrow> ('w, go_error option go) op" where
  "setClusterCreationTime P = do {
     s \<leftarrow> State_Monad.get;
     if clusterCreationTime (impl s) \<noteq> 0 then State_Monad.return (Val None)
     else do {
       e \<leftarrow> setPromAPI P;
       case e of
         Some err \<Rightarrow> State_Monad.return (Val (Some (Wrapf ''couldn't get prometheus API: %w'' err)))
       | None \<Rightarrow> do {
           now \<leftarrow> io (timeNow P);
           u \<leftarrow> State_Monad.get;
           case promAPI (impl u) of
             None \<Rightarrow> State_Monad.return (Panic nil_deref)
           | Some handle \<Rightarrow> do {
               result \<leftarrow> api (PromQuery clusterVersionQuery) (promQuery P handle clusterVersionQuery now);
               case result of
                 Inl err \<Rightarrow> State_Monad.return (Val (Some (Wrapf ''error querying Prometheus: %w'' err)))
               | Inr (value, warnings) \<Rightarrow>
                   (case value of
                      OtherValue t \<Rightarrow> State_Monad.return (Panic ''interface conversion: not model.Vector'')
                    | Vector resultVec \<Rightarrow>
                        (let earliest = earliest_time resultVec 0
                         in if earliest = 0
                            then State_Monad.return (Val (Some
                              (Errorf ''failed to determine cluster birth time from prometheus %s result %v'' [''vector''])))
                            else do {
                              modify_impl (\<lambda>i. i\<lparr>clusterCreationTime := earliest\<rparr>);
                              State_Monad.return (Val None)
                            }))
             }
         }
     }
   }"

subsection \<open>IsReady and Result\<close>

text \<open>The fallback on the age of the cluster, reached when the operators do not settle it.\<close>

definition age_fallback :: "'w platform \<Rightarrow> ('w, (bool \<times> go_error option) go) op" where
  "age_fallback P = do {
     r \<leftarrow> setClusterCreationTime P;
     case r of
       Panic m \<Rightarrow> State_Monad.return (Panic m)
     | Val e \<Rightarrow>
       (case e of
          Some err \<Rightarrow> do {
            modify_impl (\<lambda>i. i\<lparr>impl_result := \<lparr>Requeue = True, RequeueAfter = second\<rparr>\<rparr>);
            State_Monad.return (Val (False, None))
          }
        | None \<Rightarrow> do {
            env \<leftarrow> io (lookupEnv P maxClusterAgeKey);
            case getEnvInt maxClusterAgeKey maxClusterAgeDefault env of
              Inl err \<Rightarrow> State_Monad.return (Val (False, Some err))
            | Inr maxClusterAge \<Rightarrow> do {
                old \<leftarrow> clusterTooOld P maxClusterAge;
                if old then do {
                  modify_impl (\<lambda>i. i\<lparr>impl_ready := True\<rparr>);
                  State_Monad.return (Val (True, None))
                }
                else do {
                  modify_impl (\<lambda>i. i\<lparr>impl_result := \<lparr>Requeue = True, RequeueAfter = 30 * second\<rparr>\<rparr>);
                  State_Monad.return (Val (False, None))
                }
              }
          })
   }"

definition IsReady :: "'w platform \<Rightarrow> ('w, (bool \<times> go_error option) go) op" where
  "IsReady P = do {
     s \<leftarrow> State_Monad.get;
     if impl_ready (impl s) then State_Monad.return (Val (impl_ready (impl s), None))
     else do {
       modify_impl (\<lambda>i. i\<lparr>impl_result := zero_Result\<rparr>);
       coList \<leftarrow> api ListClusterOperators (listClusterOperators P);
       if operators_say_ready coList then do {
         modify_impl (\<lambda>i. i\<lparr>impl_ready := True\<rparr>);
         State_Monad.return (Val (True, None))
       }
       else age_fallback P
     }
   }"

definition impl_Result :: "'w sys \<Rightarrow> Result" where
  "impl_Result s = impl_result (impl s)"

end
