(* ===== verification/Metrics.thy ===== *)
theory Metrics
  imports OperatorState ConfigBuilder
begin

text \<open>
  The package \<open>metrics\<close> (pkg/metrics/metrics.go and service.go): the gauges that a reconcile
  sets at its end, the registration of the collectors, and the Service and ServiceMonitor
  objects through which the cluster's Prometheus scrapes the operator. Registering a collector
  with Prometheus is outside the repository and is a parameter.
\<close>

subsection \<open>Gauges set after a reconcile\<close>

definition gauge_value :: "bool \<Rightarrow> nat" where [simp]:
  "gauge_value b = (if b then 1 else 0)"

text \<open>The flags of the first loop, which switches on the name of each secret.\<close>

record secret_flags =
  gaSecretExists :: bool
  pdSecretExists :: bool
  dmsSecretExists :: bool
  amSecretExists :: bool

fun scan_secrets :: "Secret list \<Rightarrow> secret_flags \<Rightarrow> secret_flags" where
  "scan_secrets [] f = f"
| "scan_secrets (secret # items) f = scan_secrets items
     (if sec_Name secret = ''goalert-secret'' then f\<lparr>gaSecretExists := True\<rparr>
      else if sec_Name secret = ''pd-secret'' then f\<lparr>pdSecretExists := True\<rparr>
      else if sec_Name secret = ''dms-secret'' then f\<lparr>dmsSecretExists := True\<rparr>
      else if sec_Name secret = ''alertmanager-main'' then f\<lparr>amSecretExists := True\<rparr>
      else f)"

text \<open>The loop over the receivers for one name; dereferencing a nil receiver panics.\<close>

fun scan_receivers :: "string \<Rightarrow> Receiver ptr list \<Rightarrow> bool \<Rightarrow> bool go" where
  "scan_receivers name [] found = Val found"
| "scan_receivers name (None # receivers) found = Panic nil_deref"
| "scan_receivers name (Some receiver # receivers) found =
     scan_receivers name receivers (if rcv_Name receiver = name then True else found)"

definition UpdateSecretsMetrics :: "Secret list \<Rightarrow> Config \<Rightarrow> ('w, unit go) op" where
  "UpdateSecretsMetrics items amconfig =
     (let f = scan_secrets items
            \<lparr>gaSecretExists = False, pdSecretExists = False, dmsSecretExists = False,
             amSecretExists = False\<rparr>;
          contains = (\<lambda>secretExists name.
            if amSecretExists f \<and> secretExists
            then scan_receivers name (Receivers amconfig) False else Val False)
      in case go_bind (contains (gaSecretExists f) ''goalert'') (\<lambda>amSecretContainsGA.
           go_bind (contains (pdSecretExists f) ''pagerduty'') (\<lambda>amSecretContainsPD.
           go_bind (contains (dmsSecretExists f) ''watchdog'') (\<lambda>amSecretContainsDMS.
           Val (amSecretContainsGA, amSecretContainsPD, amSecretContainsDMS)))) of
           Panic m \<Rightarrow> State_Monad.return (Panic m)
         | Val (amSecretContainsGA, amSecretContainsPD, amSecretContainsDMS) \<Rightarrow> do {
             modify_gauge (\<lambda>g. g\<lparr>metricGASecretExists := Some (gauge_value (gaSecretExists f))\<rparr>);
             modify_gauge (\<lambda>g. g\<lparr>metricPDSecretExists := Some (gauge_value (pdSecretExists f))\<rparr>);
             modify_gauge (\<lambda>g. g\<lparr>metricDMSSecretExists := Some (gauge_value (dmsSecretExists f))\<rparr>);
             modify_gauge (\<lambda>g. g\<lparr>metricAMSecretExists := Some (gauge_value (amSecretExists f))\<rparr>);
             modify_gauge (\<lambda>g. g\<lparr>metricAMSecretContainsGA := Some (gauge_value amSecretContainsGA)\<rparr>);
             modify_gauge (\<lambda>g. g\<lparr>metricAMSecretContainsPD := Some (gauge_value amSecretContainsPD)\<rparr>);
             modify_gauge (\<lambda>g. g\<lparr>metricAMSecretContainsDMS := Some (gauge_value amSecretContainsDMS)\<rparr>);
             State_Monad.return (Val ())
           })"

fun scan_configMaps :: "ConfigMap list \<Rightarrow> bool \<times> bool \<Rightarrow> bool \<times> bool" where
  "scan_configMaps [] f = f"
| "scan_configMaps (configMap # items) (man, ocp) = scan_configMaps items
     (if cm_Name configMap = ''managed-namespaces'' then (True, ocp)
      else if cm_Name configMap = ''ocp-namespaces'' then (man, True)
      else (man, ocp))"

definition UpdateConfigMapMetrics :: "ConfigMap list \<Rightarrow> ('w, unit) op" where
  "UpdateConfigMapMetrics items =
     (case scan_configMaps items (False, False) of
        (manNsConfigMapExists, ocpNsConfigMapExists) \<Rightarrow> do {
          modify_gauge (\<lambda>g. g\<lparr>metricManNSConfigMapExists := Some (gauge_value manNsConfigMapExists)\<rparr>);
          modify_gauge (\<lambda>g. g\<lparr>metricOcpNSConfigMapExists := Some (gauge_value ocpNsConfigMapExists)\<rparr>)
        })"

definition UpdateAlertmanagerConfigValidationMetric :: "bool \<Rightarrow> ('w, unit) op" where
  "UpdateAlertmanagerConfigValidationMetric validationPassed =
     (if validationPassed
      then modify_gauge (\<lambda>g. g\<lparr>metricAlertmanagerConfigValidationFailed := Some 0\<rparr>)
      else modify_gauge (\<lambda>g. g\<lparr>metricAlertmanagerConfigValidationFailed := Some 1\<rparr>))"

subsection \<open>Registration\<close>

definition metricsList :: "string list" where
  "metricsList =
     [''ga_secret_exists'', ''pd_secret_exists'', ''dms_secret_exists'', ''am_secret_exists'',
      ''am_secret_contains_ga'', ''am_secret_contains_pd'', ''am_secret_contains_dms'',
      ''managed_namespaces_configmap_exists'', ''ocp_namespaces_configmap_exists'',
      ''alertmanager_config_validation_failed'']"

fun register_all ::
  "(string \<Rightarrow> 'r \<Rightarrow> go_error option \<times> 'r) \<Rightarrow> string list \<Rightarrow> 'r \<Rightarrow> go_error option \<times> 'r" where
  "register_all register [] reg = (None, reg)"
| "register_all register (metric # metrics) reg =
     (case register metric reg of
        (Some err, reg') \<Rightarrow> (Some err, reg')
      | (None, reg') \<Rightarrow> register_all register metrics reg')"

definition RegisterMetrics ::
  "(string \<Rightarrow> 'r \<Rightarrow> go_error option \<times> 'r) \<Rightarrow> 'r \<Rightarrow> go_error option \<times> 'r" where
  "RegisterMetrics register reg = register_all register metricsList reg"

subsection \<open>Service and ServiceMonitor\<close>

datatype Protocol = ProtocolTCP | ProtocolUDP | ProtocolSCTP

datatype IntOrString = IntVal "32 word" | StrVal string

record ServicePort =
  sp_Port :: "32 word"
  sp_Protocol :: Protocol
  TargetPort :: IntOrString
  sp_Name :: string

record Service =
  svc_Name :: string
  svc_Namespace :: string
  svc_Labels :: go_map
  svc_Kind :: string
  svc_APIVersion :: string
  Ports :: "ServicePort list"
  svc_Selector :: go_map

record ServiceMonitor =
  sm_Name :: string
  sm_Namespace :: string
  sm_Labels :: go_map
  sm_Kind :: string
  sm_APIVersion :: string
  MatchLabels :: go_map
  Endpoints :: "string list"

definition GenerateService :: "32 word \<Rightarrow> string \<Rightarrow> go_error + Service" where
  "GenerateService port portName = Inr
     \<lparr>svc_Name = OperatorName,
      svc_Namespace = OperatorNamespace,
      svc_Labels = [(''name'', OperatorName)],
      svc_Kind = ''Service'',
      svc_APIVersion = ''v1'',
      Ports = [\<lparr>sp_Port = port, sp_Protocol = ProtocolTCP, TargetPort = IntVal port,
                sp_Name = portName\<rparr>],
      svc_Selector = [(''name'', OperatorName)]\<rparr>"

text \<open>The labels are copied one by one into a fresh map; a Service without ports panics.\<close>

definition copy_labels :: "go_map \<Rightarrow> go_map" where
  "copy_labels m = fold (\<lambda>(k, v). go_put k v) m []"

definition GenerateServiceMonitor :: "Service \<Rightarrow> ServiceMonitor go" where
  "GenerateServiceMonitor s =
     (case Ports s of
        [] \<Rightarrow> Panic ''index out of range [0] with length 0''
      | p # _ \<Rightarrow> Val
          \<lparr>sm_Name = svc_Name s,
           sm_Namespace = svc_Namespace s,
           sm_Labels = copy_labels (svc_Labels s),
           sm_Kind = ''ServiceMonitor'',
           sm_APIVersion = ''monitoring.coreos.com/v1'',
           MatchLabels = copy_labels (svc_Labels s),
           Endpoints = [sp_Name p]\<rparr>)"

subsection \<open>The loops\<close>

definition secret_named :: "string \<Rightarrow> Secret list \<Rightarrow> bool" where
  "secret_named n items = (\<exists>x \<in> set items. sec_Name x = n)"

definition configMap_named :: "string \<Rightarrow> ConfigMap list \<Rightarrow> bool" where
  "configMap_named n items = (\<exists>x \<in> set items. cm_Name x = n)"

lemma named_simps [simp]:
  "\<not> secret_named n []" "\<not> configMap_named n []"
  "secret_named n (x # xs) = (sec_Name x = n \<or> secret_named n xs)"
  "configMap_named n (y # ys) = (cm_Name y = n \<or> configMap_named n ys)"
  by (auto simp: secret_named_def configMap_named_def)

lemma scan_secrets_flags:
  "gaSecretExists (scan_secrets items f) = (gaSecretExists f \<or> secret_named ''goalert-secret'' items)"
  "pdSecretExists (scan_secrets items f) = (pdSecretExists f \<or> secret_named ''pd-secret'' items)"
  "dmsSecretExists (scan_secrets items f) = (dmsSecretExists f \<or> secret_named ''dms-secret'' items)"
  "amSecretExists (scan_secrets items f) = (amSecretExists f \<or> secret_named ''alertmanager-main'' items)"
  by (induction items f rule: scan_secrets.induct) auto

lemma scan_receivers_returns:
  "no_nil_receivers rs \<Longrightarrow> scan_receivers n rs b = Val (b \<or> n \<in> set (receiver_names rs))"
  by (induction n rs b rule: scan_receivers.induct) auto

lemma scan_configMaps_flags:
  "scan_configMaps items (m, c) =
     (m \<or> configMap_named ''managed-namespaces'' items, c \<or> configMap_named ''ocp-namespaces'' items)"
  by (induction items "(m, c)" arbitrary: m c rule: scan_configMaps.induct) auto

lemma created_receivers:
  "''goalert'' \<in> set (receiver_names (snd (config_entries fed p))) = has_goalert p"
  "''pagerduty'' \<in> set (receiver_names (snd (config_entries fed p))) = (pagerdutyRoutingKey p \<noteq> '''')"
  "''watchdog'' \<in> set (receiver_names (snd (config_entries fed p))) = (watchdogURL p \<noteq> '''')"
  by (auto simp: config_entries_names)

subsection \<open>Frame conditions\<close>

lemma UpdateSecretsMetrics_frame [frame_intros]:
  "state_io_rel (sends q) (UpdateSecretsMetrics items c)"
  "state_io_rel keeps_impl (UpdateSecretsMetrics items c)"
  unfolding UpdateSecretsMetrics_def by (intro frame_intros)+

lemma UpdateConfigMapMetrics_frame [frame_intros]:
  "state_io_rel (sends q) (UpdateConfigMapMetrics items')"
  "state_io_rel keeps_impl (UpdateConfigMapMetrics items')"
  unfolding UpdateConfigMapMetrics_def by (intro frame_intros)+

lemma UpdateValidationMetric_frame [frame_intros]:
  "state_io_rel (sends q) (UpdateAlertmanagerConfigValidationMetric b)"
  "state_io_rel keeps_impl (UpdateAlertmanagerConfigValidationMetric b)"
  unfolding UpdateAlertmanagerConfigValidationMetric_def by (intro frame_intros)+

lemma run_validation_metric [simp]:
  "run_state (UpdateAlertmanagerConfigValidationMetric b) s =
     ((), s\<lparr>gauge := (gauge s)\<lparr>metricAlertmanagerConfigValidationFailed := Some (gauge_value (\<not> b))\<rparr>\<rparr>)"
  by (simp add: UpdateAlertmanagerConfigValidationMetric_def)

subsection \<open>What the gauges say\<close>

text \<open>The gauges after the updates, as functions of the lists and of the parameters.\<close>

definition secret_gauges :: "Secret list \<Rightarrow> am_params \<Rightarrow> gauges \<Rightarrow> gauges" where
  "secret_gauges secrets p g =
     (let main = secret_named ''alertmanager-main'' secrets;
          ga = secret_named ''goalert-secret'' secrets;
          pd = secret_named ''pd-secret'' secrets;
          dms = secret_named ''dms-secret'' secrets
      in g\<lparr>metricGASecretExists := Some (gauge_value ga),
           metricPDSecretExists := Some (gauge_value pd),
           metricDMSSecretExists := Some (gauge_value dms),
           metricAMSecretExists := Some (gauge_value main),
           metricAMSecretContainsGA := Some (gauge_value (main \<and> ga \<and> has_goalert p)),
           metricAMSecretContainsPD := Some (gauge_value (main \<and> pd \<and> pagerdutyRoutingKey p \<noteq> '''')),
           metricAMSecretContainsDMS := Some (gauge_value (main \<and> dms \<and> watchdogURL p \<noteq> ''''))\<rparr>)"

definition configMap_gauges :: "ConfigMap list \<Rightarrow> gauges \<Rightarrow> gauges" where
  "configMap_gauges cms g =
     g\<lparr>metricManNSConfigMapExists := Some (gauge_value (configMap_named ''managed-namespaces'' cms)),
       metricOcpNSConfigMapExists := Some (gauge_value (configMap_named ''ocp-namespaces'' cms))\<rparr>"

lemma created_contains:
  "(if b then scan_receivers n (Receivers (createAlertManagerConfig fed p)) False else Val False) =
     Val (b \<and> n \<in> set (receiver_names (snd (config_entries fed p))))"
  by (simp add: scan_receivers_returns config_entries_no_nil)

lemma run_UpdateSecretsMetrics:
  "run_state (UpdateSecretsMetrics secrets (createAlertManagerConfig fed p)) s =
     (Val (), s\<lparr>gauge := secret_gauges secrets p (gauge s)\<rparr>)"
  unfolding UpdateSecretsMetrics_def created_contains created_receivers Let_def
  by (simp add: scan_secrets_flags secret_gauges_def Let_def conj_assoc del: gauge_value_def)

lemma run_UpdateConfigMapMetrics:
  "run_state (UpdateConfigMapMetrics cms) s = ((), s\<lparr>gauge := configMap_gauges cms (gauge s)\<rparr>)"
  by (simp add: UpdateConfigMapMetrics_def scan_configMaps_flags configMap_gauges_def
      del: gauge_value_def)

text \<open>
  C25: the gauges after an update are exact, and the update never panics. On the configuration
  that the operator builds, each existence gauge is 1 precisely when the list holds an object of
  that name, and a gauge for a receiver is 1 precisely when the list holds both
  \<open>alertmanager-main\<close> and the integration's secret and the configuration declares the
  integration's receiver, that is, when the integration's keys were not empty.
\<close>

theorem metrics_exact:
  "run_state (do { m \<leftarrow> UpdateSecretsMetrics secrets (createAlertManagerConfig fed p);
                   UpdateConfigMapMetrics cms;
                   State_Monad.return m }) s =
     (Val (), s\<lparr>gauge := configMap_gauges cms (secret_gauges secrets p (gauge s))\<rparr>)"
  by (simp add: run_UpdateSecretsMetrics run_UpdateConfigMapMetrics)

subsection \<open>Scraping\<close>

lemma map_of_fold_go_put:
  "distinct (map fst m) \<Longrightarrow> map_of (fold (\<lambda>(k, v). go_put k v) m acc) = map_of acc ++ map_of m"
proof (induction m arbitrary: acc)
  case (Cons kv m)
  obtain k v where kv: "kv = (k, v)" by force
  have "map_of m k = None" using Cons.prems kv by (simp add: map_of_eq_None_iff)
  with Cons kv show ?case by (auto simp: map_of_go_put fun_eq_iff map_add_def split: option.splits)
qed simp

text \<open>
  The monitor finds the service. For every Service with a port and proper label keys the
  generated ServiceMonitor carries the Service's name, namespace and labels, its selector
  accepts exactly those labels, and it scrapes the Service's first port by name; a Service
  without ports makes it panic. The Service generated for the operator has its port.
\<close>

theorem monitor_selects_service:
  assumes "distinct (map fst (svc_Labels s))"
  shows "if Ports s = [] then \<exists>m. GenerateServiceMonitor s = Panic m
    else \<exists>sm. GenerateServiceMonitor s = Val sm \<and> sm_Name sm = svc_Name s \<and>
      sm_Namespace sm = svc_Namespace s \<and> map_of (MatchLabels sm) = map_of (svc_Labels s) \<and>
      map_of (sm_Labels sm) = map_of (svc_Labels s) \<and> Endpoints sm = [sp_Name (hd (Ports s))]"
  using map_of_fold_go_put [OF assms, of "[]"]
  by (auto simp: GenerateServiceMonitor_def copy_labels_def split: list.splits)

theorem monitor_selects_service_witness:
  "\<exists>s sm. GenerateService 8080 ''metrics'' = Inr s \<and> GenerateServiceMonitor s = Val sm \<and>
     Endpoints sm = [''metrics''] \<and> map_of (MatchLabels sm) ''name'' = Some OperatorName"
proof -
  let ?s = "\<lparr>svc_Name = OperatorName, svc_Namespace = OperatorNamespace,
      svc_Labels = [(''name'', OperatorName)], svc_Kind = ''Service'', svc_APIVersion = ''v1'',
      Ports = [\<lparr>sp_Port = 8080, sp_Protocol = ProtocolTCP, TargetPort = IntVal 8080,
        sp_Name = ''metrics''\<rparr>],
      svc_Selector = [(''name'', OperatorName)]\<rparr>"
  have "GenerateService 8080 ''metrics'' = Inr ?s" by (simp add: GenerateService_def)
  moreover have "distinct (map fst (svc_Labels ?s))" by simp
  ultimately show ?thesis using monitor_selects_service [of ?s] by auto
qed

end
