(* ===== verification/Inputs.thy ===== *)
theory Inputs
  imports Readiness Metrics
begin

text \<open>
  What a reconcile reads (controllers/secret_controller.go): keys of secrets, namespace lists
  of configMaps, the identity, proxy, region and type of the cluster. Every read is tolerant:
  an error of the API leaves the object that was to be filled in at its zero value. A nil map
  read at any key yields the zero value, so a failed read yields the empty string. Following a
  pointer and slicing a string can panic, so the operations that do so may panic in the model;
  that their guards suffice is proved in InputProperties. Log lines are left out.
\<close>

subsection \<open>Objects by name\<close>

fun secretInList :: "string \<Rightarrow> Secret list \<Rightarrow> bool" where
  "secretInList name [] = False"
| "secretInList name (secret # items) =
     (if name = sec_Name secret then True else secretInList name items)"

fun cmInList :: "string \<Rightarrow> ConfigMap list \<Rightarrow> bool" where
  "cmInList name [] = False"
| "cmInList name (cm # items) = (if name = cm_Name cm then True else cmInList name items)"

definition zero_Secret :: Secret where [simp]:
  "zero_Secret = \<lparr>sec_Namespace = '''', sec_Name = '''', sec_Data = []\<rparr>"

definition zero_ConfigMap :: ConfigMap where [simp]:
  "zero_ConfigMap = \<lparr>cm_Namespace = '''', cm_Name = '''', cm_Data = []\<rparr>"

definition readCMKey :: "'w platform \<Rightarrow> string \<Rightarrow> string \<Rightarrow> string \<Rightarrow> ('w, string) op" where
  "readCMKey P cmName cmNamespace fieldName = do {
     r \<leftarrow> api (GetConfigMap cmNamespace cmName) (getConfigMap P cmNamespace cmName);
     let configMap = (case r of Inl err \<Rightarrow> zero_ConfigMap | Inr obj \<Rightarrow> obj);
     State_Monad.return (go_get (cm_Data configMap) fieldName)
   }"

definition readSecretKey :: "'w platform \<Rightarrow> string \<Rightarrow> string \<Rightarrow> string \<Rightarrow> ('w, string) op" where
  "readSecretKey P secretName secretNamespace fieldName = do {
     r \<leftarrow> api (GetSecret secretNamespace secretName) (getSecret P secretNamespace secretName);
     let secret = (case r of Inl err \<Rightarrow> zero_Secret | Inr obj \<Rightarrow> obj);
     State_Monad.return (go_get (sec_Data secret) fieldName)
   }"

subsection \<open>Keys and URLs\<close>

text \<open>The six values, in the order in which the function returns them.\<close>

definition parseSecrets ::
  "'w platform \<Rightarrow> Secret list \<Rightarrow> string \<Rightarrow> bool \<Rightarrow>
     ('w, string \<times> string \<times> string \<times> string \<times> string \<times> string) op" where
  "parseSecrets P secretList namespace clusterReady = do {
     let goalertSecretExists = secretInList secretNameGoalert secretList;
     let pagerDutySecretExists = secretInList secretNamePD secretList;
     let cadPagerDutySecretExists = secretInList secretNameCADPD secretList;
     let snitchSecretExists = secretInList secretNameDMS secretList;
     pagerdutyRoutingKey \<leftarrow>
       (if pagerDutySecretExists
        then if clusterReady then readSecretKey P secretNamePD namespace secretKeyPD
             else State_Monad.return ''''
        else State_Monad.return '''');
     cadPagerdutyRoutingKey \<leftarrow>
       (if cadPagerDutySecretExists
        then if clusterReady then readSecretKey P secretNameCADPD namespace secretKeyCADPD
             else State_Monad.return ''''
        else State_Monad.return '''');
     watchdogURL \<leftarrow>
       (if snitchSecretExists then readSecretKey P secretNameDMS namespace secretKeyDMS
        else State_Monad.return '''');
     (goalertURLlow, goalertURLhigh, goalertURLheartbeat) \<leftarrow>
       (if goalertSecretExists
        then if clusterReady
             then do {
               low \<leftarrow> readSecretKey P secretNameGoalert namespace secretKeyGoalertLow;
               high \<leftarrow> readSecretKey P secretNameGoalert namespace secretKeyGoalertHigh;
               heartbeat \<leftarrow> readSecretKey P secretNameGoalert namespace secretKeyGoalertHeartbeat;
               State_Monad.return (low, high, heartbeat)
             }
             else State_Monad.return ('''', '''', '''')
        else State_Monad.return ('''', '''', ''''));
     State_Monad.return (pagerdutyRoutingKey, cadPagerdutyRoutingKey, watchdogURL,
       goalertURLlow, goalertURLhigh, goalertURLheartbeat)
   }"

definition readOCMAgentServiceURLFromConfig ::
  "lib \<Rightarrow> 'w platform \<Rightarrow> ConfigMap list \<Rightarrow> string \<Rightarrow> ('w, string) op" where
  "readOCMAgentServiceURLFromConfig L P cmList cmNamespace =
     (if \<not> cmInList cmNameOcmAgent cmList then State_Monad.return ''''
      else do {
        serviceURL \<leftarrow> readCMKey P cmNameOcmAgent cmNamespace cmKeyOCMAgent;
        case parseRequestURI L serviceURL of
          Some err \<Rightarrow> State_Monad.return ''''
        | None \<Rightarrow> State_Monad.return serviceURL
      })"

subsection \<open>Identity, proxy and region of the cluster\<close>

definition getClusterID :: "'w platform \<Rightarrow> ('w, string \<times> go_error option) op" where
  "getClusterID P = do {
     r \<leftarrow> api (GetClusterVersion ''version'') (getClusterVersion P ''version'');
     case r of
       Inl err \<Rightarrow> State_Monad.return ('''', Some err)
     | Inr version \<Rightarrow> State_Monad.return (cv_ClusterID version, None)
   }"

definition getClusterProxy :: "'w platform \<Rightarrow> ('w, string \<times> go_error option) op" where
  "getClusterProxy P = do {
     r \<leftarrow> api (GetProxy ''cluster'') (getProxy P ''cluster'');
     case r of
       Inl err \<Rightarrow> State_Monad.return ('''', Some err)
     | Inr proxy \<Rightarrow>
         if HTTPSProxy proxy \<noteq> '''' then State_Monad.return (HTTPSProxy proxy, None)
         else State_Monad.return ('''', None)
   }"

text \<open>
  The source compares a pointer with nil before it follows it; the comparison and the
  dereference are separate here too, and a missing comparison would panic.
\<close>

definition platform_region :: "PlatformStatus \<Rightarrow> string go" where
  "platform_region ps =
     (case ps_Type ps of
        AWSPlatformType \<Rightarrow> if ps_AWS ps \<noteq> None then deref (ps_AWS ps) else Val ''''
      | GCPPlatformType \<Rightarrow> if ps_GCP ps \<noteq> None then deref (ps_GCP ps) else Val ''''
      | _ \<Rightarrow> Val '''')"

definition getClusterRegion :: "'w platform \<Rightarrow> ('w, (string \<times> go_error option) go) op" where
  "getClusterRegion P = do {
     r \<leftarrow> api (GetInfrastructure ''cluster'') (getInfrastructure P ''cluster'');
     case r of
       Inl err \<Rightarrow> State_Monad.return (Val ('''', Some err))
     | Inr infra \<Rightarrow>
         if infra_PlatformStatus infra = None then State_Monad.return (Val ('''', None))
         else State_Monad.return
           (go_bind (deref (infra_PlatformStatus infra)) (\<lambda>ps.
              go_bind (platform_region ps) (\<lambda>region. Val (region, None))))
   }"

subsection \<open>The type of the cluster\<close>

definition mc_prefix :: "string \<Rightarrow> bool go" where
  "mc_prefix infrastructureName =
     (if infrastructureName \<noteq> ''''
      then if 5 \<le> length infrastructureName
           then go_bind (slice_to 5 infrastructureName) (\<lambda>p. Val (p = ''hs-mc''))
           else Val False
      else Val False)"

definition isManagementCluster :: "'w platform \<Rightarrow> ('w, (bool \<times> go_error option) go) op" where
  "isManagementCluster P = do {
     r \<leftarrow> api (GetInfrastructure ''cluster'') (getInfrastructure P ''cluster'');
     case r of
       Inl err \<Rightarrow> State_Monad.return (Val (False, Some err))
     | Inr infra \<Rightarrow>
         go_then (State_Monad.return (mc_prefix (InfrastructureName infra))) (\<lambda>isMC.
           if isMC then State_Monad.return (Val (True, None))
           else do {
             v \<leftarrow> api (GetClusterVersion ''version'') (getClusterVersion P ''version'');
             case v of
               Inl err \<Rightarrow> State_Monad.return (Val (False, None))
             | Inr version \<Rightarrow>
                 (case map_of (cv_Annotations version) clusterTypeLabelKey of
                    Some clusterType \<Rightarrow>
                      State_Monad.return (Val (clusterType = clusterTypeManagement, None))
                  | None \<Rightarrow> State_Monad.return (Val (False, None)))
           })
   }"

text \<open>\<open>Unix\<close> of an instant, in whole seconds since 1970; the clock is read four times.\<close>

definition Unix_seconds :: "int \<Rightarrow> int" where
  "Unix_seconds t = t div second - 62135596800"

definition cluster_type_message :: string where
  "cluster_type_message = ''CRITICAL: Failed to determine cluster type - defaulting to management cluster behavior. Error: %v. Action required: This is a bug that needs to be addressed by CAMO. If an issue is not already opened, please file at https://github.com/openshift/configure-alertmanager-operator/issues''"

definition recordClusterTypeDetectionEvent :: "'w platform \<Rightarrow> go_error \<Rightarrow> ('w, unit) op" where
  "recordClusterTypeDetectionEvent P err = do {
     t \<leftarrow> io (timeNow P);
     t1 \<leftarrow> io (timeNow P);
     t2 \<leftarrow> io (timeNow P);
     t3 \<leftarrow> io (timeNow P);
     let event = \<lparr>ev_Name = ''cluster-type-detection-failure-'' @ dec_string (Unix_seconds t),
       ev_Namespace = ''openshift-monitoring'',
       obj_Kind = ''ConfigMap'',
       obj_Namespace = ''openshift-monitoring'',
       obj_Name = ''configure-alertmanager-operator'',
       ev_Reason = ''ClusterTypeDetectionFailure'',
       ev_Message = (cluster_type_message, err),
       ev_Type = ''Warning'',
       ev_EventTime = t1, ev_FirstTimestamp = t2, ev_LastTimestamp = t3,
       ev_Count = 1\<rparr>;
     createErr \<leftarrow> api (CreateEvent event) (createEvent P event);
     State_Monad.return ()
   }"

subsection \<open>Namespaces\<close>

definition anchored :: "Namespace \<Rightarrow> string" where
  "anchored ns = ''^'' @ ns_Name ns @ ''$''"

definition parseNamespaceConfigMap ::
  "lib \<Rightarrow> 'w platform \<Rightarrow> string \<Rightarrow> string \<Rightarrow> string \<Rightarrow> ConfigMap list \<Rightarrow> ('w, string list) op" where
  "parseNamespaceConfigMap L P cmName cmNamespace cmKey cmList =
     (if \<not> cmInList cmName cmList then State_Monad.return []
      else do {
        rawNamespaces \<leftarrow> readCMKey P cmName cmNamespace cmKey;
        case yamlUnmarshalNS L rawNamespaces of
          Inl err \<Rightarrow> State_Monad.return []
        | Inr namespaceConfig \<Rightarrow>
            if length (Namespaces (Resources namespaceConfig)) = 0 then State_Monad.return []
            else State_Monad.return (map anchored (Namespaces (Resources namespaceConfig)))
      })"

definition parseMCNamespaceConfigMap ::
  "lib \<Rightarrow> 'w platform \<Rightarrow> string \<Rightarrow> string \<Rightarrow> ConfigMap list \<Rightarrow> ('w, string list go) op" where
  "parseMCNamespaceConfigMap L P cmName cmNamespace cmList =
     (if \<not> cmInList cmName cmList then State_Monad.return (Val [])
      else do {
        rawNamespaces \<leftarrow> readCMKey P cmName cmNamespace cmKeyManagedNamespaces;
        case yamlUnmarshalNS L rawNamespaces of
          Inl err \<Rightarrow> State_Monad.return (Val [])
        | Inr namespaceConfig \<Rightarrow>
            if ManagementCluster (Resources namespaceConfig) = None then State_Monad.return (Val [])
            else State_Monad.return
              (go_bind (deref (ManagementCluster (Resources namespaceConfig))) (\<lambda>mc.
                 if length (AdditionalNamespaces mc) = 0 then Val []
                 else Val (map anchored (AdditionalNamespaces mc))))
      })"

definition parseConfigMaps ::
  "lib \<Rightarrow> 'w platform \<Rightarrow> ConfigMap list \<Rightarrow> string \<Rightarrow> ('w, string list go) op" where
  "parseConfigMaps L P cmList cmNamespace = do {
     managedNamespaces \<leftarrow>
       parseNamespaceConfigMap L P cmNameManagedNamespaces cmNamespace cmKeyManagedNamespaces cmList;
     ocpNamespaces \<leftarrow>
       parseNamespaceConfigMap L P cmNameOCPNamespaces cmNamespace cmKeyOCPNamespaces cmList;
     go_then (isManagementCluster P) (\<lambda>(mc, e). do {
       readMC \<leftarrow> (case e of
         Some err \<Rightarrow> do { recordClusterTypeDetectionEvent P err; State_Monad.return True }
       | None \<Rightarrow> State_Monad.return mc);
       go_then
         (if readMC then parseMCNamespaceConfigMap L P cmNameManagedNamespaces cmNamespace cmList
          else State_Monad.return (Val []))
         (\<lambda>mcNamespaces.
            if length managedNamespaces = 0 \<or> length ocpNamespaces = 0
            then State_Monad.return (Val defaultNamespaces)
            else State_Monad.return (Val (managedNamespaces @ ocpNamespaces @ mcNamespaces)))
     })
   }"

end
