(* ===== verification/Writer.thy ===== *)
theory Writer
  imports Inputs
begin

text \<open>
  Writing the configuration (controllers/secret_controller.go): it is serialised and handed to
  Alertmanager's own loader; only what the loader accepts is written, by an update that turns
  into a creation when the secret does not exist. The serialiser and the loader are third-party
  code, fields of \<open>lib\<close>. The gauge \<open>alertmanager_config_validation_failed\<close> follows the outcome.
\<close>

definition validateAlertManagerConfig :: "lib \<Rightarrow> Config \<Rightarrow> go_error option" where
  "validateAlertManagerConfig L cfg =
     (case yamlMarshal L cfg of
        Inl marshalerr \<Rightarrow>
          Some (Wrapf ''failed to marshal alertmanager config for validation: %w'' marshalerr)
      | Inr cfgBytes \<Rightarrow>
          (case amLoad L cfgBytes of
             Some err \<Rightarrow> Some (Wrapf ''alertmanager config validation failed: %w'' err)
           | None \<Rightarrow> None))"

text \<open>
  \<open>Config.String\<close> of the package of the types renders a configuration through the same
  serialiser; the text it returns on an error, a format and its argument, is left unrendered.
\<close>

definition Config_String :: "lib \<Rightarrow> Config \<Rightarrow> (string \<times> go_error) + string" where
  "Config_String L c =
     (case yamlMarshal L c of
        Inl err \<Rightarrow> Inl (''<error creating config string: %s>'', err)
      | Inr b \<Rightarrow> Inr b)"

definition validation_message :: string where
  "validation_message = ''CRITICAL: Failed to validate Alertmanager configuration - config will not be written to prevent Alertmanager from failing on restart. Error: %v. Action required: Check source configmaps and secrets for invalid data. Review operator logs for details.''"

definition recordConfigValidationEvent :: "'w platform \<Rightarrow> go_error \<Rightarrow> ('w, unit) op" where
  "recordConfigValidationEvent P err = do {
     t \<leftarrow> io (timeNow P);
     t1 \<leftarrow> io (timeNow P);
     t2 \<leftarrow> io (timeNow P);
     t3 \<leftarrow> io (timeNow P);
     let event = \<lparr>ev_Name = ''alertmanager-config-validation-failure-'' @ dec_string (Unix_seconds t),
       ev_Namespace = ''openshift-monitoring'',
       obj_Kind = ''Secret'',
       obj_Namespace = ''openshift-monitoring'',
       obj_Name = secretNameAlertmanager,
       ev_Reason = ''AlertmanagerConfigValidationFailure'',
       ev_Message = (validation_message, err),
       ev_Type = ''Warning'',
       ev_EventTime = t1, ev_FirstTimestamp = t2, ev_LastTimestamp = t3,
       ev_Count = 1\<rparr>;
     createErr \<leftarrow> api (CreateEvent event) (createEvent P event);
     State_Monad.return ()
   }"

definition main_secret :: "string \<Rightarrow> Secret" where
  "main_secret amconfigbyte =
     \<lparr>sec_Namespace = ''openshift-monitoring'', sec_Name = secretNameAlertmanager,
      sec_Data = [(''alertmanager.yaml'', amconfigbyte)]\<rparr>"

text \<open>The update, and the creation it falls back to when the secret was not found.\<close>

definition write_secret :: "'w platform \<Rightarrow> Secret \<Rightarrow> ('w, go_error option) op" where
  "write_secret P secret = do {
     e \<leftarrow> api (UpdateSecret secret) (updateSecret P secret);
     case e of
       Some err \<Rightarrow>
         if IsNotFound err then api (CreateSecret secret) (createSecret P secret)
         else State_Monad.return (Some err)
     | None \<Rightarrow> State_Monad.return None
   }"

definition writeAlertManagerConfig ::
  "lib \<Rightarrow> 'w platform \<Rightarrow> Config \<Rightarrow> ('w, go_error option) op" where
  "writeAlertManagerConfig L P amconfig =
     (case validateAlertManagerConfig L amconfig of
        Some err \<Rightarrow> do {
          recordConfigValidationEvent P err;
          UpdateAlertmanagerConfigValidationMetric False;
          State_Monad.return (Some (Wrapf ''alertmanager config validation failed, config not written: %w'' err))
        }
      | None \<Rightarrow>
          (case yamlMarshal L amconfig of
             Inl marshalerr \<Rightarrow> do {
               UpdateAlertmanagerConfigValidationMetric False;
               State_Monad.return (Some (Wrapf ''failed to marshal alertmanager config: %w'' marshalerr))
             }
           | Inr amconfigbyte \<Rightarrow> do {
               e \<leftarrow> write_secret P (main_secret amconfigbyte);
               case e of
                 Some err \<Rightarrow> do {
                   UpdateAlertmanagerConfigValidationMetric False;
                   State_Monad.return (Some (Wrapf ''failed to write alertmanager-main secret: %w'' err))
                 }
               | None \<Rightarrow> do {
                   UpdateAlertmanagerConfigValidationMetric True;
                   State_Monad.return None
                 }
             }))"

end
