(* ===== verification/Reconciler.thy ===== *)
theory Reconciler
  imports Writer
begin

text \<open>
  The reconcile loop (controllers/secret_controller.go). The readiness engine is reached
  through an interface of two methods, as in the source; \<open>impl_interface\<close> is the engine of the
  package \<open>readiness\<close>, which \<open>SetupWithManager\<close> installs.
\<close>

record 'w Interface =
  ifIsReady :: "('w, (bool \<times> go_error option) go) op"
  ifResult :: "'w sys \<Rightarrow> Result"

definition impl_interface :: "'w platform \<Rightarrow> 'w Interface" where
  "impl_interface P = \<lparr>ifIsReady = IsReady P, ifResult = impl_Result\<rparr>"

record Request =
  req_Namespace :: string
  req_Name :: string

text \<open>The names the switch lets through.\<close>

definition watched_names :: "string list" where
  "watched_names =
     [secretNameGoalert, secretNamePD, secretNameCADPD, secretNameDMS, secretNameAlertmanager,
      cmNameOcmAgent, cmNameManagedNamespaces, cmNameOCPNamespaces, clusterVersionName]"

text \<open>
  The inputs gathered from the two lists and from the cluster, as the arguments of
  \<open>createAlertManagerConfig\<close>, in the order in which the reconcile reads them.
\<close>

definition gather_params ::
  "lib \<Rightarrow> 'w platform \<Rightarrow> Secret list \<Rightarrow> ConfigMap list \<Rightarrow> string \<Rightarrow> bool \<Rightarrow>
     ('w, am_params go) op" where
  "gather_params L P secretList cmList namespace clusterReady = do {
     (pdKey, cadKey, wdURL, gaLow, gaHigh, gaHeartbeat) \<leftarrow>
       parseSecrets P secretList namespace clusterReady;
     go_then (parseConfigMaps L P cmList namespace) (\<lambda>osdNamespaces. do {
       ocmURL \<leftarrow> readOCMAgentServiceURLFromConfig L P cmList namespace;
       (proxy, e1) \<leftarrow> getClusterProxy P;
       (ident, e2) \<leftarrow> getClusterID P;
       go_then (getClusterRegion P) (\<lambda>(region, e3).
         State_Monad.return (Val
           \<lparr>pagerdutyRoutingKey = pdKey, cadPagerdutyRoutingKey = cadKey, goalertURLlow = gaLow,
            goalertURLhigh = gaHigh, goalertURLheartbeat = gaHeartbeat, watchdogURL = wdURL,
            ocmAgentURL = ocmURL, clusterID = ident, clusterRegion = region, clusterProxy = proxy,
            namespaceList = osdNamespaces\<rparr>))
     })
   }"

definition list_or_empty :: "go_error + 'a list \<Rightarrow> 'a list" where [simp]:
  "list_or_empty r = (case r of Inl err \<Rightarrow> [] | Inr items \<Rightarrow> items)"

text \<open>
  A reconcile of a watched object in three parts: the type of the cluster and the readiness
  check, the inputs, and the write with the update of the metrics.
\<close>

definition check_cluster ::
  "'w platform \<Rightarrow> 'w Interface \<Rightarrow> ('w, (bool \<times> go_error option) go) op" where
  "check_cluster P I = go_then (isManagementCluster P) (\<lambda>(readMC, mcErr). do {
     (case mcErr of
        Some err \<Rightarrow> recordClusterTypeDetectionEvent P err
      | None \<Rightarrow> State_Monad.return ());
     ifIsReady I
   })"

definition gather_inputs ::
  "lib \<Rightarrow> 'w platform \<Rightarrow> string \<Rightarrow> bool \<Rightarrow>
     ('w, (Secret list \<times> ConfigMap list \<times> am_params) go) op" where
  "gather_inputs L P namespace clusterReady = do {
     secretResult \<leftarrow> api (ListSecrets namespace) (listSecrets P namespace);
     let secretList = list_or_empty secretResult;
     cmResult \<leftarrow> api (ListConfigMaps namespace) (listConfigMaps P namespace);
     let cmList = list_or_empty cmResult;
     go_then (gather_params L P secretList cmList namespace clusterReady) (\<lambda>params.
       State_Monad.return (Val (secretList, cmList, params)))
   }"

definition apply_config ::
  "lib \<Rightarrow> 'w platform \<Rightarrow> 'w Interface \<Rightarrow> Secret list \<Rightarrow> ConfigMap list \<Rightarrow> am_params \<Rightarrow>
     ('w, (Result \<times> go_error option) go) op" where
  "apply_config L P I secretList cmList params = do {
     s \<leftarrow> State_Monad.get;
     let alertmanagerconfig = createAlertManagerConfig (isFedramp s) params;
     writeErr \<leftarrow> writeAlertManagerConfig L P alertmanagerconfig;
     case writeErr of
       Some err \<Rightarrow> State_Monad.return (Val (zero_Result, Some err))
     | None \<Rightarrow> do {
         m \<leftarrow> UpdateSecretsMetrics secretList alertmanagerconfig;
         case m of
           Panic p \<Rightarrow> State_Monad.return (Panic p)
         | Val u \<Rightarrow> do {
             UpdateConfigMapMetrics cmList;
             s \<leftarrow> State_Monad.get;
             State_Monad.return (Val (ifResult I s, None))
           }
       }
   }"

definition Reconcile ::
  "lib \<Rightarrow> 'w platform \<Rightarrow> 'w Interface \<Rightarrow> Request \<Rightarrow> ('w, (Result \<times> go_error option) go) op" where
  "Reconcile L P I request =
     (if req_Namespace request \<noteq> OperatorNamespace
      then State_Monad.return (Val (zero_Result, None))
      else if req_Name request \<notin> set watched_names
      then State_Monad.return (Val (zero_Result, None))
      else
        go_then (check_cluster P I) (\<lambda>(clusterReady, readyErr).
          case readyErr of
            Some err \<Rightarrow> do {
              s \<leftarrow> State_Monad.get;
              State_Monad.return (Val (ifResult I s, Some err))
            }
          | None \<Rightarrow>
              go_then (gather_inputs L P (req_Namespace request) clusterReady)
                (\<lambda>(secretList, cmList, params). apply_config L P I secretList cmList params)))"

text \<open>
  \<open>SetupWithManager\<close> installs the engine and registers the controller for three kinds of
  objects; the registration itself is the manager's, a parameter.
\<close>

datatype watched_kind = WatchSecret | WatchConfigMap | WatchClusterVersion

definition SetupWithManager ::
  "'w platform \<Rightarrow> (watched_kind list \<Rightarrow> 'w \<Rightarrow> go_error option \<times> 'w) \<Rightarrow>
     ('w, 'w Interface \<times> go_error option) op" where
  "SetupWithManager P complete = do {
     modify_impl (\<lambda>i. zero_Impl);
     e \<leftarrow> io (complete [WatchSecret, WatchConfigMap, WatchClusterVersion]);
     State_Monad.return (impl_interface P, e)
   }"

text \<open>
  The request that a change of an object enqueues (\<open>EnqueueRequestForObject\<close>): its namespace
  and its name. A ClusterVersion is cluster-scoped and has no namespace.
\<close>

definition cluster_version_request :: Request where
  "cluster_version_request = \<lparr>req_Namespace = '''', req_Name = clusterVersionName\<rparr>"

end
