(* ===== verification/MemoryCluster.thy ===== *)
theory MemoryCluster
  imports OperatorState
begin

text \<open>
  An in-memory cluster: an instance of the record \<open>platform\<close> whose world is a set of API objects
  and a clock. Reads return what is stored and change nothing; a creation fails when the object
  exists, an update when it does not. The witnesses of the properties that speak of a cluster
  run the operator on it.
\<close>

record cluster =
  cl_secrets :: "Secret list"
  cl_configMaps :: "ConfigMap list"
  cl_operators :: "ClusterOperator list"
  cl_version :: "ClusterVersion option"
  cl_proxy :: "Proxy option"
  cl_infrastructure :: "Infrastructure option"
  cl_events :: "Event list"
  cl_clock :: int

definition found :: "string \<Rightarrow> 'a option \<Rightarrow> go_error + 'a" where
  "found n x = (case x of None \<Rightarrow> Inl (ApiError NotFound n) | Some y \<Rightarrow> Inr y)"

definition find_secret :: "string \<Rightarrow> string \<Rightarrow> Secret list \<Rightarrow> Secret option" where
  "find_secret ns n xs = List.find (\<lambda>x. sec_Namespace x = ns \<and> sec_Name x = n) xs"

definition find_configMap :: "string \<Rightarrow> string \<Rightarrow> ConfigMap list \<Rightarrow> ConfigMap option" where
  "find_configMap ns n xs = List.find (\<lambda>x. cm_Namespace x = ns \<and> cm_Name x = n) xs"

definition same_object :: "Secret \<Rightarrow> Secret \<Rightarrow> bool" where
  "same_object x y = (sec_Namespace x = sec_Namespace y \<and> sec_Name x = sec_Name y)"

definition memory_platform :: "cluster platform" where
  "memory_platform =
     \<lparr>listSecrets = (\<lambda>ns w. (Inr (filter (\<lambda>x. sec_Namespace x = ns) (cl_secrets w)), w)),
      listConfigMaps = (\<lambda>ns w. (Inr (filter (\<lambda>x. cm_Namespace x = ns) (cl_configMaps w)), w)),
      listClusterOperators = (\<lambda>w. (Inr (cl_operators w), w)),
      getSecret = (\<lambda>ns n w. (found n (find_secret ns n (cl_secrets w)), w)),
      getConfigMap = (\<lambda>ns n w. (found n (find_configMap ns n (cl_configMaps w)), w)),
      getClusterVersion = (\<lambda>n w. (found n (cl_version w), w)),
      getProxy = (\<lambda>n w. (found n (cl_proxy w), w)),
      getInfrastructure = (\<lambda>n w. (found n (cl_infrastructure w), w)),
      createEvent = (\<lambda>e w. (None, w\<lparr>cl_events := cl_events w @ [e]\<rparr>)),
      createSecret = (\<lambda>x w.
        if find_secret (sec_Namespace x) (sec_Name x) (cl_secrets w) = None
        then (None, w\<lparr>cl_secrets := cl_secrets w @ [x]\<rparr>)
        else (Some (ApiError AlreadyExists (sec_Name x)), w)),
      updateSecret = (\<lambda>x w.
        if find_secret (sec_Namespace x) (sec_Name x) (cl_secrets w) = None
        then (Some (ApiError NotFound (sec_Name x)), w)
        else (None, w\<lparr>cl_secrets := map (\<lambda>y. if same_object x y then x else y) (cl_secrets w)\<rparr>)),
      timeNow = (\<lambda>w. (cl_clock w, w)),
      lookupEnv = (\<lambda>k w. (None, w)),
      readFile = (\<lambda>f w. (Inl (Errorf ''open %s: no such file or directory'' [f]), w)),
      promClient = (\<lambda>t w. (None, w)),
      promQuery = (\<lambda>h q now w. (Inr (Vector [], []), w))\<rparr>"

text \<open>The content of a stored secret.\<close>

definition stored_secret :: "string \<Rightarrow> string \<Rightarrow> cluster \<Rightarrow> go_map option" where
  "stored_secret ns n w = map_option sec_Data (find_secret ns n (cl_secrets w))"

lemma find_secret_app:
  "find_secret ns n (xs @ ys) =
     (case find_secret ns n xs of None \<Rightarrow> find_secret ns n ys | Some x \<Rightarrow> Some x)"
  by (induction xs) (auto simp: find_secret_def)

lemma find_secret_replace:
  "find_secret ns n (map (\<lambda>y. if same_object x y then x else y) xs) =
     (if sec_Namespace x = ns \<and> sec_Name x = n
      then map_option (\<lambda>_. x) (find_secret ns n xs) else find_secret ns n xs)"
  by (induction xs) (auto simp: find_secret_def same_object_def)

text \<open>
  What a secret holds after a write. A write that succeeds stores exactly the object it was
  given, one that fails changes nothing, and other secrets are never touched.
\<close>

lemma memory_update:
  "updateSecret memory_platform x w = (e, w') \<Longrightarrow> stored_secret ns n w' =
     (if e = None \<and> sec_Namespace x = ns \<and> sec_Name x = n then Some (sec_Data x)
      else stored_secret ns n w)"
  by (auto simp: memory_platform_def stored_secret_def find_secret_replace split: if_splits)

lemma memory_create:
  "createSecret memory_platform x w = (e, w') \<Longrightarrow> stored_secret ns n w' =
     (if e = None \<and> sec_Namespace x = ns \<and> sec_Name x = n then Some (sec_Data x)
      else stored_secret ns n w)"
  by (auto simp: memory_platform_def stored_secret_def find_secret_app split: if_splits option.splits)
    (auto simp: find_secret_def split: if_splits)

text \<open>A library for the witnesses: every configuration serialises to one text and loads.\<close>

definition sample_lib :: lib where
  "sample_lib =
     \<lparr>yamlMarshal = (\<lambda>c. Inr ''route:''), amLoad = (\<lambda>y. None),
      yamlUnmarshalNS = (\<lambda>y. if y = '''' then Inr \<lparr>Resources = \<lparr>Namespaces = [], ManagementCluster = None\<rparr>\<rparr>
        else Inr \<lparr>Resources = \<lparr>Namespaces = [\<lparr>ns_Name = y\<rparr>],
          ManagementCluster = Some \<lparr>AdditionalNamespaces = [\<lparr>ns_Name = y @ ''-mc''\<rparr>]\<rparr>\<rparr>\<rparr>),
      parseRequestURI = (\<lambda>u. None)\<rparr>"

text \<open>A management cluster with a PagerDuty key and both namespace lists.\<close>

definition sample_cluster :: cluster where
  "sample_cluster =
     \<lparr>cl_secrets =
        [\<lparr>sec_Namespace = ''openshift-monitoring'', sec_Name = ''pd-secret'',
          sec_Data = [(''PAGERDUTY_KEY'', ''key'')]\<rparr>],
      cl_configMaps =
        [\<lparr>cm_Namespace = ''openshift-monitoring'', cm_Name = ''managed-namespaces'',
          cm_Data = [(''managed_namespaces.yaml'', ''a'')]\<rparr>,
         \<lparr>cm_Namespace = ''openshift-monitoring'', cm_Name = ''ocp-namespaces'',
          cm_Data = [(''managed_namespaces.yaml'', ''b'')]\<rparr>],
      cl_operators =
        [\<lparr>co_Conditions = [\<lparr>cond_Type = OperatorAvailable, cond_Status = ConditionTrue\<rparr>]\<rparr>],
      cl_version = Some \<lparr>cv_ClusterID = ''id'', cv_Annotations = []\<rparr>,
      cl_proxy = None,
      cl_infrastructure = Some \<lparr>InfrastructureName = ''hs-mc-1'', infra_PlatformStatus = None\<rparr>,
      cl_events = [],
      cl_clock = 63800000000000000000\<rparr>"

end
