(* ===== verification/ReadinessProperties.thy ===== *)
theory ReadinessProperties
  imports Readiness
begin

text \<open>
  The contract of the readiness engine as an interface, its proof for the engine of the source,
  and the properties of the engine: what makes a cluster ready, that a positive answer is
  final, that polling goes on until there is one, and where the age arithmetic overflows.
\<close>

subsection \<open>The loops\<close>

lemma conditions_ready_iff: "conditions_ready conds = list_all (\<lambda>c. \<not> bad_condition c) conds"
  by (induction conds) auto

lemma operators_ready_iff:
  "operators_ready cos = list_all (\<lambda>co. list_all (\<lambda>c. \<not> bad_condition c) (co_Conditions co)) cos"
  by (induction cos) (auto simp: conditions_ready_iff)

lemma operators_ready_append:
  "operators_ready (xs @ ys) = (operators_ready xs \<and> operators_ready ys)"
  by (simp add: operators_ready_iff)

text \<open>
  The search for the earliest sample is the minimum of the instants, as long as none of them is
  the zero instant, which the loop takes for "not yet set".
\<close>

lemma earliest_time_acc:
  assumes "acc \<noteq> 0" and "\<forall>v \<in> set vs. time_Unix v \<noteq> 0"
  shows "earliest_time vs acc = Min (insert acc (time_Unix ` set vs))"
  using assms
proof (induction vs arbitrary: acc)
  case (Cons v vs)
  show ?case
  proof (cases "time_Unix v < acc")
    case True
    then have "Min (insert acc (time_Unix ` set (v # vs))) = Min (insert (time_Unix v) (time_Unix ` set vs))"
      by (cases "vs = []") (auto simp: min_def)
    with Cons True show ?thesis by simp
  next
    case False
    then have "Min (insert acc (time_Unix ` set (v # vs))) = Min (insert acc (time_Unix ` set vs))"
      by (cases "vs = []") (auto simp: min_def)
    with Cons False show ?thesis by simp
  qed
qed simp

lemma earliest_time_Min:
  assumes "vs \<noteq> []" and "\<forall>v \<in> set vs. time_Unix v \<noteq> 0"
  shows "earliest_time vs 0 = Min (time_Unix ` set vs)"
  using assms by (cases vs) (auto simp: earliest_time_acc)

subsection \<open>Frame conditions of the engine\<close>

lemma setPromAPI_frame [frame_intros]:
  "state_io_rel (sends is_read) (setPromAPI P)"
  "state_io_rel keeps_gauge (setPromAPI P)"
  unfolding setPromAPI_def by (intro frame_intros; simp)+

lemma setClusterCreationTime_frame [frame_intros]:
  "state_io_rel (sends is_read) (setClusterCreationTime P)"
  "state_io_rel keeps_gauge (setClusterCreationTime P)"
  unfolding setClusterCreationTime_def by (intro frame_intros; simp)+

lemma clusterTooOld_frame [frame_intros]:
  "state_io_rel (sends is_read) (clusterTooOld P m)"
  "state_io_rel keeps_gauge (clusterTooOld P m)"
  unfolding clusterTooOld_def by (intro frame_intros; simp)+

lemma age_fallback_frame [frame_intros]:
  "state_io_rel (sends is_read) (age_fallback P)"
  "state_io_rel keeps_gauge (age_fallback P)"
  unfolding age_fallback_def by (intro frame_intros; simp)+

lemma IsReady_frame [frame_intros]:
  "state_io_rel (sends is_read) (IsReady P)"
  "state_io_rel keeps_gauge (IsReady P)"
  unfolding IsReady_def by (intro frame_intros; simp)+

subsection \<open>What one check leaves behind\<close>

lemma setPromAPI_post:
  assumes "run_state (setPromAPI P) s = (e, t)"
  shows "impl_ready (impl t) = impl_ready (impl s)" "impl_result (impl t) = impl_result (impl s)"
    "clusterCreationTime (impl t) = clusterCreationTime (impl s)"
    "e = None \<Longrightarrow> promAPI (impl t) \<noteq> None"
  using assms by (auto simp: setPromAPI_def split: sum.splits option.splits)

lemma setClusterCreationTime_post:
  assumes "run_state (setClusterCreationTime P) s = (r, t)"
  shows "impl_ready (impl t) = impl_ready (impl s)" "impl_result (impl t) = impl_result (impl s)"
    "r = Val None \<Longrightarrow> clusterCreationTime (impl t) \<noteq> 0"
proof -
  obtain e u where u: "run_state (setPromAPI P) s = (e, u)" by fastforce
  note post = setPromAPI_post [OF u]
  show "impl_ready (impl t) = impl_ready (impl s)" "impl_result (impl t) = impl_result (impl s)"
    "r = Val None \<Longrightarrow> clusterCreationTime (impl t) \<noteq> 0"
    using assms u post
    by (auto simp: setClusterCreationTime_def Let_def split: if_splits prod.splits option.splits
        sum.splits prom_value.splits)
qed

lemma setClusterCreationTime_cached:
  "clusterCreationTime (impl s) \<noteq> 0 \<Longrightarrow> run_state (setClusterCreationTime P) s = (Val None, s)"
  by (simp add: setClusterCreationTime_def)

text \<open>
  The result of the fallback on the age of the cluster, from a state in which the engine is not
  ready and has reset its result.
\<close>

definition fallback_outcome :: "(bool \<times> go_error option) go \<Rightarrow> Impl \<Rightarrow> bool" where
  "fallback_outcome r i =
     (case r of
        Panic m \<Rightarrow> \<not> impl_ready i
      | Val (b, e) \<Rightarrow>
          if b then e = None \<and> impl_ready i \<and> impl_result i = zero_Result
          else \<not> impl_ready i \<and>
            (e = None \<longrightarrow> impl_result i \<in> {\<lparr>Requeue = True, RequeueAfter = second\<rparr>,
                                        \<lparr>Requeue = True, RequeueAfter = 30 * second\<rparr>}) \<and>
            (e \<noteq> None \<longrightarrow> impl_result i = zero_Result))"

lemma age_fallback_post:
  assumes "\<not> impl_ready (impl s)" and "impl_result (impl s) = zero_Result"
    and "run_state (age_fallback P) s = (r, t)"
  shows "fallback_outcome r (impl t)"
proof -
  obtain c u where u: "run_state (setClusterCreationTime P) s = (c, u)" by fastforce
  note post = setClusterCreationTime_post [OF u]
  show ?thesis
    using assms u post
    by (auto simp: age_fallback_def clusterTooOld_def fallback_outcome_def
        split: go.splits option.splits sum.splits if_splits)
qed

lemma IsReady_cached: "impl_ready (impl s) \<Longrightarrow> run_state (IsReady P) s = (Val (True, None), s)"
  by (simp add: IsReady_def)

text \<open>
  Without the cache, either the operators settle the question or the fallback does, in the state
  in which the listing has left the system.
\<close>

definition after_list :: "'w platform \<Rightarrow> 'w sys \<Rightarrow> 'w sys" where
  "after_list P s = s\<lparr>impl := (impl s)\<lparr>impl_result := zero_Result\<rparr>,
     world := snd (listClusterOperators P (world s)),
     issued := issued s @ [ListClusterOperators]\<rparr>"

lemma run_IsReady:
  assumes "\<not> impl_ready (impl s)"
  shows "run_state (IsReady P) s =
    (if operators_say_ready (fst (listClusterOperators P (world s)))
     then (Val (True, None), (after_list P s)\<lparr>impl := (impl (after_list P s))\<lparr>impl_ready := True\<rparr>\<rparr>)
     else run_state (age_fallback P) (after_list P s))"
  using assms by (simp add: IsReady_def after_list_def)

text \<open>The fallback says yes exactly if the age is known, the limit is a number and exceeded.\<close>

definition age_exceeded :: "'w platform \<Rightarrow> 'w sys \<Rightarrow> bool" where
  "age_exceeded P u =
     (case getEnvInt maxClusterAgeKey maxClusterAgeDefault
        (fst (lookupEnv P maxClusterAgeKey (world u))) of
        Inl err \<Rightarrow> False
      | Inr m \<Rightarrow> older_than (clusterCreationTime (impl u))
          (fst (timeNow P (snd (lookupEnv P maxClusterAgeKey (world u))))) m)"

lemma age_fallback_yes:
  assumes "run_state (setClusterCreationTime P) s = (c, u)"
  shows "fst (run_state (age_fallback P) s) = Val (True, e) \<longleftrightarrow>
    e = None \<and> c = Val None \<and> age_exceeded P u"
  using assms
  by (auto simp: age_fallback_def clusterTooOld_def age_exceeded_def
      split: go.splits option.splits sum.splits if_splits)

lemma IsReady_post:
  assumes "\<not> impl_ready (impl s)" and "run_state (IsReady P) s = (r, t)"
  shows "operators_say_ready (fst (listClusterOperators P (world s))) \<and> r = Val (True, None) \<and>
       impl_ready (impl t) \<and> impl_result (impl t) = zero_Result
    \<or> \<not> operators_say_ready (fst (listClusterOperators P (world s))) \<and> fallback_outcome r (impl t)"
proof -
  have "run_state (age_fallback P) (after_list P s) = (r, t) \<Longrightarrow> fallback_outcome r (impl t)"
    using assms(1) by (intro age_fallback_post) (simp_all add: after_list_def)
  with assms show ?thesis
    by (auto simp: run_IsReady after_list_def split: if_splits)
qed

subsection \<open>The contract of a readiness engine\<close>

text \<open>
  What the controller relies on: a check is cached once it was positive, its answer is the
  state of the engine afterwards, and it sends no writes and touches no gauge. \<open>poll_run\<close> is a
  series of checks between which the world changes arbitrarily.
\<close>

fun poll_run ::
  "('w, (bool \<times> go_error option) go) op \<Rightarrow> ('w \<Rightarrow> 'w) list \<Rightarrow> 'w sys \<Rightarrow>
     (bool \<times> go_error option) go list" where
  "poll_run m [] s = []"
| "poll_run m (f # fs) s =
     (let (r, t) = run_state m (s\<lparr>world := f (world s)\<rparr>) in r # poll_run m fs t)"

locale readiness_contract =
  fixes isReady :: "('w, (bool \<times> go_error option) go) op"
    and ready :: "Impl \<Rightarrow> bool"
  assumes cached: "ready (impl s) \<Longrightarrow> run_state isReady s = (Val (True, None), s)"
    and verdict: "run_state isReady s = (Val (b, e), t) \<Longrightarrow> ready (impl t) = b \<and> (b \<longrightarrow> e = None)"
    and reads_only: "state_io_rel (sends is_read) isReady"
    and no_gauge: "state_io_rel keeps_gauge isReady"
begin

lemma poll_run_ready:
  "ready (impl s) \<Longrightarrow> poll_run isReady fs s = replicate (length fs) (Val (True, None))"
  by (induction fs arbitrary: s) (simp_all add: cached)

lemma poll_run_final:
  assumes "poll_run isReady fs s = xs @ Val (True, e) # ys"
  shows "e = None \<and> ys = replicate (length ys) (Val (True, None))"
  using assms
proof (induction fs arbitrary: s xs)
  case (Cons f fs)
  obtain r t where rt: "run_state isReady (s\<lparr>world := f (world s)\<rparr>) = (r, t)" by fastforce
  show ?case
  proof (cases xs)
    case Nil
    with Cons.prems rt have r: "r = Val (True, e)" and ys: "ys = poll_run isReady fs t" by simp_all
    from verdict [of _ True e t] rt r have "ready (impl t)" "e = None" by auto
    with ys show ?thesis by (simp add: poll_run_ready)
  next
    case (Cons x xs')
    with Cons.prems rt have "poll_run isReady fs t = xs' @ Val (True, e) # ys" by simp
    then show ?thesis by (rule Cons.IH)
  qed
qed simp

end

lemma IsReady_verdict:
  assumes "run_state (IsReady P) s = (Val (b, e), t)"
  shows "impl_ready (impl t) = b \<and> (b \<longrightarrow> e = None)"
proof (cases "impl_ready (impl s)")
  case True
  with assms show ?thesis by (auto simp: IsReady_cached)
next
  case False
  from IsReady_post [OF this assms] show ?thesis
    by (auto simp: fallback_outcome_def split: if_splits)
qed

interpretation impl_engine: readiness_contract "IsReady P" impl_ready for P
  using IsReady_frame [of P]
  by unfold_locales (simp_all add: IsReady_cached IsReady_verdict)

subsection \<open>A sample platform for the witnesses\<close>

text \<open>
  A platform whose world is one instant, the reading of the clock: two operators, the second
  still progressing, a cluster created at the Unix time 1000000, and no environment variables.
\<close>

definition sample_operators :: "ClusterOperator list" where
  "sample_operators =
     [\<lparr>co_Conditions = [\<lparr>cond_Type = OperatorAvailable, cond_Status = ConditionTrue\<rparr>]\<rparr>,
      \<lparr>co_Conditions = [\<lparr>cond_Type = OperatorProgressing, cond_Status = ConditionTrue\<rparr>]\<rparr>]"

definition sample_platform :: "int platform" where
  "sample_platform =
     \<lparr>listSecrets = (\<lambda>ns w. (Inr [], w)), listConfigMaps = (\<lambda>ns w. (Inr [], w)),
      listClusterOperators = (\<lambda>w. (Inr sample_operators, w)),
      getSecret = (\<lambda>ns n w. (Inl (ApiError NotFound n), w)),
      getConfigMap = (\<lambda>ns n w. (Inl (ApiError NotFound n), w)),
      getClusterVersion = (\<lambda>n w. (Inl (ApiError NotFound n), w)),
      getProxy = (\<lambda>n w. (Inl (ApiError NotFound n), w)),
      getInfrastructure = (\<lambda>n w. (Inl (ApiError NotFound n), w)),
      createEvent = (\<lambda>e w. (None, w)), createSecret = (\<lambda>x w. (None, w)),
      updateSecret = (\<lambda>x w. (None, w)), timeNow = (\<lambda>w. (w, w)),
      lookupEnv = (\<lambda>k w. (None, w)), readFile = (\<lambda>f w. (Inr ''token'', w)),
      promClient = (\<lambda>t w. (None, w)),
      promQuery = (\<lambda>h q now w. (Inr (Vector [2000000, 1000000], []), w))\<rparr>"

definition fresh_sys :: "'w \<Rightarrow> 'w sys" where
  "fresh_sys w =
     \<lparr>world = w, issued = [], gauge = unset_gauges, impl = zero_Impl, isFedramp = False\<rparr>"

subsection \<open>Properties\<close>

text \<open>
  C13: a positive answer is final. In any series of checks, with any changes of the world
  between them, the answers that follow a positive one are all positive and without error.
\<close>

theorem readiness_final:
  assumes "poll_run (IsReady P) fs s = xs @ Val (True, e) # ys"
  shows "e = None \<and> ys = replicate (length ys) (Val (True, None))"
  using assms by (rule impl_engine.poll_run_final)

theorem readiness_final_witness:
  "poll_run (IsReady sample_platform) [id, (\<lambda>w. w + 91 * minute), (\<lambda>w. 0)]
     (fresh_sys (time_Unix 1000000)) = [Val (False, None)] @ Val (True, None) # [Val (True, None)]
   \<and> [Val (True, None)] = replicate 1 (Val (True, None :: go_error option))"
proof -
  have "poll_run (IsReady sample_platform) [id, (\<lambda>w. w + 91 * minute), (\<lambda>w. 0)]
     (fresh_sys (time_Unix 1000000)) = [Val (False, None)] @ Val (True, None) # [Val (True, None)]"
    by code_simp
  from this readiness_final [OF this] show ?thesis by simp
qed

text \<open>The age comparison is exact in range: the \<open>int64\<close> product does not overflow.\<close>

lemma older_than_in_range:
  assumes "\<bar>m\<bar> \<le> 153722867"
  shows "older_than creation now m = (creation + m * minute < now)"
  using assms by (simp add: older_than_def max_age_duration_def wrap64_id abs_le_iff) linarith

lemma healthy_operators:
  "operators_say_ready r \<longleftrightarrow> (\<exists>items. r = Inr items \<and> items \<noteq> [] \<and>
     (\<forall>co \<in> set items. \<forall>c \<in> set (co_Conditions co). (cond_Type c, cond_Status c) \<notin>
        {(OperatorProgressing, ConditionTrue), (OperatorDegraded, ConditionTrue),
         (OperatorAvailable, ConditionFalse)}))"
  by (auto simp: operators_say_ready_def operators_ready_iff list_all_iff bad_condition_def
      split: sum.splits)

lemma age_exceeded_iff:
  "age_exceeded P u \<longleftrightarrow>
     (\<exists>m. getEnvInt maxClusterAgeKey maxClusterAgeDefault
          (fst (lookupEnv P maxClusterAgeKey (world u))) = Inr m \<and>
        (let now = fst (timeNow P (snd (lookupEnv P maxClusterAgeKey (world u))))
         in if \<bar>m\<bar> \<le> 153722867 then clusterCreationTime (impl u) + m * minute < now
            else older_than (clusterCreationTime (impl u)) now m))"
  by (auto simp: age_exceeded_def older_than_in_range Let_def split: sum.splits if_splits)

text \<open>
  C8: what makes a cluster ready. An engine that is not ready answers positively exactly in two
  cases, and then without an error: the list of ClusterOperators was read, is not empty, and no
  operator in it is progressing, degraded or unavailable; or the attempt to learn the creation
  time (from \<open>after_list P s\<close> to \<open>u\<close>) succeeded, the environment variable read next is absent or
  a number, and the clock read after that is past the creation time by more than this many
  minutes. The comparison of the times is exact up to 153722867 minutes; beyond, it is the
  wrapped one of \<open>older_than\<close>, which can overflow.
\<close>

theorem readiness_exact:
  assumes "\<not> impl_ready (impl s)"
    and "run_state (setClusterCreationTime P) (after_list P s) = (c, u)"
  shows "fst (run_state (IsReady P) s) = Val (True, e) \<longleftrightarrow> e = None \<and>
    ((\<exists>items. fst (listClusterOperators P (world s)) = Inr items \<and> items \<noteq> [] \<and>
        (\<forall>co \<in> set items. \<forall>c \<in> set (co_Conditions co). (cond_Type c, cond_Status c) \<notin>
           {(OperatorProgressing, ConditionTrue), (OperatorDegraded, ConditionTrue),
            (OperatorAvailable, ConditionFalse)})) \<or>
     c = Val None \<and>
     (\<exists>m. getEnvInt maxClusterAgeKey maxClusterAgeDefault
          (fst (lookupEnv P maxClusterAgeKey (world u))) = Inr m \<and>
        (let now = fst (timeNow P (snd (lookupEnv P maxClusterAgeKey (world u))))
         in if \<bar>m\<bar> \<le> 153722867 then clusterCreationTime (impl u) + m * minute < now
            else older_than (clusterCreationTime (impl u)) now m)))"
  unfolding run_IsReady [OF assms(1)] healthy_operators [symmetric] age_exceeded_iff [symmetric]
  using age_fallback_yes [OF assms(2), of e] by auto

text \<open>In the witness the second operator is progressing and the cluster is 91 minutes old.\<close>

theorem readiness_exact_witness:
  "fst (run_state (IsReady sample_platform) (fresh_sys (time_Unix 1000000 + 91 * minute))) =
     Val (True, None)"
proof -
  let ?s = "fresh_sys (time_Unix 1000000 + 91 * minute)"
  let ?r = "run_state (setClusterCreationTime sample_platform) (after_list sample_platform ?s)"
  have "\<not> impl_ready (impl ?s)" by (simp add: fresh_sys_def)
  moreover have run: "?r = (Val None, snd ?r)" by code_simp
  moreover have "clusterCreationTime (impl (snd ?r)) = time_Unix 1000000"
    "world (snd ?r) = time_Unix 1000000 + 91 * minute" by code_simp+
  ultimately show ?thesis
    by (subst readiness_exact [OF _ run])
      (simp_all add: sample_platform_def getEnvInt_def Let_def)
qed

text \<open>
  C37: how the creation time is learned. An engine that does not know it, and for which the
  token, the client and the query succeed, puts the question to Prometheus with the token it
  has just read, takes the earliest of the sampled instants, in whatever order they come, and
  keeps it: asked again, it answers at once and sends nothing.
\<close>

theorem creation_time_learned:
  assumes "clusterCreationTime (impl s) = 0"
    and "readFile P tokenFile (world s) = (Inr token, w1)" and "promClient P token w1 = (None, w2)"
    and "timeNow P w2 = (now, w3)"
    and "promQuery P token clusterVersionQuery now w3 = (Inr (Vector vs, warnings), w4)"
    and "vs \<noteq> []" and "\<forall>v \<in> set vs. time_Unix v \<noteq> 0"
  shows "\<exists>t. run_state (setClusterCreationTime P) s = (Val None, t) \<and>
    clusterCreationTime (impl t) = Min (time_Unix ` set vs) \<and>
    world t = w4 \<and> issued t = issued s @ [PromQuery clusterVersionQuery] \<and>
    impl_ready (impl t) = impl_ready (impl s) \<and>
    run_state (setClusterCreationTime P) t = (Val None, t)"
proof -
  have "Min (time_Unix ` set vs) \<in> time_Unix ` set vs" using assms(6) by (intro Min_in) auto
  then have "Min (time_Unix ` set vs) \<noteq> 0" using assms(7) by auto
  with assms earliest_time_Min [OF assms(6,7)] show ?thesis
    by (simp add: setClusterCreationTime_def setPromAPI_def Let_def)
qed

theorem creation_time_learned_witness:
  "\<exists>t. run_state (setClusterCreationTime sample_platform) (fresh_sys 7) = (Val None, t) \<and>
     clusterCreationTime (impl t) = time_Unix 1000000"
proof -
  have "\<forall>v \<in> set [2000000, 1000000]. time_Unix v \<noteq> 0" "Min (time_Unix ` set [2000000, 1000000]) = time_Unix 1000000"
    by (simp_all add: time_Unix_def wrap64_def)
  then show ?thesis
    using creation_time_learned [of "fresh_sys 7" sample_platform "''token''" 7 7 7 7 "[2000000, 1000000]" "[]" 7]
    by (auto simp: sample_platform_def fresh_sys_def)
qed

text \<open>
  Polling goes on until the cluster is ready. After a check that is negative without an
  error the engine's result asks the controller to come back, after one second when the age of
  the cluster could not be determined and after thirty seconds otherwise; after a positive
  check, and only then, it asks for no requeue.
\<close>

theorem readiness_polls:
  assumes "run_state (IsReady P) s = (Val (b, None), t)" and "\<not> impl_ready (impl s)"
  shows "if b then impl_Result t = zero_Result
    else Requeue (impl_Result t) \<and> RequeueAfter (impl_Result t) \<in> {second, 30 * second}"
  using IsReady_post [OF assms(2,1)]
  by (auto simp: fallback_outcome_def impl_Result_def split: if_splits)

theorem readiness_polls_witness:
  "Requeue (impl_Result (snd (run_state (IsReady sample_platform) (fresh_sys (time_Unix 1000000)))))"
proof -
  let ?s = "fresh_sys (time_Unix 1000000)"
  have "run_state (IsReady sample_platform) ?s =
      (Val (False, None), snd (run_state (IsReady sample_platform) ?s))"
    by code_simp
  moreover have "\<not> impl_ready (impl ?s)" by (simp add: fresh_sys_def)
  ultimately show ?thesis using readiness_polls by fastforce
qed

text \<open>
  An old cluster becomes ready. Once the creation time is known, a check on a cluster that
  is older than the configured age at every reading of the clock is positive, whatever the
  operators say and whether or not they can be listed.
\<close>

theorem old_cluster_ready:
  assumes "clusterCreationTime (impl s) \<noteq> 0"
    and "\<And>w. getEnvInt maxClusterAgeKey maxClusterAgeDefault (fst (lookupEnv P maxClusterAgeKey w)) = Inr m"
    and "\<And>w. older_than (clusterCreationTime (impl s)) (fst (timeNow P w)) m"
  shows "fst (run_state (IsReady P) s) = Val (True, None)"
proof (cases "impl_ready (impl s)")
  case True
  then show ?thesis by (simp add: IsReady_cached)
next
  case False
  with assms show ?thesis
    by (simp add: IsReady_def age_fallback_def setClusterCreationTime_cached clusterTooOld_def
        split: prod.splits)
qed

theorem old_cluster_ready_witness:
  "fst (run_state (IsReady (sample_platform\<lparr>timeNow := \<lambda>w. (5400000000001, w)\<rparr>))
     ((fresh_sys 0)\<lparr>impl := zero_Impl\<lparr>clusterCreationTime := - 1\<rparr>\<rparr>)) = Val (True, None)"
  by (rule old_cluster_ready [where m = 90])
    (simp_all add: sample_platform_def getEnvInt_def older_than_def max_age_duration_def wrap64_def)


text \<open>
  C36: beyond that range the age overflows. For the next 153722867 values, with which an
  administrator might mean to switch the fallback off, the \<open>int64\<close> product changes its sign, and
  every cluster that exists is declared too old at once.
\<close>

theorem older_than_overflow:
  assumes "153722867 < m" and "m \<le> 307445734" and "creation \<le> now"
  shows "older_than creation now m"
proof -
  have "wrap64 (- m) = - m" using assms by (simp add: wrap64_id)
  moreover have "wrap64 (- m * minute) = 2 ^ 64 - m * minute"
  proof -
    have "wrap64 (- m * minute) = wrap64 (2 ^ 64 - m * minute)"
      using wrap64_period [of "- m * minute"] by simp
    also have "\<dots> = 2 ^ 64 - m * minute" using assms by (intro wrap64_id) simp_all
    finally show ?thesis .
  qed
  ultimately show ?thesis using assms by (simp add: older_than_def max_age_duration_def)
qed

theorem older_than_overflow_witness:
  "older_than (time_Unix 1000000) (time_Unix 1000000) 200000000"
  by (rule older_than_overflow) simp_all


text \<open>
  C38: the environment variable round-trips. Any 64-bit number written in decimal into the
  variable is read back as itself, whatever the default.
\<close>

theorem getEnvInt_roundtrip:
  assumes "- (2 ^ 63) \<le> i" and "i < 2 ^ 63"
  shows "getEnvInt key dflt (Some (dec_string i)) = Inr i"
  using Atoi_dec_string [OF assms] by (auto simp: getEnvInt_def dec_string_def dec_digits_nonempty)

theorem getEnvInt_roundtrip_witness:
  "getEnvInt maxClusterAgeKey maxClusterAgeDefault (Some (dec_string 1048576)) = Inr 1048576"
  by (rule getEnvInt_roundtrip) simp_all


end
