(* ===== verification/InputProperties.thy ===== *)
theory InputProperties
  imports Reconciler MemoryCluster ReadinessProperties
begin

text \<open>
  The inputs of a reconcile: which requests gathering them sends, and their values. Values are
  stated for a quiet cluster, one whose reads change nothing: \<open>settles w m x\<close> says that the
  computation \<open>m\<close>, started in the world \<open>w\<close>, yields \<open>x\<close> and leaves \<open>w\<close> as it is. Every input
  operation settles on a plain function of the cluster's objects.
\<close>

subsection \<open>Lookups\<close>

lemma secretInList_named: "secretInList n items = secret_named n items"
  by (induction items) auto

lemma cmInList_named: "cmInList n items = configMap_named n items"
  by (induction items) auto

subsection \<open>Frame conditions\<close>

fun not_secret_write :: "request \<Rightarrow> bool" where
  "not_secret_write (CreateSecret x) = False"
| "not_secret_write (UpdateSecret x) = False"
| "not_secret_write rq = True"

lemma read_not_write: "is_read rq \<Longrightarrow> not_secret_write rq"
  by (cases rq) auto

lemma readKey_frame [frame_intros]:
  "state_io_rel (sends is_read) (readSecretKey P n ns f)"
  "state_io_rel keeps_gauge (readSecretKey P n ns f)"
  "state_io_rel keeps_impl (readSecretKey P n ns f)"
  "state_io_rel (sends is_read) (readCMKey P n ns f)"
  "state_io_rel keeps_gauge (readCMKey P n ns f)"
  "state_io_rel keeps_impl (readCMKey P n ns f)"
  unfolding readSecretKey_def readCMKey_def Let_def by (intro frame_intros; simp)+

lemma parseSecrets_frame [frame_intros]:
  "state_io_rel (sends is_read) (parseSecrets P xs ns b)"
  "state_io_rel keeps_gauge (parseSecrets P xs ns b)"
  "state_io_rel keeps_impl (parseSecrets P xs ns b)"
  unfolding parseSecrets_def Let_def by (intro frame_intros)+

lemma cluster_reads_frame [frame_intros]:
  "state_io_rel (sends is_read) (getClusterID P)"
  "state_io_rel keeps_gauge (getClusterID P)"
  "state_io_rel keeps_impl (getClusterID P)"
  "state_io_rel (sends is_read) (getClusterProxy P)"
  "state_io_rel keeps_gauge (getClusterProxy P)"
  "state_io_rel keeps_impl (getClusterProxy P)"
  "state_io_rel (sends is_read) (getClusterRegion P)"
  "state_io_rel keeps_gauge (getClusterRegion P)"
  "state_io_rel keeps_impl (getClusterRegion P)"
  "state_io_rel (sends is_read) (isManagementCluster P)"
  "state_io_rel keeps_gauge (isManagementCluster P)"
  "state_io_rel keeps_impl (isManagementCluster P)"
  unfolding getClusterID_def getClusterProxy_def getClusterRegion_def isManagementCluster_def
  by (intro frame_intros; simp)+

lemma configMap_reads_frame [frame_intros]:
  "state_io_rel (sends is_read) (readOCMAgentServiceURLFromConfig L P cms ns)"
  "state_io_rel keeps_gauge (readOCMAgentServiceURLFromConfig L P cms ns)"
  "state_io_rel keeps_impl (readOCMAgentServiceURLFromConfig L P cms ns)"
  "state_io_rel (sends is_read) (parseNamespaceConfigMap L P n ns k cms)"
  "state_io_rel keeps_gauge (parseNamespaceConfigMap L P n ns k cms)"
  "state_io_rel keeps_impl (parseNamespaceConfigMap L P n ns k cms)"
  "state_io_rel (sends is_read) (parseMCNamespaceConfigMap L P n ns cms)"
  "state_io_rel keeps_gauge (parseMCNamespaceConfigMap L P n ns cms)"
  "state_io_rel keeps_impl (parseMCNamespaceConfigMap L P n ns cms)"
  unfolding readOCMAgentServiceURLFromConfig_def parseNamespaceConfigMap_def
    parseMCNamespaceConfigMap_def
  by (intro frame_intros)+

lemma recordClusterTypeDetectionEvent_frame [frame_intros]:
  "state_io_rel (sends not_secret_write) (recordClusterTypeDetectionEvent P err)"
  "state_io_rel keeps_gauge (recordClusterTypeDetectionEvent P err)"
  "state_io_rel keeps_impl (recordClusterTypeDetectionEvent P err)"
  unfolding recordClusterTypeDetectionEvent_def Let_def by (intro frame_intros; simp)+

lemma sends_not_write:
  "state_io_rel (sends is_read) m \<Longrightarrow> state_io_rel (sends not_secret_write) m"
  by (erule sends_mono) (rule read_not_write)

lemmas reads_no_write [frame_intros] =
  parseSecrets_frame(1) [THEN sends_not_write]
  cluster_reads_frame(1,4,7,10) [THEN sends_not_write]
  configMap_reads_frame(1,4,7) [THEN sends_not_write]

lemma parseConfigMaps_frame [frame_intros]:
  "state_io_rel (sends not_secret_write) (parseConfigMaps L P cms ns)"
  "state_io_rel keeps_gauge (parseConfigMaps L P cms ns)"
  "state_io_rel keeps_impl (parseConfigMaps L P cms ns)"
  unfolding parseConfigMaps_def by (intro frame_intros)+

lemma gather_frame [frame_intros]:
  "state_io_rel (sends not_secret_write) (gather_params L P xs cms ns b)"
  "state_io_rel keeps_gauge (gather_params L P xs cms ns b)"
  "state_io_rel keeps_impl (gather_params L P xs cms ns b)"
  "state_io_rel (sends not_secret_write) (gather_inputs L P ns b)"
  "state_io_rel keeps_gauge (gather_inputs L P ns b)"
  "state_io_rel keeps_impl (gather_inputs L P ns b)"
  unfolding gather_inputs_def gather_params_def Let_def by (intro frame_intros; simp)+

subsection \<open>The reads never panic\<close>

text \<open>
  The guards of the source are enough: a pointer is followed only when it is not nil, a name is
  sliced only when it is long enough.
\<close>

lemma mc_prefix_Val: "mc_prefix n = Val (take 5 n = ''hs-mc'')"
proof -
  have "5 \<le> length n" if "take 5 n = ''hs-mc''"
  proof -
    have "length (take 5 n) = 5" unfolding that by simp
    then show ?thesis by simp
  qed
  then show ?thesis by (auto simp: mc_prefix_def slice_to_def)
qed

text \<open>The region that the platform status holds, or the empty string.\<close>

definition region_of :: "PlatformStatus \<Rightarrow> string" where
  "region_of ps =
     (case (case ps_Type ps of AWSPlatformType \<Rightarrow> ps_AWS ps | GCPPlatformType \<Rightarrow> ps_GCP ps | _ \<Rightarrow> None) of
        None \<Rightarrow> '''' | Some region \<Rightarrow> region)"

lemma platform_region_Val: "platform_region ps = Val (region_of ps)"
  by (auto simp: platform_region_def region_of_def split: PlatformType.splits)

lemma reads_return [returns_intros]:
  "returns (isManagementCluster P)"
  "returns (getClusterRegion P)"
  "returns (parseMCNamespaceConfigMap L P n ns cms)"
proof -
  show "returns (isManagementCluster P)"
    unfolding isManagementCluster_def mc_prefix_Val by (intro returns_intros)
  show "returns (getClusterRegion P)"
    by (auto simp: getClusterRegion_def platform_region_Val intro!: returns_intros)
  show "returns (parseMCNamespaceConfigMap L P n ns cms)"
    by (auto simp: parseMCNamespaceConfigMap_def intro!: returns_intros)
qed

lemma gather_returns [returns_intros]:
  "returns (parseConfigMaps L P cms ns)"
  "returns (gather_params L P xs cms ns b)"
  "returns (gather_inputs L P ns b)"
  unfolding parseConfigMaps_def gather_params_def gather_inputs_def Let_def
  by (intro returns_intros)+

subsection \<open>Settled reads\<close>

definition settles :: "'w \<Rightarrow> ('w, 'a) op \<Rightarrow> 'a \<Rightarrow> bool" where
  "settles w m x = (\<forall>s. world s = w \<longrightarrow>
     fst (run_state m s) = x \<and> world (snd (run_state m s)) = w)"

lemma settles_return: "settles w (State_Monad.return x) x"
  by (simp add: settles_def)

lemma settles_api: "f w = (x, w) \<Longrightarrow> settles w (api rq f) x"
  by (simp add: settles_def)

lemma settles_bind:
  assumes "settles w m x" and "settles w (f x) y"
  shows "settles w (State_Monad.bind m f) y"
  using assms by (simp add: settles_def split: prod.splits) (metis fst_conv snd_conv)

lemma settles_go_then:
  assumes "settles w m (Val x)" and "settles w (f x) y"
  shows "settles w (go_then m f) y"
  unfolding go_then_def using assms by (auto intro: settles_bind)

text \<open>Reads of a quiet cluster in the namespace \<open>ns\<close> change nothing.\<close>

definition quiet :: "'w platform \<Rightarrow> string \<Rightarrow> 'w \<Rightarrow> bool" where
  "quiet P ns w =
     (snd (listSecrets P ns w) = w \<and> snd (listConfigMaps P ns w) = w \<and>
      (\<forall>n. snd (getSecret P ns n w) = w) \<and> (\<forall>n. snd (getConfigMap P ns n w) = w) \<and>
      snd (getClusterVersion P ''version'' w) = w \<and> snd (getProxy P ''cluster'' w) = w \<and>
      snd (getInfrastructure P ''cluster'' w) = w)"

definition the_result :: "'a \<Rightarrow> (go_error + 'a) \<times> 'w \<Rightarrow> 'a" where
  "the_result z r = (case fst r of Inl err \<Rightarrow> z | Inr x \<Rightarrow> x)"

definition secret_field :: "'w platform \<Rightarrow> 'w \<Rightarrow> string \<Rightarrow> string \<Rightarrow> string \<Rightarrow> string" where
  "secret_field P w ns n f = go_get (sec_Data (the_result zero_Secret (getSecret P ns n w))) f"

definition configMap_field :: "'w platform \<Rightarrow> 'w \<Rightarrow> string \<Rightarrow> string \<Rightarrow> string \<Rightarrow> string" where
  "configMap_field P w ns n f = go_get (cm_Data (the_result zero_ConfigMap (getConfigMap P ns n w))) f"

lemma readKey_settles:
  assumes "quiet P ns w"
  shows "settles w (readSecretKey P n ns f) (secret_field P w ns n f)"
    and "settles w (readCMKey P n ns f) (configMap_field P w ns n f)"
  using assms
  by (auto simp: settles_def readSecretKey_def readCMKey_def quiet_def secret_field_def
      configMap_field_def the_result_def Let_def split: sum.splits)

text \<open>The namespaces of a configMap, and those it adds for a management cluster.\<close>

definition listed_namespaces :: "go_error + NamespaceConfig \<Rightarrow> string list" where
  "listed_namespaces r =
     (case r of Inl err \<Rightarrow> [] | Inr c \<Rightarrow> map anchored (Namespaces (Resources c)))"

definition additional_namespaces :: "go_error + NamespaceConfig \<Rightarrow> string list" where
  "additional_namespaces r =
     (case r of Inl err \<Rightarrow> []
      | Inr c \<Rightarrow> (case ManagementCluster (Resources c) of
          None \<Rightarrow> [] | Some mc \<Rightarrow> map anchored (AdditionalNamespaces mc)))"

definition namespaces_doc :: "lib \<Rightarrow> 'w platform \<Rightarrow> 'w \<Rightarrow> string \<Rightarrow> ConfigMap list \<Rightarrow> string \<Rightarrow>
    go_error + NamespaceConfig" where
  "namespaces_doc L P w ns cms n =
     (if configMap_named n cms
      then yamlUnmarshalNS L (configMap_field P w ns n cmKeyManagedNamespaces)
      else Inr \<lparr>Resources = \<lparr>Namespaces = [], ManagementCluster = None\<rparr>\<rparr>)"

lemma parse_namespaces_settles:
  assumes "quiet P ns w"
  shows "settles w (parseNamespaceConfigMap L P n ns cmKeyManagedNamespaces cms)
      (listed_namespaces (namespaces_doc L P w ns cms n))"
    and "settles w (parseMCNamespaceConfigMap L P n ns cms)
      (Val (additional_namespaces (namespaces_doc L P w ns cms n)))"
proof -
  note rd = settles_bind [OF readKey_settles(2) [OF assms]]
  show "settles w (parseNamespaceConfigMap L P n ns cmKeyManagedNamespaces cms)
      (listed_namespaces (namespaces_doc L P w ns cms n))"
    unfolding parseNamespaceConfigMap_def cmInList_named
    by (auto simp: namespaces_doc_def listed_namespaces_def settles_return intro!: rd
        split: sum.splits)
  show "settles w (parseMCNamespaceConfigMap L P n ns cms)
      (Val (additional_namespaces (namespaces_doc L P w ns cms n)))"
    unfolding parseMCNamespaceConfigMap_def cmInList_named
    by (auto simp: namespaces_doc_def additional_namespaces_def settles_return intro!: rd
        split: sum.splits option.splits)
qed

text \<open>The type of the cluster, and whether its configMaps are read as those of a management cluster.\<close>

definition cluster_type :: "'w platform \<Rightarrow> 'w \<Rightarrow> bool" where
  "cluster_type P w =
     (case fst (getInfrastructure P ''cluster'' w) of
        Inl err \<Rightarrow> True
      | Inr infra \<Rightarrow> take 5 (InfrastructureName infra) = ''hs-mc'' \<or>
          (case fst (getClusterVersion P ''version'' w) of
             Inl err \<Rightarrow> False
           | Inr v \<Rightarrow> map_of (cv_Annotations v) clusterTypeLabelKey = Some clusterTypeManagement))"

definition infra_readable :: "'w platform \<Rightarrow> 'w \<Rightarrow> bool" where
  "infra_readable P w = (\<exists>infra. fst (getInfrastructure P ''cluster'' w) = Inr infra)"

lemma isManagementCluster_settles:
  assumes "quiet P ns w" and "infra_readable P w"
  shows "settles w (isManagementCluster P) (Val (cluster_type P w, None))"
  using assms
  by (auto simp: settles_def isManagementCluster_def quiet_def infra_readable_def cluster_type_def
      run_go_then mc_prefix_Val split: sum.splits option.splits)

definition monitored_namespaces :: "lib \<Rightarrow> 'w platform \<Rightarrow> 'w \<Rightarrow> ConfigMap list \<Rightarrow> string \<Rightarrow> string list" where
  "monitored_namespaces L P w cms ns =
     (let managed = namespaces_doc L P w ns cms cmNameManagedNamespaces;
          ocp = namespaces_doc L P w ns cms cmNameOCPNamespaces
      in if listed_namespaces managed = [] \<or> listed_namespaces ocp = [] then defaultNamespaces
         else listed_namespaces managed @ listed_namespaces ocp @
           (if cluster_type P w then additional_namespaces managed else []))"

lemma parseConfigMaps_settles:
  assumes "quiet P ns w" and "infra_readable P w"
  shows "settles w (parseConfigMaps L P cms ns) (Val (monitored_namespaces L P w cms ns))"
proof -
  have ocp: "settles w (parseNamespaceConfigMap L P n ns cmKeyOCPNamespaces cms)
      (listed_namespaces (namespaces_doc L P w ns cms n))" for n
    using parse_namespaces_settles(1) [OF assms(1)] by simp
  have mc: "settles w
      (if cluster_type P w then parseMCNamespaceConfigMap L P n ns cms else State_Monad.return (Val []))
      (Val (if cluster_type P w then additional_namespaces (namespaces_doc L P w ns cms n) else []))" for n
    using parse_namespaces_settles(2) [OF assms(1)] by (simp add: settles_return)
  show ?thesis
    unfolding parseConfigMaps_def monitored_namespaces_def Let_def
    by (rule settles_bind [OF parse_namespaces_settles(1) [OF assms(1)]], rule settles_bind [OF ocp],
        rule settles_go_then [OF isManagementCluster_settles [OF assms]], simp only: prod.case option.case,
        rule settles_bind [OF settles_return], rule settles_go_then [OF mc])
      (simp add: settles_return)
qed

subsection \<open>All inputs\<close>

definition ocm_agent_url :: "lib \<Rightarrow> 'w platform \<Rightarrow> 'w \<Rightarrow> ConfigMap list \<Rightarrow> string \<Rightarrow> string" where
  "ocm_agent_url L P w cms ns =
     (let url = configMap_field P w ns cmNameOcmAgent cmKeyOCMAgent
      in if configMap_named cmNameOcmAgent cms \<and> parseRequestURI L url = None then url else '''')"

definition secret_key :: "'w platform \<Rightarrow> 'w \<Rightarrow> Secret list \<Rightarrow> string \<Rightarrow> bool \<Rightarrow> string \<Rightarrow> string \<Rightarrow> string" where
  "secret_key P w secrets ns b n f =
     (if secret_named n secrets \<and> b then secret_field P w ns n f else '''')"

definition cluster_region :: "'w platform \<Rightarrow> 'w \<Rightarrow> string" where
  "cluster_region P w =
     (case fst (getInfrastructure P ''cluster'' w) of
        Inl err \<Rightarrow> ''''
      | Inr infra \<Rightarrow> (case infra_PlatformStatus infra of None \<Rightarrow> '''' | Some ps \<Rightarrow> region_of ps))"

text \<open>The arguments of \<open>createAlertManagerConfig\<close> on a quiet cluster.\<close>

definition desired_params ::
  "lib \<Rightarrow> 'w platform \<Rightarrow> 'w \<Rightarrow> Secret list \<Rightarrow> ConfigMap list \<Rightarrow> string \<Rightarrow> bool \<Rightarrow> am_params" where
  "desired_params L P w secrets cms ns ready =
     (let key = secret_key P w secrets ns
      in \<lparr>pagerdutyRoutingKey = key ready secretNamePD secretKeyPD,
          cadPagerdutyRoutingKey = key ready secretNameCADPD secretKeyCADPD,
          goalertURLlow = key ready secretNameGoalert secretKeyGoalertLow,
          goalertURLhigh = key ready secretNameGoalert secretKeyGoalertHigh,
          goalertURLheartbeat = key ready secretNameGoalert secretKeyGoalertHeartbeat,
          watchdogURL = key True secretNameDMS secretKeyDMS,
          ocmAgentURL = ocm_agent_url L P w cms ns,
          clusterID = cv_ClusterID (the_result \<lparr>cv_ClusterID = '''', cv_Annotations = []\<rparr>
            (getClusterVersion P ''version'' w)),
          clusterRegion = cluster_region P w,
          clusterProxy = HTTPSProxy (the_result \<lparr>HTTPSProxy = ''''\<rparr> (getProxy P ''cluster'' w)),
          namespaceList = monitored_namespaces L P w cms ns\<rparr>)"

lemma parseSecrets_settles:
  assumes "quiet P ns w"
  shows "settles w (parseSecrets P secrets ns ready)
    (let key = secret_key P w secrets ns
     in (key ready secretNamePD secretKeyPD, key ready secretNameCADPD secretKeyCADPD,
         key True secretNameDMS secretKeyDMS, key ready secretNameGoalert secretKeyGoalertLow,
         key ready secretNameGoalert secretKeyGoalertHigh,
         key ready secretNameGoalert secretKeyGoalertHeartbeat))"
proof -
  have key: "settles w
      (if secretInList n secrets then if b then readSecretKey P n ns f else State_Monad.return ''''
       else State_Monad.return '''') (secret_key P w secrets ns b n f)" for b n f
    using readKey_settles(1) [OF assms]
    by (simp add: secretInList_named secret_key_def settles_return)
  have dms: "settles w
      (if secretInList n secrets then readSecretKey P n ns f else State_Monad.return '''')
      (secret_key P w secrets ns True n f)" for n f
    using key [of n True f] by (simp only: if_True)
  have goalert: "settles w
      (if secretInList n secrets
       then if b then do { low \<leftarrow> readSecretKey P n ns f1; high \<leftarrow> readSecretKey P n ns f2;
              heartbeat \<leftarrow> readSecretKey P n ns f3; State_Monad.return (low, high, heartbeat) }
         else State_Monad.return ('''', '''', '''')
       else State_Monad.return ('''', '''', ''''))
      (secret_key P w secrets ns b n f1, secret_key P w secrets ns b n f2,
       secret_key P w secrets ns b n f3)" for b n f1 f2 f3
    by (simp add: secretInList_named secret_key_def settles_return)
      (intro impI settles_bind [OF readKey_settles(1) [OF assms]] settles_return)
  show ?thesis
    unfolding parseSecrets_def Let_def
    by (intro settles_bind [OF key] settles_bind [OF dms] settles_bind [OF goalert])
      (simp add: settles_return)
qed

lemma cluster_reads_settle:
  assumes "quiet P ns w"
  shows "\<exists>e. settles w (getClusterProxy P)
      (HTTPSProxy (the_result \<lparr>HTTPSProxy = ''''\<rparr> (getProxy P ''cluster'' w)), e)"
    and "\<exists>e. settles w (getClusterID P)
      (cv_ClusterID (the_result \<lparr>cv_ClusterID = '''', cv_Annotations = []\<rparr>
         (getClusterVersion P ''version'' w)), e)"
    and "\<exists>e. settles w (getClusterRegion P) (Val (cluster_region P w, e))"
  using assms
  by (auto simp: settles_def getClusterProxy_def getClusterID_def getClusterRegion_def quiet_def
      the_result_def cluster_region_def platform_region_Val split: sum.splits option.splits)

lemma readOCMAgent_settles:
  assumes "quiet P ns w"
  shows "settles w (readOCMAgentServiceURLFromConfig L P cms ns) (ocm_agent_url L P w cms ns)"
  unfolding readOCMAgentServiceURLFromConfig_def cmInList_named
  by (auto simp: ocm_agent_url_def settles_return intro!: settles_bind [OF readKey_settles(2) [OF assms]]
      split: option.splits)

lemma gather_params_settles:
  assumes "quiet P ns w" and "infra_readable P w"
  shows "settles w (gather_params L P secrets cms ns ready)
    (Val (desired_params L P w secrets cms ns ready))"
proof -
  note q = assms(1)
  obtain e1 e2 e3 where
    reads: "settles w (getClusterProxy P)
      (HTTPSProxy (the_result \<lparr>HTTPSProxy = ''''\<rparr> (getProxy P ''cluster'' w)), e1)"
    "settles w (getClusterID P)
      (cv_ClusterID (the_result \<lparr>cv_ClusterID = '''', cv_Annotations = []\<rparr>
         (getClusterVersion P ''version'' w)), e2)"
    "settles w (getClusterRegion P) (Val (cluster_region P w, e3))"
    using cluster_reads_settle(1-3) [OF q] by blast
  note binds = parseSecrets_settles [OF q] readOCMAgent_settles [OF q] reads(1,2)
  note thens = parseConfigMaps_settles [OF assms] reads(3)
  show ?thesis
    unfolding gather_params_def
    by ((rule binds [THEN settles_bind] | rule thens [THEN settles_go_then]
         | simp only: prod.case Let_def)+)
      (simp add: desired_params_def Let_def settles_return)
qed

lemma gather_inputs_settles:
  assumes "quiet P ns w" and "infra_readable P w"
  shows "settles w (gather_inputs L P ns ready)
    (let secrets = the_result [] (listSecrets P ns w);
         cms = the_result [] (listConfigMaps P ns w)
     in Val (secrets, cms, desired_params L P w secrets cms ns ready))"
proof -
  have "settles w (api rq (listSecrets P ns)) (fst (listSecrets P ns w))"
    and "settles w (api rq' (listConfigMaps P ns)) (fst (listConfigMaps P ns w))" for rq rq'
    using assms(1) by (auto simp: quiet_def intro!: settles_api prod_eqI)
  note lists = this [THEN settles_bind]
  show ?thesis
    unfolding gather_inputs_def Let_def
    by (rule lists)+ (rule settles_go_then [OF gather_params_settles [OF assms]],
      simp add: settles_return the_result_def)
qed

subsection \<open>Without readiness\<close>

definition no_paging_keys :: "am_params \<Rightarrow> bool" where
  "no_paging_keys p =
     (pagerdutyRoutingKey p = '''' \<and> cadPagerdutyRoutingKey p = '''' \<and> goalertURLlow p = '''' \<and>
      goalertURLhigh p = '''' \<and> goalertURLheartbeat p = '''')"

lemma parseSecrets_not_ready:
  "run_state (parseSecrets P secrets ns False) s =
     (if secretInList secretNameDMS secrets
      then case run_state (readSecretKey P secretNameDMS ns secretKeyDMS) s of
        (url, t) \<Rightarrow> (('''', '''', url, '''', '''', ''''), t)
      else (('''', '''', '''', '''', '''', ''''), s))"
  by (simp add: parseSecrets_def split: prod.splits)

lemma gather_params_not_ready:
  assumes "run_state (gather_params L P secrets cms ns False) s = (Val p, t)"
  shows "no_paging_keys p"
  using assms
  by (auto simp: gather_params_def parseSecrets_not_ready no_paging_keys_def run_go_then
      split: prod.splits if_splits go.splits)

lemma gather_inputs_not_ready:
  assumes "run_state (gather_inputs L P ns False) s = (Val (secrets, cms, p), t)"
  shows "no_paging_keys p"
  using assms
  by (auto simp: gather_inputs_def Let_def run_go_then split: prod.splits go.splits
      dest: gather_params_not_ready)

text \<open>
  C24: while the cluster is not ready the paging keys are not even read. Of all secrets only the
  one of the Dead Man's Snitch is fetched, and only if it is listed; the PagerDuty keys and the
  GoAlert URLs come out empty.
\<close>

theorem not_ready_reads_no_keys:
  assumes "run_state (parseSecrets P secrets ns False) s =
      ((pdKey, cadKey, wdURL, gaLow, gaHigh, gaHeartbeat), t)"
  shows "pdKey = '''' \<and> cadKey = '''' \<and> gaLow = '''' \<and> gaHigh = '''' \<and> gaHeartbeat = '''' \<and>
    issued t = issued s @ (if secret_named secretNameDMS secrets
      then [GetSecret ns secretNameDMS] else [])"
  using assms
  by (auto simp: parseSecrets_not_ready readSecretKey_def secretInList_named Let_def
      split: if_splits)

theorem not_ready_reads_no_keys_witness:
  "\<exists>t. run_state (parseSecrets sample_platform
         [\<lparr>sec_Namespace = ''n'', sec_Name = ''pd-secret'', sec_Data = []\<rparr>] ''n'' False)
       (fresh_sys 0) = (('''', '''', '''', '''', '''', ''''), t) \<and> issued t = []"
proof -
  let ?xs = "[\<lparr>sec_Namespace = ''n'', sec_Name = ''pd-secret'', sec_Data = []\<rparr>]"
  have "run_state (parseSecrets sample_platform ?xs ''n'' False) (fresh_sys 0) =
      (('''', '''', '''', '''', '''', ''''), fresh_sys 0)"
    by (simp add: parseSecrets_not_ready)
  from this not_ready_reads_no_keys [OF this] show ?thesis by (simp add: fresh_sys_def)
qed

subsection \<open>The namespaces that page\<close>

text \<open>
  C15: the monitored namespaces. On a quiet cluster whose Infrastructure can be read, the list
  is the namespaces of the two configMaps, each anchored, in their order, followed on a
  management cluster by the additional ones of the first; it is the list of default namespaces
  as soon as one of the two configMaps is missing, cannot be decoded or names no namespace, and
  then the additional namespaces of a management cluster are dropped too.
\<close>

theorem namespaces_from_cluster:
  assumes "quiet P ns (world s)" and "infra_readable P (world s)"
  shows "fst (run_state (parseConfigMaps L P cms ns) s) =
    Val (monitored_namespaces L P (world s) cms ns)"
  using parseConfigMaps_settles [OF assms] by (simp add: settles_def)

lemma memory_quiet: "quiet memory_platform ns w"
  by (simp add: quiet_def memory_platform_def)

lemma sample_cluster_infra: "infra_readable memory_platform sample_cluster"
  by (simp add: infra_readable_def memory_platform_def sample_cluster_def found_def)

theorem namespaces_from_cluster_witness:
  "fst (run_state (parseConfigMaps sample_lib memory_platform
        (cl_configMaps sample_cluster) ''openshift-monitoring'') (fresh_sys sample_cluster)) =
     Val [''^a$'', ''^b$'', ''^a-mc$'']"
proof -
  let ?s = "fresh_sys sample_cluster"
  have "quiet memory_platform ''openshift-monitoring'' (world ?s)"
    and "infra_readable memory_platform (world ?s)"
    using memory_quiet sample_cluster_infra by (simp_all add: fresh_sys_def)
  note namespaces_from_cluster [OF this, of sample_lib "cl_configMaps sample_cluster"]
  also have "monitored_namespaces sample_lib memory_platform (world ?s)
      (cl_configMaps sample_cluster) ''openshift-monitoring'' = [''^a$'', ''^b$'', ''^a-mc$'']"
    by code_simp
  finally show ?thesis .
qed

end
