(* ===== verification/WriterProperties.thy ===== *)
theory WriterProperties
  imports Writer InputProperties
begin

text \<open>
  The write of the configuration: what it sends, what it leaves in the gauge, and what it
  returns, on every branch.
\<close>

subsection \<open>Which requests a write may send\<close>

text \<open>
  \<open>config_write L c rq\<close>: if the request writes a secret, then it is \<open>alertmanager-main\<close>, and
  its one field is a serialisation of \<open>c\<close> that Alertmanager's loader accepts.
\<close>

fun config_write :: "lib \<Rightarrow> Config \<Rightarrow> request \<Rightarrow> bool" where
  "config_write L c (CreateSecret x) =
     (\<exists>y. x = main_secret y \<and> yamlMarshal L c = Inr y \<and> amLoad L y = None)"
| "config_write L c (UpdateSecret x) =
     (\<exists>y. x = main_secret y \<and> yamlMarshal L c = Inr y \<and> amLoad L y = None)"
| "config_write L c rq = True"

lemma not_write_config_write: "not_secret_write rq \<Longrightarrow> config_write L c rq"
  by (cases rq) auto

lemma validate_ok:
  "validateAlertManagerConfig L c = None \<longleftrightarrow> (\<exists>y. yamlMarshal L c = Inr y \<and> amLoad L y = None)"
  by (auto simp: validateAlertManagerConfig_def split: sum.splits option.splits)

lemma recordConfigValidationEvent_frame [frame_intros]:
  "state_io_rel (sends not_secret_write) (recordConfigValidationEvent P err)"
  "state_io_rel keeps_gauge (recordConfigValidationEvent P err)"
  "state_io_rel keeps_impl (recordConfigValidationEvent P err)"
  unfolding recordConfigValidationEvent_def Let_def by (intro frame_intros; simp)+

lemma recordConfigValidationEvent_sends [frame_intros]:
  "state_io_rel (sends (config_write L c)) (recordConfigValidationEvent P err)"
  by (rule sends_mono [OF recordConfigValidationEvent_frame(1) not_write_config_write])

lemma write_secret_frame [frame_intros]:
  "q (UpdateSecret x) \<Longrightarrow> q (CreateSecret x) \<Longrightarrow> state_io_rel (sends q) (write_secret P x)"
  "state_io_rel keeps_gauge (write_secret P x)"
  "state_io_rel keeps_impl (write_secret P x)"
  unfolding write_secret_def by (intro frame_intros; simp)+

lemma writeAlertManagerConfig_frame [frame_intros]:
  "state_io_rel (sends (config_write L c)) (writeAlertManagerConfig L P c)"
  "state_io_rel keeps_impl (writeAlertManagerConfig L P c)"
proof -
  show "state_io_rel (sends (config_write L c)) (writeAlertManagerConfig L P c)"
  proof (cases "validateAlertManagerConfig L c")
    case None
    then obtain y where y: "yamlMarshal L c = Inr y" "amLoad L y = None" by (auto simp: validate_ok)
    with None show ?thesis
      unfolding writeAlertManagerConfig_def by simp (intro frame_intros; simp)
  next
    case (Some err)
    then show ?thesis
      unfolding writeAlertManagerConfig_def by simp (intro frame_intros)
  qed
  show "state_io_rel keeps_impl (writeAlertManagerConfig L P c)"
    unfolding writeAlertManagerConfig_def by (intro frame_intros)
qed

subsection \<open>The outcomes\<close>

lemma recordConfigValidationEvent_post:
  assumes "run_state (recordConfigValidationEvent P err) s = (u, t)"
  shows "gauge t = gauge s \<and> impl t = impl s \<and>
    (\<exists>ev. issued t = issued s @ [CreateEvent ev] \<and> obj_Kind ev = ''Secret'' \<and>
       obj_Name ev = secretNameAlertmanager \<and> ev_Type ev = ''Warning'' \<and>
       ev_Reason ev = ''AlertmanagerConfigValidationFailure'' \<and> snd (ev_Message ev) = err)"
  using assms by (auto simp: recordConfigValidationEvent_def Let_def)

text \<open>The gauge that follows the outcome of a write.\<close>

definition validation_gauge :: "'w sys \<Rightarrow> nat option" where
  "validation_gauge s = metricAlertmanagerConfigValidationFailed (gauge s)"

text \<open>The update and the creation it may turn into, as one effect on the cluster.\<close>

definition update_outcome :: "'w platform \<Rightarrow> Secret \<Rightarrow> 'w \<Rightarrow> go_error option \<times> request list \<times> 'w" where
  "update_outcome P x w =
     (case updateSecret P x w of
        (None, w') \<Rightarrow> (None, [UpdateSecret x], w')
      | (Some err, w') \<Rightarrow>
          if IsNotFound err
          then (case createSecret P x w' of (e, w'') \<Rightarrow> (e, [UpdateSecret x, CreateSecret x], w''))
          else (Some err, [UpdateSecret x], w'))"

lemma run_write_secret:
  "run_state (write_secret P x) s =
     (case update_outcome P x (world s) of
        (e, rqs, w) \<Rightarrow> (e, s\<lparr>world := w, issued := issued s @ rqs\<rparr>))"
  by (auto simp: write_secret_def update_outcome_def split: option.splits prod.splits)

text \<open>
  C9: a write goes through only what validates, and its outcome is reported. If the
  configuration serialises to a text that Alertmanager's loader accepts, precisely this text is
  sent as the only field of \<open>alertmanager-main\<close>, by an update and, if the secret was not found,
  a creation, and nothing else is sent; otherwise no secret is written and one warning event
  names the reason. The write returns an error exactly when the text was refused or the last
  request failed, and the gauge is then 1, else 0.
\<close>

theorem write_outcomes:
  assumes "run_state (writeAlertManagerConfig L P c) s = (e, t)"
  shows "validation_gauge t = Some (if e = None then 0 else 1) \<and>
    (case validateAlertManagerConfig L c of
       Some err \<Rightarrow> e \<noteq> None \<and>
         (\<exists>ev. issued t = issued s @ [CreateEvent ev] \<and> ev_Type ev = ''Warning'' \<and>
            ev_Reason ev = ''AlertmanagerConfigValidationFailure'' \<and> snd (ev_Message ev) = err)
     | None \<Rightarrow> \<exists>y. yamlMarshal L c = Inr y \<and> amLoad L y = None \<and>
         (let (e', rqs, w) = update_outcome P (main_secret y) (world s)
          in issued t = issued s @ rqs \<and> world t = w \<and> (e = None \<longleftrightarrow> e' = None)))"
proof (cases "validateAlertManagerConfig L c")
  case (Some err)
  obtain v u where u: "run_state (recordConfigValidationEvent P err) s = (v, u)"
    by (cases "run_state (recordConfigValidationEvent P err) s")
  with Some assms recordConfigValidationEvent_post [OF u] show ?thesis
    by (auto simp: writeAlertManagerConfig_def validation_gauge_def)
next
  case None
  then obtain y where y: "yamlMarshal L c = Inr y" "amLoad L y = None" by (auto simp: validate_ok)
  then show ?thesis
    using assms None
    by (auto simp: writeAlertManagerConfig_def validation_gauge_def run_write_secret
        split: option.splits prod.splits)
qed

lemma run_writeAlertManagerConfig_ok:
  assumes "yamlMarshal L c = Inr y" and "amLoad L y = None"
    and "update_outcome P (main_secret y) (world s) = (None, rqs, w)"
  shows "run_state (writeAlertManagerConfig L P c) s =
    (None, s\<lparr>world := w, issued := issued s @ rqs,
             gauge := (gauge s)\<lparr>metricAlertmanagerConfigValidationFailed := Some 0\<rparr>\<rparr>)"
proof -
  have "validateAlertManagerConfig L c = None" using assms by (simp add: validate_ok)
  then show ?thesis
    using assms by (simp add: writeAlertManagerConfig_def run_write_secret)
qed

theorem write_outcomes_witness:
  "\<exists>t. run_state (writeAlertManagerConfig sample_lib memory_platform
        \<lparr>Global = None, cfg_Route = None, Receivers = [], Templates = [], InhibitRules = []\<rparr>) (fresh_sys sample_cluster) =
       (None, t) \<and> validation_gauge t = Some 0 \<and>
     issued t = [UpdateSecret (main_secret ''route:''), CreateSecret (main_secret ''route:'')]"
proof -
  let ?s = "fresh_sys sample_cluster"
  let ?c = "\<lparr>Global = None, cfg_Route = None, Receivers = [], Templates = [], InhibitRules = []\<rparr>"
  obtain e t where run: "run_state (writeAlertManagerConfig sample_lib memory_platform ?c) ?s = (e, t)"
    by fastforce
  have "validateAlertManagerConfig sample_lib ?c = None"
    by (simp add: validateAlertManagerConfig_def sample_lib_def)
  moreover have "update_outcome memory_platform (main_secret ''route:'') (world ?s) =
      (None, [UpdateSecret (main_secret ''route:''), CreateSecret (main_secret ''route:'')],
       sample_cluster\<lparr>cl_secrets := cl_secrets sample_cluster @ [main_secret ''route:'']\<rparr>)"
    by code_simp
  moreover have "yamlMarshal sample_lib ?c = Inr ''route:''" by (simp add: sample_lib_def)
  ultimately show ?thesis
    using write_outcomes [OF run] run by (auto simp: fresh_sys_def)
qed

end
