(* ===== verification/ReconcilerProperties.thy ===== *)
theory ReconcilerProperties
  imports WriterProperties DeliveryPlan
begin

text \<open>
  The reconcile loop. Its contract with the readiness engine is the locale
  \<open>readiness_contract\<close>; the lemmas below hold for every engine that satisfies it, and the
  properties for the engine of the source. The first group bounds what a reconcile may send;
  the second says what it does to a cluster that is ready.
\<close>

subsection \<open>The paths through a reconcile\<close>

definition accepted :: "Request \<Rightarrow> bool" where
  "accepted req = (req_Namespace req = OperatorNamespace \<and> req_Name req \<in> set watched_names)"

lemma Reconcile_accepted:
  "run_state (Reconcile L P I req) s =
     (if accepted req
      then case run_state (check_cluster P I) s of
        (Panic m, u) \<Rightarrow> (Panic m, u)
      | (Val (b, Some err), u) \<Rightarrow> (Val (ifResult I u, Some err), u)
      | (Val (b, None), u) \<Rightarrow>
          (case run_state (gather_inputs L P OperatorNamespace b) u of
             (Panic m, v) \<Rightarrow> (Panic m, v)
           | (Val (secrets, cms, p), v) \<Rightarrow> run_state (apply_config L P I secrets cms p) v)
      else (Val (zero_Result, None), s))"
  by (auto simp: Reconcile_def accepted_def run_go_then split: prod.splits go.splits option.splits)

lemma gather_inputs_no_panic: "run_state (gather_inputs L P ns b) s \<noteq> (Panic m, t)"
  using gather_returns(3) by (metis returnsE go.distinct(1))

lemma Reconcile_cases:
  assumes "run_state (Reconcile L P I req) s = (r, t)"
  obtains
    (ignored) "\<not> accepted req" "r = Val (zero_Result, None)" "t = s"
  | (panicked) m where "run_state (check_cluster P I) s = (Panic m, t)" "r = Panic m"
  | (unknown) b err where "run_state (check_cluster P I) s = (Val (b, Some err), t)"
      "r = Val (ifResult I t, Some err)"
  | (applied) b u secrets cms p v where
      "run_state (check_cluster P I) s = (Val (b, None), u)"
      "run_state (gather_inputs L P OperatorNamespace b) u = (Val (secrets, cms, p), v)"
      "run_state (apply_config L P I secrets cms p) v = (r, t)"
  using assms
  by (auto simp: Reconcile_accepted gather_inputs_no_panic
      split: if_splits prod.splits go.splits option.splits)

text \<open>
  C30: requests for other objects are ignored. A request outside the operator's namespace, or
  for a name the operator does not know, ends at once: no request is sent, nothing changes, and
  no requeue is asked for. The witness is the request that a change of the ClusterVersion
  enqueues: the object is cluster-scoped, its request has no namespace, and so the change of
  the cluster type that was to trigger a reconcile is dropped.
\<close>

theorem other_requests_ignored:
  assumes "req_Namespace req \<noteq> OperatorNamespace \<or> req_Name req \<notin> set watched_names"
  shows "run_state (Reconcile L P I req) s = (Val (zero_Result, None), s)"
  using assms by (auto simp: Reconcile_accepted accepted_def)

theorem other_requests_ignored_witness:
  "run_state (Reconcile sample_lib memory_platform (impl_interface memory_platform)
      cluster_version_request) (fresh_sys sample_cluster) =
    (Val (zero_Result, None), fresh_sys sample_cluster) \<and>
   req_Name cluster_version_request \<in> set watched_names"
proof
  show "run_state (Reconcile sample_lib memory_platform (impl_interface memory_platform)
      cluster_version_request) (fresh_sys sample_cluster) =
    (Val (zero_Result, None), fresh_sys sample_cluster)"
    by (rule other_requests_ignored) (simp add: cluster_version_request_def)
qed (simp add: cluster_version_request_def watched_names_def)

subsection \<open>Frame conditions of the parts\<close>

text \<open>What a reconcile may send: it writes only configurations built from allowed parameters.\<close>

definition desired_write :: "lib \<Rightarrow> bool \<Rightarrow> (am_params \<Rightarrow> bool) \<Rightarrow> request \<Rightarrow> bool" where
  "desired_write L fed Q rq =
     (not_secret_write rq \<or> (\<exists>p. Q p \<and> config_write L (createAlertManagerConfig fed p) rq))"

lemma apply_config_frame:
  assumes "run_state (apply_config L P I secrets cms p) s = (r, t)"
  shows "sends (config_write L (createAlertManagerConfig (isFedramp s) p)) s t" and "impl t = impl s"
proof -
  let ?c = "createAlertManagerConfig (isFedramp s) p"
  let ?m = "do { writeErr \<leftarrow> writeAlertManagerConfig L P ?c;
     case writeErr of
       Some err \<Rightarrow> State_Monad.return (Val (zero_Result, Some err))
     | None \<Rightarrow> do { m \<leftarrow> UpdateSecretsMetrics secrets ?c;
         case m of Panic p \<Rightarrow> State_Monad.return (Panic p)
         | Val u \<Rightarrow> do { UpdateConfigMapMetrics cms; s \<leftarrow> State_Monad.get;
             State_Monad.return (Val (ifResult I s, None)) } } }"
  have frame: "state_io_rel (sends (config_write L ?c)) ?m" "state_io_rel keeps_impl ?m"
    by (intro frame_intros)+
  have "run_state (apply_config L P I secrets cms p) s = run_state ?m s"
    by (simp add: apply_config_def Let_def del: zero_Result_def)
  then have run: "run_state ?m s = (r, t)" using assms by simp
  show "sends (config_write L ?c) s t" by (rule state_io_relD [OF frame(1) run])
  show "impl t = impl s" using state_io_relD [OF frame(2) run] by (simp add: keeps_impl_def)
qed

lemma sends_compose: "sends q s t \<Longrightarrow> sends q t u \<Longrightarrow> sends q s u"
  by (rule sending.R_trans)

lemma sends_weaken: "sends q s t \<Longrightarrow> (\<And>rq. q rq \<Longrightarrow> q' rq) \<Longrightarrow> sends q' s t"
  by (fastforce simp: sends_def list_all_iff)

lemma sends_issuedE:
  assumes "sends q s t"
  obtains rqs where "issued t = issued s @ rqs" "list_all q rqs" "isFedramp t = isFedramp s"
  using assms by (auto simp: sends_def)

lemma gather_inputs_frame:
  assumes "run_state (gather_inputs L P ns b) s = (x, t)"
  shows "sends not_secret_write s t" and "impl t = impl s"
  using gather_frame [where L = L and P = P and ns = ns and b = b] assms
  by (auto dest!: state_io_relD simp: keeps_impl_def)

subsection \<open>Clients of a readiness engine\<close>

locale reconcile_client = readiness_contract "ifIsReady I" ready
  for I :: "'w Interface" and ready :: "Impl \<Rightarrow> bool" +
  fixes L :: lib and P :: "'w platform"
begin

lemma check_cluster_frame: "state_io_rel (sends not_secret_write) (check_cluster P I)"
  unfolding check_cluster_def by (intro frame_intros sends_not_write [OF reads_only])

lemma check_cluster_verdict:
  "run_state (check_cluster P I) s = (Val (b, e), t) \<Longrightarrow> ready (impl t) = b \<and> (b \<longrightarrow> e = None)"
  by (auto simp: check_cluster_def run_go_then split: prod.splits go.splits dest: verdict)

lemma reconcile_sends:
  assumes "run_state (Reconcile L P I req) s = (r, t)"
  shows "sends (desired_write L (isFedramp s) (\<lambda>p. ready (impl t) \<or> no_paging_keys p)) s t"
  using assms
proof (cases rule: Reconcile_cases)
  case ignored
  then show ?thesis by (simp add: sending.R_refl)
next
  case (panicked m)
  with check_cluster_frame show ?thesis
    by (auto dest!: state_io_relD elim: sends_weaken simp: desired_write_def)
next
  case (unknown b err)
  with check_cluster_frame show ?thesis
    by (auto dest!: state_io_relD elim: sends_weaken simp: desired_write_def)
next
  case (applied b u secrets cms p v)
  have su: "sends not_secret_write s u"
    using check_cluster_frame applied(1) by (rule state_io_relD)
  note uv = gather_inputs_frame [OF applied(2)] and vt = apply_config_frame [OF applied(3)]
  have "isFedramp v = isFedramp s" using su uv(1) by (simp add: sends_def)
  moreover have "ready (impl t) \<or> no_paging_keys p"
  proof (cases b)
    case True
    then show ?thesis using check_cluster_verdict [OF applied(1)] uv(2) vt(2) by simp
  next
    case False
    then show ?thesis using applied(2) by (auto dest: gather_inputs_not_ready)
  qed
  ultimately have "sends (desired_write L (isFedramp s) (\<lambda>p. ready (impl t) \<or> no_paging_keys p)) v t"
    using vt(1) by (auto elim!: sends_weaken simp: desired_write_def)
  moreover have "sends (desired_write L (isFedramp s) (\<lambda>p. ready (impl t) \<or> no_paging_keys p)) s v"
    using sends_compose [OF su uv(1)] by (auto elim!: sends_weaken simp: desired_write_def)
  ultimately show ?thesis by (rule sends_compose [rotated])
qed

lemma reconcile_unknown:
  assumes "run_state (Reconcile L P I req) s = (r, t)"
    and "run_state (check_cluster P I) s = (Val (b, Some err), u)" and "accepted req"
  shows "r = Val (ifResult I u, Some err) \<and> t = u \<and> sends not_secret_write s u"
  using assms check_cluster_frame by (auto simp: Reconcile_accepted dest: state_io_relD)

end

interpretation impl_reconcile: reconcile_client "impl_interface P" impl_ready L P for L P
proof -
  have "ifIsReady (impl_interface P) = IsReady P" by (simp add: impl_interface_def)
  then show "reconcile_client (impl_interface P) impl_ready"
    unfolding reconcile_client_def using impl_engine.readiness_contract_axioms [of P] by simp
qed

subsection \<open>What a reconcile may send\<close>

text \<open>The secrets that a list of requests writes.\<close>

definition secret_writes :: "request list \<Rightarrow> Secret list" where
  "secret_writes rqs =
     List.map_filter (\<lambda>rq. case rq of CreateSecret x \<Rightarrow> Some x | UpdateSecret x \<Rightarrow> Some x | _ \<Rightarrow> None) rqs"

lemma secret_writes_simps [simp]:
  "secret_writes [] = []"
  "secret_writes (rqs @ rqs') = secret_writes rqs @ secret_writes rqs'"
  "secret_writes (UpdateSecret x # rqs) = x # secret_writes rqs"
  "secret_writes (CreateSecret x # rqs) = x # secret_writes rqs"
  "not_secret_write rq \<Longrightarrow> secret_writes (rq # rqs) = secret_writes rqs"
  by (simp_all add: secret_writes_def List.map_filter_def) (cases rq; simp)

lemma no_secret_writes: "list_all not_secret_write rqs \<Longrightarrow> secret_writes rqs = []"
  by (induction rqs) simp_all

lemma desired_secret_writes:
  assumes "list_all (desired_write L fed Q) rqs" and "x \<in> set (secret_writes rqs)"
  obtains p y where "Q p" "x = main_secret y" "amLoad L y = None"
    "yamlMarshal L (createAlertManagerConfig fed p) = Inr y"
proof -
  obtain rq where "rq \<in> set rqs" "rq = CreateSecret x \<or> rq = UpdateSecret x"
    using assms(2) by (auto simp: secret_writes_def List.map_filter_def split: request.splits)
  moreover from this assms(1) have "desired_write L fed Q rq" by (simp add: list_all_iff)
  ultimately show thesis using that by (auto simp: desired_write_def)
qed

definition pd_request :: Request where
  "pd_request = \<lparr>req_Namespace = ''openshift-monitoring'', req_Name = ''pd-secret''\<rparr>"

text \<open>
  C16: an undecided readiness check changes nothing. If the check of a watched object's request
  ends in an error, here one about the configured age, the reconcile returns that error with
  the engine's result and writes no secret: the configuration in place stays in force.
\<close>

theorem unknown_readiness_writes_nothing:
  assumes "accepted req"
    and "run_state (check_cluster P (impl_interface P)) s = (Val (b, Some err), u)"
  shows "run_state (Reconcile L P (impl_interface P) req) s = (Val (impl_Result u, Some err), u) \<and>
    (\<exists>rqs. issued u = issued s @ rqs \<and> secret_writes rqs = [])"
proof -
  obtain r t where rt: "run_state (Reconcile L P (impl_interface P) req) s = (r, t)" by fastforce
  note post = impl_reconcile.reconcile_unknown [OF rt assms(2,1)]
  then obtain rqs where "issued u = issued s @ rqs" "list_all not_secret_write rqs"
    by (auto elim: sends_issuedE)
  with rt post show ?thesis by (auto simp: impl_interface_def no_secret_writes)
qed

text \<open>A cluster whose operators cannot be listed and whose age limit is not a number.\<close>

definition misconfigured_platform :: "cluster platform" where
  "misconfigured_platform = memory_platform
     \<lparr>listClusterOperators := \<lambda>w. (Inr [], w), lookupEnv := \<lambda>k w. (Some ''soon'', w)\<rparr>"

theorem unknown_readiness_writes_nothing_witness:
  "\<exists>err u. run_state (Reconcile sample_lib misconfigured_platform (impl_interface misconfigured_platform) pd_request)
      ((fresh_sys sample_cluster)\<lparr>impl := zero_Impl\<lparr>clusterCreationTime := 1\<rparr>\<rparr>) =
    (Val (zero_Result, Some err), u)"
proof -
  let ?s = "(fresh_sys sample_cluster)\<lparr>impl := zero_Impl\<lparr>clusterCreationTime := 1\<rparr>\<rparr>"
  let ?r = "run_state (check_cluster misconfigured_platform (impl_interface misconfigured_platform)) ?s"
  have "(case fst ?r of Val (b, Some err) \<Rightarrow> True | _ \<Rightarrow> False) \<and> impl_Result (snd ?r) = zero_Result"
    by code_simp
  then obtain b err u where "?r = (Val (b, Some err), u)" "impl_Result u = zero_Result"
    by (cases ?r) (auto split: go.splits prod.splits option.splits)
  moreover have "accepted pd_request" by (simp add: accepted_def pd_request_def watched_names_def)
  ultimately show ?thesis using unknown_readiness_writes_nothing by metis
qed

end
