(* ===== verification/Convergence.thy ===== *)
theory Convergence
  imports ReconcilerProperties
begin

text \<open>
  What a reconcile brings about on a quiet cluster that is ready: it writes the configuration
  that follows from the cluster's objects. From this and the delivery plan follow the promises
  that SREs see, from a secret on the cluster to an alert that pages.
\<close>

subsection \<open>Reads on a quiet cluster\<close>

text \<open>A computation that settles and respects the frames changes nothing but the history.\<close>

lemma settles_run:
  assumes "settles (world s) m x" and "state_io_rel (sends q) m"
    and "state_io_rel keeps_gauge m" and "state_io_rel keeps_impl m"
  obtains rqs where "run_state m s = (x, s\<lparr>issued := issued s @ rqs\<rparr>)" and "list_all q rqs"
proof -
  obtain y t where t: "run_state m s = (y, t)" by fastforce
  obtain rqs where rqs: "issued t = issued s @ rqs" "list_all q rqs" "isFedramp t = isFedramp s"
    using sends_issued [OF assms(2) t] .
  have "y = x" "world t = world s" using assms(1) t by (auto simp: settles_def)
  moreover have "gauge t = gauge s" "impl t = impl s"
    using state_io_relD [OF assms(3) t] state_io_relD [OF assms(4) t]
    by (simp_all add: keeps_gauge_def keeps_impl_def)
  ultimately have "t = s\<lparr>issued := issued s @ rqs\<rparr>" using rqs by simp
  with that rqs t \<open>y = x\<close> show thesis by blast
qed

lemma check_cluster_ready:
  assumes "quiet P ns (world s)" and "infra_readable P (world s)" and "impl_ready (impl s)"
  obtains rqs where
    "run_state (check_cluster P (impl_interface P)) s = (Val (True, None), s\<lparr>issued := issued s @ rqs\<rparr>)"
    and "list_all is_read rqs"
proof (rule settles_run [OF isManagementCluster_settles [OF assms(1,2)] cluster_reads_frame(10-12)])
  fix rqs
  assume "run_state (isManagementCluster P) s =
      (Val (cluster_type P (world s), None), s\<lparr>issued := issued s @ rqs\<rparr>)" and "list_all is_read rqs"
  with assms(3) that show thesis
    by (simp add: check_cluster_def run_go_then impl_interface_def IsReady_cached)
qed

lemma gather_inputs_ready:
  assumes "quiet P ns (world s)" and "infra_readable P (world s)"
    and "secrets = the_result [] (listSecrets P ns (world s))"
    and "cms = the_result [] (listConfigMaps P ns (world s))"
  obtains rqs where
    "run_state (gather_inputs L P ns b) s =
      (Val (secrets, cms, desired_params L P (world s) secrets cms ns b), s\<lparr>issued := issued s @ rqs\<rparr>)"
    and "list_all not_secret_write rqs"
  by (rule settles_run [OF gather_inputs_settles [OF assms(1,2)] gather_frame(4-6), where L1 = L and b1 = b])
    (use assms(3,4) that in \<open>auto simp: Let_def\<close>)

lemma run_apply_config:
  assumes "yamlMarshal L (createAlertManagerConfig (isFedramp s) p) = Inr y" and "amLoad L y = None"
    and "update_outcome P (main_secret y) (world s) = (None, rqs, w)"
  shows "run_state (apply_config L P (impl_interface P) secrets cms p) s =
    (Val (impl_Result s, None),
     s\<lparr>world := w, issued := issued s @ rqs,
       gauge := configMap_gauges cms (secret_gauges secrets p
         ((gauge s)\<lparr>metricAlertmanagerConfigValidationFailed := Some 0\<rparr>))\<rparr>)"
  unfolding apply_config_def
  by (simp add: Let_def run_writeAlertManagerConfig_ok [OF assms] run_UpdateSecretsMetrics
      run_UpdateConfigMapMetrics impl_interface_def impl_Result_def)

subsection \<open>The desired state\<close>

text \<open>The configuration that follows from the objects of the cluster.\<close>

definition desired_config :: "lib \<Rightarrow> 'w platform \<Rightarrow> bool \<Rightarrow> bool \<Rightarrow> 'w \<Rightarrow> Config" where
  "desired_config L P fed ready w =
     (let ns = OperatorNamespace
      in createAlertManagerConfig fed (desired_params L P w (the_result [] (listSecrets P ns w))
           (the_result [] (listConfigMaps P ns w)) ns ready))"

lemma reconcile_checked:
  assumes "accepted req" and "run_state (check_cluster P (impl_interface P)) s = (Val (b, None), u)"
    and "quiet P OperatorNamespace (world u)" and "infra_readable P (world u)"
    and "yamlMarshal L (desired_config L P (isFedramp u) b (world u)) = Inr y"
    and "amLoad L y = None"
    and "update_outcome P (main_secret y) (world u) = (None, wr, w)"
  shows "\<exists>rds g. list_all not_secret_write rds \<and>
    run_state (Reconcile L P (impl_interface P) req) s =
      (Val (impl_Result u, None), u\<lparr>world := w, issued := issued u @ rds @ wr, gauge := g\<rparr>) \<and>
    metricAlertmanagerConfigValidationFailed g = Some 0"
proof -
  let ?secrets = "the_result [] (listSecrets P OperatorNamespace (world u))"
  let ?cms = "the_result [] (listConfigMaps P OperatorNamespace (world u))"
  let ?p = "desired_params L P (world u) ?secrets ?cms OperatorNamespace b"
  obtain g where g: "run_state (gather_inputs L P OperatorNamespace b) u =
      (Val (?secrets, ?cms, ?p), u\<lparr>issued := issued u @ g\<rparr>)" "list_all not_secret_write g"
    using assms(3,4) by (rule gather_inputs_ready) simp_all
  let ?v = "u\<lparr>issued := issued u @ g\<rparr>"
  let ?g = "configMap_gauges ?cms (secret_gauges ?secrets ?p
    ((gauge u)\<lparr>metricAlertmanagerConfigValidationFailed := Some 0\<rparr>))"
  have "yamlMarshal L (createAlertManagerConfig (isFedramp ?v) ?p) = Inr y"
    using assms(5) by (simp add: desired_config_def Let_def)
  moreover have "update_outcome P (main_secret y) (world ?v) = (None, wr, w)" using assms(7) by simp
  ultimately have applied: "run_state (apply_config L P (impl_interface P) ?secrets ?cms ?p) ?v =
    (Val (impl_Result ?v, None), ?v\<lparr>world := w, issued := issued ?v @ wr, gauge := ?g\<rparr>)"
    using run_apply_config [OF _ assms(6), where s = ?v and p = ?p] by simp
  have "run_state (Reconcile L P (impl_interface P) req) s =
      run_state (apply_config L P (impl_interface P) ?secrets ?cms ?p) ?v"
    using assms(1,2) g(1) by (simp add: Reconcile_accepted)
  then have "run_state (Reconcile L P (impl_interface P) req) s = (Val (impl_Result u, None),
      u\<lparr>world := w, issued := issued u @ g @ wr, gauge := ?g\<rparr>)"
    unfolding applied by (simp add: impl_Result_def)
  moreover have "metricAlertmanagerConfigValidationFailed ?g = Some 0"
    by (simp add: configMap_gauges_def secret_gauges_def Let_def)
  ultimately show ?thesis using g(2) by blast
qed

lemma reconcile_ready:
  assumes "accepted req" and "impl_ready (impl s)" and "quiet P OperatorNamespace (world s)"
    and "infra_readable P (world s)"
    and "yamlMarshal L (desired_config L P (isFedramp s) True (world s)) = Inr y"
    and "amLoad L y = None"
    and "update_outcome P (main_secret y) (world s) = (None, wr, w)"
  shows "\<exists>rds g. list_all not_secret_write rds \<and>
    run_state (Reconcile L P (impl_interface P) req) s =
      (Val (impl_Result s, None), s\<lparr>world := w, issued := issued s @ rds @ wr, gauge := g\<rparr>) \<and>
    metricAlertmanagerConfigValidationFailed g = Some 0"
proof -
  obtain c where c: "run_state (check_cluster P (impl_interface P)) s =
      (Val (True, None), s\<lparr>issued := issued s @ c\<rparr>)" "list_all is_read c"
    by (rule check_cluster_ready [OF assms(3,4,2)])
  have "list_all not_secret_write c"
    using c(2) by (auto simp: list_all_iff dest: read_not_write)
  moreover from reconcile_checked [OF assms(1) c(1), where L = L and y = y and wr = wr and w = w] assms(3-7)
  obtain rds g where "list_all not_secret_write rds" and
    "run_state (Reconcile L P (impl_interface P) req) s =
      (Val (impl_Result s, None), s\<lparr>world := w, issued := issued s @ (c @ rds) @ wr, gauge := g\<rparr>)"
    and "metricAlertmanagerConfigValidationFailed g = Some 0"
    by (auto simp: impl_Result_def)
  ultimately show ?thesis by (intro exI [of _ "c @ rds"] exI [of _ g]) simp
qed

lemma update_outcome_writes:
  "update_outcome P x w = (e, rqs, w') \<Longrightarrow> set (secret_writes rqs) = {x}"
  by (auto simp: update_outcome_def split: prod.splits option.splits if_splits)

text \<open>The requests that a state has beyond another.\<close>

definition new_requests :: "'w sys \<Rightarrow> 'w sys \<Rightarrow> request list" where
  "new_requests s t = drop (length (issued s)) (issued t)"

text \<open>A cluster on which the operator can do its work, and the text it is about to write.\<close>

definition workable :: "lib \<Rightarrow> 'w platform \<Rightarrow> 'w sys \<Rightarrow> string \<Rightarrow> bool" where
  "workable L P s y =
     (impl_ready (impl s) \<and> quiet P OperatorNamespace (world s) \<and> infra_readable P (world s) \<and>
      yamlMarshal L (desired_config L P (isFedramp s) True (world s)) = Inr y \<and> amLoad L y = None \<and>
      fst (update_outcome P (main_secret y) (world s)) = None)"

lemma workable_reconcile:
  assumes "accepted req" and "workable L P s y"
  obtains t where "run_state (Reconcile L P (impl_interface P) req) s = (Val (impl_Result s, None), t)"
    and "set (secret_writes (new_requests s t)) = {main_secret y}"
    and "world t = snd (snd (update_outcome P (main_secret y) (world s)))"
    and "impl t = impl s" and "validation_gauge t = Some 0"
proof -
  obtain wr w where w: "update_outcome P (main_secret y) (world s) = (None, wr, w)"
    using assms(2) by (cases "update_outcome P (main_secret y) (world s)") (auto simp: workable_def)
  with assms obtain rds g where "list_all not_secret_write rds" and
    "run_state (Reconcile L P (impl_interface P) req) s =
      (Val (impl_Result s, None), s\<lparr>world := w, issued := issued s @ rds @ wr, gauge := g\<rparr>)"
    and "metricAlertmanagerConfigValidationFailed g = Some 0"
    using reconcile_ready [of req s P L y wr w] by (auto simp: workable_def)
  with that w show thesis
    by (auto simp: new_requests_def no_secret_writes update_outcome_writes validation_gauge_def)
qed

text \<open>
  C5: a reconcile reaches the desired state. On a ready and quiet cluster whose Infrastructure
  can be read, whose desired configuration validates and whose API takes the write, the
  reconcile of any watched object succeeds with the engine's result, writes the serialised
  desired configuration into \<open>alertmanager-main\<close> and nothing into any other secret, leaves the
  cluster otherwise as it was, and sets the validation gauge to 0.
\<close>

theorem reconcile_reaches_desired_state:
  assumes "accepted req" and "workable L P s y"
  shows "\<exists>t. run_state (Reconcile L P (impl_interface P) req) s = (Val (impl_Result s, None), t) \<and>
    set (secret_writes (new_requests s t)) = {main_secret y} \<and>
    world t = snd (snd (update_outcome P (main_secret y) (world s))) \<and>
    impl t = impl s \<and> validation_gauge t = Some 0"
  using workable_reconcile [OF assms] by blast

definition ready_sys :: "'w \<Rightarrow> 'w sys" where
  "ready_sys w = (fresh_sys w)\<lparr>impl := zero_Impl\<lparr>impl_ready := True\<rparr>\<rparr>"

lemma pd_request_accepted: "accepted pd_request"
  by (simp add: accepted_def pd_request_def watched_names_def)

lemma sample_workable: "workable sample_lib memory_platform (ready_sys sample_cluster) ''route:''"
proof -
  have "fst (update_outcome memory_platform (main_secret ''route:'') sample_cluster) = None"
    by code_simp
  then show ?thesis
    using memory_quiet sample_cluster_infra
    by (simp add: workable_def ready_sys_def fresh_sys_def) (simp add: sample_lib_def)
qed

theorem reconcile_reaches_desired_state_witness:
  "\<exists>t. run_state (Reconcile sample_lib memory_platform (impl_interface memory_platform) pd_request)
       (ready_sys sample_cluster) = (Val (zero_Result, None), t) \<and>
     stored_secret ''openshift-monitoring'' ''alertmanager-main'' (world t) =
       Some [(''alertmanager.yaml'', ''route:'')]"
proof -
  have "stored_secret ''openshift-monitoring'' ''alertmanager-main''
      (snd (snd (update_outcome memory_platform (main_secret ''route:'') sample_cluster))) =
       Some [(''alertmanager.yaml'', ''route:'')]"
    by code_simp
  then show ?thesis
    using reconcile_reaches_desired_state [OF pd_request_accepted sample_workable]
    by (auto simp: ready_sys_def fresh_sys_def impl_Result_def)
qed

lemma sample_ready_run:
  "\<exists>t. run_state (Reconcile sample_lib memory_platform (impl_interface memory_platform) pd_request)
       (ready_sys sample_cluster) = (Val (zero_Result, None), t) \<and>
     set (secret_writes (new_requests (ready_sys sample_cluster) t)) = {main_secret ''route:''} \<and>
     stored_secret ''openshift-monitoring'' ''alertmanager-main'' (world t) =
       Some [(''alertmanager.yaml'', ''route:'')] \<and> impl_ready (impl t)"
proof -
  let ?w = "snd (snd (update_outcome memory_platform (main_secret ''route:'') sample_cluster))"
  have stored: "stored_secret ''openshift-monitoring'' ''alertmanager-main'' ?w =
       Some [(''alertmanager.yaml'', ''route:'')]"
    by code_simp
  have w: "world (ready_sys sample_cluster) = sample_cluster"
    and impl: "impl_ready (impl (ready_sys sample_cluster))"
    and result: "impl_Result (ready_sys sample_cluster) = zero_Result"
    by (simp_all add: ready_sys_def fresh_sys_def impl_Result_def)
  obtain t where t:
    "run_state (Reconcile sample_lib memory_platform (impl_interface memory_platform) pd_request)
       (ready_sys sample_cluster) = (Val (zero_Result, None), t)"
    "set (secret_writes (new_requests (ready_sys sample_cluster) t)) = {main_secret ''route:''}"
    "world t = ?w" "impl t = impl (ready_sys sample_cluster)"
    using workable_reconcile [OF pd_request_accepted sample_workable] unfolding w result by metis
  from stored have "stored_secret ''openshift-monitoring'' ''alertmanager-main'' (world t) =
       Some [(''alertmanager.yaml'', ''route:'')]"
    unfolding t(3) .
  then show ?thesis using t(1,2,4) impl by (intro exI [of _ t]) simp
qed

text \<open>
  C1: only valid configurations of the operator's making are ever written. Whatever the
  cluster answers, every secret that a reconcile creates or updates is \<open>alertmanager-main\<close> in
  \<open>openshift-monitoring\<close> with one field, a text that Alertmanager's loader accepts and that
  serialises a configuration built by \<open>createAlertManagerConfig\<close>; and unless the readiness
  engine is ready after the reconcile, it was built without PagerDuty, CAD and GoAlert keys.
\<close>

theorem reconcile_writes_valid:
  assumes "run_state (Reconcile L P (impl_interface P) req) s = (r, t)"
  shows "\<exists>rqs. issued t = issued s @ rqs \<and>
    (\<forall>x \<in> set (secret_writes rqs). \<exists>p y. x = main_secret y \<and> amLoad L y = None \<and>
       yamlMarshal L (createAlertManagerConfig (isFedramp s) p) = Inr y \<and>
       (impl_ready (impl t) \<or> no_paging_keys p))"
proof -
  obtain rqs where "issued t = issued s @ rqs" and
    ok: "list_all (desired_write L (isFedramp s) (\<lambda>p. impl_ready (impl t) \<or> no_paging_keys p)) rqs"
    by (rule sends_issuedE [OF impl_reconcile.reconcile_sends [OF assms]])
  then show ?thesis by (blast elim: desired_secret_writes [OF ok])
qed

theorem reconcile_writes_valid_witness:
  "\<exists>p. yamlMarshal sample_lib (createAlertManagerConfig False p) = Inr ''route:'' \<and>
     amLoad sample_lib ''route:'' = None"
proof -
  obtain t where t: "run_state (Reconcile sample_lib memory_platform
        (impl_interface memory_platform) pd_request) (ready_sys sample_cluster) = (Val (zero_Result, None), t)"
    "set (secret_writes (new_requests (ready_sys sample_cluster) t)) = {main_secret ''route:''}"
    using sample_ready_run by blast
  obtain rqs where rqs: "issued t = issued (ready_sys sample_cluster) @ rqs" and
    valid: "\<forall>x \<in> set (secret_writes rqs). \<exists>p y. x = main_secret y \<and> amLoad sample_lib y = None \<and>
       yamlMarshal sample_lib (createAlertManagerConfig (isFedramp (ready_sys sample_cluster)) p) = Inr y \<and>
       (impl_ready (impl t) \<or> no_paging_keys p)"
    using reconcile_writes_valid [OF t(1)] by blast
  have "main_secret ''route:'' \<in> set (secret_writes rqs)" using t(2) rqs by (simp add: new_requests_def)
  with valid show ?thesis by (fastforce simp: main_secret_def ready_sys_def fresh_sys_def)
qed

subsection \<open>From a secret to a page\<close>

lemma desired_config_delivers:
  assumes "alertmanager_routing re notify"
  shows "delivers notify (desired_config L P fed b w) a =
    delivery_plan re fed (desired_params L P w (the_result [] (listSecrets P OperatorNamespace w))
      (the_result [] (listConfigMaps P OperatorNamespace w)) OperatorNamespace b) a"
  by (simp add: desired_config_def Let_def delivers_plan [OF assms])

text \<open>
  C3: an alert of a monitored namespace pages. If the list of secrets of a workable cluster has
  \<open>pd-secret\<close> with a key in it, a reconcile writes a configuration with which every alert of
  the platform from one of the namespaces in the cluster's configMaps, that no special rule
  claims and that is not for OCM Agent or CAD, reaches PagerDuty.
\<close>

theorem secret_makes_alerts_page:
  assumes "accepted req" and "workable L P s y" and "alertmanager_routing re notify"
    and "fst (listSecrets P OperatorNamespace (world s)) = Inr secrets"
    and "fst (listConfigMaps P OperatorNamespace (world s)) = Inr cms"
    and "secret_named secretNamePD secrets"
    and "secret_field P (world s) OperatorNamespace secretNamePD secretKeyPD \<noteq> ''''"
    and "platform_alert a"
    and "in_namespaces re (monitored_namespaces L P (world s) cms OperatorNamespace) a"
    and "\<not> claimed_by_fixed_rule re (isFedramp s) a"
    and "\<not> is_managed_notification a" and "\<not> is_cad a"
  shows "\<exists>t c. run_state (Reconcile L P (impl_interface P) req) s = (Val (impl_Result s, None), t) \<and>
    set (secret_writes (new_requests s t)) = {main_secret y} \<and> yamlMarshal L c = Inr y \<and>
    receiverPagerduty \<in> set (delivers notify c a)"
proof -
  let ?p = "desired_params L P (world s) secrets cms OperatorNamespace True"
  let ?c = "desired_config L P (isFedramp s) True (world s)"
  have "pager_delivery re (isFedramp s) ?p Pagerduty a = receiverPagerduty"
    using assms(9) by (intro pager_delivery_unclaimed(1) assms(8,10)) (simp add: desired_params_def Let_def)
  moreover have "pagerdutyRoutingKey ?p \<noteq> ''''"
    using assms(6,7) by (simp add: desired_params_def Let_def secret_key_def)
  ultimately have "receiverPagerduty \<in> set (delivery_plan re (isFedramp s) ?p a)"
    using assms(11,12) by (simp add: delivery_plan_def Let_def optional_parts_simps)
  then have "receiverPagerduty \<in> set (delivers notify ?c a)"
    using assms(4,5) by (simp add: desired_config_delivers [OF assms(3)] the_result_def)
  moreover have "yamlMarshal L ?c = Inr y" using assms(2) by (simp add: workable_def)
  ultimately show ?thesis using workable_reconcile [OF assms(1,2)] by metis
qed

theorem secret_makes_alerts_page_witness:
  "\<exists>c. receiverPagerduty \<in> set (delivers (am_notify sample_re) c
     [(''alertname'', ''DNSDown''), (''severity'', ''critical''), (''namespace'', ''a''),
      (''prometheus'', ''openshift-monitoring/k8s'')])"
proof -
  let ?a = "[(''alertname'', ''DNSDown''), (''severity'', ''critical''), (''namespace'', ''a''),
      (''prometheus'', ''openshift-monitoring/k8s'')]"
  let ?s = "ready_sys sample_cluster"
  let ?ns = "monitored_namespaces sample_lib memory_platform sample_cluster
      (cl_configMaps sample_cluster) OperatorNamespace"
  have w: "world ?s = sample_cluster" "isFedramp ?s = False" by (simp_all add: ready_sys_def fresh_sys_def)
  have ns: "?ns = [''^a$'', ''^b$'', ''^a-mc$'']" by code_simp
  have lists: "fst (listSecrets memory_platform OperatorNamespace sample_cluster) = Inr (cl_secrets sample_cluster)"
    "fst (listConfigMaps memory_platform OperatorNamespace sample_cluster) = Inr (cl_configMaps sample_cluster)"
    by code_simp+
  have pd: "secret_field memory_platform sample_cluster OperatorNamespace secretNamePD secretKeyPD = ''key''"
    by code_simp
  have "\<not> claimed_by_fixed_rule sample_re False ?a"
    by (simp add: claimed_by_fixed_rule_def fixed_subroutes_def table_defs sample_re_def)
  moreover have "in_namespaces sample_re ?ns ?a"
    unfolding ns by (simp add: in_namespaces_def sample_re_def)
  ultimately show ?thesis
    using secret_makes_alerts_page [OF pd_request_accepted sample_workable
        am_ref.alertmanager_routing_axioms, unfolded w, OF lists, of ?a] pd
    by (auto simp: platform_alert_def is_managed_notification_def is_cad_def sample_cluster_def)
qed

subsection \<open>A failed list\<close>

text \<open>
  C26: a failed list of the secrets disarms the cluster. The error is only logged; the reconcile
  goes on as if there were no secrets, succeeds, and overwrites the configuration in place with
  one that notifies nobody but OCM Agent: neither the pagers nor the heartbeats remain.
\<close>

theorem failed_list_disarms:
  assumes "accepted req" and "workable L P s y" and "alertmanager_routing re notify"
    and "fst (listSecrets P OperatorNamespace (world s)) = Inl err"
  shows "\<exists>t c. run_state (Reconcile L P (impl_interface P) req) s = (Val (impl_Result s, None), t) \<and>
    set (secret_writes (new_requests s t)) = {main_secret y} \<and> yamlMarshal L c = Inr y \<and>
    (\<forall>a. set (delivers notify c a) \<subseteq> {receiverNull, receiverOCMAgent})"
proof -
  let ?c = "desired_config L P (isFedramp s) True (world s)"
  have "set (delivers notify ?c a) \<subseteq> {receiverNull, receiverOCMAgent}" for a
    using assms(4)
    by (auto simp: desired_config_delivers [OF assms(3)] the_result_def desired_params_def Let_def
        secret_key_def delivery_plan_def has_goalert_def optional_parts_simps split: if_splits)
  moreover have "yamlMarshal L ?c = Inr y" using assms(2) by (simp add: workable_def)
  ultimately show ?thesis using workable_reconcile [OF assms(1,2)] by metis
qed

definition listless_platform :: "cluster platform" where
  "listless_platform = memory_platform
     \<lparr>listSecrets := \<lambda>ns w. (Inl (ApiError (OtherReason ''Timeout'') ns), w)\<rparr>"

theorem failed_list_disarms_witness:
  "\<exists>c. yamlMarshal sample_lib c = Inr ''route:'' \<and>
     (\<forall>a. set (delivers (am_notify sample_re) c a) \<subseteq> {receiverNull, receiverOCMAgent})"
proof -
  let ?s = "ready_sys sample_cluster"
  have "fst (update_outcome listless_platform (main_secret ''route:'') sample_cluster) = None"
    by code_simp
  moreover have "quiet listless_platform OperatorNamespace sample_cluster"
    and "infra_readable listless_platform sample_cluster"
    using memory_quiet [of OperatorNamespace sample_cluster] sample_cluster_infra
    by (simp_all add: listless_platform_def quiet_def infra_readable_def)
  ultimately have "workable sample_lib listless_platform ?s ''route:''"
    by (simp add: workable_def ready_sys_def fresh_sys_def) (simp add: sample_lib_def)
  moreover have "fst (listSecrets listless_platform OperatorNamespace (world ?s)) =
      Inl (ApiError (OtherReason ''Timeout'') OperatorNamespace)"
    by (simp add: listless_platform_def)
  ultimately show ?thesis
    using failed_list_disarms [OF pd_request_accepted _ am_ref.alertmanager_routing_axioms] by blast
qed

end
