(* ===== verification/OperatorRuns.thy ===== *)
theory OperatorRuns
  imports Convergence
begin

text \<open>
  Runs of the operator: reconciles of any requests, interleaved with changes of the world and
  with restarts of the process. The cluster's side of the bargain, what its calls do to the
  object \<open>alertmanager-main\<close>, is the locale \<open>config_store\<close>; the invariant of the runs is that
  the configuration in place is at every moment one that Alertmanager can load.
\<close>

subsection \<open>Relations on the world\<close>

text \<open>A preorder on worlds that all calls respect except the writes of secrets.\<close>

locale cluster_frame =
  fixes P :: "'w platform" and W :: "'w \<Rightarrow> 'w \<Rightarrow> bool"
  assumes W_refl: "W w w"
    and W_trans: "W w w' \<Longrightarrow> W w' w'' \<Longrightarrow> W w w''"
    and W_calls: "W w (snd (listSecrets P ns w))" "W w (snd (listConfigMaps P ns w))"
      "W w (snd (listClusterOperators P w))" "W w (snd (getSecret P ns n w))"
      "W w (snd (getConfigMap P ns n w))" "W w (snd (getClusterVersion P n w))"
      "W w (snd (getProxy P n w))" "W w (snd (getInfrastructure P n w))"
      "W w (snd (createEvent P ev w))" "W w (snd (timeNow P w))" "W w (snd (lookupEnv P n w))"
      "W w (snd (readFile P n w))" "W w (snd (promClient P n w))" "W w (snd (promQuery P h n now w))"
begin

definition tracks :: "'w sys \<Rightarrow> 'w sys \<Rightarrow> bool" where
  "tracks s t = W (world s) (world t)"

lemma frame_condition_tracks: "frame_condition tracks"
  by unfold_locales (auto simp: tracks_def W_refl intro: W_trans)

lemma tracks_calls:
  "(\<And>w. W w (snd (f w))) \<Longrightarrow> state_io_rel tracks (api rq f)"
  "(\<And>w. W w (snd (g w))) \<Longrightarrow> state_io_rel tracks (io g)"
  "state_io_rel tracks (modify_impl h)"
  "state_io_rel tracks (modify_gauge k)"
  by (auto simp: state_io_rel_def tracks_def W_refl)

lemmas tracks_rules = frame_case frame_prom_value
  frame_condition.frame_rules [OF frame_condition_tracks] tracks_calls W_calls

lemma tracks_reads:
  "state_io_rel tracks (readSecretKey P n ns f)" "state_io_rel tracks (readCMKey P n ns f)"
  "state_io_rel tracks (getClusterProxy P)" "state_io_rel tracks (getClusterID P)"
  "state_io_rel tracks (getClusterRegion P)" "state_io_rel tracks (isManagementCluster P)"
  "state_io_rel tracks (recordClusterTypeDetectionEvent P err)"
  "state_io_rel tracks (recordConfigValidationEvent P err)"
  unfolding readSecretKey_def readCMKey_def getClusterProxy_def getClusterID_def
    getClusterRegion_def isManagementCluster_def recordClusterTypeDetectionEvent_def
    recordConfigValidationEvent_def Let_def
  by (intro tracks_rules)+

lemma tracks_engine: "state_io_rel tracks (IsReady P)"
  unfolding IsReady_def age_fallback_def setClusterCreationTime_def setPromAPI_def clusterTooOld_def
  by (intro tracks_rules)

lemma tracks_check: "state_io_rel tracks (check_cluster P (impl_interface P))"
  unfolding check_cluster_def impl_interface_def
  by (simp, intro tracks_rules tracks_reads tracks_engine)

lemma tracks_inputs: "state_io_rel tracks (gather_inputs L P ns b)"
  unfolding gather_inputs_def gather_params_def parseSecrets_def parseConfigMaps_def
    parseNamespaceConfigMap_def parseMCNamespaceConfigMap_def readOCMAgentServiceURLFromConfig_def
    Let_def
  by (intro tracks_rules tracks_reads)

end

subsection \<open>The store of the configuration\<close>

text \<open>
  The content of \<open>alertmanager-main\<close> in a world is \<open>stored\<close>: a write that succeeds stores the
  text it was given; one that reports an error, a timeout for example, may have stored it or
  not; and no other call changes the content.
\<close>

locale config_store = cluster_frame P "\<lambda>w w'. stored w' = stored w"
  for P :: "'w platform" and stored :: "'w \<Rightarrow> string option" +
  assumes update_stores: "updateSecret P (main_secret y) w = (e, w') \<Longrightarrow>
      stored w' = Some y \<or> e \<noteq> None \<and> stored w' = stored w"
    and create_stores: "createSecret P (main_secret y) w = (e, w') \<Longrightarrow>
      stored w' = Some y \<or> e \<noteq> None \<and> stored w' = stored w"
begin

lemma update_outcome_stores:
  assumes "update_outcome P (main_secret y) w = (e, rqs, w')"
  shows "stored w' = Some y \<or> e \<noteq> None \<and> stored w' = stored w"
proof -
  obtain e1 w1 where upd: "updateSecret P (main_secret y) w = (e1, w1)" by fastforce
  obtain e2 w2 where crt: "createSecret P (main_secret y) w1 = (e2, w2)" by fastforce
  from assms upd crt update_stores [OF upd] create_stores [OF crt] show ?thesis
    by (auto simp: update_outcome_def split: option.splits if_splits)
qed

lemma write_stores:
  assumes "run_state (writeAlertManagerConfig L P c) s = (e, t)"
  shows "(\<exists>y. stored (world t) = Some y \<and> yamlMarshal L c = Inr y \<and> amLoad L y = None) \<or>
    e \<noteq> None \<and> stored (world t) = stored (world s)"
proof (cases "validateAlertManagerConfig L c")
  case None
  then obtain y where "yamlMarshal L c = Inr y" "amLoad L y = None" by (auto simp: validate_ok)
  with None assms show ?thesis
    by (auto simp: writeAlertManagerConfig_def run_write_secret
        split: prod.splits option.splits dest!: update_outcome_stores)
next
  case (Some err)
  obtain v u where u: "run_state (recordConfigValidationEvent P err) s = (v, u)"
    by (cases "run_state (recordConfigValidationEvent P err) s")
  from state_io_relD [OF tracks_reads(8) u] Some assms u show ?thesis
    by (auto simp: writeAlertManagerConfig_def tracks_def)
qed

lemma apply_stores:
  assumes "run_state (apply_config L P I secrets cms p) s = (r, t)"
  shows "stored (world t) = stored (world s) \<or>
    (\<exists>y. stored (world t) = Some y \<and> amLoad L y = None \<and>
       yamlMarshal L (createAlertManagerConfig (isFedramp s) p) = Inr y)"
proof -
  let ?c = "createAlertManagerConfig (isFedramp s) p"
  obtain e u where u: "run_state (writeAlertManagerConfig L P ?c) s = (e, u)" by fastforce
  have "world t = world u"
    using assms u
    by (auto simp: apply_config_def Let_def run_UpdateSecretsMetrics run_UpdateConfigMapMetrics
        split: option.splits)
  then show ?thesis using write_stores [OF u] by auto
qed

lemma reconcile_stores:
  assumes "run_state (Reconcile L P (impl_interface P) req) s = (r, t)"
  shows "stored (world t) = stored (world s) \<or>
    (\<exists>p y. stored (world t) = Some y \<and> amLoad L y = None \<and>
       yamlMarshal L (createAlertManagerConfig (isFedramp s) p) = Inr y \<and>
       (impl_ready (impl t) \<or> no_paging_keys p))"
  using assms
proof (cases rule: Reconcile_cases)
  case (applied b u secrets cms p v)
  have su: "stored (world u) = stored (world s)"
    using state_io_relD [OF tracks_check applied(1)] by (simp add: tracks_def)
  have uv: "stored (world v) = stored (world u)"
    using state_io_relD [OF tracks_inputs applied(2)] by (simp add: tracks_def)
  have "isFedramp v = isFedramp s"
    using state_io_relD [OF impl_reconcile.check_cluster_frame applied(1)]
      gather_inputs_frame(1) [OF applied(2)] by (simp add: sends_def)
  moreover have "impl_ready (impl t) \<or> no_paging_keys p"
  proof (cases b)
    case True
    then show ?thesis
      using impl_reconcile.check_cluster_verdict [OF applied(1)] gather_inputs_frame(2) [OF applied(2)]
        apply_config_frame(2) [OF applied(3)] by simp
  qed (use applied(2) in \<open>auto dest: gather_inputs_not_ready\<close>)
  ultimately show ?thesis using su uv apply_stores [OF applied(3)] by auto
qed (use tracks_check in \<open>auto dest!: state_io_relD simp: tracks_def\<close>)

end

interpretation memory: config_store memory_platform
  "\<lambda>w. map_option (\<lambda>d. go_get d ''alertmanager.yaml'')
     (stored_secret ''openshift-monitoring'' ''alertmanager-main'' w)"
proof
  let ?stored = "\<lambda>w. map_option (\<lambda>d. go_get d ''alertmanager.yaml'')
      (stored_secret ''openshift-monitoring'' ''alertmanager-main'' w)"
  fix y w e w'
  show "?stored w' = Some y \<or> e \<noteq> None \<and> ?stored w' = ?stored w"
    if "updateSecret memory_platform (main_secret y) w = (e, w')"
    using memory_update [OF that] by (simp add: main_secret_def)
  show "?stored w' = Some y \<or> e \<noteq> None \<and> ?stored w' = ?stored w"
    if "createSecret memory_platform (main_secret y) w = (e, w')"
    using memory_create [OF that] by (simp add: main_secret_def)
qed (simp_all add: memory_platform_def stored_secret_def)

subsection \<open>Runs\<close>

text \<open>
  The operator runs one reconcile at a time, so a run is a sequence of whole steps. A reconcile
  that panics leaves the state in which it stopped; the environment changes the world within a
  relation \<open>E\<close>; a restart loses the readiness engine and the gauges.
\<close>

inductive operator_step ::
  "lib \<Rightarrow> 'w platform \<Rightarrow> ('w \<Rightarrow> 'w \<Rightarrow> bool) \<Rightarrow> 'w sys \<Rightarrow> 'w sys \<Rightarrow> bool"
  for L P E where
  reconcile_step: "run_state (Reconcile L P (impl_interface P) req) s = (r, t) \<Longrightarrow>
     operator_step L P E s t"
| environment_step: "E (world s) w \<Longrightarrow> operator_step L P E s (s\<lparr>world := w\<rparr>)"
| restart_step: "operator_step L P E s (s\<lparr>impl := zero_Impl, gauge := unset_gauges\<rparr>)"

inductive operator_run ::
  "lib \<Rightarrow> 'w platform \<Rightarrow> ('w \<Rightarrow> 'w \<Rightarrow> bool) \<Rightarrow> 'w sys \<Rightarrow> 'w sys \<Rightarrow> bool"
  for L P E where
  run_start: "operator_run L P E s s"
| run_step: "operator_run L P E s t \<Longrightarrow> operator_step L P E t u \<Longrightarrow> operator_run L P E s u"

text \<open>A text that the operator made from some configuration and that Alertmanager can load.\<close>

definition operator_text :: "lib \<Rightarrow> bool \<Rightarrow> string \<Rightarrow> bool" where
  "operator_text L fed y =
     (amLoad L y = None \<and> (\<exists>p. yamlMarshal L (createAlertManagerConfig fed p) = Inr y))"

lemma step_writes:
  assumes "operator_step L P E s t"
  shows "isFedramp t = isFedramp s \<and> (\<exists>rqs. issued t = issued s @ rqs \<and>
    (\<forall>x \<in> set (secret_writes rqs). \<exists>y. x = main_secret y \<and> operator_text L (isFedramp s) y))"
  using assms
proof (cases rule: operator_step.cases)
  case (reconcile_step req r)
  obtain rqs where rqs: "issued t = issued s @ rqs" "isFedramp t = isFedramp s"
    and ok: "list_all (desired_write L (isFedramp s) (\<lambda>p. impl_ready (impl t) \<or> no_paging_keys p)) rqs"
    by (rule sends_issuedE [OF impl_reconcile.reconcile_sends [OF reconcile_step]])
  then show ?thesis by (auto simp: operator_text_def elim!: desired_secret_writes [OF ok])
qed auto

lemma run_writes:
  assumes "operator_run L P E s t"
  shows "isFedramp t = isFedramp s \<and> (\<exists>rqs. issued t = issued s @ rqs \<and>
    (\<forall>x \<in> set (secret_writes rqs). \<exists>y. x = main_secret y \<and> operator_text L (isFedramp s) y))"
  using assms
proof (induction rule: operator_run.induct)
  case (run_step s t u)
  from run_step.IH step_writes [OF run_step.hyps(2)] show ?case by fastforce
qed simp

text \<open>
  In every run, every write is valid. However reconciles, changes of the cluster, restarts
  and panics alternate, the only secret the operator ever writes is \<open>alertmanager-main\<close>, and
  every text it writes was built by it and is accepted by Alertmanager's loader.
\<close>

theorem runs_write_valid:
  assumes "operator_run L P E s t"
  shows "\<forall>x \<in> set (secret_writes (new_requests s t)).
    \<exists>y. x = main_secret y \<and> operator_text L (isFedramp s) y"
  using run_writes [OF assms] by (auto simp: new_requests_def)

definition clock_changes :: "cluster \<Rightarrow> cluster \<Rightarrow> bool" where
  "clock_changes w w' = (w' = w\<lparr>cl_clock := cl_clock w'\<rparr>)"

lemma sample_run:
  "\<exists>t. operator_run sample_lib memory_platform clock_changes (ready_sys sample_cluster) t \<and>
     set (secret_writes (new_requests (ready_sys sample_cluster) t)) = {main_secret ''route:''} \<and>
     stored_secret ''openshift-monitoring'' ''alertmanager-main'' (world t) =
       Some [(''alertmanager.yaml'', ''route:'')]"
proof -
  obtain t where t: "run_state (Reconcile sample_lib memory_platform
        (impl_interface memory_platform) pd_request) (ready_sys sample_cluster) = (Val (zero_Result, None), t)"
    "set (secret_writes (new_requests (ready_sys sample_cluster) t)) = {main_secret ''route:''}"
    "stored_secret ''openshift-monitoring'' ''alertmanager-main'' (world t) =
       Some [(''alertmanager.yaml'', ''route:'')]"
    using sample_ready_run by blast
  from t(1) have "operator_run sample_lib memory_platform clock_changes (ready_sys sample_cluster) t"
    by (rule run_step [OF run_start reconcile_step])
  with t show ?thesis by blast
qed

theorem runs_write_valid_witness: "operator_text sample_lib False ''route:''"
proof -
  obtain t where t: "operator_run sample_lib memory_platform clock_changes (ready_sys sample_cluster) t" and
    "set (secret_writes (new_requests (ready_sys sample_cluster) t)) = {main_secret ''route:''}"
    using sample_run by blast
  with runs_write_valid [OF t] show ?thesis
    by (auto simp: main_secret_def ready_sys_def fresh_sys_def)
qed

text \<open>
  The last good configuration stays in place. On a cluster that stores what it is told to
  and whose environment leaves \<open>alertmanager-main\<close> alone, every run preserves that
  \<open>alertmanager-main\<close> is absent or holds a text that Alertmanager can load; it holds what it
  held at the start or a text of the operator's.
\<close>

theorem last_good_config:
  assumes "config_store P stored" and "\<And>w w'. E w w' \<Longrightarrow> stored w' = stored w"
    and "operator_run L P E s t"
  shows "stored (world t) = stored (world s) \<or>
    (\<exists>y. stored (world t) = Some y \<and> operator_text L (isFedramp s) y)"
  using assms(3)
proof (induction rule: operator_run.induct)
  case (run_step s t u)
  have fed: "isFedramp t = isFedramp s" using run_writes [OF run_step.hyps(1)] by simp
  from run_step.hyps(2) have "stored (world u) = stored (world t) \<or>
      (\<exists>y. stored (world u) = Some y \<and> operator_text L (isFedramp t) y)"
  proof (cases rule: operator_step.cases)
    case (reconcile_step req r)
    from config_store.reconcile_stores [OF assms(1) reconcile_step] show ?thesis
      by (auto simp: operator_text_def)
  qed (auto dest: assms(2))
  with run_step.IH fed show ?case by auto
qed simp

theorem last_good_config_witness:
  "\<exists>t. operator_run sample_lib memory_platform clock_changes (ready_sys sample_cluster) t \<and>
     stored_secret ''openshift-monitoring'' ''alertmanager-main'' (world t) =
       Some [(''alertmanager.yaml'', ''route:'')] \<and>
     operator_text sample_lib False ''route:''"
proof -
  let ?stored = "\<lambda>w. map_option (\<lambda>d. go_get d ''alertmanager.yaml'')
     (stored_secret ''openshift-monitoring'' ''alertmanager-main'' w)"
  obtain t where t: "operator_run sample_lib memory_platform clock_changes (ready_sys sample_cluster) t"
    "stored_secret ''openshift-monitoring'' ''alertmanager-main'' (world t) =
       Some [(''alertmanager.yaml'', ''route:'')]"
    using sample_run by blast
  have env: "?stored w' = ?stored w" if "clock_changes w w'" for w w'
  proof -
    have "cl_secrets w' = cl_secrets w"
      using arg_cong [OF that [unfolded clock_changes_def], of cl_secrets] by simp
    then show ?thesis by (simp add: stored_secret_def)
  qed
  have start: "?stored sample_cluster = None" by code_simp
  have sys: "world (ready_sys sample_cluster) = sample_cluster" "\<not> isFedramp (ready_sys sample_cluster)"
    by (simp_all add: ready_sys_def fresh_sys_def)
  from last_good_config [OF memory.config_store_axioms env t(1)]
  have "operator_text sample_lib False ''route:''"
    unfolding sys(1) start using t(2) sys(2) by simp
  with t show ?thesis by blast
qed

lemma no_paging_silent:
  assumes "alertmanager_routing re notify" and "no_paging_keys p"
  shows "set (delivers notify (createAlertManagerConfig fed p) a) \<subseteq>
    {receiverNull, receiverWatchdog, receiverOCMAgent}"
  using assms(2)
  by (auto simp: delivers_plan [OF assms(1)] delivery_plan_def no_paging_keys_def has_goalert_def
      Let_def optional_parts_simps split: if_splits)

text \<open>
  An unready cluster does not page. After a reconcile that leaves the readiness engine
  unready, \<open>alertmanager-main\<close> holds what it held before or a configuration with which no alert
  whatsoever reaches anything but the snitch and OCM Agent.
\<close>

theorem unready_cluster_silent:
  assumes "config_store P stored" and "alertmanager_routing re notify"
    and "run_state (Reconcile L P (impl_interface P) req) s = (r, t)"
    and "\<not> impl_ready (impl t)"
  shows "stored (world t) = stored (world s) \<or>
    (\<exists>c y. stored (world t) = Some y \<and> yamlMarshal L c = Inr y \<and>
       (\<forall>a. set (delivers notify c a) \<subseteq> {receiverNull, receiverWatchdog, receiverOCMAgent}))"
  using config_store.reconcile_stores [OF assms(1,3)] assms(4) no_paging_silent [OF assms(2)] by blast

text \<open>The sample cluster with an operator still progressing, created just now.\<close>

definition young_platform :: "cluster platform" where
  "young_platform = memory_platform\<lparr>listClusterOperators := \<lambda>w. (Inr sample_operators, w)\<rparr>"

definition memory_stored :: "cluster \<Rightarrow> string option" where
  "memory_stored w = map_option (\<lambda>d. go_get d ''alertmanager.yaml'')
     (stored_secret ''openshift-monitoring'' ''alertmanager-main'' w)"

lemma memory_store: "config_store memory_platform memory_stored"
  using memory.config_store_axioms unfolding memory_stored_def [abs_def] .

lemma young_store: "config_store young_platform memory_stored"
  using memory_store
  by (simp add: config_store_def config_store_axioms_def cluster_frame_def young_platform_def)

lemma sample_cluster_unset: "memory_stored sample_cluster = None"
  by code_simp

lemma young_run:
  obtains r t where "run_state (Reconcile sample_lib young_platform (impl_interface young_platform)
      pd_request) (fresh_sys sample_cluster) = (r, t)"
    and "\<not> impl_ready (impl t)" and "memory_stored (world t) = Some ''route:''"
proof -
  let ?s = "fresh_sys sample_cluster"
  let ?c = "run_state (check_cluster young_platform (impl_interface young_platform)) ?s"
  let ?up = "update_outcome young_platform (main_secret ''route:'') sample_cluster"
  have "fst ?c = Val (False, None) \<and> world (snd ?c) = sample_cluster \<and> \<not> impl_ready (impl (snd ?c))"
    by code_simp
  then obtain u where check: "?c = (Val (False, None), u)" and u: "world u = sample_cluster"
    "\<not> impl_ready (impl u)" by (cases ?c) auto
  have "fst ?up = None \<and> memory_stored (snd (snd ?up)) = Some ''route:''" by code_simp
  then obtain wr w where w: "?up = (None, wr, w)" "memory_stored w = Some ''route:''" by (cases ?up) auto
  have q: "quiet young_platform OperatorNamespace (world u)" "infra_readable young_platform (world u)"
    using memory_quiet [of OperatorNamespace sample_cluster] sample_cluster_infra
    by (simp_all add: young_platform_def quiet_def infra_readable_def u)
  have y: "yamlMarshal sample_lib (desired_config sample_lib young_platform (isFedramp u)
      False (world u)) = Inr ''route:''" "amLoad sample_lib ''route:'' = None"
    by (simp_all add: sample_lib_def)
  have up: "update_outcome young_platform (main_secret ''route:'') (world u) = (None, wr, w)"
    using w(1) u(1) by simp
  obtain rds g where
    run: "run_state (Reconcile sample_lib young_platform (impl_interface young_platform) pd_request) ?s =
      (Val (impl_Result u, None), u\<lparr>world := w, issued := issued u @ rds @ wr, gauge := g\<rparr>)"
    using reconcile_checked [OF pd_request_accepted check q y up] by blast
  then show thesis by (rule that) (use u(2) w(2) in simp_all)
qed

theorem unready_cluster_silent_witness:
  "\<exists>c. yamlMarshal sample_lib c = Inr ''route:'' \<and>
     (\<forall>a. set (delivers (am_notify sample_re) c a) \<subseteq> {receiverNull, receiverWatchdog, receiverOCMAgent})"
proof -
  obtain r t where t: "run_state (Reconcile sample_lib young_platform (impl_interface young_platform)
      pd_request) (fresh_sys sample_cluster) = (r, t)" "\<not> impl_ready (impl t)"
    "memory_stored (world t) = Some ''route:''" by (rule young_run)
  have "memory_stored (world (fresh_sys sample_cluster)) = None"
    by (simp add: fresh_sys_def sample_cluster_unset)
  with unready_cluster_silent [OF young_store am_ref.alertmanager_routing_axioms t(1,2)] t(3)
  show ?thesis by auto
qed

end
