(* ===== verification/Polling.thy ===== *)
theory Polling
  imports OperatorRuns "HOL-Library.While_Combinator"
begin

text \<open>
  How reconciles go on: the one way in which a reconcile can panic, the requeue that keeps an
  unready cluster polled, and the end of this polling. The work queue of controller-runtime is
  third-party code: that it waits at least as long as it was asked to before the next
  reconcile, that the clock does not run backwards, and that Prometheus answers from some
  instant on, are the assumptions of the locale \<open>polled_cluster\<close>.
\<close>

subsection \<open>Panics\<close>

text \<open>An answer of Prometheus to the age query that is not a vector, and leads to the world \<open>w'\<close>.\<close>

definition answers_no_vector :: "'w platform \<Rightarrow> 'w \<Rightarrow> bool" where
  "answers_no_vector P w' =
     (\<exists>handle now w v ws. promQuery P handle clusterVersionQuery now w = (Inr (OtherValue v, ws), w'))"

lemma setClusterCreationTime_panics:
  assumes "run_state (setClusterCreationTime P) s = (Panic m, t)"
  shows "clusterCreationTime (impl s) = 0 \<and> answers_no_vector P (world t) \<and>
    last (issued t) = PromQuery clusterVersionQuery"
proof -
  obtain e u where u: "run_state (setPromAPI P) s = (e, u)" by fastforce
  note handle = setPromAPI_post(4) [OF u]
  have "\<exists>handle. promAPI (impl u) = Some handle \<and> fst (promQuery P handle clusterVersionQuery
      (fst (timeNow P (world u))) (snd (timeNow P (world u)))) = Inr (OtherValue v, ws) \<Longrightarrow>
    answers_no_vector P (snd (promQuery P (the (promAPI (impl u))) clusterVersionQuery
      (fst (timeNow P (world u))) (snd (timeNow P (world u)))))" for v ws
    unfolding answers_no_vector_def by (metis option.sel prod.collapse)
  then show ?thesis
    using assms u handle
    by (auto simp: setClusterCreationTime_def Let_def split: if_splits option.splits sum.splits
        prom_value.splits)
qed

lemma age_fallback_panics:
  "run_state (age_fallback P) s = (Panic m, t) \<Longrightarrow> run_state (setClusterCreationTime P) s = (Panic m, t)"
  by (auto simp: age_fallback_def clusterTooOld_def
      split: prod.splits go.splits option.splits sum.splits if_splits)

lemma IsReady_panics:
  assumes "run_state (IsReady P) s = (Panic m, t)"
  shows "\<not> impl_ready (impl s) \<and> clusterCreationTime (impl s) = 0 \<and>
    answers_no_vector P (world t) \<and> last (issued t) = PromQuery clusterVersionQuery"
proof -
  have ready: "\<not> impl_ready (impl s)" using assms IsReady_cached by fastforce
  with assms have "run_state (age_fallback P) (after_list P s) = (Panic m, t)"
    by (auto simp: run_IsReady split: if_splits)
  from setClusterCreationTime_panics [OF age_fallback_panics [OF this]] ready show ?thesis
    by (simp add: after_list_def)
qed

lemma isManagementCluster_impl: "state_io_rel keeps_impl (isManagementCluster P)"
  unfolding isManagementCluster_def Let_def by (intro frame_intros)

lemma record_impl: "state_io_rel keeps_impl (recordClusterTypeDetectionEvent P err)"
  unfolding recordClusterTypeDetectionEvent_def Let_def by (intro frame_intros)

text \<open>The check of a cluster is a prefix that keeps the engine, and then the engine's check.\<close>

definition cluster_type_check :: "'w platform \<Rightarrow> ('w, unit) op" where
  "cluster_type_check P = do {
     verdict \<leftarrow> isManagementCluster P;
     (case verdict of
        Val (readMC, Some err) \<Rightarrow> recordClusterTypeDetectionEvent P err
      | _ \<Rightarrow> State_Monad.return ())
   }"

lemma run_check_cluster:
  "run_state (check_cluster P I) s = run_state (ifIsReady I) (snd (run_state (cluster_type_check P) s))"
proof -
  obtain v t where v: "run_state (isManagementCluster P) s = (Val v, t)"
    using reads_return(1) by (metis returnsE prod.collapse)
  then show ?thesis
    by (auto simp: check_cluster_def cluster_type_check_def run_go_then split: prod.splits option.splits)
qed

lemma cluster_type_check_impl: "impl (snd (run_state (cluster_type_check P) s)) = impl s"
proof -
  have "state_io_rel keeps_impl (cluster_type_check P)"
    unfolding cluster_type_check_def by (intro frame_intros isManagementCluster_impl record_impl)
  then show ?thesis by (simp add: state_io_rel_def keeps_impl_def)
qed

lemma apply_config_no_panic:
  "run_state (apply_config L P I secrets cms p) s = (r, t) \<Longrightarrow> r \<noteq> Panic m"
  by (auto simp: apply_config_def Let_def run_UpdateSecretsMetrics run_UpdateConfigMapMetrics
      split: prod.splits option.splits)

text \<open>
  C12: a reconcile never panics but for one type assertion. If a reconcile panics, then the
  request was for a watched object, the engine was not yet ready and did not know the age of the
  cluster, and the last thing that happened was that Prometheus answered the age query with
  something other than a vector; nothing was written. The other operations of the path that can
  panic never do: the call on the handle of the Prometheus API, which is nil until it is set; the
  slice of the infrastructure name; the pointers to the platform status, its AWS and GCP
  sections and the section of the management cluster; and the receivers of the configuration.
\<close>

theorem reconcile_panics:
  assumes "run_state (Reconcile L P (impl_interface P) req) s = (Panic m, t)"
  shows "accepted req \<and> \<not> impl_ready (impl s) \<and> clusterCreationTime (impl s) = 0 \<and>
    (\<exists>handle now w v ws.
       promQuery P handle clusterVersionQuery now w = (Inr (OtherValue v, ws), world t)) \<and>
    last (issued t) = PromQuery clusterVersionQuery \<and>
    secret_writes (new_requests s t) = []"
  using assms
proof (cases rule: Reconcile_cases)
  case (panicked m')
  have "accepted req" using assms by (rule contrapos_pp) (simp add: Reconcile_accepted)
  moreover have "run_state (IsReady P) (snd (run_state (cluster_type_check P) s)) = (Panic m', t)"
    using panicked(1) by (simp add: run_check_cluster impl_interface_def)
  note IsReady_panics [OF this, unfolded cluster_type_check_impl]
  moreover have "secret_writes (new_requests s t) = []"
    using state_io_relD [OF impl_reconcile.check_cluster_frame panicked(1)]
    by (auto simp: sends_def new_requests_def no_secret_writes)
  ultimately show ?thesis unfolding answers_no_vector_def by blast
qed (auto dest: apply_config_no_panic)

text \<open>A Prometheus that answers with a scalar.\<close>

definition scalar_platform :: "cluster platform" where
  "scalar_platform = memory_platform
     \<lparr>listClusterOperators := \<lambda>w. (Inr [], w), readFile := \<lambda>f w. (Inr ''token'', w),
      promQuery := \<lambda>h q now w. (Inr (OtherValue ''scalar'', []), w)\<rparr>"

theorem reconcile_panics_witness:
  "\<exists>m t. run_state (Reconcile sample_lib scalar_platform (impl_interface scalar_platform) pd_request)
      (fresh_sys sample_cluster) = (Panic m, t) \<and>
     last (issued t) = PromQuery clusterVersionQuery \<and>
     secret_writes (new_requests (fresh_sys sample_cluster) t) = []"
proof -
  let ?c = "run_state (check_cluster scalar_platform (impl_interface scalar_platform)) (fresh_sys sample_cluster)"
  have "(case fst ?c of Panic m \<Rightarrow> True | Val v \<Rightarrow> False)" by code_simp
  then obtain m t where "?c = (Panic m, t)" by (cases ?c) (auto split: go.splits)
  then have run: "run_state (Reconcile sample_lib scalar_platform (impl_interface scalar_platform) pd_request)
      (fresh_sys sample_cluster) = (Panic m, t)"
    by (simp add: Reconcile_accepted pd_request_accepted)
  with reconcile_panics [OF run] show ?thesis by blast
qed

subsection \<open>An unready cluster is polled\<close>

text \<open>The engine after a reconcile is the engine after its check of the cluster.\<close>

lemma reconcile_impl:
  assumes "accepted req" and "run_state (Reconcile L P I req) s = (r, t)"
  shows "impl t = impl (snd (run_state (check_cluster P I) s))"
  using assms(2)
proof (cases rule: Reconcile_cases)
  case (applied b u secrets cms p v)
  with gather_inputs_frame(2) [OF applied(2)] apply_config_frame(2) [OF applied(3)] show ?thesis
    by simp
qed (use assms(1) in simp_all)

lemma reconcile_engine:
  assumes "accepted req" and "run_state (Reconcile L P (impl_interface P) req) s = (r, t)"
  shows "impl t = impl (snd (run_state (IsReady P) (snd (run_state (cluster_type_check P) s))))"
  using reconcile_impl [OF assms] by (simp add: run_check_cluster impl_interface_def)

lemma IsReady_requeues:
  assumes "run_state (IsReady P) s = (Val (False, None), t)"
  shows "Requeue (impl_Result t) \<and> RequeueAfter (impl_Result t) \<in> {second, 30 * second}"
proof -
  have "\<not> impl_ready (impl s)" using assms IsReady_cached by fastforce
  from IsReady_post [OF this assms] show ?thesis by (auto simp: fallback_outcome_def impl_Result_def)
qed

lemma apply_config_result:
  assumes "run_state (apply_config L P I secrets cms p) s = (Val (r, None), t)"
  shows "r = ifResult I t"
  using assms
  by (auto simp: apply_config_def Let_def run_UpdateSecretsMetrics run_UpdateConfigMapMetrics
      split: prod.splits option.splits)

lemma unready_requeues:
  assumes "run_state (Reconcile L P (impl_interface P) req) s = (Val (r, e), t)"
    and "accepted req" and "\<not> impl_ready (impl t)"
  shows "e \<noteq> None \<or> Requeue r \<and> RequeueAfter r \<in> {second, 30 * second}"
  using assms(1)
proof (cases rule: Reconcile_cases)
  case (applied b u secrets cms p v)
  have impl: "impl v = impl u" "impl t = impl u"
    using gather_inputs_frame(2) [OF applied(2)] apply_config_frame(2) [OF applied(3)] by simp_all
  then have "\<not> b" using impl_reconcile.check_cluster_verdict [OF applied(1)] assms(3) by simp
  then have "run_state (IsReady P) (snd (run_state (cluster_type_check P) s)) = (Val (False, None), u)"
    using applied(1) by (simp add: run_check_cluster impl_interface_def)
  from IsReady_requeues [OF this] impl apply_config_result [of L P "impl_interface P" secrets cms p v r t]
    applied(3) show ?thesis
    by (cases e) (simp_all add: impl_interface_def impl_Result_def)
qed (use assms(2) in auto)

text \<open>
  C14: an unready cluster is polled. A reconcile of a watched object that returns and leaves the
  engine unready returns an error, which the work queue retries, or asks for a requeue: after
  one second when the age of the cluster could not be determined, after thirty otherwise.
\<close>

theorem unready_reconcile_retried:
  assumes "run_state (Reconcile L P (impl_interface P) req) s = (Val (r, e), t)"
    and "accepted req" and "\<not> impl_ready (impl t)"
  shows "e \<noteq> None \<or> Requeue r \<and> RequeueAfter r \<in> {second, 30 * second}"
  using assms by (rule unready_requeues)

theorem unready_reconcile_retried_witness:
  "\<exists>r e t. run_state (Reconcile sample_lib misconfigured_platform (impl_interface misconfigured_platform) pd_request)
      (fresh_sys sample_cluster) = (Val (r, e), t) \<and> \<not> impl_ready (impl t) \<and>
     (e \<noteq> None \<or> Requeue r \<and> RequeueAfter r \<in> {second, 30 * second})"
proof -
  let ?run = "run_state (Reconcile sample_lib misconfigured_platform
      (impl_interface misconfigured_platform) pd_request) (fresh_sys sample_cluster)"
  let ?c = "run_state (check_cluster misconfigured_platform (impl_interface misconfigured_platform))
      (fresh_sys sample_cluster)"
  obtain x t where run: "?run = (x, t)" by (rule prod.exhaust)
  have unready: "\<not> impl_ready (impl t)"
    unfolding reconcile_impl [OF pd_request_accepted run] by code_simp
  have "fst ?c = Val (False, None)" by code_simp
  then obtain u where c: "?c = (Val (False, None), u)" by (cases ?c) auto
  have "\<exists>r e. x = Val (r, e)"
    using run
  proof (cases rule: Reconcile_cases)
    case (applied b v secrets cms p v')
    then show ?thesis by (cases x) (auto dest: apply_config_no_panic)
  qed (use c in auto)
  with run unready unready_reconcile_retried [OF _ pd_request_accepted] show ?thesis by blast
qed

subsection \<open>Polling ends\<close>

text \<open>
  The delay a reconcile asks for. After an error or a panic, which the work queue turns into an
  error, the delay is the queue's own; all that is used of it is that it is positive.
\<close>

definition retry_delay :: "(Result \<times> go_error option) go \<Rightarrow> int" where
  "retry_delay r = (case r of Val (res, None) \<Rightarrow> RequeueAfter res | _ \<Rightarrow> 1)"

text \<open>
  Reconciles of one object, each after the delay that the one before it asked for, until the
  engine is ready: the loop is \<open>None\<close> if it never gets there.
\<close>

definition poll_step ::
  "lib \<Rightarrow> 'w platform \<Rightarrow> ((Result \<times> go_error option) go \<Rightarrow> 'w \<Rightarrow> 'w) \<Rightarrow> Request \<Rightarrow>
     (Result \<times> go_error option) go \<times> 'w sys \<Rightarrow> (Result \<times> go_error option) go \<times> 'w sys" where
  "poll_step L P wait req c =
     run_state (Reconcile L P (impl_interface P) req) ((snd c)\<lparr>world := wait (fst c) (world (snd c))\<rparr>)"

definition poll_until_ready ::
  "lib \<Rightarrow> 'w platform \<Rightarrow> ((Result \<times> go_error option) go \<Rightarrow> 'w \<Rightarrow> 'w) \<Rightarrow> Request \<Rightarrow>
     (Result \<times> go_error option) go \<times> 'w sys \<Rightarrow> ((Result \<times> go_error option) go \<times> 'w sys) option" where
  "poll_until_ready L P wait req =
     while_option (\<lambda>c. \<not> impl_ready (impl (snd c))) (poll_step L P wait req)"

text \<open>
  The assumptions. Time: the calls do not turn the clock back, and a reading of it is not
  older than the clock. Prometheus: it may fail, or answer with no vector or with an empty one,
  up to the instant \<open>up\<close>; from then on the token can be read, the client is made and the age
  query is answered; and no answer ever places the creation of the cluster after \<open>birth\<close>. The
  environment: from \<open>up\<close> on the age limit is \<open>limit\<close> minutes, in the range in which the age
  arithmetic is exact. The work queue: it waits at least as long as asked. Nothing is assumed of
  the ClusterOperators or of any other read or write.
\<close>

locale polled_cluster = cluster_frame P "\<lambda>w w'. clock w \<le> clock w'"
  for P :: "'w platform" and clock :: "'w \<Rightarrow> int" +
  fixes up birth limit :: int
    and wait :: "(Result \<times> go_error option) go \<Rightarrow> 'w \<Rightarrow> 'w"
  assumes write_clock: "clock w \<le> clock (snd (updateSecret P x w))"
      "clock w \<le> clock (snd (createSecret P x w))"
    and time_read: "clock w \<le> fst (timeNow P w)"
    and prometheus_up: "up \<le> clock w \<Longrightarrow> \<exists>token. fst (readFile P tokenFile w) = Inr token"
      "up \<le> clock w \<Longrightarrow> fst (promClient P token w) = None"
      "up \<le> clock w \<Longrightarrow> \<exists>vs ws. fst (promQuery P token clusterVersionQuery now w) =
         Inr (Vector vs, ws) \<and> earliest_time vs 0 \<noteq> 0"
    and samples: "fst (promQuery P token clusterVersionQuery now w) = Inr (Vector vs, ws) \<Longrightarrow>
         earliest_time vs 0 \<le> birth"
    and birth: "0 \<le> birth"
    and age_limit: "up \<le> clock w \<Longrightarrow> getEnvInt maxClusterAgeKey maxClusterAgeDefault
         (fst (lookupEnv P maxClusterAgeKey w)) = Inr limit"
      "0 \<le> limit" "limit \<le> 153722867"
    and wait: "clock w + retry_delay r \<le> clock (wait r w)"
begin

lemma tracks_write_secret: "state_io_rel tracks (write_secret P x)"
  unfolding write_secret_def by (intro tracks_rules write_clock)

lemma tracks_apply: "state_io_rel tracks (apply_config L P I secrets cms p)"
  unfolding apply_config_def writeAlertManagerConfig_def UpdateSecretsMetrics_def
    UpdateConfigMapMetrics_def UpdateAlertmanagerConfigValidationMetric_def Let_def
  by (intro tracks_rules tracks_reads tracks_write_secret)

lemma tracks_reconcile:
  assumes "run_state (Reconcile L P (impl_interface P) req) s = (r, t)"
  shows "clock (world s) \<le> clock (world t)"
  using assms
proof (cases rule: Reconcile_cases)
  case (applied b u secrets cms p v)
  from state_io_relD [OF tracks_check applied(1)] state_io_relD [OF tracks_inputs applied(2)]
    state_io_relD [OF tracks_apply applied(3)]
  show ?thesis by (simp add: tracks_def)
qed (use tracks_check in \<open>auto dest!: state_io_relD simp: tracks_def\<close>)

lemma tracks_type_check: "clock (world s) \<le> clock (world (snd (run_state (cluster_type_check P) s)))"
proof -
  have "state_io_rel tracks (cluster_type_check P)"
    unfolding cluster_type_check_def by (intro tracks_rules tracks_reads)
  then show ?thesis by (simp add: state_io_rel_def tracks_def)
qed

lemma tracks_creation_time:
  "state_io_rel tracks (setPromAPI P)" "state_io_rel tracks (setClusterCreationTime P)"
  unfolding setClusterCreationTime_def setPromAPI_def by (intro tracks_rules)+

text \<open>
  The engine never believes in a creation after \<open>birth\<close>, and learns the creation time at the
  first attempt from \<open>up\<close> on.
\<close>

lemma creation_time_bounded:
  assumes "clusterCreationTime (impl s) \<le> birth"
    and "run_state (setClusterCreationTime P) s = (r, t)"
  shows "clusterCreationTime (impl t) \<le> birth"
proof -
  obtain e u where u: "run_state (setPromAPI P) s = (e, u)" by fastforce
  from assms u setPromAPI_post(3) [OF u] samples show ?thesis
    by (auto simp: setClusterCreationTime_def Let_def split: if_splits option.splits sum.splits
        prom_value.splits)
qed

lemma setPromAPI_succeeds:
  assumes "up \<le> clock (world s)"
  obtains t where "run_state (setPromAPI P) s = (None, t)"
proof -
  obtain token where token: "fst (readFile P tokenFile (world s)) = Inr token"
    using prometheus_up(1) [OF assms] by blast
  have "clock (world s) \<le> clock (snd (readFile P tokenFile (world s)))" by (rule W_calls)
  with assms have "fst (promClient P token (snd (readFile P tokenFile (world s)))) = None"
    by (intro prometheus_up(2)) simp
  with that token show thesis by (simp add: setPromAPI_def)
qed

lemma creation_time_known:
  assumes "up \<le> clock (world s)"
  obtains t where "run_state (setClusterCreationTime P) s = (Val None, t)"
proof (cases "clusterCreationTime (impl s) = 0")
  case True
  obtain u where u: "run_state (setPromAPI P) s = (None, u)" using assms by (rule setPromAPI_succeeds)
  obtain handle where handle: "promAPI (impl u) = Some handle" using setPromAPI_post(4) [OF u] by auto
  let ?now = "fst (timeNow P (world u))" and ?w = "snd (timeNow P (world u))"
  have "clock (world s) \<le> clock (world u)"
    using state_io_relD [OF tracks_creation_time(1) u] by (simp add: tracks_def)
  moreover have "clock (world u) \<le> clock ?w" by (rule W_calls)
  ultimately obtain vs ws where "fst (promQuery P handle clusterVersionQuery ?now ?w) = Inr (Vector vs, ws)"
    "earliest_time vs 0 \<noteq> 0" using prometheus_up(3) [of ?w handle ?now] assms by auto
  with True u handle that show thesis by (simp add: setClusterCreationTime_def Let_def)
next
  case False
  with that show thesis by (simp add: setClusterCreationTime_cached)
qed

lemma birth_kept:
  assumes "clusterCreationTime (impl s) \<le> birth" and "run_state (IsReady P) s = (r, t)"
  shows "clusterCreationTime (impl t) \<le> birth"
proof -
  have fallback: "clusterCreationTime (impl t) \<le> birth"
    if u: "clusterCreationTime (impl u) \<le> birth" and "run_state (age_fallback P) u = (r, t)" for u
  proof -
    obtain x v where v: "run_state (setClusterCreationTime P) u = (x, v)" by fastforce
    from creation_time_bounded [OF u v] that(2) v show ?thesis
      by (auto simp: age_fallback_def clusterTooOld_def split: go.splits option.splits sum.splits if_splits)
  qed
  show ?thesis
    using assms by (auto simp: IsReady_def split: if_splits dest!: fallback [rotated])
qed

definition settled_at :: int where
  "settled_at = max up (birth + limit * minute + 1)"

lemma old_cluster_found_ready:
  assumes "clusterCreationTime (impl s) \<le> birth" and "settled_at \<le> clock (world s)"
  shows "impl_ready (impl (snd (run_state (IsReady P) s)))"
proof (cases "impl_ready (impl s)")
  case False
  let ?u = "after_list P s"
  have "clock (world s) \<le> clock (world ?u)" using W_calls(3) by (simp add: after_list_def)
  with assms have u: "clusterCreationTime (impl ?u) \<le> birth" "settled_at \<le> clock (world ?u)"
    by (simp_all add: after_list_def)
  then have "up \<le> clock (world ?u)" by (simp add: settled_at_def)
  then obtain v where v: "run_state (setClusterCreationTime P) ?u = (Val None, v)"
    by (rule creation_time_known)
  have "clock (world ?u) \<le> clock (world v)"
    using state_io_relD [OF tracks_creation_time(2) v] by (simp add: tracks_def)
  moreover have "clock (world v) \<le> clock (snd (lookupEnv P maxClusterAgeKey (world v)))"
    by (rule W_calls)
  ultimately have late: "settled_at \<le> clock (world v)"
    "settled_at \<le> fst (timeNow P (snd (lookupEnv P maxClusterAgeKey (world v))))"
    using time_read [of "snd (lookupEnv P maxClusterAgeKey (world v))"] u(2) by simp_all
  from late(2) creation_time_bounded [OF u(1) v]
  have "older_than (clusterCreationTime (impl v))
      (fst (timeNow P (snd (lookupEnv P maxClusterAgeKey (world v))))) limit"
    using age_limit(2,3) by (simp add: older_than_in_range settled_at_def)
  then have "age_exceeded P v"
    using late(1) age_limit(1) [of "world v"] by (simp add: age_exceeded_def settled_at_def)
  then have "fst (run_state (age_fallback P) ?u) = Val (True, None)"
    using age_fallback_yes [OF v, of None] by simp
  then have "fst (run_state (IsReady P) s) = Val (True, None)" using False by (simp add: run_IsReady)
  then show ?thesis using IsReady_verdict by (metis prod.collapse)
qed (simp add: IsReady_cached)

text \<open>One poll: the creation time stays known, an old cluster becomes ready, or time passes.\<close>

lemma poll_reconcile:
  assumes "accepted req" and "clusterCreationTime (impl s) \<le> birth"
    and "run_state (Reconcile L P (impl_interface P) req) s = (r, t)"
  shows "clusterCreationTime (impl t) \<le> birth"
    and "settled_at \<le> clock (world s) \<Longrightarrow> impl_ready (impl t)"
    and "\<not> impl_ready (impl t) \<Longrightarrow> 0 < retry_delay r"
proof -
  let ?u = "snd (run_state (cluster_type_check P) s)"
  have u: "clusterCreationTime (impl ?u) \<le> birth"
    using assms(2) by (simp add: cluster_type_check_impl)
  obtain v t' where v: "run_state (IsReady P) ?u = (v, t')" by fastforce
  have impl: "impl t = impl t'" using reconcile_engine [OF assms(1,3)] v by simp
  show "clusterCreationTime (impl t) \<le> birth" using birth_kept [OF u v] impl by simp
  show "impl_ready (impl t)" if "settled_at \<le> clock (world s)"
    using old_cluster_found_ready [OF u] tracks_type_check [of s] that impl v by simp
  show "0 < retry_delay r" if "\<not> impl_ready (impl t)"
  proof (cases r)
    case (Val x)
    obtain res e where x: "x = (res, e)" by fastforce
    from unready_requeues [of L P req s res e t] assms(1,3) that Val x
    show ?thesis by (cases e) (auto simp: retry_delay_def)
  qed (simp add: retry_delay_def)
qed

text \<open>Polls still possible: the nanoseconds until Prometheus is up and the cluster older than the limit.\<close>

definition polls_left :: "(Result \<times> go_error option) go \<times> 'w sys \<Rightarrow> nat" where
  "polls_left c = (if impl_ready (impl (snd c)) then 0
     else Suc (nat (settled_at - clock (world (snd c)))))"

definition polling :: "(Result \<times> go_error option) go \<times> 'w sys \<Rightarrow> bool" where
  "polling c = (clusterCreationTime (impl (snd c)) \<le> birth \<and>
     (\<not> impl_ready (impl (snd c)) \<longrightarrow> 0 < retry_delay (fst c)))"

lemma poll_step_progress:
  assumes "accepted req" and "polling c" and "\<not> impl_ready (impl (snd c))"
  shows "polling (poll_step L P wait req c)"
    and "polls_left (poll_step L P wait req c) < polls_left c"
proof -
  let ?s = "(snd c)\<lparr>world := wait (fst c) (world (snd c))\<rparr>"
  obtain r t where rt: "run_state (Reconcile L P (impl_interface P) req) ?s = (r, t)" by fastforce
  have s: "clusterCreationTime (impl ?s) \<le> birth" using assms(2) by (simp add: polling_def)
  note poll = poll_reconcile [OF assms(1) s rt]
  have step: "poll_step L P wait req c = (r, t)" using rt by (simp add: poll_step_def)
  show "polling (poll_step L P wait req c)" using poll by (simp add: step polling_def)
  have "clock (world (snd c)) < clock (world ?s)"
    using wait [of "world (snd c)" "fst c"] assms(2,3) by (simp add: polling_def)
  moreover have "clock (world ?s) \<le> clock (world t)" using rt by (rule tracks_reconcile)
  moreover have "clock (world ?s) < settled_at" if "\<not> impl_ready (impl t)"
    using poll(2) that by (metis not_le)
  ultimately show "polls_left (poll_step L P wait req c) < polls_left c"
    using assms(3) by (fastforce simp: step polls_left_def nat_less_iff)
qed

lemma poll_until_ready_returns:
  assumes "accepted req" and "polling c"
  shows "\<exists>c'. poll_until_ready L P wait req c = Some c'"
  unfolding poll_until_ready_def
  by (rule measure_while_option_Some [where P = polling and f = polls_left])
    (use assms poll_step_progress in auto)

end

text \<open>
  C11: polling ends. On a cluster whose clock advances by the delays asked for, where from some
  instant on Prometheus answers the age query and the age limit is a number in the range of
  exact arithmetic, reconciles of one watched object, repeated with the delays they ask for
  themselves, end with an engine that is ready. Until that instant the token, Prometheus and the
  age limit may fail in every way, panics included; the ClusterOperators may say anything, and
  all other reads and all writes may fail, at any time.
\<close>

theorem polling_terminates:
  assumes "polled_cluster P clock up birth limit wait" and "accepted req"
    and "clusterCreationTime (impl s) \<le> birth" and "0 < retry_delay r"
  shows "\<exists>r' t. poll_until_ready L P wait req (r, s) = Some (r', t) \<and> impl_ready (impl t)"
proof -
  have "polled_cluster.polling birth (r, s)"
    using assms(3,4) by (simp add: polled_cluster.polling_def [OF assms(1)])
  from polled_cluster.poll_until_ready_returns [OF assms(1,2) this] obtain r' t
    where t: "poll_until_ready L P wait req (r, s) = Some (r', t)" by fastforce
  then have "\<not> \<not> impl_ready (impl (snd (r', t)))"
    unfolding poll_until_ready_def by (rule while_option_stop)
  with t show ?thesis by simp
qed

text \<open>In the witness the token cannot be read for the first three hours.\<close>

definition late_platform :: "int platform" where
  "late_platform = sample_platform
     \<lparr>readFile := \<lambda>f w. (if w < time_Unix 1000000 + 180 * minute
        then Inl (Errorf ''open %s: no such file or directory'' [f]) else Inr ''token'', w)\<rparr>"

interpretation late_poll: polled_cluster late_platform "\<lambda>w. w" "time_Unix 1000000 + 180 * minute"
    "time_Unix 1000000" 90 "\<lambda>r w. w + retry_delay r"
  by unfold_locales
    (auto simp: late_platform_def sample_platform_def getEnvInt_def time_Unix_def wrap64_def)

theorem polling_terminates_witness:
  "\<exists>r t. poll_until_ready sample_lib late_platform (\<lambda>r w. w + retry_delay r) pd_request
      (Val (zero_Result, Some (Errorf ''start'' [])), fresh_sys (time_Unix 1000000)) = Some (r, t) \<and>
    impl_ready (impl t)"
  by (rule polling_terminates [OF late_poll.polled_cluster_axioms pd_request_accepted])
    (simp_all add: fresh_sys_def retry_delay_def time_Unix_def wrap64_def)

end
