(* ===== verification/OperatorSpec.thy ===== *)
theory OperatorSpec
  imports Polling
begin

text \<open>
  What the operator promises, as an abstract machine of two fields: whether it may page, and
  the inputs from which the configuration in place was built. The operator refines the machine:
  on a cluster that stores what it is told to, every step of a run is matched by steps of the
  machine. What holds of the machine is then shown once, on the machine.
\<close>

subsection \<open>Simulations\<close>

text \<open>
  A simulation matches every step of the concrete system by steps of the abstract one; it
  extends to runs, and carries invariants of the abstract system to the concrete one.
\<close>

locale simulation =
  fixes cstep :: "'s \<Rightarrow> 's \<Rightarrow> bool" and astep :: "'a \<Rightarrow> 'a \<Rightarrow> bool"
    and matches :: "'s \<Rightarrow> 'a \<Rightarrow> bool"
  assumes simulates: "matches s a \<Longrightarrow> cstep s t \<Longrightarrow> \<exists>b. astep\<^sup>*\<^sup>* a b \<and> matches t b"
begin

lemma simulates_run:
  assumes "cstep\<^sup>*\<^sup>* s t" and "matches s a"
  shows "\<exists>b. astep\<^sup>*\<^sup>* a b \<and> matches t b"
  using assms
proof (induction rule: rtranclp_induct)
  case (step t u)
  then obtain b where "astep\<^sup>*\<^sup>* a b" "matches t b" by blast
  with simulates [OF this(2) step.hyps(2)] show ?case by (meson rtranclp_trans)
qed blast

lemma invariant_transfer:
  assumes "\<And>b c. good b \<Longrightarrow> astep b c \<Longrightarrow> good c" and "good a" and "matches s a" and "cstep\<^sup>*\<^sup>* s t"
  shows "\<exists>b. good b \<and> matches t b"
proof -
  obtain b where b: "astep\<^sup>*\<^sup>* a b" "matches t b" using simulates_run [OF assms(4,3)] by blast
  from b(1) assms(2) have "good b" by (induction rule: rtranclp_induct) (auto intro: assms(1))
  with b(2) show ?thesis by blast
qed

end

subsection \<open>The abstract operator\<close>

text \<open>
  \<open>armed\<close> says whether the operator may page; \<open>published\<close> are the parameters of the configuration
  it last put in place, \<open>None\<close> as long as it has not put any. The machine arms itself, publishes
  a configuration that may page only if it is armed, and is disarmed by a restart.
\<close>

record spec =
  armed :: bool
  published :: "am_params option"

inductive spec_step :: "spec \<Rightarrow> spec \<Rightarrow> bool" where
  arm: "spec_step a (a\<lparr>armed := True\<rparr>)"
| publish: "armed a \<or> no_paging_keys p \<Longrightarrow> spec_step a (a\<lparr>published := Some p\<rparr>)"
| restart: "spec_step a (a\<lparr>armed := False\<rparr>)"

inductive_cases spec_stepE: "spec_step a b"

text \<open>
  The operator's state matches the machine's if both agree on paging and the object
  \<open>alertmanager-main\<close> holds the text of the published configuration, which Alertmanager can load.
\<close>

definition published_text :: "lib \<Rightarrow> bool \<Rightarrow> am_params \<Rightarrow> string \<Rightarrow> bool" where
  "published_text L fed p y =
     (amLoad L y = None \<and> yamlMarshal L (createAlertManagerConfig fed p) = Inr y)"

definition spec_match ::
  "lib \<Rightarrow> ('w \<Rightarrow> string option) \<Rightarrow> bool \<Rightarrow> string option \<Rightarrow> 'w sys \<Rightarrow> spec \<Rightarrow> bool" where
  "spec_match L stored fed init s a =
     (armed a = impl_ready (impl s) \<and> isFedramp s = fed \<and>
      (case published a of
         None \<Rightarrow> stored (world s) = init
       | Some p \<Rightarrow> \<exists>y. stored (world s) = Some y \<and> published_text L fed p y))"

lemma match_same:
  assumes "spec_match L stored fed init s a" and "stored (world t) = stored (world s)"
    and "isFedramp t = isFedramp s" and "armed b = impl_ready (impl t)" and "published b = published a"
  shows "spec_match L stored fed init t b"
  using assms by (cases "published a") (simp_all add: spec_match_def)

lemma match_published:
  assumes "stored (world t) = Some y" and "published_text L fed p y" and "isFedramp t = fed"
    and "armed b = impl_ready (impl t)" and "published b = Some p"
  shows "spec_match L stored fed init t b"
  using assms by (simp add: spec_match_def)

subsection \<open>The refinement\<close>

lemma ready_stays:
  assumes "impl_ready (impl s)" and "run_state (Reconcile L P (impl_interface P) req) s = (r, t)"
  shows "impl_ready (impl t)"
proof (cases "accepted req")
  case True
  have "impl_ready (impl (snd (run_state (cluster_type_check P) s)))"
    using assms(1) by (simp add: cluster_type_check_impl)
  then show ?thesis
    unfolding reconcile_engine [OF True assms(2)] by (simp add: IsReady_cached)
next
  case False
  with assms show ?thesis by (simp add: Reconcile_accepted)
qed

lemma reconcile_fedramp:
  "run_state (Reconcile L P (impl_interface P) req) s = (r, t) \<Longrightarrow> isFedramp t = isFedramp s"
  using impl_reconcile.reconcile_sends by (fastforce simp: sends_def)

lemma reconcile_simulated:
  assumes "config_store P stored" and "run_state (Reconcile L P (impl_interface P) req) s = (r, t)"
    and "spec_match L stored fed init s a"
  shows "\<exists>b. spec_step\<^sup>*\<^sup>* a b \<and> spec_match L stored fed init t b"
proof -
  define b where "b = a\<lparr>armed := impl_ready (impl t)\<rparr>"
  have "spec_step\<^sup>*\<^sup>* a b"
  proof (cases "impl_ready (impl t) = armed a")
    case True
    then show ?thesis by (simp add: b_def)
  next
    case False
    then have "impl_ready (impl t)" using ready_stays [OF _ assms(2)] assms(3) by (auto simp: spec_match_def)
    then show ?thesis using spec_step.arm [of a] by (simp add: b_def)
  qed
  have fed: "isFedramp t = fed" "isFedramp s = fed"
    using reconcile_fedramp [OF assms(2)] assms(3) by (simp_all add: spec_match_def)
  from config_store.reconcile_stores [OF assms(1,2)]
  consider (same) "stored (world t) = stored (world s)"
    | (new) p y where "stored (world t) = Some y" "amLoad L y = None"
      "yamlMarshal L (createAlertManagerConfig (isFedramp s) p) = Inr y"
      "impl_ready (impl t) \<or> no_paging_keys p"
    by blast
  then show ?thesis
  proof cases
    case same
    from match_same [OF assms(3) this] have "spec_match L stored fed init t b"
      using fed by (simp add: b_def)
    with \<open>spec_step\<^sup>*\<^sup>* a b\<close> show ?thesis by blast
  next
    case (new p y)
    then have "spec_step b (b\<lparr>published := Some p\<rparr>)" by (intro spec_step.publish) (simp add: b_def)
    with \<open>spec_step\<^sup>*\<^sup>* a b\<close> have "spec_step\<^sup>*\<^sup>* a (b\<lparr>published := Some p\<rparr>)" by simp
    moreover have "spec_match L stored fed init t (b\<lparr>published := Some p\<rparr>)"
      using new fed by (intro match_published) (simp_all add: published_text_def b_def)
    ultimately show ?thesis by blast
  qed
qed

lemma operator_simulation:
  assumes "config_store P stored" and "\<And>w w'. E w w' \<Longrightarrow> stored w' = stored w"
  shows "simulation (operator_step L P E) spec_step (spec_match L stored fed init)"
proof
  fix s a t
  assume match: "spec_match L stored fed init s a" and "operator_step L P E s t"
  from this(2) show "\<exists>b. spec_step\<^sup>*\<^sup>* a b \<and> spec_match L stored fed init t b"
  proof (cases rule: operator_step.cases)
    case (reconcile_step req r)
    from reconcile_simulated [OF assms(1) this match] show ?thesis .
  next
    case (environment_step w)
    then have "spec_match L stored fed init t a"
      using match assms(2) by (intro match_same [OF match]) (simp_all add: spec_match_def)
    then show ?thesis by blast
  next
    case restart_step
    then have "spec_match L stored fed init t (a\<lparr>armed := False\<rparr>)"
      by (intro match_same [OF match]) simp_all
    then show ?thesis using spec_step.restart by blast
  qed
qed



lemma clock_keeps_store: "clock_changes w w' \<Longrightarrow> memory_stored w' = memory_stored w"
proof -
  assume "clock_changes w w'"
  then have "cl_secrets w' = cl_secrets (w\<lparr>cl_clock := cl_clock w'\<rparr>)"
    unfolding clock_changes_def by (rule arg_cong)
  then have "cl_secrets w' = cl_secrets w" by simp
  then show ?thesis by (simp add: memory_stored_def stored_secret_def)
qed

interpretation memory_operator: simulation "operator_step L memory_platform clock_changes" spec_step
    "spec_match L memory_stored fed init" for L fed init
  by (rule operator_simulation [OF memory_store clock_keeps_store])


subsection \<open>Silence until the cluster is ready\<close>

text \<open>The steps of the operator that leave the engine unready, and those of the machine unarmed.\<close>

definition unready_step ::
  "lib \<Rightarrow> 'w platform \<Rightarrow> ('w \<Rightarrow> 'w \<Rightarrow> bool) \<Rightarrow> 'w sys \<Rightarrow> 'w sys \<Rightarrow> bool" where
  "unready_step L P E s t = (operator_step L P E s t \<and> \<not> impl_ready (impl t))"

definition unarmed_step :: "spec \<Rightarrow> spec \<Rightarrow> bool" where
  "unarmed_step a b = (spec_step a b \<and> \<not> armed b)"

lemma unready_simulation:
  assumes "config_store P stored" and "\<And>w w'. E w w' \<Longrightarrow> stored w' = stored w"
  shows "simulation (unready_step L P E) unarmed_step
    (\<lambda>s a. spec_match L stored fed init s a \<and> \<not> armed a)"
proof
  fix s a t
  assume match: "spec_match L stored fed init s a \<and> \<not> armed a" and step: "unready_step L P E s t"
  from step have "operator_step L P E s t" by (simp add: unready_step_def)
  then have "stored (world t) = stored (world s) \<or> (\<exists>p y. stored (world t) = Some y \<and>
      published_text L (isFedramp s) p y \<and> no_paging_keys p)"
  proof (cases rule: operator_step.cases)
    case (reconcile_step req r)
    from config_store.reconcile_stores [OF assms(1) this] step show ?thesis
      by (auto simp: unready_step_def published_text_def)
  qed (auto dest: assms(2))
  moreover have fed: "isFedramp t = isFedramp s"
    using step_writes [OF \<open>operator_step L P E s t\<close>] by simp
  ultimately show "\<exists>b. unarmed_step\<^sup>*\<^sup>* a b \<and> spec_match L stored fed init t b \<and> \<not> armed b"
  proof (elim disjE exE conjE)
    assume same: "stored (world t) = stored (world s)"
    have "armed a = impl_ready (impl t)" using match step by (simp add: unready_step_def)
    from match_same [OF conjunct1 [OF match] same fed this refl] match show ?thesis by blast
  next
    fix p y
    assume y: "stored (world t) = Some y" "published_text L (isFedramp s) p y" "no_paging_keys p"
    have "unarmed_step a (a\<lparr>published := Some p\<rparr>)"
      using match spec_step.publish y(3) by (simp add: unarmed_step_def)
    moreover have "spec_match L stored fed init t (a\<lparr>published := Some p\<rparr>)"
      using match step fed y(1,2) by (intro match_published) (auto simp: unready_step_def spec_match_def)
    moreover have "\<not> armed (a\<lparr>published := Some p\<rparr>)" using match by simp
    ultimately show ?thesis by blast
  qed
qed

text \<open>
  C6: no page before the cluster is ready. In every run, with any changes of the cluster and
  any restarts, in which the readiness engine never becomes ready, \<open>alertmanager-main\<close> holds
  what it held at the start or a configuration with which no alert whatsoever reaches anything
  but the snitch and OCM Agent.
\<close>

theorem silent_until_ready:
  assumes "config_store P stored" and "\<And>w w'. E w w' \<Longrightarrow> stored w' = stored w"
    and "alertmanager_routing re notify" and "\<not> impl_ready (impl s)"
    and "(unready_step L P E)\<^sup>*\<^sup>* s t"
  shows "stored (world t) = stored (world s) \<or>
    (\<exists>c y. stored (world t) = Some y \<and> amLoad L y = None \<and> yamlMarshal L c = Inr y \<and>
       (\<forall>a. set (delivers notify c a) \<subseteq> {receiverNull, receiverWatchdog, receiverOCMAgent}))"
proof -
  define good where "good b = (\<forall>p. published b = Some p \<longrightarrow> no_paging_keys p)" for b :: spec
  have "good c" if "good b" "unarmed_step b c" for b c
    using that by (auto simp: good_def unarmed_step_def elim!: spec_stepE)
  moreover have "good \<lparr>armed = False, published = None\<rparr>" by (simp add: good_def)
  moreover have "spec_match L stored (isFedramp s) (stored (world s)) s \<lparr>armed = False, published = None\<rparr> \<and>
      \<not> armed \<lparr>armed = False, published = None\<rparr>"
    using assms(4) by (simp add: spec_match_def)
  ultimately obtain b where b: "good b" "spec_match L stored (isFedramp s) (stored (world s)) t b"
    using simulation.invariant_transfer [OF unready_simulation [OF assms(1,2)], where good = good] assms(5)
    by blast
  show ?thesis
  proof (cases "published b")
    case None
    with b(2) show ?thesis by (simp add: spec_match_def)
  next
    case (Some p)
    with b obtain y where "stored (world t) = Some y" "published_text L (isFedramp s) p y"
      "no_paging_keys p" by (auto simp: good_def spec_match_def)
    moreover from this(3) have "\<forall>a. set (delivers notify (createAlertManagerConfig (isFedramp s) p) a)
        \<subseteq> {receiverNull, receiverWatchdog, receiverOCMAgent}"
      using no_paging_silent [OF assms(3)] by blast
    ultimately show ?thesis unfolding published_text_def by blast
  qed
qed

theorem silent_until_ready_witness:
  "\<exists>c. yamlMarshal sample_lib c = Inr ''route:'' \<and>
     (\<forall>a. set (delivers (am_notify sample_re) c a) \<subseteq> {receiverNull, receiverWatchdog, receiverOCMAgent})"
proof -
  let ?s = "fresh_sys sample_cluster"
  obtain r t where t: "run_state (Reconcile sample_lib young_platform (impl_interface young_platform)
      pd_request) ?s = (r, t)" "\<not> impl_ready (impl t)" "memory_stored (world t) = Some ''route:''"
    by (rule young_run)
  have "operator_step sample_lib young_platform clock_changes ?s t" by (rule reconcile_step [OF t(1)])
  with t(2) have "(unready_step sample_lib young_platform clock_changes)\<^sup>*\<^sup>* ?s t"
    by (intro r_into_rtranclp) (simp add: unready_step_def)
  moreover have "\<not> impl_ready (impl ?s)" "memory_stored (world ?s) = None"
    by (simp_all add: fresh_sys_def sample_cluster_unset)
  ultimately show ?thesis
    using silent_until_ready [OF young_store clock_keeps_store am_ref.alertmanager_routing_axioms, where s = ?s]
      t(3) by fastforce
qed

end
