(* ===== verification/Flags.thy ===== *)
theory Flags
  imports OperatorConfig
begin

text \<open>
  The command line (the first part of \<open>main\<close> in main.go). The operator registers two flags of
  its own, the logging library (\<open>opts.BindFlags\<close>) and the client library register others; the
  package \<open>flag\<close> of the standard library, modelled here, reads the arguments. A flag of a
  library is a parameter: whether it is boolean, and whether it accepts a value.
\<close>

subsection \<open>The flags of the operator\<close>

record flag_values =
  probeAddr :: string
  enableLeaderElection :: bool

definition default_flags :: flag_values where
  "default_flags = \<lparr>probeAddr = '':8081'', enableLeaderElection = False\<rparr>"

record flag =
  IsBoolFlag :: bool
  SetFlag :: "string \<Rightarrow> flag_values \<Rightarrow> go_error option \<times> flag_values"

text \<open>A third-party flag keeps its value elsewhere.\<close>

type_synonym third_party_flags = "string \<Rightarrow> (bool \<times> (string \<Rightarrow> go_error option)) option"

definition third_party_flag :: "bool \<times> (string \<Rightarrow> go_error option) \<Rightarrow> flag" where
  "third_party_flag f = \<lparr>IsBoolFlag = fst f, SetFlag = (\<lambda>v x. (snd f v, x))\<rparr>"

text \<open>
  \<open>StringVar\<close> and \<open>BoolVar\<close>. A string flag accepts everything; a boolean flag stores what
  \<open>ParseBool\<close> returns, false on an error.
\<close>

definition probe_address_flag :: flag where
  "probe_address_flag = \<lparr>IsBoolFlag = False, SetFlag = (\<lambda>v x. (None, x\<lparr>probeAddr := v\<rparr>))\<rparr>"

definition leader_elect_flag :: flag where
  "leader_elect_flag = \<lparr>IsBoolFlag = True, SetFlag = (\<lambda>v x.
     case ParseBool v of
       Inl err \<Rightarrow> (Some (Errorf ''parse error'' []), x\<lparr>enableLeaderElection := False\<rparr>)
     | Inr b \<Rightarrow> (None, x\<lparr>enableLeaderElection := b\<rparr>))\<rparr>"

definition probe_address_name :: string where
  "probe_address_name = ''health-probe-bind-address''"

definition leader_elect_name :: string where
  "leader_elect_name = ''leader-elect''"

definition registered_flags :: "third_party_flags \<Rightarrow> string \<Rightarrow> flag option" where
  "registered_flags F name =
     (if name = probe_address_name then Some probe_address_flag
      else if name = leader_elect_name then Some leader_elect_flag
      else map_option third_party_flag (F name))"

subsection \<open>The package flag\<close>

datatype flag_error = ErrHelp | Failf go_error

text \<open>A name up to its first \<open>=\<close>, which is not looked for in the first position, and the value.\<close>

definition split_value :: "string \<Rightarrow> string \<times> string option" where
  "split_value s =
     (case s of [] \<Rightarrow> ([], None)
      | c # cs \<Rightarrow>
          (case dropWhile (\<lambda>x. x \<noteq> CHR ''='') cs of
             [] \<Rightarrow> (s, None)
           | e # v \<Rightarrow> (c # takeWhile (\<lambda>x. x \<noteq> CHR ''='') cs, Some v)))"

text \<open>
  Setting one flag: a boolean flag takes no argument of its own, any other flag without a value
  takes the next one. In the errors the value stands in the format unquoted.
\<close>

definition assign ::
  "flag \<Rightarrow> (go_error \<Rightarrow> go_error) \<Rightarrow> string \<Rightarrow> string list \<Rightarrow> flag_values \<Rightarrow>
     (flag_error + bool) \<times> string list \<times> flag_values" where
  "assign f fail v args x =
     (case SetFlag f v x of
        (Some err, x') \<Rightarrow> (Inl (Failf (fail err)), args, x')
      | (None, x') \<Rightarrow> (Inr True, args, x'))"

definition set_flag ::
  "flag \<Rightarrow> string \<Rightarrow> string option \<Rightarrow> string list \<Rightarrow> flag_values \<Rightarrow>
     (flag_error + bool) \<times> string list \<times> flag_values" where
  "set_flag f name value args x =
     (if IsBoolFlag f then
        (case value of
           Some v \<Rightarrow> assign f (Wrapf (''invalid boolean value '' @ v @ '' for -'' @ name @ '': %v'')) v args x
         | None \<Rightarrow> assign f (Wrapf (''invalid boolean flag '' @ name @ '': %v'')) ''true'' args x)
      else
        (case value of
           Some v \<Rightarrow> assign f (Wrapf (''invalid value '' @ v @ '' for flag -'' @ name @ '': %v'')) v args x
         | None \<Rightarrow>
             (case args of
                [] \<Rightarrow> (Inl (Failf (Errorf ''flag needs an argument: -%s'' [name])), args, x)
              | v # args' \<Rightarrow>
                  assign f (Wrapf (''invalid value '' @ v @ '' for flag -'' @ name @ '': %v'')) v args' x)))"

text \<open>
  \<open>parseOne\<close>: whether a flag was seen, or an error, with the arguments that are left.
\<close>

definition parse_one ::
  "third_party_flags \<Rightarrow> string list \<Rightarrow> flag_values \<Rightarrow>
     (flag_error + bool) \<times> string list \<times> flag_values" where
  "parse_one F args x =
     (case args of
        [] \<Rightarrow> (Inr False, args, x)
      | s # args' \<Rightarrow>
          if length s < 2 \<or> hd s \<noteq> CHR ''-'' then (Inr False, args, x)
          else if s = ''--'' then (Inr False, args', x)
          else let name = drop (if s ! 1 = CHR ''-'' then 2 else 1) s
            in if name = [] \<or> hd name = CHR ''-'' \<or> hd name = CHR ''=''
               then (Inl (Failf (Errorf ''bad flag syntax: %s'' [s])), args, x)
               else let (name, value) = split_value name
                 in (case registered_flags F name of
                       None \<Rightarrow>
                         (Inl (if name = ''help'' \<or> name = ''h'' then ErrHelp
                            else Failf (Errorf ''flag provided but not defined: -%s'' [name])), args', x)
                     | Some f \<Rightarrow> set_flag f name value args' x))"

text \<open>Every flag seen uses up an argument, so the loop of \<open>Parse\<close> ends.\<close>

lemma assign_args: "assign f fail v args x = (r, rest, x') \<Longrightarrow> rest = args"
  by (auto simp: assign_def split: prod.splits option.splits)

lemma set_flag_args: "set_flag f name value args x = (r, rest, x') \<Longrightarrow> length rest \<le> length args"
  by (auto simp: set_flag_def split: if_splits option.splits list.splits dest!: assign_args)

lemma parse_one_shorter:
  "parse_one F args x = (Inr True, rest, x') \<Longrightarrow> length rest < length args"
  by (auto simp: parse_one_def Let_def less_Suc_eq_le
      split: list.splits if_splits prod.splits option.splits dest!: set_flag_args)

function parse_flags ::
  "third_party_flags \<Rightarrow> string list \<Rightarrow> flag_values \<Rightarrow> flag_error option \<times> string list \<times> flag_values"
where
  "parse_flags F args x =
     (case parse_one F args x of
        (Inl err, rest, x') \<Rightarrow> (Some err, rest, x')
      | (Inr seen, rest, x') \<Rightarrow> if seen then parse_flags F rest x' else (None, rest, x'))"
  by pat_completeness auto
termination
  by (relation "measure (\<lambda>(F, args, x). length args)") (auto intro: parse_one_shorter [OF sym])

declare parse_flags.simps [simp del]

text \<open>The part of \<open>main\<close> that reads the arguments \<open>os.Args[1:]\<close>.\<close>

definition main_flags ::
  "third_party_flags \<Rightarrow> string list \<Rightarrow> flag_error option \<times> string list \<times> flag_values" where
  "main_flags F args = parse_flags F args default_flags"

subsection \<open>Settings and their spellings\<close>

text \<open>
  The ways to write a setting of the operator's own flags: with one dash or two, the value
  after \<open>=\<close> or, for the address, as an argument of its own, and \<open>leader-elect\<close> alone for true.
\<close>

datatype setting =
    Address bool bool string
  | Elect bool "string option"

definition dashes :: "bool \<Rightarrow> string" where
  "dashes two = (if two then ''--'' else ''-'')"

fun render :: "setting \<Rightarrow> string list" where
  "render (Address two own v) =
     (if own then [dashes two @ probe_address_name, v]
      else [dashes two @ probe_address_name @ ''='' @ v])"
| "render (Elect two None) = [dashes two @ leader_elect_name]"
| "render (Elect two (Some v)) = [dashes two @ leader_elect_name @ ''='' @ v]"

fun meaningful :: "setting \<Rightarrow> bool" where
  "meaningful (Elect two (Some v)) = (\<exists>b. ParseBool v = Inr b)"
| "meaningful _ = True"

fun apply_setting :: "setting \<Rightarrow> flag_values \<Rightarrow> flag_values" where
  "apply_setting (Address two own v) x = x\<lparr>probeAddr := v\<rparr>"
| "apply_setting (Elect two None) x = x\<lparr>enableLeaderElection := True\<rparr>"
| "apply_setting (Elect two (Some v)) x = x\<lparr>enableLeaderElection := (ParseBool v = Inr True)\<rparr>"

text \<open>The arguments at which the parser stops: none, one that is no flag, or \<open>--\<close>.\<close>

definition is_flag :: "string \<Rightarrow> bool" where
  "is_flag s = (2 \<le> length s \<and> hd s = CHR ''-'' \<and> s \<noteq> ''--'')"

definition positional :: "string list \<Rightarrow> string list" where
  "positional args = (case args of [] \<Rightarrow> [] | s # args' \<Rightarrow> if s = ''--'' then args' else args)"

definition plain_name :: "string \<Rightarrow> bool" where
  "plain_name n = (n \<noteq> [] \<and> hd n \<noteq> CHR ''-'' \<and> CHR ''='' \<notin> set n)"

lemma split_plain_name:
  assumes "plain_name n"
  shows "split_value n = (n, None)" and "split_value (n @ ''='' @ v) = (n, Some v)"
proof -
  obtain c cs where n: "n = c # cs" "CHR ''='' \<notin> set cs"
    using assms by (cases n) (auto simp: plain_name_def)
  from n(2) have "dropWhile (\<lambda>x. x \<noteq> CHR ''='') cs = []"
    and "dropWhile (\<lambda>x. x \<noteq> CHR ''='') (cs @ CHR ''='' # v) = CHR ''='' # v"
    and "takeWhile (\<lambda>x. x \<noteq> CHR ''='') (cs @ CHR ''='' # v) = cs"
    by (induction cs) auto
  then show "split_value n = (n, None)" and "split_value (n @ ''='' @ v) = (n, Some v)"
    by (simp_all add: n(1) split_value_def del: dropWhile_eq_Nil_conv)
qed

lemma parse_one_plain:
  assumes "plain_name n" and "registered_flags F n = Some f"
  shows "parse_one F ((dashes two @ n) # args) x = set_flag f n None args x"
    and "parse_one F ((dashes two @ n @ ''='' @ v) # args) x = set_flag f n (Some v) args x"
proof -
  obtain c cs where n: "n = c # cs" "c \<noteq> CHR ''-''" "c \<noteq> CHR ''=''"
    using assms(1) by (cases n) (auto simp: plain_name_def)
  with assms(2) split_plain_name [OF assms(1)]
  show "parse_one F ((dashes two @ n) # args) x = set_flag f n None args x"
    and "parse_one F ((dashes two @ n @ ''='' @ v) # args) x = set_flag f n (Some v) args x"
    by (simp_all add: parse_one_def dashes_def)
qed

lemma own_flags:
  "plain_name probe_address_name" "registered_flags F probe_address_name = Some probe_address_flag"
  "plain_name leader_elect_name" "registered_flags F leader_elect_name = Some leader_elect_flag"
  by (simp_all add: plain_name_def registered_flags_def probe_address_name_def leader_elect_name_def)

lemmas parse_one_own = parse_one_plain [OF own_flags(1,2)] parse_one_plain [OF own_flags(3,4)]

lemma ParseBool_true: "ParseBool ''true'' = Inr True"
  by (simp add: ParseBool_def)

lemma parse_one_setting:
  "meaningful w \<Longrightarrow> parse_one F (render w @ args) x = (Inr True, args, apply_setting w x)"
proof (induction w rule: render.induct)
  case (1 two own v)
  then show ?case
    by (simp add: parse_one_own [simplified] set_flag_def assign_def probe_address_flag_def)
next
  case (2 two)
  then show ?case
    by (simp add: parse_one_own set_flag_def assign_def leader_elect_flag_def ParseBool_true)
next
  case (3 two v)
  then obtain b where "ParseBool v = Inr b" by auto
  then show ?case
    by (simp add: parse_one_own [simplified] set_flag_def assign_def leader_elect_flag_def)
qed

lemma parse_one_stop: "\<not> is_flag s \<Longrightarrow> parse_one F (s # args) x = (Inr False, positional (s # args), x)"
proof (cases "s = ''--''")
  case False
  moreover assume "\<not> is_flag s"
  ultimately have "length s < 2 \<or> hd s \<noteq> CHR ''-''" unfolding is_flag_def by linarith
  then show ?thesis using False unfolding parse_one_def positional_def list.case by argo
qed (simp add: parse_one_def positional_def)

lemma parse_one_undefined:
  assumes "plain_name n" and "registered_flags F n = None"
  shows "parse_one F ((dashes two @ n) # args) x =
    (Inl (if n = ''help'' \<or> n = ''h'' then ErrHelp
       else Failf (Errorf ''flag provided but not defined: -%s'' [n])), args, x)"
proof -
  obtain c cs where n: "n = c # cs" "c \<noteq> CHR ''-''" "c \<noteq> CHR ''=''"
    using assms(1) by (cases n) (auto simp: plain_name_def)
  with assms(2) split_plain_name(1) [OF assms(1)] show ?thesis
    by (simp add: parse_one_def dashes_def)
qed

lemma parse_flags_undefined:
  assumes "plain_name n" and "registered_flags F n = None"
  shows "parse_flags F ((dashes two @ n) # args) x =
    (Some (if n = ''help'' \<or> n = ''h'' then ErrHelp
       else Failf (Errorf ''flag provided but not defined: -%s'' [n])), args, x)"
  using assms by (subst parse_flags.simps) (simp add: parse_one_undefined)

lemma parse_flags_stop:
  assumes "\<forall>s args'. args = s # args' \<longrightarrow> \<not> is_flag s"
  shows "parse_flags F args x = (None, positional args, x)"
proof (cases args)
  case Nil
  then show ?thesis
    by (subst parse_flags.simps) (simp add: parse_one_def positional_def)
next
  case (Cons s args')
  with assms show ?thesis by (subst parse_flags.simps) (simp add: parse_one_stop)
qed

lemma parse_flags_settings:
  assumes "\<forall>w \<in> set ws. meaningful w"
  shows "parse_flags F (concat (map render ws) @ args) x =
    parse_flags F args (fold apply_setting ws x)"
  using assms
proof (induction ws arbitrary: x)
  case (Cons w ws)
  then show ?case by (subst parse_flags.simps) (simp add: parse_one_setting)
qed simp

lemma main_flags_undefined:
  assumes "\<forall>w \<in> set ws. meaningful w" and "plain_name n" and "registered_flags F n = None"
  shows "\<exists>rest x. main_flags F (concat (map render ws) @ (dashes two @ n) # args) =
    (Some (if n = ''help'' \<or> n = ''h'' then ErrHelp
       else Failf (Errorf ''flag provided but not defined: -%s'' [n])), rest, x)"
  using assms by (simp add: main_flags_def parse_flags_settings parse_flags_undefined)

subsection \<open>Properties\<close>

text \<open>
  C35: settings are read back. However the operator's flags are spelled and repeated on the
  command line, up to the first argument that is no flag, \<open>main\<close> ends with the defaults updated
  by the settings in their order, so the last one of each flag counts, and reports no error.
\<close>

theorem flags_roundtrip:
  assumes "\<forall>w \<in> set ws. meaningful w" and "\<forall>s args'. args = s # args' \<longrightarrow> \<not> is_flag s"
  shows "main_flags F (concat (map render ws) @ args) =
    (None, positional args, fold apply_setting ws default_flags)"
  using assms by (simp add: main_flags_def parse_flags_settings parse_flags_stop)

theorem flags_roundtrip_witness:
  "main_flags (\<lambda>n. None) [''--leader-elect'', ''-health-probe-bind-address'', ''-'', ''--leader-elect=f'', ''--'', ''-x''] =
     (None, [''-x''], \<lparr>probeAddr = ''-'', enableLeaderElection = False\<rparr>)"
proof -
  let ?ws = "[Elect True None, Address False True ''-'', Elect True (Some ''f'')]"
  have false: "ParseBool ''f'' = Inr False" by (simp add: ParseBool_def)
  then have "\<forall>w \<in> set ?ws. meaningful w" by auto
  moreover have "\<forall>s args'. [''--'', ''-x''] = s # args' \<longrightarrow> \<not> is_flag s" by (simp add: is_flag_def)
  ultimately have "main_flags (\<lambda>n. None) (concat (map render ?ws) @ [''--'', ''-x'']) =
      (None, positional [''--'', ''-x''], fold apply_setting ?ws default_flags)"
    by (rule flags_roundtrip)
  then show ?thesis
    by (simp add: false dashes_def positional_def default_flags_def probe_address_name_def
        leader_elect_name_def)
qed

end
