(* ===== verification/Startup.thy ===== *)
theory Startup
  imports OperatorRuns Flags
begin

text \<open>
  The start of the process (main.go and \<open>StartMetrics\<close> of pkg/metrics/metrics.go): \<open>init\<close>, the
  command line, and the rest of \<open>main\<close>. The registration of API types, the client configuration,
  the manager, the leader election, the registration of collectors and the creation of the
  metrics objects are third-party code: the record \<open>host\<close> has one function for each call. The
  state records every call with its outcome, so that properties can speak of their order.
  \<open>os.Exit\<close> and a panic end the process.
\<close>

subsection \<open>State and calls\<close>

record manager_options =
  MetricsBindAddress :: string
  WebhookPort :: int
  HealthProbeBindAddress :: string
  LeaderElection :: bool
  DefaultNamespaces :: "string list"
  ByObject :: "string list"

datatype boot_event =
    AddToScheme string | LoadClientConfig | NewManager manager_options
  | BecomeLeader string | SetupController | AddHealthz string | AddReadyz string
  | CreateService string | CreateServiceMonitor string | StartMetricsServer | StartManager

datatype exit = Returned | Exit int | Panicked string | PanickedErr go_error

record 'w host =
  addToScheme :: "string \<Rightarrow> 'w \<Rightarrow> go_error option \<times> 'w"
  loadClientConfig :: "'w \<Rightarrow> go_error option \<times> 'w"
  newManager :: "manager_options \<Rightarrow> 'w \<Rightarrow> go_error option \<times> 'w"
  becomeLeader :: "string \<Rightarrow> 'w \<Rightarrow> go_error option \<times> 'w"
  completeController :: "watched_kind list \<Rightarrow> 'w \<Rightarrow> go_error option \<times> 'w"
  addHealthzCheck :: "string \<Rightarrow> 'w \<Rightarrow> go_error option \<times> 'w"
  addReadyzCheck :: "string \<Rightarrow> 'w \<Rightarrow> go_error option \<times> 'w"
  createServiceObject :: "Service \<Rightarrow> 'w \<Rightarrow> go_error option \<times> 'w"
  createMonitorObject :: "ServiceMonitor \<Rightarrow> 'w \<Rightarrow> go_error option \<times> 'w"
  registerCollector :: "string \<Rightarrow> 'w \<Rightarrow> go_error option \<times> 'w"
  serveMetrics :: "string \<Rightarrow> 'w \<Rightarrow> unit \<times> 'w"
  startManager :: "'w \<Rightarrow> go_error option \<times> 'w"

record 'w boot =
  bt_sys :: "'w sys"
  bt_events :: "(boot_event \<times> bool) list"

definition lift_op :: "('w, 'a) op \<Rightarrow> ('w boot, 'a) state" where
  "lift_op m = State (\<lambda>b. case run_state m (bt_sys b) of (x, s) \<Rightarrow> (x, b\<lparr>bt_sys := s\<rparr>))"

definition logged :: "boot_event \<Rightarrow> ('w boot, go_error option) state \<Rightarrow> ('w boot, go_error option) state" where
  "logged ev m = do {
     e \<leftarrow> m;
     State_Monad.update (\<lambda>b. b\<lparr>bt_events := bt_events b @ [(ev, e = None)]\<rparr>);
     State_Monad.return e
   }"

definition call :: "boot_event \<Rightarrow> ('w \<Rightarrow> go_error option \<times> 'w) \<Rightarrow> ('w boot, go_error option) state" where
  "call ev f = logged ev (lift_op (io f))"

text \<open>The check that follows most calls: an error is logged and ends the process.\<close>

definition or_exit :: "go_error option \<Rightarrow> ('w boot, exit) state \<Rightarrow> ('w boot, exit) state" where
  "or_exit e k = (case e of Some err \<Rightarrow> State_Monad.return (Exit 1) | None \<Rightarrow> k)"

text \<open>\<open>utilruntime.Must\<close>: an error is a panic.\<close>

definition must :: "go_error option \<Rightarrow> ('w boot, exit) state \<Rightarrow> ('w boot, exit) state" where
  "must e k = (case e of Some err \<Rightarrow> State_Monad.return (PanickedErr err) | None \<Rightarrow> k)"

subsection \<open>Metrics\<close>

definition MetricsEndpoint :: string where [simp]: "MetricsEndpoint = '':8080''"

definition StartMetrics :: "'w host \<Rightarrow> ('w, go_error option) op" where
  "StartMetrics H = do {
     e \<leftarrow> io (RegisterMetrics (registerCollector H));
     case e of
       Some err \<Rightarrow> State_Monad.return (Some err)
     | None \<Rightarrow> do {
         io (serveMetrics H MetricsEndpoint);
         State_Monad.return None
       }
   }"

text \<open>
  The Service and, if it was created or exists, the ServiceMonitor; errors are only logged.
\<close>

definition create_metrics_objects :: "'w host \<Rightarrow> Service \<Rightarrow> ServiceMonitor \<Rightarrow> ('w boot, unit) state" where
  "create_metrics_objects H s sm = do {
     e \<leftarrow> call (CreateService (svc_Name s)) (createServiceObject H s);
     if (case e of Some err \<Rightarrow> \<not> IsAlreadyExists err | None \<Rightarrow> False)
     then State_Monad.return ()
     else do {
       e' \<leftarrow> call (CreateServiceMonitor (sm_Name sm)) (createMonitorObject H sm);
       State_Monad.return ()
     }
   }"

subsection \<open>main\<close>

definition lock_name :: string where [simp]: "lock_name = ''configure-alertmanager-operator-lock''"

definition metricsHost :: string where "metricsHost = ''0.0.0.0''"

definition metricsPort :: int where "metricsPort = 8383"

definition manager_opts :: "flag_values \<Rightarrow> manager_options" where
  "manager_opts x =
     \<lparr>MetricsBindAddress = metricsHost @ '':'' @ dec_string metricsPort, WebhookPort = 9443,
      HealthProbeBindAddress = probeAddr x, LeaderElection = enableLeaderElection x,
      DefaultNamespaces = [OperatorNamespace],
      ByObject = [''ClusterVersion'', ''Proxy'', ''Infrastructure'']\<rparr>"

text \<open>\<open>SetIsFedramp\<close> on the package variable.\<close>

definition set_fedramp :: "'w platform \<Rightarrow> ('w, go_error option) op" where
  "set_fedramp P = do {
     env \<leftarrow> io (lookupEnv P ''FEDRAMP'');
     s \<leftarrow> State_Monad.get;
     let (b, e) = SetIsFedramp env (isFedramp s);
     State_Monad.update (\<lambda>s. s\<lparr>isFedramp := b\<rparr>);
     State_Monad.return e
   }"

definition take_leadership :: "'w host \<Rightarrow> 'w platform \<Rightarrow> ('w boot, go_error option) state" where
  "take_leadership H P = do {
     skip \<leftarrow> lift_op (io (lookupEnv P ''SKIP_LEADER_ELECTION''));
     if (case skip of None \<Rightarrow> '''' | Some v \<Rightarrow> v) \<noteq> ''true''
     then call (BecomeLeader lock_name) (becomeLeader H lock_name)
     else State_Monad.return None
   }"

definition setup_controller :: "'w host \<Rightarrow> 'w platform \<Rightarrow> ('w boot, go_error option) state" where
  "setup_controller H P = logged SetupController (lift_op (do {
     (I, e) \<leftarrow> SetupWithManager P (completeController H);
     State_Monad.return e
   }))"

text \<open>The last part of \<open>main\<close>: the metrics objects, the metrics server, and the manager.\<close>

definition serve_and_start :: "'w host \<Rightarrow> ('w boot, exit) state" where
  "serve_and_start H =
     (case GenerateService 8080 ''metrics'' of
        Inl svcerr \<Rightarrow> State_Monad.return (Panicked
          ''Ensure that operator is running in a cluster and not in a local development environment.'')
      | Inr s \<Rightarrow>
          (case GenerateServiceMonitor s of
             Panic m \<Rightarrow> State_Monad.return (Panicked m)
           | Val sm \<Rightarrow> do {
               create_metrics_objects H s sm;
               e \<leftarrow> logged StartMetricsServer (lift_op (StartMetrics H));
               or_exit e (do {
                 e \<leftarrow> call StartManager (startManager H);
                 or_exit e (State_Monad.return Returned)
               })
             }))"

text \<open>\<open>main\<close> from the creation of the manager on.\<close>

definition start_operator ::
  "'w host \<Rightarrow> 'w platform \<Rightarrow> manager_options \<Rightarrow> ('w boot, exit) state" where
  "start_operator H P options = do {
     e \<leftarrow> call (NewManager options) (newManager H options);
     or_exit e (do {
       e \<leftarrow> lift_op (set_fedramp P);
       or_exit e (do {
         e \<leftarrow> take_leadership H P;
         or_exit e (do {
           e \<leftarrow> setup_controller H P;
           or_exit e (do {
             e \<leftarrow> call (AddHealthz ''healthz'') (addHealthzCheck H ''healthz'');
             or_exit e (do {
               e \<leftarrow> call (AddReadyz ''readyz'') (addReadyzCheck H ''readyz'');
               or_exit e (serve_and_start H)
             })
           })
         })
       })
     })
   }"

text \<open>
  \<open>main\<close>: the flag package exits with status 0 after a request for help and with status 2 on a
  malformed command line, \<open>GetConfigOrDie\<close> with status 1 when there is no client configuration.
\<close>

definition operator_main ::
  "'w host \<Rightarrow> 'w platform \<Rightarrow> third_party_flags \<Rightarrow> string list \<Rightarrow> ('w boot, exit) state" where
  "operator_main H P F args =
     (case main_flags F args of
        (Some ErrHelp, rest, x) \<Rightarrow> State_Monad.return (Exit 0)
      | (Some (Failf err), rest, x) \<Rightarrow> State_Monad.return (Exit 2)
      | (None, rest, x) \<Rightarrow> do {
          e \<leftarrow> call LoadClientConfig (loadClientConfig H);
          or_exit e (start_operator H P (manager_opts x))
        })"

text \<open>\<open>init\<close>, and the process: Go runs \<open>init\<close> before \<open>main\<close>.\<close>

definition main_init :: "'w host \<Rightarrow> ('w boot, exit) state \<Rightarrow> ('w boot, exit) state" where
  "main_init H k = do {
     e \<leftarrow> call (AddToScheme ''client-go'') (addToScheme H ''client-go'');
     must e (do {
       e \<leftarrow> call (AddToScheme ''config.openshift.io/v1'') (addToScheme H ''config.openshift.io/v1'');
       must e (do {
         e \<leftarrow> call (AddToScheme ''monitoring.coreos.com/v1'') (addToScheme H ''monitoring.coreos.com/v1'');
         must e k
       })
     })
   }"

definition program ::
  "'w host \<Rightarrow> 'w platform \<Rightarrow> third_party_flags \<Rightarrow> string list \<Rightarrow> ('w boot, exit) state" where
  "program H P F args = main_init H (operator_main H P F args)"

subsection \<open>Runs of the calls\<close>

lemma run_lift_op [simp]:
  "run_state (lift_op m) b =
     (fst (run_state m (bt_sys b)), b\<lparr>bt_sys := snd (run_state m (bt_sys b))\<rparr>)"
  by (simp add: lift_op_def split: prod.splits)

lemma run_logged [simp]:
  "run_state (logged ev m) b =
     (let (e, c) = run_state m b in (e, c\<lparr>bt_events := bt_events c @ [(ev, e = None)]\<rparr>))"
  by (simp add: logged_def split: prod.splits)

lemma run_or_exit [simp]:
  "run_state (or_exit e k) b = (case e of Some err \<Rightarrow> (Exit 1, b) | None \<Rightarrow> run_state k b)"
  by (simp add: or_exit_def split: option.splits)

lemma run_must [simp]:
  "run_state (must e k) b = (case e of Some err \<Rightarrow> (PanickedErr err, b) | None \<Rightarrow> run_state k b)"
  by (simp add: must_def split: option.splits)

text \<open>A step that keeps the switch, the engine and the events recorded so far.\<close>

definition later :: "'w boot \<Rightarrow> 'w boot \<Rightarrow> bool" where
  "later b c =
     (isFedramp (bt_sys c) = isFedramp (bt_sys b) \<and> impl (bt_sys c) = impl (bt_sys b) \<and>
      (\<exists>evs. bt_events c = bt_events b @ evs))"

interpretation boot_frame: frame_condition "later :: 'w boot \<Rightarrow> 'w boot \<Rightarrow> bool"
  by unfold_locales (auto simp: later_def)

lemma later_call: "state_io_rel later (call ev f)"
  by (auto simp: state_io_rel_def later_def call_def Let_def)

lemma later_metrics: "state_io_rel later (logged ev (lift_op (StartMetrics H)))"
  by (auto simp: state_io_rel_def later_def StartMetrics_def Let_def split: option.splits)

lemma later_or_exit: "state_io_rel later k \<Longrightarrow> state_io_rel later (or_exit e k)"
  by (auto simp: or_exit_def boot_frame.frame_return split: option.splits)

lemmas later_rules = boot_frame.frame_rules frame_case later_call later_metrics later_or_exit

lemma later_serve: "state_io_rel later (serve_and_start H)"
  unfolding serve_and_start_def create_metrics_objects_def
  by (intro later_rules)

text \<open>The phases of \<open>main\<close>, each reached only if the one before succeeded.\<close>

definition boots :: "'w platform \<Rightarrow> 'w boot \<Rightarrow> bool" where
  "boots P t =
     ((\<exists>env b. SetIsFedramp env b = (isFedramp (bt_sys t), None) \<and>
         (\<exists>w. env = fst (lookupEnv P ''FEDRAMP'' w))) \<and>
      ((BecomeLeader lock_name, True) \<in> set (bt_events t) \<or>
       (\<exists>w. fst (lookupEnv P ''SKIP_LEADER_ELECTION'' w) = Some ''true'')) \<and>
      (SetupController, True) \<in> set (bt_events t) \<and> impl (bt_sys t) = zero_Impl)"

lemma boots_later: "boots P b \<Longrightarrow> later b c \<Longrightarrow> boots P c"
  by (auto simp: boots_def later_def)

lemma set_fedramp_post:
  assumes "run_state (set_fedramp P) s = (None, t)"
  shows "\<exists>env b. SetIsFedramp env b = (isFedramp t, None) \<and> (\<exists>w. env = fst (lookupEnv P ''FEDRAMP'' w))"
  using assms by (auto simp: set_fedramp_def Let_def split: prod.splits) metis

definition not_started :: "'w boot \<Rightarrow> bool" where [simp]:
  "not_started b = (\<forall>ok. (StartManager, ok) \<notin> set (bt_events b))"

lemma take_leadership_post:
  assumes "run_state (take_leadership H P) b = (e, c)"
  shows "later b c" and "not_started b \<Longrightarrow> not_started c"
    and "e = None \<Longrightarrow> (BecomeLeader lock_name, True) \<in> set (bt_events c) \<or>
      (\<exists>w. fst (lookupEnv P ''SKIP_LEADER_ELECTION'' w) = Some ''true'')"
  using assms
  by (auto simp: take_leadership_def call_def later_def split: if_splits option.splits)

lemma setup_controller_post:
  assumes "run_state (setup_controller H P) b = (e, c)"
  shows "bt_events c = bt_events b @ [(SetupController, e = None)]"
    and "isFedramp (bt_sys c) = isFedramp (bt_sys b)" and "impl (bt_sys c) = zero_Impl"
  using assms
  by (auto simp: setup_controller_def SetupWithManager_def split: prod.splits)

lemma call_events:
  "run_state (call ev f) b = (e, c) \<Longrightarrow> bt_events c = bt_events b @ [(ev, e = None)]"
  by (auto simp: call_def)

lemma main_stages:
  assumes "run_state (start_operator H P options) b = (x, t)" and "not_started b"
  shows "not_started t \<and> x = Exit 1 \<or>
    (\<exists>c evs. boots P c \<and> not_started c \<and> bt_events c = bt_events b @ (NewManager options, True) # evs \<and>
      (AddHealthz ''healthz'', True) \<in> set evs \<and> (AddReadyz ''readyz'', True) \<in> set evs \<and>
      run_state (serve_and_start H) c = (x, t))"
proof -
  obtain e1 c1 where 1: "run_state (call (NewManager options) (newManager H options)) b = (e1, c1)"
    by fastforce
  obtain e2 c2 where 2: "run_state (lift_op (set_fedramp P)) c1 = (e2, c2)" by fastforce
  obtain e3 c3 where 3: "run_state (take_leadership H P) c2 = (e3, c3)" by fastforce
  obtain e4 c4 where 4: "run_state (setup_controller H P) c3 = (e4, c4)" by fastforce
  obtain e5 c5 where 5: "run_state (call (AddHealthz ''healthz'') (addHealthzCheck H ''healthz'')) c4 = (e5, c5)"
    by fastforce
  obtain e6 c6 where 6: "run_state (call (AddReadyz ''readyz'') (addReadyzCheck H ''readyz'')) c5 = (e6, c6)"
    by fastforce
  obtain evs where "bt_events c3 = bt_events c2 @ evs"
    using take_leadership_post(1) [OF 3] by (auto simp: later_def)
  then have ev: "bt_events c1 = bt_events b @ [(NewManager options, e1 = None)]"
    "bt_events c2 = bt_events c1" "bt_events c3 = bt_events c2 @ evs"
    "bt_events c4 = bt_events c3 @ [(SetupController, e4 = None)]"
    "bt_events c5 = bt_events c4 @ [(AddHealthz ''healthz'', e5 = None)]"
    "bt_events c6 = bt_events c5 @ [(AddReadyz ''readyz'', e6 = None)]"
    using call_events [OF 1] call_events [OF 5] call_events [OF 6] setup_controller_post(1) [OF 4] 2
    by auto
  have quiet: "not_started c3"
    using take_leadership_post(2) [OF 3] ev(1,2) assms(2) by simp
  have main: "(x, t) =
      (if e1 \<noteq> None then (Exit 1, c1) else if e2 \<noteq> None then (Exit 1, c2)
       else if e3 \<noteq> None then (Exit 1, c3) else if e4 \<noteq> None then (Exit 1, c4)
       else if e5 \<noteq> None then (Exit 1, c5) else if e6 \<noteq> None then (Exit 1, c6)
       else run_state (serve_and_start H) c6)"
    using assms(1) 1 2 3 4 5 6 by (auto simp: start_operator_def split: option.splits)
  have "boots P c6" if "e2 = None" "e3 = None" "e4 = None"
  proof -
    have "later c4 c6"
      using state_io_relD [OF later_call 5] state_io_relD [OF later_call 6] boot_frame.R_trans by blast
    moreover have "boots P c4"
    proof -
      have "run_state (set_fedramp P) (bt_sys c1) = (None, bt_sys c2)"
        using 2 that(1) by (cases "run_state (set_fedramp P) (bt_sys c1)") auto
      from set_fedramp_post [OF this]
      have "\<exists>env b. SetIsFedramp env b = (isFedramp (bt_sys c4), None) \<and>
          (\<exists>w. env = fst (lookupEnv P ''FEDRAMP'' w))"
        using take_leadership_post(1) [OF 3] setup_controller_post(2) [OF 4] by (simp add: later_def)
      moreover have "(BecomeLeader lock_name, True) \<in> set (bt_events c4) \<or>
          (\<exists>w. fst (lookupEnv P ''SKIP_LEADER_ELECTION'' w) = Some ''true'')"
        using take_leadership_post(3) [OF 3 that(2)] setup_controller_post(1) [OF 4] by auto
      ultimately show ?thesis
        using setup_controller_post [OF 4] that(3) by (simp add: boots_def)
    qed
    ultimately show ?thesis by (rule boots_later [rotated])
  qed
  with main ev quiet assms(2) show ?thesis by (auto split: if_splits)
qed

subsection \<open>Properties of the start\<close>

text \<open>The registration of the types succeeds altogether or panics before \<open>main\<close>.\<close>

definition api_groups :: "string list" where
  "api_groups = [''client-go'', ''config.openshift.io/v1'', ''monitoring.coreos.com/v1'']"

definition types_registered :: "(boot_event \<times> bool) list" where
  "types_registered = map (\<lambda>g. (AddToScheme g, True)) api_groups"

lemma main_init_cases:
  assumes "run_state (main_init H k) b = (x, t)"
  obtains (panicked) err evs where "x = PanickedErr err" "bt_events t = bt_events b @ evs"
      "fst ` set evs \<subseteq> range AddToScheme"
  | (registered) c where "bt_events c = bt_events b @ types_registered" "run_state k c = (x, t)"
proof -
  obtain e1 c1 where 1: "run_state (call (AddToScheme ''client-go'') (addToScheme H ''client-go'')) b = (e1, c1)"
    by fastforce
  obtain e2 c2 where 2: "run_state (call (AddToScheme ''config.openshift.io/v1'')
      (addToScheme H ''config.openshift.io/v1'')) c1 = (e2, c2)" by fastforce
  obtain e3 c3 where 3: "run_state (call (AddToScheme ''monitoring.coreos.com/v1'')
      (addToScheme H ''monitoring.coreos.com/v1'')) c2 = (e3, c3)" by fastforce
  note ev = call_events [OF 1] call_events [OF 2] call_events [OF 3]
  have "(x, t) = (case e1 of Some err \<Rightarrow> (PanickedErr err, c1) | None \<Rightarrow>
      case e2 of Some err \<Rightarrow> (PanickedErr err, c2) | None \<Rightarrow>
      case e3 of Some err \<Rightarrow> (PanickedErr err, c3) | None \<Rightarrow> run_state k c3)"
    using assms 1 2 3 by (simp add: main_init_def split: option.splits)
  then show thesis
    using ev that by (cases e1; cases e2; cases e3) (force simp: types_registered_def api_groups_def)+
qed

lemma main_cases:
  assumes "run_state (operator_main H P F args) b = (x, t)"
  obtains (exited) evs n where "x = Exit n" "bt_events t = bt_events b @ evs"
      "fst ` set evs \<subseteq> {LoadClientConfig}"
  | (started) rest v c where "main_flags F args = (None, rest, v)"
      "bt_events c = bt_events b @ [(LoadClientConfig, True)]"
      "run_state (start_operator H P (manager_opts v)) c = (x, t)"
proof -
  obtain e c where c: "run_state (call LoadClientConfig (loadClientConfig H)) b = (e, c)" by fastforce
  note ev = call_events [OF c]
  obtain f rest v where flags: "main_flags F args = (f, rest, v)" by (cases "main_flags F args")
  show thesis
  proof (cases f)
    case None
    with assms c flags have "(x, t) = (case e of Some err \<Rightarrow> (Exit 1, c) | None \<Rightarrow>
        run_state (start_operator H P (manager_opts v)) c)"
      by (simp add: operator_main_def split: option.splits)
    with ev flags None that show thesis by (cases e) auto
  next
    case (Some err)
    with assms flags have "t = b \<and> (\<exists>n. x = Exit n)" by (cases err) (auto simp: operator_main_def)
    then show thesis using that(1) [of _ "[]"] by auto
  qed
qed

lemma serve_start_needs_metrics:
  assumes "run_state (serve_and_start H) c = (x, t)"
    and "(StartManager, ok) \<in> set (bt_events t)" and "not_started c"
  shows "(StartMetricsServer, True) \<in> set (bt_events t)"
  using assms
  by (auto simp: serve_and_start_def create_metrics_objects_def call_def Let_def
      GenerateService_def GenerateServiceMonitor_def split: option.splits if_splits)

lemma serve_later: "run_state (serve_and_start H) c = (x, t) \<Longrightarrow> later c t"
  by (rule state_io_relD [OF later_serve])

text \<open>
  C27: the manager starts only in order. If the process gets to start the manager, then it has
  registered the API types, parsed its flags without an error, loaded the client configuration
  and created the manager with the options of these flags, in this order; after that it has read
  the FedRAMP switch without an error from the environment, taken the leader lock unless the
  environment sets \<open>SKIP_LEADER_ELECTION\<close> to true, set up the controller with a fresh readiness
  engine, and installed the two probes and the metrics server.
\<close>

theorem manager_starts_in_order:
  assumes "run_state (program H P F args) b = (x, t)" and "bt_events b = []"
    and "(StartManager, ok) \<in> set (bt_events t)"
  shows "(\<exists>rest v evs. main_flags F args = (None, rest, v) \<and>
      bt_events t = types_registered @ [(LoadClientConfig, True), (NewManager (manager_opts v), True)] @ evs \<and>
      {(SetupController, True), (AddHealthz ''healthz'', True), (AddReadyz ''readyz'', True),
       (StartMetricsServer, True)} \<subseteq> set evs) \<and>
    (\<exists>env v w. SetIsFedramp env v = (isFedramp (bt_sys t), None) \<and>
       env = fst (lookupEnv P ''FEDRAMP'' w)) \<and>
    ((BecomeLeader lock_name, True) \<in> set (bt_events t) \<or>
       (\<exists>w. fst (lookupEnv P ''SKIP_LEADER_ELECTION'' w) = Some ''true'')) \<and>
    impl (bt_sys t) = zero_Impl"
proof -
  have "run_state (main_init H (operator_main H P F args)) b = (x, t)"
    using assms(1) by (simp add: program_def)
  then obtain c where c: "bt_events c = types_registered" "run_state (operator_main H P F args) c = (x, t)"
    by (rule main_init_cases) (use assms(2,3) in auto)
  have quiet: "(StartManager, ok) \<notin> set types_registered" for ok by (auto simp: types_registered_def)
  from c(2) obtain rest v d where flags: "main_flags F args = (None, rest, v)"
    and d: "bt_events d = bt_events c @ [(LoadClientConfig, True)]"
      "run_state (start_operator H P (manager_opts v)) d = (x, t)"
    by (rule main_cases) (use assms(3) c(1) quiet in auto)
  have "not_started d" using c(1) d(1) quiet by simp
  from main_stages [OF d(2) this] assms(3) obtain a evs where a: "boots P a" "not_started a"
    "bt_events a = bt_events d @ (NewManager (manager_opts v), True) # evs"
    "(AddHealthz ''healthz'', True) \<in> set evs" "(AddReadyz ''readyz'', True) \<in> set evs"
    "run_state (serve_and_start H) a = (x, t)"
    unfolding not_started_def by blast
  note after = serve_later [OF a(6)]
  then obtain more where more: "bt_events t = bt_events a @ more" by (auto simp: later_def)
  have "(SetupController, True) \<in> set evs"
    using a(1,3) d(1) c(1) by (auto simp: boots_def types_registered_def)
  moreover have "(StartMetricsServer, True) \<in> set (evs @ more)"
    using serve_start_needs_metrics [OF a(6) assms(3) a(2)] more a(3) d(1) c(1)
    by (auto simp: types_registered_def)
  moreover have "bt_events t = types_registered @
      [(LoadClientConfig, True), (NewManager (manager_opts v), True)] @ evs @ more"
    using more a(3) d(1) c(1) by simp
  ultimately show ?thesis
    using flags a(4,5) boots_later [OF a(1) after] unfolding boots_def by fastforce
qed

text \<open>A host on which everything succeeds.\<close>

definition sample_host :: "cluster host" where
  "sample_host =
     \<lparr>addToScheme = (\<lambda>g w. (None, w)), loadClientConfig = (\<lambda>w. (None, w)),
      newManager = (\<lambda>opts w. (None, w)), becomeLeader = (\<lambda>n w. (None, w)),
      completeController = (\<lambda>ks w. (None, w)), addHealthzCheck = (\<lambda>n w. (None, w)),
      addReadyzCheck = (\<lambda>n w. (None, w)),
      createServiceObject = (\<lambda>s w. (Some (ApiError AlreadyExists (svc_Name s)), w)),
      createMonitorObject = (\<lambda>m w. (None, w)), registerCollector = (\<lambda>n w. (None, w)),
      serveMetrics = (\<lambda>a w. ((), w)), startManager = (\<lambda>w. (None, w))\<rparr>"

theorem manager_starts_in_order_witness:
  "\<exists>t. run_state (program sample_host memory_platform (\<lambda>n. None) [''--leader-elect=false''])
       \<lparr>bt_sys = fresh_sys sample_cluster, bt_events = []\<rparr> = (Returned, t) \<and>
     (BecomeLeader lock_name, True) \<in> set (bt_events t) \<and> \<not> isFedramp (bt_sys t)"
proof -
  let ?b = "\<lparr>bt_sys = fresh_sys sample_cluster, bt_events = []\<rparr>"
  let ?args = "[''--leader-elect=false'']"
  let ?r = "run_state (program sample_host memory_platform (\<lambda>n. None) ?args) ?b"
  have flags: "main_flags (\<lambda>n. None) ?args = (None, [], default_flags)" by code_simp
  have run: "fst ?r = Returned \<and> (StartManager, True) \<in> set (bt_events (snd ?r))"
    by (simp add: program_def main_init_def operator_main_def flags start_operator_def call_def
        set_fedramp_def Let_def take_leadership_def
        setup_controller_def SetupWithManager_def serve_and_start_def create_metrics_objects_def
        GenerateService_def GenerateServiceMonitor_def StartMetrics_def RegisterMetrics_def
        metricsList_def sample_host_def memory_platform_def)
  obtain x t where r: "?r = (x, t)" by (rule prod.exhaust)
  from run have t: "x = Returned" "(StartManager, True) \<in> set (bt_events t)"
    unfolding r by (simp_all only: fst_conv snd_conv)
  have env: "fst (lookupEnv memory_platform k w) = None" for k w
    by (simp add: memory_platform_def)
  have "bt_events ?b = []" by simp
  from manager_starts_in_order [OF r this t(2)]
  have "(BecomeLeader lock_name, True) \<in> set (bt_events t) \<and> \<not> isFedramp (bt_sys t)"
    unfolding env by auto
  with r t(1) show ?thesis by blast
qed

text \<open>
  C40: a broken switch stops the process. If the environment's \<open>FEDRAMP\<close> is set to something
  that is not a truth value, the process never returns normally and gets no further than the
  creation of the manager: it never takes the lock, sets up the controller or starts the
  manager. Once the manager was created it exits with status 1.
\<close>

lemma start_operator_bad_switch:
  assumes "\<And>w. fst (lookupEnv P ''FEDRAMP'' w) = Some v" and "ParseBool v = Inl err"
    and "run_state (start_operator H P options) b = (x, t)"
  shows "x = Exit 1 \<and> (\<exists>ok. bt_events t = bt_events b @ [(NewManager options, ok)])"
  using assms
  by (auto simp: start_operator_def call_def set_fedramp_def SetIsFedramp_def Let_def split: option.splits)

theorem invalid_fedramp_exits:
  assumes "\<And>w. fst (lookupEnv P ''FEDRAMP'' w) = Some v" and "ParseBool v = Inl err"
    and "run_state (program H P F args) b = (x, t)" and "bt_events b = []"
  shows "((\<exists>n. x = Exit n) \<or> (\<exists>e. x = PanickedErr e)) \<and>
    fst ` set (bt_events t) \<subseteq> range AddToScheme \<union> {LoadClientConfig} \<union> range NewManager \<and>
    ((\<exists>options ok. (NewManager options, ok) \<in> set (bt_events t)) \<longrightarrow> x = Exit 1)"
proof -
  have types: "a \<in> range AddToScheme" if "(a, ok) \<in> set types_registered" for a ok
    using that by (auto simp: types_registered_def)
  have "run_state (main_init H (operator_main H P F args)) b = (x, t)"
    using assms(3) by (simp add: program_def)
  then show ?thesis
  proof (cases rule: main_init_cases)
    case (panicked e evs)
    then show ?thesis using assms(4) by auto
  next
    case (registered c)
    from registered(2) show ?thesis
    proof (cases rule: main_cases)
      case (exited evs n)
      then show ?thesis using registered(1) assms(4) by (auto dest: types)
    next
      case (started rest v d)
      from start_operator_bad_switch [OF assms(1,2) started(3)] registered(1) started(2) assms(4)
      show ?thesis by (auto dest: types)
    qed
  qed
qed

theorem invalid_fedramp_exits_witness:
  "fst (run_state (program sample_host (memory_platform\<lparr>lookupEnv := \<lambda>k w. (Some ''yes'', w)\<rparr>)
       (\<lambda>n. None) []) \<lparr>bt_sys = fresh_sys sample_cluster, bt_events = []\<rparr>) = Exit 1"
proof -
  let ?P = "memory_platform\<lparr>lookupEnv := \<lambda>k w. (Some ''yes'', w)\<rparr>"
  let ?b = "\<lparr>bt_sys = fresh_sys sample_cluster, bt_events = []\<rparr>"
  obtain x t where run: "run_state (program sample_host ?P (\<lambda>n. None) []) ?b = (x, t)" by fastforce
  have env: "fst (lookupEnv ?P ''FEDRAMP'' w) = Some ''yes''" for w by simp
  have bad: "ParseBool ''yes'' = Inl (Errorf ''strconv.ParseBool: parsing %q: invalid syntax'' [''yes''])"
    by (simp add: ParseBool_def)
  have flags: "main_flags (\<lambda>n. None) [] = (None, [], default_flags)" by code_simp
  have "(NewManager (manager_opts default_flags), True) \<in> set (bt_events t)"
    using arg_cong [OF run [symmetric], of "\<lambda>r. bt_events (snd r)"]
    by (simp add: program_def main_init_def operator_main_def flags start_operator_def call_def
        set_fedramp_def SetIsFedramp_def bad Let_def sample_host_def)
  with invalid_fedramp_exits [OF env bad run] have "x = Exit 1" by auto
  with run show ?thesis by simp
qed

text \<open>
  C34: an undefined flag ends the process. If after any settings of the operator's flags there
  comes a flag that nobody defined, without a value of its own, the process exits before it has
  done anything but register its types: with status 0 for a request for help, with status 2
  otherwise. Only the registration, which comes first, may end it earlier, with a panic.
\<close>

theorem undefined_flag_exits:
  assumes "run_state (program H P F (concat (map render ws) @ (dashes two @ n) # args)) b = (x, t)"
    and "bt_events b = []" and "\<forall>w \<in> set ws. meaningful w"
    and "plain_name n" and "registered_flags F n = None"
  shows "x = Exit (if n = ''help'' \<or> n = ''h'' then 0 else 2) \<and> bt_events t = types_registered \<or>
    (\<exists>err. x = PanickedErr err)"
proof -
  let ?args = "concat (map render ws) @ (dashes two @ n) # args"
  have "run_state (main_init H (operator_main H P F ?args)) b = (x, t)"
    using assms(1) by (simp add: program_def)
  then show ?thesis
  proof (cases rule: main_init_cases)
    case (registered c)
    then show ?thesis
      using main_flags_undefined [OF assms(3-5), of two args] assms(2) by (auto simp: operator_main_def)
  qed auto
qed

theorem undefined_flag_exits_witness:
  "fst (run_state (program sample_host memory_platform (\<lambda>n. None) [''--leader-elect'', ''-verbose''])
     \<lparr>bt_sys = fresh_sys sample_cluster, bt_events = []\<rparr>) = Exit 2"
proof -
  let ?b = "\<lparr>bt_sys = fresh_sys sample_cluster, bt_events = []\<rparr>"
  let ?args = "concat (map render [Elect True None]) @ (dashes False @ ''verbose'') # []"
  obtain x t where run: "run_state (program sample_host memory_platform (\<lambda>n. None) ?args) ?b = (x, t)"
    by fastforce
  have settings: "\<forall>w \<in> set [Elect True None]. meaningful w" "plain_name ''verbose''"
    "registered_flags (\<lambda>n. None) ''verbose'' = None" "''verbose'' \<noteq> ''help''" "''verbose'' \<noteq> ''h''"
    by (simp_all add: plain_name_def registered_flags_def probe_address_name_def leader_elect_name_def)
  have "\<exists>rest v. main_flags (\<lambda>n. None) ?args = (Some (if ''verbose'' = ''help'' \<or> ''verbose'' = ''h''
      then ErrHelp else Failf (Errorf ''flag provided but not defined: -%s'' [''verbose''])), rest, v)"
    by (rule main_flags_undefined [OF settings(1-3)])
  then obtain err rest v where "main_flags (\<lambda>n. None) ?args = (Some (Failf err), rest, v)"
    by (simp only: settings(4,5) simp_thms if_False) blast
  then have "fst (run_state (program sample_host memory_platform (\<lambda>n. None) ?args) ?b) = Exit 2"
    by (simp add: program_def main_init_def operator_main_def call_def sample_host_def)
  moreover have "x = Exit (if ''verbose'' = ''help'' \<or> ''verbose'' = ''h'' then 0 else 2) \<and>
      bt_events t = types_registered \<or> (\<exists>err. x = PanickedErr err)"
    by (rule undefined_flag_exits [OF run _ settings(1-3)]) simp
  ultimately have "x = Exit 2" unfolding run by (simp only: settings(4,5) simp_thms if_False fst_conv)
  moreover have "?args = [''--leader-elect'', ''-verbose'']"
    by (simp add: dashes_def leader_elect_name_def)
  ultimately show ?thesis using run by simp
qed

end
