(* ===== verification/Spec2Isabelle.thy ===== *)
theory Spec2Isabelle
  imports Inhibition OperatorSpec Startup
begin

text \<open>
  A verification development for the configure-alertmanager-operator, a Kubernetes operator in Go
  that keeps the configuration of a cluster's Alertmanager in step with the secrets and configMaps
  in the namespace \<open>openshift-monitoring\<close>.

  The program. A change of a watched object makes \<open>Reconcile\<close> (controllers/secret_controller.go)
  run. It finds out the type of the cluster, asks the readiness engine
  (pkg/readiness/cluster_ready.go) whether alerts may page, reads keys, URLs, namespace lists and
  the cluster's identity, builds an Alertmanager configuration (a tree of routes over receivers,
  pkg/types/alertmanagerconfig.go), validates it with Alertmanager's own loader, writes it to the
  secret \<open>alertmanager-main\<close>, and sets gauges (pkg/metrics/metrics.go). What it returns tells the
  work queue when to run it again. main.go reads the command line and starts the process;
  config/config.go holds its constants and the FedRAMP switch.

  The theories, in the order of their dependence.
  \<^item> \<open>Prelude\<close>: Go's maps, pointers, errors, panics, 64-bit integers and decimal numbers as HOL
    values, with the operations that can panic (\<open>deref\<close>, \<open>slice_to\<close>), sequencing that a panic cuts
    short (\<open>go_then\<close>), the rules for computations that never panic (\<open>returns\<close>), and frame rules
    for computations of the state monad (locale \<open>frame_condition\<close>).
  \<^item> \<open>OperatorConfig\<close>: config/config.go. \<open>AlertmanagerTypes\<close>: the structures of pkg/types as records
    and the decoding hook \<open>UnmarshalYAML\<close>.
  \<^item> \<open>AlertRouting\<close>: Alertmanager's routing as an interface (locale \<open>alertmanager_routing\<close>) with a
    reference instance, since Alertmanager is not part of the repository.
  \<^item> \<open>Subroutes\<close>: the constants, the rule table of \<open>createSubroutes\<close> and the single routes;
    \<open>SubrouteRouting\<close>: how a table of first-match rules decides.
  \<^item> \<open>ReceiverBuilders\<close> and \<open>ConfigBuilder\<close>: the functions that build receivers and
    \<open>createAlertManagerConfig\<close>; its eleven arguments are the record \<open>am_params\<close>.
    \<open>ConfigProperties\<close>: the configuration is well formed for all inputs, without a nil pointer, and
    what decoding checks and adds.
  \<^item> \<open>DeliveryPlan\<close>: the abstract specification \<open>delivery_plan\<close>, a function from the operator's
    inputs and an alert to the notified receivers, the refinement theorem that the configuration
    implements it, and what it guarantees.
  \<^item> \<open>Inhibition\<close>: Alertmanager's use of the inhibition rules (locale \<open>alertmanager_inhibition\<close>),
    the equivalence of the rules with a table of causes and consequences, and what they silence.
  \<^item> \<open>OperatorState\<close>: the objects of the API, the record \<open>platform\<close> with one function per call that
    leaves the process, and the state \<open>sys\<close>: the world, the requests sent, the gauges, the engine
    (\<open>Impl\<close>) and the FedRAMP switch. A method that may call the API is a state computation, \<open>op\<close>.
  \<^item> \<open>Readiness\<close> and \<open>ReadinessProperties\<close>: the engine, its contract (locale
    \<open>readiness_contract\<close>, interpreted on \<open>IsReady\<close>), exactly when it says yes, how it learns the
    creation time, its finality and its arithmetic.
  \<^item> \<open>Metrics\<close>: the gauges and the objects for scraping. \<open>MemoryCluster\<close>: an in-memory cluster on
    which the witnesses run.
  \<^item> \<open>Inputs\<close> and \<open>InputProperties\<close>: the reads of a reconcile, one definition per Go function, that
    their guards keep them from panicking, and their values on a quiet cluster (\<open>settles\<close>). \<open>Writer\<close> and \<open>WriterProperties\<close>: validation and
    the write with all its outcomes.
  \<^item> \<open>Reconciler\<close>: \<open>Reconcile\<close> in three parts (\<open>check_cluster\<close>, \<open>gather_inputs\<close>, \<open>apply_config\<close>)
    and \<open>SetupWithManager\<close>. \<open>ReconcilerProperties\<close>: what a reconcile may send, for every engine
    that meets the contract (locale \<open>reconcile_client\<close>). \<open>Convergence\<close>: what it brings about on a
    workable cluster, from a secret to a page.
  \<^item> \<open>OperatorRuns\<close>: runs with restarts, panics and a changing world as an inductive relation, the
    cluster's contract for \<open>alertmanager-main\<close> (locale \<open>config_store\<close>), and the invariant that the
    configuration in place can be loaded.
  \<^item> \<open>Polling\<close>: the one way a reconcile can panic, the requeue of an unready cluster, and the end of
    the polling under a contract of the clock, Prometheus and the work queue (locale
    \<open>polled_cluster\<close>).
  \<^item> \<open>OperatorSpec\<close>: the operator as an abstract machine that arms itself, publishes and restarts,
    the simulation of its runs by the machine (locale \<open>simulation\<close>), and the silence of every run
    before the cluster is ready.
  \<^item> \<open>Flags\<close>: the command line, with the package \<open>flag\<close> of the standard library, and how settings
    are read back. \<open>Startup\<close>: \<open>init\<close> and \<open>main\<close> of main.go with their exits, and the order of the
    start. This theory: the stability of a reconcile.

  Parameters. The Kubernetes API, the clock, the environment, files and Prometheus are fields of
  \<open>platform\<close>; the YAML library, Alertmanager's loader and the URL parser are fields of \<open>lib\<close>; the
  API schemes, the client configuration, the manager, the leader election and the registry are
  fields of \<open>host\<close>; the flags that libraries register are an argument of \<open>program\<close>. What a
  property needs of them is a hypothesis: \<open>alertmanager_routing\<close>, \<open>alertmanager_inhibition\<close> (which
  also takes an anchored alternation of literals to match just these), \<open>quiet\<close> (reads change nothing),
  \<open>config_store\<close> (a write of \<open>alertmanager-main\<close> that succeeds is stored, one that reports an error
  may be stored or not, no other call changes that secret), an environment of the runs that does
  not write \<open>alertmanager-main\<close>, and \<open>polled_cluster\<close> (the clock advances by the delays asked for, and
  from some instant on Prometheus answers and the age limit is a number). A failed read is taken
  to leave the object it was to fill in at its zero value. Each hypothesis has a witness that runs
  the operator on a concrete instance.

  Bounds. The loops of the source are structural, but for the one over the command line, whose
  arguments get fewer, so there is no fuel. The polling, a loop through the work queue, is
  \<open>while_option\<close>, and that it ends is a theorem, measured by the time left until Prometheus answers
  and the cluster is older than the limit. Integers are unbounded with the \<open>int64\<close> wrap-around written out
  (\<open>wrap64\<close>) where the age of the cluster is computed, and a port is a \<open>32 word\<close>. Instants are
  nanoseconds since the zero time of Go.

  Pointers and slices. A pointer that data from outside can leave nil is an option, and following
  it is a \<open>deref\<close> or a match with a panicking branch, kept apart from the test for nil that guards
  it; so is the call on the handle of the Prometheus API. A nil slice and an empty one are the same
  list: the code only ranges over slices, appends to them and takes their length, and the
  serialiser treats both alike; only a comparison of decoded with created structures, which the
  code never makes, could tell them apart.

  Not modelled. Log lines with the printing of versions, the set-up of the logger, the HTTP
  transport of the Prometheus client, the rendering of errors into text (an event carries its
  format and the error), the generated file fips.go, which prints a line, the generated mocks, the
  tests and the packaging. Concurrency: the controller runs one reconcile at a time, so runs are
  sequences of whole reconciles.
\<close>

subsection \<open>Stability\<close>

text \<open>
  Two worlds that agree on everything but the secret \<open>alertmanager-main\<close>: a write of this
  secret leads from one to the other.
\<close>

definition agree_but_main :: "'w platform \<Rightarrow> 'w \<Rightarrow> 'w \<Rightarrow> bool" where
  "agree_but_main P w w' =
     ((\<forall>n. n \<noteq> secretNameAlertmanager \<longrightarrow>
         fst (getSecret P OperatorNamespace n w') = fst (getSecret P OperatorNamespace n w) \<and>
         secret_named n (the_result [] (listSecrets P OperatorNamespace w')) =
           secret_named n (the_result [] (listSecrets P OperatorNamespace w))) \<and>
      fst (listConfigMaps P OperatorNamespace w') = fst (listConfigMaps P OperatorNamespace w) \<and>
      (\<forall>n. fst (getConfigMap P OperatorNamespace n w') = fst (getConfigMap P OperatorNamespace n w)) \<and>
      fst (getClusterVersion P ''version'' w') = fst (getClusterVersion P ''version'' w) \<and>
      fst (getProxy P ''cluster'' w') = fst (getProxy P ''cluster'' w) \<and>
      fst (getInfrastructure P ''cluster'' w') = fst (getInfrastructure P ''cluster'' w))"

lemma agree_namespaces:
  assumes "agree_but_main P w w'"
  shows "monitored_namespaces L P w' cms OperatorNamespace = monitored_namespaces L P w cms OperatorNamespace"
proof -
  have "configMap_field P w' OperatorNamespace n f = configMap_field P w OperatorNamespace n f" for n f
    using assms by (simp add: configMap_field_def the_result_def agree_but_main_def)
  then have "namespaces_doc L P w' OperatorNamespace cms n = namespaces_doc L P w OperatorNamespace cms n" for n
    by (simp add: namespaces_doc_def)
  moreover have "cluster_type P w' = cluster_type P w"
    using assms by (simp add: cluster_type_def agree_but_main_def split: sum.splits)
  ultimately show ?thesis by (simp add: monitored_namespaces_def Let_def)
qed

lemma agree_secret_key:
  assumes "agree_but_main P w w'" and "n \<noteq> secretNameAlertmanager"
  shows "secret_key P w' (the_result [] (listSecrets P OperatorNamespace w')) OperatorNamespace b n f =
    secret_key P w (the_result [] (listSecrets P OperatorNamespace w)) OperatorNamespace b n f"
  using assms by (simp add: secret_key_def secret_field_def the_result_def agree_but_main_def)

lemma agree_desired_config:
  assumes "agree_but_main P w w'"
  shows "desired_config L P fed b w' = desired_config L P fed b w"
proof -
  have cms: "the_result [] (listConfigMaps P OperatorNamespace w') =
      the_result [] (listConfigMaps P OperatorNamespace w)"
    using assms by (simp add: the_result_def agree_but_main_def)
  have ocm: "ocm_agent_url L P w' cms OperatorNamespace = ocm_agent_url L P w cms OperatorNamespace" for cms
    using assms by (simp add: ocm_agent_url_def configMap_field_def the_result_def agree_but_main_def)
  have "cluster_region P w' = cluster_region P w"
    and "the_result d (getClusterVersion P ''version'' w') = the_result d (getClusterVersion P ''version'' w)"
    and "the_result d' (getProxy P ''cluster'' w') = the_result d' (getProxy P ''cluster'' w)" for d d'
    using assms by (simp_all add: cluster_region_def the_result_def agree_but_main_def)
  then show ?thesis
    by (simp add: desired_config_def desired_params_def Let_def cms [simplified] ocm [simplified]
        agree_namespaces [OF assms, simplified] agree_secret_key [OF assms, simplified])
qed

text \<open>
  C23: reconciling again changes nothing. After a reconcile of a workable cluster the same
  cluster, with the secret written, calls for the same configuration: the operator does not
  read its own output. A second reconcile, for any watched object, sends the same text again.
\<close>

theorem reconcile_stable:
  assumes "accepted req" and "accepted req'" and "workable L P s y"
    and "w = snd (snd (update_outcome P (main_secret y) (world s)))"
    and "agree_but_main P (world s) w" and "quiet P OperatorNamespace w"
    and "fst (update_outcome P (main_secret y) w) = None"
  shows "\<exists>t u. run_state (Reconcile L P (impl_interface P) req) s = (Val (impl_Result s, None), t) \<and>
    world t = w \<and>
    run_state (Reconcile L P (impl_interface P) req') t = (Val (impl_Result s, None), u) \<and>
    set (secret_writes (new_requests t u)) = {main_secret y}"
proof -
  obtain t where t: "run_state (Reconcile L P (impl_interface P) req) s = (Val (impl_Result s, None), t)"
    "world t = w" "impl t = impl s"
    using workable_reconcile [OF assms(1,3)] unfolding assms(4) by metis
  have "isFedramp t = isFedramp s"
    using impl_reconcile.reconcile_sends [OF t(1)] by (simp add: sends_def)
  then have "workable L P t y"
    using assms(3,5-7) t(2,3) agree_desired_config [OF assms(5)]
    by (auto simp: workable_def infra_readable_def agree_but_main_def)
  from workable_reconcile [OF assms(2) this] t(3) obtain u where
    "run_state (Reconcile L P (impl_interface P) req') t = (Val (impl_Result s, None), u)"
    "set (secret_writes (new_requests t u)) = {main_secret y}"
    unfolding impl_Result_def by metis
  with t show ?thesis by blast
qed

theorem reconcile_stable_witness:
  "\<exists>t u. run_state (Reconcile sample_lib memory_platform (impl_interface memory_platform) pd_request)
       (ready_sys sample_cluster) = (Val (zero_Result, None), t) \<and>
     run_state (Reconcile sample_lib memory_platform (impl_interface memory_platform) pd_request) t =
       (Val (zero_Result, None), u)"
proof -
  let ?x = "main_secret ''route:''"
  let ?w = "sample_cluster\<lparr>cl_secrets := cl_secrets sample_cluster @ [?x]\<rparr>"
  have sys: "world (ready_sys sample_cluster) = sample_cluster"
    "impl_Result (ready_sys sample_cluster) = zero_Result"
    by (simp_all add: ready_sys_def fresh_sys_def impl_Result_def)
  have w: "?w = snd (snd (update_outcome memory_platform ?x (world (ready_sys sample_cluster))))"
    unfolding sys by code_simp
  have again: "fst (update_outcome memory_platform ?x ?w) = None" by code_simp
  have agree: "agree_but_main memory_platform (world (ready_sys sample_cluster)) ?w"
    unfolding sys
    by (auto simp: agree_but_main_def memory_platform_def the_result_def find_secret_def
        main_secret_def secret_named_def sample_cluster_def)
  show ?thesis
    using reconcile_stable [OF pd_request_accepted pd_request_accepted sample_workable w agree
        memory_quiet again] unfolding sys by blast
qed

end
